(* ===== verification/Cri_Prelude.thy ===== *)
theory Cri_Prelude
  imports Main "HOL-Library.AList" "HOL-Library.Sublist" "HOL-Library.Word"
begin

text \<open>
  The shared base of the development.
  \<^item> \<open>outcome\<close>: how a Go call ends. \<open>Ok\<close> is a return with a nil error, \<open>Err\<close> a return
    with an error, \<open>Panic\<close> a run-time panic (a nil dereference, say) and \<open>Diverge\<close> a loop
    that did not end within the number of rounds the caller of the model allowed.
  \<^item> \<open>proc\<close>: a goroutine as a tree of atomic actions on a shared state. One \<open>Step\<close> is one
    lock-protected operation or one call of a service outside the program. \<open>run\<close> executes
    a goroutine alone; \<open>pool_step\<close> interleaves the atomic actions of many of them.
  \<^item> \<open>bindE\<close>, \<open>on_error\<close>, \<open>defer_always\<close>, \<open>wrap_err\<close>, \<open>forE\<close>: the control structures
    of the Go code (the \<open>if err != nil\<close> chain, the deferred cleanups, loops over slices).
  \<^item> \<open>guar\<close> and \<open>triple\<close>: what every atomic action of a goroutine does to the state, whatever
    the others do in between, and what a goroutine that runs alone establishes.
  \<^item> lemmas on association lists, the representation of Go maps.
\<close>

named_theorems run_simps \<open>execution of the control structures\<close>
named_theorems guar_intros \<open>guarantees of the control structures\<close>
named_theorems go_defs \<open>definitions of the model that evaluation unfolds\<close>
named_theorems alist_simps \<open>lookups in association lists\<close>

section \<open>Outcomes of a call\<close>

datatype ('e, 'a) outcome = Ok 'a | Err 'e | Panic | Diverge

fun is_ok :: "('e, 'a) outcome \<Rightarrow> bool" where
  "is_ok (Ok _) = True"
| "is_ok _ = False"

lemma is_ok_iff: "is_ok r \<longleftrightarrow> (\<exists>x. r = Ok x)"
  by (cases r) auto

section \<open>Goroutines\<close>

datatype (dead 's, 'r) proc = Ret 'r | Step "'s \<Rightarrow> 's \<times> ('s, 'r) proc"

primrec bind_proc :: "('s, 'a) proc \<Rightarrow> ('a \<Rightarrow> ('s, 'b) proc) \<Rightarrow> ('s, 'b) proc" where
  "bind_proc (Ret x) k = k x"
| "bind_proc (Step f) k = Step (\<lambda>s. map_prod id (\<lambda>p. bind_proc p k) (f s))"

primrec run :: "('s, 'a) proc \<Rightarrow> 's \<Rightarrow> 'a \<times> 's" where
  "run (Ret x) = (\<lambda>s. (x, s))"
| "run (Step f) = (\<lambda>s. case map_prod id run (f s) of (s', g) \<Rightarrow> g s')"

definition atomic :: "('s \<Rightarrow> 'a \<times> 's) \<Rightarrow> ('s, 'a) proc" where
  "atomic f = Step (\<lambda>s. case f s of (x, s') \<Rightarrow> (s', Ret x))"

lemma run_Ret [run_simps, simp]: "run (Ret x) s = (x, s)"
  by simp

lemma run_atomic [run_simps, simp]: "run (atomic f) s = f s"
  by (simp add: atomic_def split: prod.splits)

lemma proc_induct [case_names Ret Step]:
  assumes "\<And>x. P (Ret x)" and "\<And>f. (\<And>s. P (snd (f s))) \<Longrightarrow> P (Step f)"
  shows "P m"
proof (induction m)
  case (Ret x)
  show ?case by (rule assms(1))
next
  case (Step f)
  show ?case
  proof (rule assms(2))
    fix s
    show "P (snd (f s))"
      by (rule Step.IH [OF rangeI [of f s]]) (cases "f s", auto)
  qed
qed

lemma run_bind_proc [run_simps, simp]:
  "run (bind_proc m k) s = (case run m s of (x, s') \<Rightarrow> run (k x) s')"
proof (induction m arbitrary: s rule: proc_induct)
  case (Step f)
  then show ?case by (cases "f s") (simp, metis snd_conv)
qed simp

lemma bind_proc_Ret [simp]: "bind_proc m Ret = m"
proof (induction m rule: proc_induct)
  case (Step f)
  then have "map_prod id (\<lambda>p. bind_proc p Ret) (f s) = f s" for s
    by (cases "f s") (simp, metis snd_conv)
  then show ?case by simp
qed simp

lemma bind_proc_assoc:
  "bind_proc (bind_proc m k) h = bind_proc m (\<lambda>x. bind_proc (k x) h)"
proof (induction m rule: proc_induct)
  case (Step f)
  then have "map_prod id (\<lambda>p. bind_proc (bind_proc p k) h) (f s)
      = map_prod id (\<lambda>p. bind_proc p (\<lambda>x. bind_proc (k x) h)) (f s)" for s
    by (cases "f s") (simp, metis snd_conv)
  then show ?case by (simp add: prod.map_comp o_def id_def)
qed simp

section \<open>The control structures of the code\<close>

type_synonym ('s, 'e, 'a) go = "('s, ('e, 'a) outcome) proc"

text \<open>\<open>x, err := m; if err != nil { return err }; k(x)\<close>.\<close>

definition bindE :: "('s, 'e, 'a) go \<Rightarrow> ('a \<Rightarrow> ('s, 'e, 'b) go) \<Rightarrow> ('s, 'e, 'b) go" where
  "bindE m k = bind_proc m (\<lambda>r. case r of Ok x \<Rightarrow> k x | Err e \<Rightarrow> Ret (Err e)
     | Panic \<Rightarrow> Ret Panic | Diverge \<Rightarrow> Ret Diverge)"

definition seqE :: "('s, 'e, 'a) go \<Rightarrow> ('s, 'e, 'b) go \<Rightarrow> ('s, 'e, 'b) go" where
  "seqE m n = bindE m (\<lambda>_. n)"

text \<open>\<open>x, err := m; k(x, err)\<close>: the caller looks at the error itself.\<close>

definition tryE :: "('s, 'e, 'a) go \<Rightarrow> ('e + 'a \<Rightarrow> ('s, 'e, 'b) go) \<Rightarrow> ('s, 'e, 'b) go" where
  "tryE m k = bind_proc m (\<lambda>r. case r of Ok x \<Rightarrow> k (Inr x) | Err e \<Rightarrow> k (Inl e)
     | Panic \<Rightarrow> Ret Panic | Diverge \<Rightarrow> Ret Diverge)"

text \<open>\<open>defer func() { if retErr != nil { cleanup } }()\<close> around the rest of the function: the
  cleanup's own error is only logged.\<close>

definition on_error :: "('s, 'e, 'a) go \<Rightarrow> ('s, 'e, 'b) go \<Rightarrow> ('s, 'e, 'a) go" where
  "on_error m cleanup = bind_proc m (\<lambda>r. case r of
     Err e \<Rightarrow> bind_proc cleanup (\<lambda>c. Ret (case c of Panic \<Rightarrow> Panic | Diverge \<Rightarrow> Diverge | _ \<Rightarrow> Err e))
   | _ \<Rightarrow> Ret r)"

text \<open>\<open>defer cleanup()\<close>: runs on every return, its error is only logged.\<close>

definition defer_always :: "('s, 'e, 'a) go \<Rightarrow> ('s, 'e, 'b) go \<Rightarrow> ('s, 'e, 'a) go" where
  "defer_always m cleanup = bind_proc m (\<lambda>r. case r of
     Diverge \<Rightarrow> Ret Diverge
   | _ \<Rightarrow> bind_proc cleanup (\<lambda>c. Ret (case c of Panic \<Rightarrow> Panic | Diverge \<Rightarrow> Diverge | _ \<Rightarrow> r)))"

text \<open>\<open>if err := m; err != nil { return fmt.Errorf(..., err) }\<close>.\<close>

definition wrap_err :: "('e \<Rightarrow> 'e) \<Rightarrow> ('s, 'e, 'a) go \<Rightarrow> ('s, 'e, 'a) go" where
  "wrap_err w m = bind_proc m (\<lambda>r. Ret (case r of Err e \<Rightarrow> Err (w e) | _ \<Rightarrow> r))"

text \<open>\<open>for _, x := range xs { body }\<close>, left by the first error.\<close>

primrec forE :: "'a list \<Rightarrow> ('a \<Rightarrow> ('s, 'e, unit) go) \<Rightarrow> ('s, 'e, unit) go" where
  "forE [] body = Ret (Ok ())"
| "forE (x # xs) body = bindE (body x) (\<lambda>_. forE xs body)"

text \<open>\<open>for _, x := range xs { ys = append(ys, f(x)) }\<close>.\<close>

primrec mapE :: "('a \<Rightarrow> ('s, 'e, 'b) go) \<Rightarrow> 'a list \<Rightarrow> ('s, 'e, 'b list) go" where
  "mapE f [] = Ret (Ok [])"
| "mapE f (x # xs) = bindE (f x) (\<lambda>y. bindE (mapE f xs) (\<lambda>ys. Ret (Ok (y # ys))))"

lemma run_bindE [run_simps]:
  "run (bindE m k) s = (case run m s of (r, s') \<Rightarrow> (case r of Ok x \<Rightarrow> run (k x) s'
     | Err e \<Rightarrow> (Err e, s') | Panic \<Rightarrow> (Panic, s') | Diverge \<Rightarrow> (Diverge, s')))"
  by (simp add: bindE_def split: prod.splits outcome.splits)

lemma run_seqE [run_simps]:
  "run (seqE m n) s = (case run m s of (r, s') \<Rightarrow> (case r of Ok x \<Rightarrow> run n s'
     | Err e \<Rightarrow> (Err e, s') | Panic \<Rightarrow> (Panic, s') | Diverge \<Rightarrow> (Diverge, s')))"
  by (simp add: seqE_def run_bindE)

lemma run_tryE [run_simps]:
  "run (tryE m k) s = (case run m s of (r, s') \<Rightarrow> (case r of Ok x \<Rightarrow> run (k (Inr x)) s'
     | Err e \<Rightarrow> run (k (Inl e)) s' | Panic \<Rightarrow> (Panic, s') | Diverge \<Rightarrow> (Diverge, s')))"
  by (simp add: tryE_def split: prod.splits outcome.splits)

lemma run_on_error [run_simps]:
  "run (on_error m cleanup) s = (case run m s of (r, s') \<Rightarrow> (case r of
     Err e \<Rightarrow> (case run cleanup s' of (c, s'') \<Rightarrow>
       (case c of Panic \<Rightarrow> Panic | Diverge \<Rightarrow> Diverge | _ \<Rightarrow> Err e, s''))
   | _ \<Rightarrow> (r, s')))"
  by (simp add: on_error_def split: prod.splits outcome.splits)

lemma run_defer_always [run_simps]:
  "run (defer_always m cleanup) s = (case run m s of (r, s') \<Rightarrow> (case r of
     Diverge \<Rightarrow> (Diverge, s')
   | _ \<Rightarrow> (case run cleanup s' of (c, s'') \<Rightarrow>
       (case c of Panic \<Rightarrow> Panic | Diverge \<Rightarrow> Diverge | _ \<Rightarrow> r, s''))))"
  by (simp add: defer_always_def split: prod.splits outcome.splits)

lemma run_wrap_err [run_simps]:
  "run (wrap_err w m) s = (case run m s of (r, s') \<Rightarrow>
     (case r of Err e \<Rightarrow> Err (w e) | _ \<Rightarrow> r, s'))"
  by (simp add: wrap_err_def split: prod.splits)

text \<open>A goroutine that does not run out of the rounds of a loop.\<close>

definition returns :: "('s, 'e, 'a) go \<Rightarrow> bool" where
  "returns m \<longleftrightarrow> (\<forall>s. fst (run m s) \<noteq> Diverge)"

named_theorems returns_intros \<open>goroutines that always return\<close>

lemma returns_bindE [returns_intros]:
  assumes "returns m" and "\<And>x. returns (k x)"
  shows "returns (bindE m k)"
  unfolding returns_def
proof
  fix s
  obtain r s1 where m: "run m s = (r, s1)" by (cases "run m s")
  with assms(1) have "r \<noteq> Diverge" unfolding returns_def by (metis fst_conv)
  with m assms(2) show "fst (run (bindE m k) s) \<noteq> Diverge" by (cases r) (simp_all add: run_bindE returns_def)
qed

lemma returns_seqE [returns_intros]: "returns m \<Longrightarrow> returns n \<Longrightarrow> returns (seqE m n)"
  unfolding seqE_def by (rule returns_bindE)

lemma returns_defer_always [returns_intros]:
  assumes "returns m" and "returns c"
  shows "returns (defer_always m c)"
  unfolding returns_def
proof
  fix s
  obtain r s1 where m: "run m s = (r, s1)" by (cases "run m s")
  obtain q s2 where c: "run c s1 = (q, s2)" by (cases "run c s1")
  from assms m c have "r \<noteq> Diverge" "q \<noteq> Diverge" unfolding returns_def by (metis fst_conv)+
  with m c show "fst (run (defer_always m c) s) \<noteq> Diverge"
    by (cases r; cases q) (simp_all add: run_defer_always)
qed

lemma returns_Ret [returns_intros]: "r \<noteq> Diverge \<Longrightarrow> returns (Ret r)"
  by (simp add: returns_def)

section \<open>Guarantees: what every atomic action does\<close>

primrec guar :: "('s \<Rightarrow> 's \<Rightarrow> bool) \<Rightarrow> ('s, 'a) proc \<Rightarrow> bool" where
  "guar R (Ret x) = True"
| "guar R (Step f) = (\<forall>s. case map_prod id (guar R) (f s) of (s', b) \<Rightarrow> R s s' \<and> b)"

lemma guar_Step: "guar R (Step f) \<longleftrightarrow> (\<forall>s. R s (fst (f s)) \<and> guar R (snd (f s)))"
  by (simp add: case_prod_beta)

declare guar.simps(2) [simp del]

lemma guar_Ret [guar_intros, intro!]: "guar R (Ret x)"
  by simp

lemma guar_atomic_iff: "guar R (atomic f) \<longleftrightarrow> (\<forall>s. R s (snd (f s)))"
  by (simp add: atomic_def guar_Step split: prod.splits) (metis prod.collapse snd_conv)

lemma guar_atomic: "(\<And>s. R s (snd (f s))) \<Longrightarrow> guar R (atomic f)"
  by (simp add: guar_atomic_iff)

lemma guar_bind_proc: "guar R m \<Longrightarrow> (\<And>x. guar R (k x)) \<Longrightarrow> guar R (bind_proc m k)"
  by (induction m rule: proc_induct) (auto simp: guar_Step)

lemma guar_mono: "guar R m \<Longrightarrow> (\<And>s t. R s t \<Longrightarrow> R' s t) \<Longrightarrow> guar R' m"
  by (induction m rule: proc_induct) (auto simp: guar_Step)

lemma guar_bindE [guar_intros]: "guar R m \<Longrightarrow> (\<And>x. guar R (k x)) \<Longrightarrow> guar R (bindE m k)"
  unfolding bindE_def by (rule guar_bind_proc) (auto split: outcome.splits)

lemma guar_seqE [guar_intros]: "guar R m \<Longrightarrow> guar R n \<Longrightarrow> guar R (seqE m n)"
  unfolding seqE_def by (rule guar_bindE)

lemma guar_tryE [guar_intros]: "guar R m \<Longrightarrow> (\<And>x. guar R (k x)) \<Longrightarrow> guar R (tryE m k)"
  unfolding tryE_def by (rule guar_bind_proc) (auto split: outcome.splits)

lemma guar_on_error [guar_intros]: "guar R m \<Longrightarrow> guar R c \<Longrightarrow> guar R (on_error m c)"
  unfolding on_error_def by (rule guar_bind_proc) (auto split: outcome.splits intro!: guar_bind_proc)

lemma guar_defer_always [guar_intros]: "guar R m \<Longrightarrow> guar R c \<Longrightarrow> guar R (defer_always m c)"
  unfolding defer_always_def
  by (rule guar_bind_proc) (auto split: outcome.splits intro!: guar_bind_proc)

lemma guar_wrap_err [guar_intros]: "guar R m \<Longrightarrow> guar R (wrap_err w m)"
  unfolding wrap_err_def by (rule guar_bind_proc) auto

lemma guar_forE [guar_intros]: "(\<And>x. guar R (body x)) \<Longrightarrow> guar R (forE xs body)"
  by (induction xs) (auto intro: guar_intros)

lemma guar_mapE [guar_intros]: "(\<And>x. guar R (f x)) \<Longrightarrow> guar R (mapE f xs)"
  by (induction xs) (auto intro!: guar_intros)

lemma run_mapE_pure:
  "(\<And>x. x \<in> set xs \<Longrightarrow> run (f x) s = (Ok (g x), s)) \<Longrightarrow> run (mapE f xs) s = (Ok (map g xs), s)"
  by (induction xs) (simp_all add: run_bindE)

text \<open>A goroutine alone is a chain of its actions.\<close>

lemma guar_run: "guar R m \<Longrightarrow> R\<^sup>*\<^sup>* s (snd (run m s))"
proof (induction m arbitrary: s rule: proc_induct)
  case (Step f)
  obtain s' p where f: "f s = (s', p)" by (cases "f s")
  with Step.prems have "R s s'" and "guar R p" by (auto simp: guar_Step dest: spec [where x = s])
  moreover from f \<open>guar R p\<close> have "R\<^sup>*\<^sup>* s' (snd (run p s'))" using Step.IH [of s s'] by simp
  ultimately show ?case using f by (simp add: converse_rtranclp_into_rtranclp)
qed simp

section \<open>Interleaving\<close>

text \<open>
  A configuration is the shared state and the goroutines that are running. At any moment a
  new goroutine of the program \<open>A\<close> may start, or one of the running ones does its next atomic
  action.
\<close>

type_synonym ('s, 'r) pool = "'s \<times> ('s, 'r) proc list"

inductive pool_step :: "(('s, 'r) proc \<Rightarrow> bool) \<Rightarrow> ('s, 'r) pool \<Rightarrow> ('s, 'r) pool \<Rightarrow> bool"
  for A where
  spawn: "A p \<Longrightarrow> pool_step A (s, ps) (s, ps @ [p])"
| act: "i < length ps \<Longrightarrow> ps ! i = Step f \<Longrightarrow> f s = (s', p) \<Longrightarrow>
     pool_step A (s, ps) (s', ps[i := p])"

inductive_cases pool_stepE: "pool_step A (s, ps) (s', ps')"

definition pool_guar :: "('s \<Rightarrow> 's \<Rightarrow> bool) \<Rightarrow> ('s, 'r) pool \<Rightarrow> bool" where
  "pool_guar R c \<longleftrightarrow> (\<forall>p \<in> set (snd c). guar R p)"

lemma pool_step_guar:
  assumes "pool_step A c c'" and "\<And>p. A p \<Longrightarrow> guar R p" and "pool_guar R c"
  shows "pool_guar R c' \<and> R\<^sup>*\<^sup>* (fst c) (fst c')"
  using assms(1)
proof (cases rule: pool_step.cases)
  case (spawn p s ps)
  with assms(2,3) show ?thesis by (auto simp: pool_guar_def)
next
  case (act i ps f s s' p)
  with assms(3) have "guar R (Step f)" by (metis pool_guar_def nth_mem snd_conv)
  with act(5) have "R s s'" "guar R p" by (auto simp: guar_Step dest: spec [where x = s])
  with act assms(3) show ?thesis
    by (auto simp: pool_guar_def dest!: set_update_subset_insert [THEN subsetD])
qed

lemma pool_steps_guar:
  assumes "(pool_step A)\<^sup>*\<^sup>* c c'" and "\<And>p. A p \<Longrightarrow> guar R p" and "pool_guar R c"
  shows "pool_guar R c' \<and> R\<^sup>*\<^sup>* (fst c) (fst c')"
  using assms(1)
proof (induction rule: rtranclp_induct)
  case base
  with assms(3) show ?case by simp
next
  case (step y z)
  with pool_step_guar [OF step.hyps(2) assms(2)] show ?case by (auto intro: rtranclp_trans)
qed

lemma pool_invariant:
  assumes "(pool_step A)\<^sup>*\<^sup>* (s, []) (s', ps)" and "\<And>p. A p \<Longrightarrow> guar R p"
    and "I s" and "\<And>t t'. I t \<Longrightarrow> R t t' \<Longrightarrow> I t'"
  shows "I s'"
proof -
  from pool_steps_guar [OF assms(1,2)] have "R\<^sup>*\<^sup>* s s'" by (simp add: pool_guar_def)
  then show ?thesis using assms(3) by (induction rule: rtranclp_induct) (auto intro: assms(4))
qed

text \<open>
  One goroutine among others: \<open>irun R p s r s'\<close> means that \<open>p\<close> may go from \<open>s\<close> to its result \<open>r\<close>
  in \<open>s'\<close> while the others change the state along \<open>R\<close> between its actions.
\<close>

inductive irun :: "('s \<Rightarrow> 's \<Rightarrow> bool) \<Rightarrow> ('s, 'r) proc \<Rightarrow> 's \<Rightarrow> 'r \<Rightarrow> 's \<Rightarrow> bool" for R where
  finished: "irun R (Ret r) s r s"
| interfere: "R s s' \<Longrightarrow> irun R p s' r t \<Longrightarrow> irun R p s r t"
| own: "f s = (s', p) \<Longrightarrow> irun R p s' r t \<Longrightarrow> irun R (Step f) s r t"

lemma irun_run: "irun R p s (fst (run p s)) (snd (run p s))"
proof (induction p arbitrary: s rule: proc_induct)
  case (Step f)
  obtain s' q where f: "f s = (s', q)" by (cases "f s")
  with Step.IH [of s s'] have "irun R q s' (fst (run q s')) (snd (run q s'))" by simp
  with f show ?case by (simp add: irun.own [of f s s' q])
qed (simp add: irun.finished)

lemma irun_Ret: "irun R (Ret x) s r t \<Longrightarrow> r = x \<and> R\<^sup>*\<^sup>* s t"
  by (induction "Ret x :: ('a, 'b) proc" s r t rule: irun.induct)
    (auto intro: converse_rtranclp_into_rtranclp)

lemma irun_atomic:
  assumes "irun R (atomic f) s r t"
  shows "\<exists>u x u'. R\<^sup>*\<^sup>* s u \<and> f u = (x, u') \<and> r = x \<and> R\<^sup>*\<^sup>* u' t"
  using assms
proof (induction "atomic f" s r t rule: irun.induct)
  case (interfere s s' r t)
  then show ?case by (meson converse_rtranclp_into_rtranclp)
next
  case (own g s s' p r t)
  obtain x u' where f: "f s = (x, u')" by (cases "f s")
  with own have "s' = u'" "p = Ret x" by (auto simp: atomic_def)
  with own irun_Ret [of R x u' r t] f show ?case by blast
qed (simp add: atomic_def)

lemma irun_bind_proc:
  assumes "irun R (bind_proc m k) s r t"
  shows "\<exists>x u. irun R m s x u \<and> irun R (k x) u r t"
  using assms
proof (induction "bind_proc m k" s r t arbitrary: m rule: irun.induct)
  case (finished r s)
  show ?case
  proof (cases m)
    case (Ret x)
    with finished have "k x = Ret r" by simp
    with Ret irun.finished [of R x s] irun.finished [of R r s] show ?thesis by metis
  qed (use finished in simp)
next
  case (interfere s s' r t)
  from interfere.hyps(3) [OF refl] obtain x u where "irun R m s' x u" "irun R (k x) u r t" by blast
  with interfere.hyps(1) show ?case by (meson irun.interfere)
next
  case (own f s s' p r t)
  show ?case
  proof (cases m)
    case (Ret x)
    have "irun R (k x) s r t" using own.hyps Ret irun.own by force
    with Ret show ?thesis by (meson irun.finished)
  next
    case (Step g)
    obtain u q where g: "g s = (u, q)" by (cases "g s")
    from own.hyps Step g have "s' = u" "p = bind_proc q k" by auto
    with own.hyps(3) [of q] Step g show ?thesis by (meson irun.own)
  qed
qed

lemma irun_bindE:
  assumes "irun R (bindE m k) s r t"
  shows "\<exists>x u. irun R m s x u \<and> (case x of Ok y \<Rightarrow> irun R (k y) u r t
     | Err e \<Rightarrow> r = Err e \<and> R\<^sup>*\<^sup>* u t | Panic \<Rightarrow> r = Panic \<and> R\<^sup>*\<^sup>* u t | Diverge \<Rightarrow> r = Diverge \<and> R\<^sup>*\<^sup>* u t)"
proof -
  from irun_bind_proc [OF assms [unfolded bindE_def]] obtain x u where
    x: "irun R m s x u" and k: "irun R (case x of Ok x \<Rightarrow> k x | Err e \<Rightarrow> Ret (Err e)
     | Panic \<Rightarrow> Ret Panic | Diverge \<Rightarrow> Ret Diverge) u r t" by blast
  from k have "case x of Ok y \<Rightarrow> irun R (k y) u r t
     | Err e \<Rightarrow> r = Err e \<and> R\<^sup>*\<^sup>* u t | Panic \<Rightarrow> r = Panic \<and> R\<^sup>*\<^sup>* u t | Diverge \<Rightarrow> r = Diverge \<and> R\<^sup>*\<^sup>* u t"
    by (cases x) (auto dest: irun_Ret)
  with x show ?thesis by blast
qed

lemma irun_tryE:
  assumes "irun R (tryE m k) s r t"
  shows "\<exists>x u. irun R m s x u \<and> (case x of Ok y \<Rightarrow> irun R (k (Inr y)) u r t
     | Err e \<Rightarrow> irun R (k (Inl e)) u r t | Panic \<Rightarrow> r = Panic \<and> R\<^sup>*\<^sup>* u t | Diverge \<Rightarrow> r = Diverge \<and> R\<^sup>*\<^sup>* u t)"
proof -
  from irun_bind_proc [OF assms [unfolded tryE_def]] obtain x u where
    x: "irun R m s x u" and k: "irun R (case x of Ok x \<Rightarrow> k (Inr x) | Err e \<Rightarrow> k (Inl e)
     | Panic \<Rightarrow> Ret Panic | Diverge \<Rightarrow> Ret Diverge) u r t" by blast
  from k have "case x of Ok y \<Rightarrow> irun R (k (Inr y)) u r t
     | Err e \<Rightarrow> irun R (k (Inl e)) u r t | Panic \<Rightarrow> r = Panic \<and> R\<^sup>*\<^sup>* u t | Diverge \<Rightarrow> r = Diverge \<and> R\<^sup>*\<^sup>* u t"
    by (cases x) (auto dest: irun_Ret)
  with x show ?thesis by blast
qed

lemma irun_wrap_err:
  assumes "irun R (wrap_err w m) s r t"
  shows "\<exists>x u. irun R m s x u \<and> r = (case x of Err e \<Rightarrow> Err (w e) | _ \<Rightarrow> x) \<and> R\<^sup>*\<^sup>* u t"
  using irun_bind_proc [OF assms [unfolded wrap_err_def]] by (auto dest: irun_Ret)

lemma irun_guar:
  assumes "irun R p s r t" and "guar R p"
  shows "R\<^sup>*\<^sup>* s t"
  using assms
proof (induction rule: irun.induct)
  case (own f s s' p r t)
  then show ?case by (auto simp: guar_Step dest!: spec [where x = s] intro: converse_rtranclp_into_rtranclp)
qed (auto intro: converse_rtranclp_into_rtranclp)

text \<open>A goroutine of a pool may run to its end before the others go on.\<close>

lemma pool_run:
  assumes "i < length ps" and "ps ! i = p" and "run p s = (r, s')"
  shows "(pool_step A)\<^sup>*\<^sup>* (s, ps) (s', ps[i := Ret r])"
  using assms
proof (induction p arbitrary: s ps rule: proc_induct)
  case (Ret x)
  then show ?case by (metis list_update_id rtranclp.rtrancl_refl run_Ret prod.inject)
next
  case (Step f)
  obtain t q where f: "f s = (t, q)" by (cases "f s")
  with Step.prems have "pool_step A (s, ps) (t, ps[i := q])" by (intro pool_step.act [of i ps f]) simp_all
  moreover have "(pool_step A)\<^sup>*\<^sup>* (t, ps[i := q]) (s', ps[i := q, i := Ret r])"
    using Step.prems f Step.IH [of "ps[i := q]" s t] by simp
  ultimately show ?case by (simp add: converse_rtranclp_into_rtranclp)
qed

text \<open>Every goroutine of a pool whose members keep to \<open>R\<close> is such an interleaved run.\<close>

lemma pool_irun:
  assumes "(pool_step A)\<^sup>*\<^sup>* c c'" and "\<And>p. A p \<Longrightarrow> guar R p" and "pool_guar R c"
    and "i < length (snd c)" and "snd c' ! i = Ret r"
  shows "irun R (snd c ! i) (fst c) r (fst c')"
  using assms(1,3,4)
proof (induction rule: converse_rtranclp_induct)
  case base
  with assms(5) show ?case by (simp add: irun.finished)
next
  case (step y z)
  from pool_step_guar [OF step.hyps(1) assms(2) step.prems(1)] have z: "pool_guar R z" by blast
  from step.hyps(1) show ?case
  proof (cases rule: pool_step.cases)
    case (spawn p s ps)
    with step z show ?thesis by (simp add: nth_append)
  next
    case (act j ps f s s' p)
    with step z have rest: "irun R (ps[j := p] ! i) s' r (fst c')" by simp
    show ?thesis
    proof (cases "i = j")
      case True
      with rest act show ?thesis by (simp add: irun.own)
    next
      case False
      from act step.prems(1) have "guar R (Step f)" by (metis pool_guar_def nth_mem snd_conv)
      with act have "R s s'" by (auto simp: guar_Step dest: spec [where x = s])
      with False rest act show ?thesis by (simp add: irun.interfere)
    qed
  qed
qed

text \<open>Triples for a goroutine among others: the assertions are stable under \<open>R\<close>.\<close>

definition stable :: "('s \<Rightarrow> 's \<Rightarrow> bool) \<Rightarrow> ('s \<Rightarrow> bool) \<Rightarrow> bool" where
  "stable R P \<longleftrightarrow> (\<forall>s t. P s \<longrightarrow> R s t \<longrightarrow> P t)"

definition itriple :: "('s \<Rightarrow> 's \<Rightarrow> bool) \<Rightarrow> ('s \<Rightarrow> bool) \<Rightarrow> ('s, 'a) proc \<Rightarrow> ('a \<Rightarrow> 's \<Rightarrow> bool) \<Rightarrow> bool" where
  "itriple R P m Q \<longleftrightarrow> (\<forall>s r t. P s \<longrightarrow> irun R m s r t \<longrightarrow> Q r t)"

lemma stable_conj: "stable R P \<Longrightarrow> stable R Q \<Longrightarrow> stable R (\<lambda>s. P s \<and> Q s)"
  by (auto simp: stable_def)

lemma stable_rtranclp: "R\<^sup>*\<^sup>* s t \<Longrightarrow> stable R P \<Longrightarrow> P s \<Longrightarrow> P t"
  by (induction rule: rtranclp_induct) (auto simp: stable_def)

lemma itripleD: "itriple R P m Q \<Longrightarrow> P s \<Longrightarrow> irun R m s r t \<Longrightarrow> Q r t"
  by (simp add: itriple_def)

lemma itriple_Ret: "stable R P \<Longrightarrow> (\<And>s. P s \<Longrightarrow> Q x s) \<Longrightarrow> itriple R P (Ret x) Q"
  by (auto simp: itriple_def dest!: irun_Ret dest: stable_rtranclp)

lemma itriple_atomic:
  assumes "stable R P" and "\<And>s x s'. P s \<Longrightarrow> f s = (x, s') \<Longrightarrow> Q x s'" and "\<And>r. stable R (Q r)"
  shows "itriple R P (atomic f) Q"
  unfolding itriple_def
proof (intro allI impI)
  fix s r t
  assume "P s" "irun R (atomic f) s r t"
  from irun_atomic [OF this(2)] obtain u x u' where
    "R\<^sup>*\<^sup>* s u" "f u = (x, u')" "r = x" "R\<^sup>*\<^sup>* u' t" by blast
  with \<open>P s\<close> assms show "Q r t" by (meson stable_rtranclp)
qed

lemma itriple_bindE:
  assumes "itriple R P m (\<lambda>r s. case r of Ok x \<Rightarrow> M x s | Err e \<Rightarrow> Q (Err e) s
      | Panic \<Rightarrow> Q Panic s | Diverge \<Rightarrow> Q Diverge s)"
    and "\<And>x. itriple R (M x) (k x) Q" and "\<And>r. stable R (Q r)"
  shows "itriple R P (bindE m k) Q"
  unfolding itriple_def
proof (intro allI impI)
  fix s r t
  assume P: "P s" and "irun R (bindE m k) s r t"
  from irun_bindE [OF this(2)] obtain x u where x: "irun R m s x u" and
    k: "case x of Ok y \<Rightarrow> irun R (k y) u r t | Err e \<Rightarrow> r = Err e \<and> R\<^sup>*\<^sup>* u t
      | Panic \<Rightarrow> r = Panic \<and> R\<^sup>*\<^sup>* u t | Diverge \<Rightarrow> r = Diverge \<and> R\<^sup>*\<^sup>* u t" by blast
  from itripleD [OF assms(1) P x] k assms(2,3) show "Q r t"
    by (cases x) (auto dest: stable_rtranclp itripleD)
qed

lemma itriple_tryE:
  assumes "itriple R P m (\<lambda>r s. case r of Ok x \<Rightarrow> M (Inr x) s | Err e \<Rightarrow> M (Inl e) s
      | Panic \<Rightarrow> Q Panic s | Diverge \<Rightarrow> Q Diverge s)"
    and "\<And>x. itriple R (M x) (k x) Q" and "\<And>r. stable R (Q r)"
  shows "itriple R P (tryE m k) Q"
  unfolding itriple_def
proof (intro allI impI)
  fix s r t
  assume P: "P s" and "irun R (tryE m k) s r t"
  from irun_tryE [OF this(2)] obtain x u where x: "irun R m s x u" and
    k: "case x of Ok y \<Rightarrow> irun R (k (Inr y)) u r t | Err e \<Rightarrow> irun R (k (Inl e)) u r t
      | Panic \<Rightarrow> r = Panic \<and> R\<^sup>*\<^sup>* u t | Diverge \<Rightarrow> r = Diverge \<and> R\<^sup>*\<^sup>* u t" by blast
  from itripleD [OF assms(1) P x] k assms(2,3) show "Q r t"
    by (cases x) (auto dest: stable_rtranclp itripleD)
qed

lemma itriple_wrap_err:
  assumes "itriple R P m (\<lambda>r s. Q (case r of Err e \<Rightarrow> Err (w e) | _ \<Rightarrow> r) s)" and "\<And>r. stable R (Q r)"
  shows "itriple R P (wrap_err w m) Q"
  unfolding itriple_def
proof (intro allI impI)
  fix s r t
  assume P: "P s" and "irun R (wrap_err w m) s r t"
  from irun_wrap_err [OF this(2)] obtain x u where x: "irun R m s x u"
    and "r = (case x of Err e \<Rightarrow> Err (w e) | _ \<Rightarrow> x)" "R\<^sup>*\<^sup>* u t" by blast
  with itripleD [OF assms(1) P x] assms(2) show "Q r t" by (meson stable_rtranclp)
qed

lemma itriple_guar:
  assumes "guar R m"
  shows "itriple R (\<lambda>s. R\<^sup>*\<^sup>* s0 s) m (\<lambda>r s. R\<^sup>*\<^sup>* s0 s)"
  using irun_guar [OF _ assms] by (auto simp: itriple_def intro: rtranclp_trans)

lemma itriple_weaken:
  "itriple R P m Q \<Longrightarrow> (\<And>s. P' s \<Longrightarrow> P s) \<Longrightarrow> (\<And>r s. Q r s \<Longrightarrow> Q' r s) \<Longrightarrow> itriple R P' m Q'"
  unfolding itriple_def by blast

section \<open>Triples for a goroutine that runs alone\<close>

definition triple :: "('s \<Rightarrow> bool) \<Rightarrow> ('s, 'a) proc \<Rightarrow> ('a \<Rightarrow> 's \<Rightarrow> bool) \<Rightarrow> bool" where
  "triple P m Q \<longleftrightarrow> (\<forall>s. P s \<longrightarrow> (case run m s of (r, s') \<Rightarrow> Q r s'))"

lemma tripleI: "(\<And>s r s'. P s \<Longrightarrow> run m s = (r, s') \<Longrightarrow> Q r s') \<Longrightarrow> triple P m Q"
  by (auto simp: triple_def)

lemma tripleD: "triple P m Q \<Longrightarrow> P s \<Longrightarrow> run m s = (r, s') \<Longrightarrow> Q r s'"
  by (auto simp: triple_def)

lemma triple_weaken:
  "triple P m Q \<Longrightarrow> (\<And>s. P' s \<Longrightarrow> P s) \<Longrightarrow> (\<And>r s. Q r s \<Longrightarrow> Q' r s) \<Longrightarrow> triple P' m Q'"
  unfolding triple_def by (metis (no_types, lifting) case_prodE case_prodI2 prod.simps(2) surj_pair)

lemma triple_bindE:
  assumes "triple P m (\<lambda>r s. case r of Ok x \<Rightarrow> R x s | Err e \<Rightarrow> Q (Err e) s
      | Panic \<Rightarrow> Q Panic s | Diverge \<Rightarrow> Q Diverge s)"
    and "\<And>x. triple (R x) (k x) Q"
  shows "triple P (bindE m k) Q"
  using assms by (fastforce simp: triple_def run_bindE split: prod.splits outcome.splits)

lemma triple_forE:
  assumes "\<And>x. x \<in> set xs \<Longrightarrow> triple I (body x) (\<lambda>r s. I s)"
  shows "triple I (forE xs body) (\<lambda>r s. I s)"
  using assms
proof (induction xs)
  case (Cons x xs)
  have "triple I (bindE (body x) (\<lambda>_. forE xs body)) (\<lambda>r s. I s)"
  proof (rule triple_bindE)
    show "triple I (body x) (\<lambda>r s. case r of Ok x \<Rightarrow> I s | Err e \<Rightarrow> I s | Panic \<Rightarrow> I s | Diverge \<Rightarrow> I s)"
      using Cons.prems [of x] by (rule triple_weaken) (auto split: outcome.split)
  qed (use Cons in auto)
  then show ?case by simp
qed (simp add: triple_def)

section \<open>Go maps as association lists\<close>

text \<open>\<open>m[k] = v\<close>, \<open>delete(m, k)\<close> and \<open>v, ok := m[k]\<close> on a map held as an association list with
  distinct keys.\<close>

abbreviation mset_key :: "'k \<Rightarrow> 'v \<Rightarrow> ('k \<times> 'v) list \<Rightarrow> ('k \<times> 'v) list" where
  "mset_key \<equiv> AList.update"

abbreviation mdel_key :: "'k \<Rightarrow> ('k \<times> 'v) list \<Rightarrow> ('k \<times> 'v) list" where
  "mdel_key \<equiv> AList.delete"

abbreviation keys_of :: "('k \<times> 'v) list \<Rightarrow> 'k list" where
  "keys_of m \<equiv> map fst m"

lemma map_of_mset_key [alist_simps, simp]: "map_of (mset_key k v m) = (map_of m)(k \<mapsto> v)"
  by (rule update_conv')

lemma map_of_mdel_key [alist_simps, simp]: "map_of (mdel_key k m) = (map_of m)(k := None)"
  by (rule delete_conv')

lemma distinct_mset_key [simp]: "distinct (keys_of m) \<Longrightarrow> distinct (keys_of (mset_key k v m))"
  by (rule distinct_update)

lemma distinct_mdel_key [simp]: "distinct (keys_of m) \<Longrightarrow> distinct (keys_of (mdel_key k m))"
  by (rule distinct_delete)

lemma set_mdel_key: "set (mdel_key k m) = {(k', v). (k', v) \<in> set m \<and> k' \<noteq> k}"
  by (auto simp: AList.delete_eq)

lemma set_mset_key:
  assumes "distinct (keys_of m)"
  shows "set (mset_key k v m) = insert (k, v) {(k', v'). (k', v') \<in> set m \<and> k' \<noteq> k}"
proof (rule set_eqI)
  fix p :: "'a \<times> 'b"
  obtain a b where p: "p = (a, b)" by (cases p)
  have "(a, b) \<in> set (mset_key k v m) \<longleftrightarrow> map_of (mset_key k v m) a = Some b"
    using assms by (metis distinct_mset_key map_of_eq_Some_iff)
  also have "\<dots> \<longleftrightarrow> (if a = k then b = v else map_of m a = Some b)" by auto
  also have "\<dots> \<longleftrightarrow> (if a = k then b = v else (a, b) \<in> set m)"
    using assms by (metis map_of_eq_Some_iff)
  finally show "p \<in> set (mset_key k v m) \<longleftrightarrow>
      p \<in> insert (k, v) {(k', v'). (k', v') \<in> set m \<and> k' \<noteq> k}"
    using p by auto
qed

declare map_of_eq_Some_iff [simp del]

text \<open>Two partial functions that invert each other.\<close>

definition inverse_maps :: "('a \<rightharpoonup> 'b) \<Rightarrow> ('b \<rightharpoonup> 'a) \<Rightarrow> bool" where
  "inverse_maps f g \<longleftrightarrow> (\<forall>a b. f a = Some b \<longleftrightarrow> g b = Some a)"

lemma inverse_mapsD: "inverse_maps f g \<Longrightarrow> f a = Some b \<longleftrightarrow> g b = Some a"
  by (simp add: inverse_maps_def)

lemma inverse_maps_None: "inverse_maps f g \<Longrightarrow> g b = None \<longleftrightarrow> (\<forall>a. f a \<noteq> Some b)"
  by (metis inverse_mapsD not_None_eq)

lemma inverse_maps_inj: "inverse_maps f g \<Longrightarrow> f a = Some b \<Longrightarrow> f a' = Some b \<Longrightarrow> a = a'"
  by (metis inverse_mapsD option.inject)

lemma inverse_maps_empty [simp]: "inverse_maps Map.empty Map.empty"
  by (simp add: inverse_maps_def)

lemma inverse_maps_update:
  assumes "inverse_maps f g" and "f a = None" and "g b = None"
  shows "inverse_maps (f(a \<mapsto> b)) (g(b \<mapsto> a))"
  unfolding inverse_maps_def
proof (intro allI)
  fix x y
  show "((f(a \<mapsto> b)) x = Some y) = ((g(b \<mapsto> a)) y = Some x)"
    using assms inverse_mapsD [OF assms(1), of x y] inverse_mapsD [OF assms(1), of a y]
      inverse_mapsD [OF assms(1), of x b]
    by (cases "x = a"; cases "y = b") auto
qed

lemma inverse_maps_delete:
  assumes "inverse_maps f g" and "f a = Some b"
  shows "inverse_maps (f(a := None)) (g(b := None))"
  unfolding inverse_maps_def
proof (intro allI)
  fix x y
  show "((f(a := None)) x = Some y) = ((g(b := None)) y = Some x)"
    using assms inverse_mapsD [OF assms(1), of x y] inverse_mapsD [OF assms(1), of a y]
      inverse_mapsD [OF assms(1), of x b] inverse_mapsD [OF assms(1), of a b]
    by (cases "x = a"; cases "y = b") auto
qed
lemma map_of_in_keys: "map_of m k = Some v \<Longrightarrow> k \<in> set (keys_of m)"
  by (force dest: map_of_SomeD)

end
