(* ===== verification/Cri_Errors.thy ===== *)
theory Cri_Errors
  imports Go_Text
begin

text \<open>
  Error values. The service tells errors apart in four ways: by identity with the two errors
  of \<^verbatim>\<open>pkg/store\<close>, by the gRPC status code (\<^verbatim>\<open>grpc.Code\<close>), by the cause of a
  \<^verbatim>\<open>pkg/errors\<close> wrapper (\<^verbatim>\<open>errdefs.Is...\<close>) and by \<^verbatim>\<open>os.IsNotExist\<close>. The datatype keeps
  exactly what these tests can see. \<open>errdefs_FromGRPC\<close> is what the containerd client applies to
  the errors of the container, snapshot, image and content services, and not to those of the
  task and event services, which the program uses as raw gRPC clients.
  The last lemmas say which tests a translated error still answers.
\<close>

datatype grpc_code = GOK | GCanceled | GUnknown | GInvalidArgument | GDeadlineExceeded | GNotFound
  | GAlreadyExists | GPermissionDenied | GResourceExhausted | GFailedPrecondition | GAborted
  | GOutOfRange | GUnimplemented | GInternal | GUnavailable | GDataLoss | GUnauthenticated

datatype errdef = ErrUnknown | ErrInvalidArgument | ErrNotFound | ErrAlreadyExists
  | ErrFailedPrecondition | ErrUnavailable

text \<open>\<open>Errorf\<close> is \<open>fmt.Errorf\<close>: the format string cut at its verbs. \<open>Lit\<close> is literal text or a
  value printed with \<open>%s\<close>, \<open>Q\<close> a string printed with \<open>%q\<close>, \<open>V\<close> an error printed with \<open>%v\<close>.\<close>

datatype goerror =
    StoreAlreadyExist
  | StoreNotExist
  | GrpcStatus grpc_code string
  | Errdef errdef
  | WrapErrdef errdef string
  | OSError bool string
  | OtherError string
  | Errorf "fmt_piece list"
and fmt_piece = Lit string | Q string | V goerror

type_synonym 'a result = "goerror + 'a"

fun code_String :: "grpc_code \<Rightarrow> string" where
  "code_String GOK = ''OK''"
| "code_String GCanceled = ''Canceled''"
| "code_String GUnknown = ''Unknown''"
| "code_String GInvalidArgument = ''InvalidArgument''"
| "code_String GDeadlineExceeded = ''DeadlineExceeded''"
| "code_String GNotFound = ''NotFound''"
| "code_String GAlreadyExists = ''AlreadyExists''"
| "code_String GPermissionDenied = ''PermissionDenied''"
| "code_String GResourceExhausted = ''ResourceExhausted''"
| "code_String GFailedPrecondition = ''FailedPrecondition''"
| "code_String GAborted = ''Aborted''"
| "code_String GOutOfRange = ''OutOfRange''"
| "code_String GUnimplemented = ''Unimplemented''"
| "code_String GInternal = ''Internal''"
| "code_String GUnavailable = ''Unavailable''"
| "code_String GDataLoss = ''DataLoss''"
| "code_String GUnauthenticated = ''Unauthenticated''"

fun errdef_text :: "errdef \<Rightarrow> string" where
  "errdef_text ErrUnknown = ''unknown''"
| "errdef_text ErrInvalidArgument = ''invalid argument''"
| "errdef_text ErrNotFound = ''not found''"
| "errdef_text ErrAlreadyExists = ''already exists''"
| "errdef_text ErrFailedPrecondition = ''failed precondition''"
| "errdef_text ErrUnavailable = ''unavailable''"

text \<open>\<open>%q\<close>: Go's quoting, exact on ASCII; a byte of a multi-byte character is printed as it is,
  which is what Go does for printable characters.\<close>

definition hex_digit :: "nat \<Rightarrow> char" where
  "hex_digit d = (if d < 10 then char_of (48 + d) else char_of (87 + d))"

definition quote_char :: "char \<Rightarrow> string" where
  "quote_char c = (let n = (of_char c :: nat); bs = char_of (92 :: nat) in
     if n = 34 \<or> n = 92 then [bs, c]
     else if 32 \<le> n \<and> n \<noteq> 127 then [c]
     else if n = 7 then [bs, CHR ''a''] else if n = 8 then [bs, CHR ''b'']
     else if n = 9 then [bs, CHR ''t''] else if n = 10 then [bs, CHR ''n'']
     else if n = 11 then [bs, CHR ''v''] else if n = 12 then [bs, CHR ''f'']
     else if n = 13 then [bs, CHR ''r'']
     else [bs, CHR ''x'', hex_digit (n div 16), hex_digit (n mod 16)])"

definition go_quote :: "string \<Rightarrow> string" where
  "go_quote s = char_of (34 :: nat) # concat (map quote_char s) @ [char_of (34 :: nat)]"

fun error_text :: "goerror \<Rightarrow> string" and piece_text :: "fmt_piece \<Rightarrow> string" where
  "error_text StoreAlreadyExist = ''already exists''"
| "error_text StoreNotExist = ''does not exist''"
| "error_text (GrpcStatus c d) = ''rpc error: code = '' @ code_String c @ '' desc = '' @ d"
| "error_text (Errdef d) = errdef_text d"
| "error_text (WrapErrdef d m) = m @ '': '' @ errdef_text d"
| "error_text (OSError ne m) = m"
| "error_text (OtherError m) = m"
| "error_text (Errorf ps) = concat (map piece_text ps)"
| "piece_text (Lit s) = s"
| "piece_text (Q s) = go_quote s"
| "piece_text (V e) = error_text e"

section \<open>Telling errors apart\<close>

fun grpc_Code :: "goerror \<Rightarrow> grpc_code" where
  "grpc_Code (GrpcStatus c d) = c"
| "grpc_Code _ = GUnknown"

fun grpc_ErrorDesc :: "goerror \<Rightarrow> string" where
  "grpc_ErrorDesc (GrpcStatus c d) = d"
| "grpc_ErrorDesc e = error_text e"

text \<open>\<open>errors.Cause(err)\<close>: the innermost error of a chain of wrappers.\<close>

fun errors_Cause :: "goerror \<Rightarrow> goerror" where
  "errors_Cause (WrapErrdef d m) = Errdef d"
| "errors_Cause e = e"

definition errdefs_IsNotFound :: "goerror \<Rightarrow> bool" where
  "errdefs_IsNotFound e \<longleftrightarrow> errors_Cause e = Errdef ErrNotFound"

definition errdefs_IsAlreadyExists :: "goerror \<Rightarrow> bool" where
  "errdefs_IsAlreadyExists e \<longleftrightarrow> errors_Cause e = Errdef ErrAlreadyExists"

fun os_IsNotExist :: "goerror \<Rightarrow> bool" where
  "os_IsNotExist (OSError ne m) = ne"
| "os_IsNotExist _ = False"

definition rebaseMessage :: "errdef \<Rightarrow> goerror \<Rightarrow> string" where
  "rebaseMessage cls e = (let desc = grpc_ErrorDesc e; clss = errdef_text cls in
     if desc = clss then '''' else strings_TrimSuffix desc ('': '' @ clss))"

definition errdefs_FromGRPC :: "goerror \<Rightarrow> goerror" where
  "errdefs_FromGRPC e =
     (let cls = (case grpc_Code e of
            GInvalidArgument \<Rightarrow> ErrInvalidArgument
          | GAlreadyExists \<Rightarrow> ErrAlreadyExists
          | GNotFound \<Rightarrow> ErrNotFound
          | GUnavailable \<Rightarrow> ErrUnavailable
          | GFailedPrecondition \<Rightarrow> ErrFailedPrecondition
          | _ \<Rightarrow> ErrUnknown);
          msg = rebaseMessage cls e
      in if msg \<noteq> '''' then WrapErrdef cls msg else Errdef cls)"

text \<open>The two classifiers of \<^verbatim>\<open>helpers.go\<close>.\<close>

definition isContainerdGRPCNotFoundError :: "goerror \<Rightarrow> bool" where
  "isContainerdGRPCNotFoundError e \<longleftrightarrow> grpc_Code e = GNotFound"

definition isRuncProcessAlreadyFinishedError :: "goerror \<Rightarrow> bool" where
  "isRuncProcessAlreadyFinishedError e \<longleftrightarrow>
     strings_Contains (grpc_ErrorDesc e) ''os: process already finished''"

section \<open>What a translated error still answers\<close>

lemma IsNotFound_FromGRPC [simp]: "errdefs_IsNotFound (errdefs_FromGRPC e) \<longleftrightarrow> grpc_Code e = GNotFound"
  by (auto simp: errdefs_IsNotFound_def errdefs_FromGRPC_def Let_def split: grpc_code.splits)

lemma IsAlreadyExists_FromGRPC [simp]:
  "errdefs_IsAlreadyExists (errdefs_FromGRPC e) \<longleftrightarrow> grpc_Code e = GAlreadyExists"
  by (auto simp: errdefs_IsAlreadyExists_def errdefs_FromGRPC_def Let_def split: grpc_code.splits)

lemma grpc_Code_FromGRPC [simp]: "grpc_Code (errdefs_FromGRPC e) = GUnknown"
  by (simp add: errdefs_FromGRPC_def Let_def)

lemma not_found_lost_FromGRPC [simp]: "\<not> isContainerdGRPCNotFoundError (errdefs_FromGRPC e)"
  by (simp add: isContainerdGRPCNotFoundError_def)

end
