(* ===== verification/Registrar.thy ===== *)
theory Registrar
  imports Cri_Errors
begin

text \<open>
  \<^verbatim>\<open>pkg/registrar\<close>: names reserved for keys. Two Go maps, \<open>nameToKey\<close> and \<open>keyToName\<close>, are kept
  inverse to each other; \<open>registrar_inv\<close> says so. The abstract view of a registrar is the partial
  injection \<open>reserved\<close> from names to keys. The locale \<open>name_index\<close> is the contract the service
  relies on when it reserves and releases container and sandbox names; it is interpreted on the
  code's two-map implementation.
\<close>

record Registrar =
  nameToKey :: "(string \<times> string) list"
  keyToName :: "(string \<times> string) list"

definition NewRegistrar :: Registrar where
  "NewRegistrar = \<lparr>nameToKey = [], keyToName = []\<rparr>"

definition Reserve :: "string \<Rightarrow> string \<Rightarrow> Registrar \<Rightarrow> unit result \<times> Registrar" where
  "Reserve name key r =
     (if name = '''' \<or> key = '''' then
        (Inl (Errorf [Lit ''invalid name '', Q name, Lit '' or key '', Q key]), r)
      else case map_of (nameToKey r) name of
        Some k \<Rightarrow>
          (if k \<noteq> key then (Inl (Errorf [Lit ''name '', Q name, Lit '' is reserved for '', Q k]), r)
           else (Inr (), r))
      | None \<Rightarrow>
          (case map_of (keyToName r) key of
             Some n \<Rightarrow>
               (if n \<noteq> name then (Inl (Errorf [Lit ''key '', Q key, Lit '' is reserved for '', Q n]), r)
                else (Inr (), r))
           | None \<Rightarrow>
               (Inr (), r\<lparr>nameToKey := mset_key name key (nameToKey r),
                          keyToName := mset_key key name (keyToName r)\<rparr>)))"

definition ReleaseByName :: "string \<Rightarrow> Registrar \<Rightarrow> Registrar" where
  "ReleaseByName name r =
     (case map_of (nameToKey r) name of
        None \<Rightarrow> r
      | Some key \<Rightarrow> r\<lparr>nameToKey := mdel_key name (nameToKey r),
                      keyToName := mdel_key key (keyToName r)\<rparr>)"

definition ReleaseByKey :: "string \<Rightarrow> Registrar \<Rightarrow> Registrar" where
  "ReleaseByKey key r =
     (case map_of (keyToName r) key of
        None \<Rightarrow> r
      | Some name \<Rightarrow> r\<lparr>nameToKey := mdel_key name (nameToKey r),
                       keyToName := mdel_key key (keyToName r)\<rparr>)"

lemmas registrar_defs [go_defs] = NewRegistrar_def Reserve_def ReleaseByName_def ReleaseByKey_def

section \<open>The invariant and the abstract view\<close>

definition registrar_inv :: "Registrar \<Rightarrow> bool" where
  "registrar_inv r \<longleftrightarrow>
     distinct (keys_of (nameToKey r)) \<and> distinct (keys_of (keyToName r)) \<and>
     inverse_maps (map_of (nameToKey r)) (map_of (keyToName r)) \<and>
     map_of (nameToKey r) '''' = None \<and> map_of (keyToName r) '''' = None"

definition reserved :: "Registrar \<Rightarrow> string \<rightharpoonup> string" where
  "reserved r = map_of (nameToKey r)"

text \<open>The specification: a name is taken for a key if neither is taken for something else.\<close>

definition spec_reserve :: "string \<Rightarrow> string \<Rightarrow> (string \<rightharpoonup> string) \<Rightarrow> bool \<times> (string \<rightharpoonup> string)" where
  "spec_reserve name key m =
     (if name \<noteq> '''' \<and> key \<noteq> '''' \<and> (m name = None \<or> m name = Some key) \<and>
         (\<forall>n. n \<noteq> name \<longrightarrow> m n \<noteq> Some key)
      then (True, m(name \<mapsto> key)) else (False, m))"

definition spec_release_name :: "string \<Rightarrow> (string \<rightharpoonup> string) \<Rightarrow> (string \<rightharpoonup> string)" where
  "spec_release_name name m = m(name := None)"

definition spec_release_key :: "string \<Rightarrow> (string \<rightharpoonup> string) \<Rightarrow> (string \<rightharpoonup> string)" where
  "spec_release_key key m = (\<lambda>n. if m n = Some key then None else m n)"

lemma registrar_inv_maps:
  "registrar_inv r \<Longrightarrow> inverse_maps (map_of (nameToKey r)) (map_of (keyToName r))"
  by (simp add: registrar_inv_def)

lemma NewRegistrar_inv [simp]: "registrar_inv NewRegistrar"
  by (simp add: registrar_inv_def NewRegistrar_def)

lemma reserved_New [simp]: "reserved NewRegistrar = Map.empty"
  by (simp add: reserved_def NewRegistrar_def)

lemma Reserve_inv: "registrar_inv r \<Longrightarrow> registrar_inv (snd (Reserve name key r))"
  by (simp add: Reserve_def registrar_inv_def inverse_maps_update split: option.split)

lemma ReleaseByName_inv: "registrar_inv r \<Longrightarrow> registrar_inv (ReleaseByName name r)"
  by (simp add: ReleaseByName_def registrar_inv_def inverse_maps_delete split: option.split)

lemma ReleaseByKey_inv:
  assumes "registrar_inv r"
  shows "registrar_inv (ReleaseByKey key r)"
proof (cases "map_of (keyToName r) key")
  case None
  with assms show ?thesis by (simp add: ReleaseByKey_def)
next
  case (Some name)
  then have "map_of (nameToKey r) name = Some key"
    by (simp add: inverse_mapsD [OF registrar_inv_maps [OF assms]])
  with Some assms show ?thesis
    by (simp add: ReleaseByKey_def registrar_inv_def inverse_maps_delete)
qed

lemma reserved_inj:
  "registrar_inv r \<Longrightarrow> reserved r n = Some k \<Longrightarrow> reserved r n' = Some k \<Longrightarrow> n = n'"
  unfolding reserved_def by (rule inverse_maps_inj [OF registrar_inv_maps])

section \<open>Refinement of the specification\<close>

lemma Reserve_refines:
  assumes "registrar_inv r"
  shows "spec_reserve name key (reserved r) =
    (fst (Reserve name key r) = Inr (), reserved (snd (Reserve name key r)))"
proof (cases "name = '''' \<or> key = ''''")
  case True
  then show ?thesis by (auto simp: Reserve_def spec_reserve_def)
next
  case False
  note inverse = registrar_inv_maps [OF assms]
  show ?thesis
  proof (cases "map_of (nameToKey r) name")
    case None
    show ?thesis
    proof (cases "map_of (keyToName r) key")
      case free: None
      then have "\<forall>n. map_of (nameToKey r) n \<noteq> Some key" by (simp add: inverse_maps_None [OF inverse])
      with False None free show ?thesis by (simp add: Reserve_def spec_reserve_def reserved_def)
    next
      case (Some n)
      then have "map_of (nameToKey r) n = Some key" by (simp add: inverse_mapsD [OF inverse])
      moreover from this None have "n \<noteq> name" by auto
      ultimately have "\<not> (\<forall>n'. n' \<noteq> name \<longrightarrow> map_of (nameToKey r) n' \<noteq> Some key)" by blast
      with False None Some \<open>n \<noteq> name\<close> show ?thesis
        by (simp add: Reserve_def spec_reserve_def reserved_def)
    qed
  next
    case (Some k)
    have "\<forall>n. n \<noteq> name \<longrightarrow> map_of (nameToKey r) n \<noteq> Some k"
      using Some inverse_maps_inj [OF inverse] by blast
    with False Some show ?thesis
      by (cases "k = key") (simp_all add: Reserve_def spec_reserve_def reserved_def fun_upd_idem)
  qed
qed

lemma ReleaseByName_refines:
  "registrar_inv r \<Longrightarrow> reserved (ReleaseByName name r) = spec_release_name name (reserved r)"
  by (auto simp: ReleaseByName_def spec_release_name_def reserved_def fun_eq_iff split: option.splits)

lemma ReleaseByKey_refines:
  assumes "registrar_inv r"
  shows "reserved (ReleaseByKey key r) = spec_release_key key (reserved r)"
proof (cases "map_of (keyToName r) key")
  case None
  then have "\<forall>n. map_of (nameToKey r) n \<noteq> Some key"
    by (simp add: inverse_maps_None [OF registrar_inv_maps [OF assms]])
  with None show ?thesis
    by (simp add: ReleaseByKey_def spec_release_key_def reserved_def fun_eq_iff)
next
  case (Some name)
  then have key: "map_of (nameToKey r) name = Some key"
    by (simp add: inverse_mapsD [OF registrar_inv_maps [OF assms]])
  then have "map_of (nameToKey r) n = Some key \<longleftrightarrow> n = name" for n
    using inverse_maps_inj [OF registrar_inv_maps [OF assms]] by blast
  with Some show ?thesis
    by (simp add: ReleaseByKey_def spec_release_key_def reserved_def fun_eq_iff)
qed

section \<open>The contract of a name index\<close>

locale name_index =
  fixes reserve :: "string \<Rightarrow> string \<Rightarrow> 'r \<Rightarrow> unit result \<times> 'r"
    and release_name :: "string \<Rightarrow> 'r \<Rightarrow> 'r"
    and release_key :: "string \<Rightarrow> 'r \<Rightarrow> 'r"
    and view :: "'r \<Rightarrow> string \<rightharpoonup> string"
    and inv :: "'r \<Rightarrow> bool"
  assumes inv_reserve: "inv r \<Longrightarrow> inv (snd (reserve n k r))"
    and inv_release_name: "inv r \<Longrightarrow> inv (release_name n r)"
    and inv_release_key: "inv r \<Longrightarrow> inv (release_key k r)"
    and view_inj: "inv r \<Longrightarrow> view r n = Some k \<Longrightarrow> view r n' = Some k \<Longrightarrow> n = n'"
    and reserve_spec: "inv r \<Longrightarrow>
      spec_reserve n k (view r) = (fst (reserve n k r) = Inr (), view (snd (reserve n k r)))"
    and release_name_spec: "inv r \<Longrightarrow> view (release_name n r) = spec_release_name n (view r)"
    and release_key_spec: "inv r \<Longrightarrow> view (release_key k r) = spec_release_key k (view r)"
begin

lemma reserve_ok:
  "inv r \<Longrightarrow> reserve n k r = (Inr u, r') \<Longrightarrow>
   n \<noteq> '''' \<and> k \<noteq> '''' \<and> view r' = (view r)(n \<mapsto> k) \<and>
   (view r n = None \<or> view r n = Some k) \<and> (\<forall>n'. n' \<noteq> n \<longrightarrow> view r n' \<noteq> Some k)"
  using reserve_spec [of r n k] by (simp add: spec_reserve_def split: if_splits)

lemma reserve_err: "inv r \<Longrightarrow> reserve n k r = (Inl e, r') \<Longrightarrow> view r' = view r"
  using reserve_spec [of r n k] by (auto simp: spec_reserve_def split: if_splits)

text \<open>What the deferred cleanup of a failed creation does: a fresh reservation followed by its
  release leaves every reservation as it was.\<close>

lemma release_undoes_reserve:
  assumes "inv r" and "view r n = None" and "reserve n k r = (Inr u, r')"
  shows "view (release_name n r') = view r"
proof -
  have "inv r'" using inv_reserve [OF assms(1), of n k] assms(3) by simp
  moreover have "view r' = (view r)(n \<mapsto> k)" using reserve_ok [OF assms(1,3)] by simp
  ultimately show ?thesis
    using assms(2) by (simp add: release_name_spec spec_release_name_def fun_upd_idem)
qed

text \<open>Releasing by key or by name frees the same reservation.\<close>

lemma release_key_eq_release_name:
  assumes "inv r" and "view r n = Some k"
  shows "view (release_key k r) = view (release_name n r)"
  using assms view_inj [OF assms(1)]
  by (auto simp: release_key_spec release_name_spec spec_release_key_def spec_release_name_def fun_eq_iff)

text \<open>A name held for another key cannot be taken: two concurrent requests for one name get at
  most one reservation.\<close>

lemma reserve_exclusive:
  assumes "inv r" and "view r n = Some k" and "k' \<noteq> k"
  shows "fst (reserve n k' r) \<noteq> Inr () \<and> view (snd (reserve n k' r)) = view r"
  using reserve_spec [OF assms(1), of n k'] assms by (auto simp: spec_reserve_def split: if_splits)

end

interpretation reg: name_index Reserve ReleaseByName ReleaseByKey reserved registrar_inv
  by unfold_locales
    (auto intro: Reserve_inv ReleaseByName_inv ReleaseByKey_inv reserved_inj
      simp: Reserve_refines ReleaseByName_refines ReleaseByKey_refines)

section \<open>Histories of a registrar\<close>

datatype registrar_op = OpReserve string string | OpReleaseByName string | OpReleaseByKey string

fun registrar_history :: "registrar_op list \<Rightarrow> Registrar \<Rightarrow> bool list \<times> Registrar" where
  "registrar_history [] r = ([], r)"
| "registrar_history (OpReserve n k # ops) r =
     (let (res, r1) = Reserve n k r; (out, r2) = registrar_history ops r1 in ((res = Inr ()) # out, r2))"
| "registrar_history (OpReleaseByName n # ops) r = registrar_history ops (ReleaseByName n r)"
| "registrar_history (OpReleaseByKey k # ops) r = registrar_history ops (ReleaseByKey k r)"

fun spec_history :: "registrar_op list \<Rightarrow> (string \<rightharpoonup> string) \<Rightarrow> bool list \<times> (string \<rightharpoonup> string)" where
  "spec_history [] m = ([], m)"
| "spec_history (OpReserve n k # ops) m =
     (let (ok, m1) = spec_reserve n k m; (out, m2) = spec_history ops m1 in (ok # out, m2))"
| "spec_history (OpReleaseByName n # ops) m = spec_history ops (spec_release_name n m)"
| "spec_history (OpReleaseByKey k # ops) m = spec_history ops (spec_release_key k m)"

lemma registrar_history_refines_from:
  assumes "registrar_inv r" and "registrar_history ops r = (out, r')"
  shows "spec_history ops (reserved r) = (out, reserved r') \<and> registrar_inv r'"
  using assms
proof (induction ops arbitrary: r out r')
  case (Cons op ops)
  note inv = Cons.prems(1)
  show ?case
  proof (cases op)
    case (OpReserve n k)
    obtain out' where rest: "registrar_history ops (snd (Reserve n k r)) = (out', r')"
      and out: "out = (fst (Reserve n k r) = Inr ()) # out'"
      using Cons.prems(2) OpReserve by (auto simp: Let_def split: prod.splits)
    from Cons.IH [OF reg.inv_reserve [OF inv] rest] out OpReserve show ?thesis
      by (simp add: reg.reserve_spec [OF inv])
  next
    case (OpReleaseByName n)
    with Cons.IH [OF reg.inv_release_name [OF inv]] Cons.prems(2) show ?thesis
      by (simp add: reg.release_name_spec [OF inv])
  next
    case (OpReleaseByKey k)
    with Cons.IH [OF reg.inv_release_key [OF inv]] Cons.prems(2) show ?thesis
      by (simp add: reg.release_key_spec [OF inv])
  qed
qed simp

text \<open>
  C17: The registrar with its two maps behaves like one partial function from names to keys: every history
  of reservations and releases that starts with an empty registrar gives the same successes and
  failures as the specification and ends in the same reservations, and the two maps stay inverse to each other.
\<close>

theorem registrar_refines:
  "spec_history ops Map.empty = (fst (registrar_history ops NewRegistrar), reserved (snd (registrar_history ops NewRegistrar)))
   \<and> registrar_inv (snd (registrar_history ops NewRegistrar))"
  using registrar_history_refines_from [of NewRegistrar ops] by (cases "registrar_history ops NewRegistrar") simp

end
