(* ===== verification/Cri_Api.thy ===== *)
theory Cri_Api
  imports Cri_Errors
begin

text \<open>
  The messages of the Kubernetes container runtime interface that the service reads and writes
  (\<^verbatim>\<open>runtime\<close>, generated from the CRI protobuf), with the fields the service uses. A Go pointer
  is an \<open>option\<close>, a map an association list, \<open>uint32\<close> and \<open>int64\<close> are words of that width.
  The generated getters return the zero value on a nil receiver: \<open>pget\<close>. Go distinguishes a nil
  from an empty slice only in \<open>Command\<close>, so that field alone is an optional list.
\<close>

definition pget :: "('a \<Rightarrow> 'b) \<Rightarrow> 'b \<Rightarrow> 'a option \<Rightarrow> 'b" where
  "pget f z p = (case p of None \<Rightarrow> z | Some x \<Rightarrow> f x)"

lemma pget_simps [simp]: "pget f z None = z" "pget f z (Some x) = f x"
  by (simp_all add: pget_def)

type_synonym int64 = "64 word"
type_synonym uint32 = "32 word"
type_synonym int32 = "32 word"
type_synonym labels = "(string \<times> string) list"

datatype ContainerState = CONTAINER_CREATED | CONTAINER_RUNNING | CONTAINER_EXITED | CONTAINER_UNKNOWN

datatype PodSandboxState = SANDBOX_READY | SANDBOX_NOTREADY

record ContainerMetadata =
  cm_Name :: string
  cm_Attempt :: uint32

record PodSandboxMetadata =
  pm_Name :: string
  pm_Uid :: string
  pm_Namespace :: string
  pm_Attempt :: uint32

record NamespaceOption =
  ns_HostNetwork :: bool
  ns_HostPid :: bool
  ns_HostIpc :: bool

record DNSConfig =
  dns_Servers :: "string list"
  dns_Searches :: "string list"
  dns_Options :: "string list"

record LinuxSandboxSecurityContext =
  lss_NamespaceOptions :: "NamespaceOption option"

record LinuxPodSandboxConfig =
  lp_CgroupParent :: string
  lp_SecurityContext :: "LinuxSandboxSecurityContext option"
  lp_Sysctls :: labels

record PodSandboxConfig =
  pc_Metadata :: "PodSandboxMetadata option"
  pc_Hostname :: string
  pc_LogDirectory :: string
  pc_DnsConfig :: "DNSConfig option"
  pc_Labels :: labels
  pc_Annotations :: labels
  pc_Linux :: "LinuxPodSandboxConfig option"

record Mount =
  mnt_ContainerPath :: string
  mnt_HostPath :: string
  mnt_Readonly :: bool

record Device =
  dev_ContainerPath :: string
  dev_HostPath :: string
  dev_Permissions :: string

record Capability =
  cap_Add :: "string list"
  cap_Drop :: "string list"

record LinuxContainerResources =
  lr_CpuPeriod :: int64
  lr_CpuQuota :: int64
  lr_CpuShares :: int64
  lr_MemoryLimitInBytes :: int64
  lr_OomScoreAdj :: int64

record LinuxContainerSecurityContext =
  ls_Capabilities :: "Capability option"
  ls_Privileged :: bool
  ls_NamespaceOptions :: "NamespaceOption option"
  ls_ReadonlyRootfs :: bool
  ls_SupplementalGroups :: "int64 list"

record LinuxContainerConfig =
  lc_Resources :: "LinuxContainerResources option"
  lc_SecurityContext :: "LinuxContainerSecurityContext option"

record ContainerConfig =
  cc_Metadata :: "ContainerMetadata option"
  cc_Image :: "string option"
  cc_Command :: "string list option"
  cc_Args :: "string list"
  cc_WorkingDir :: string
  cc_Envs :: "(string \<times> string) list"
  cc_Mounts :: "Mount list"
  cc_Devices :: "Device list"
  cc_Labels :: labels
  cc_Annotations :: labels
  cc_LogPath :: string
  cc_Stdin :: bool
  cc_Tty :: bool
  cc_Linux :: "LinuxContainerConfig option"

record CriContainer =
  rc_Id :: string
  rc_PodSandboxId :: string
  rc_Metadata :: "ContainerMetadata option"
  rc_Image :: "string option"
  rc_ImageRef :: string
  rc_State :: ContainerState
  rc_CreatedAt :: int64
  rc_Labels :: labels
  rc_Annotations :: labels

record CriContainerStatus =
  rs_Id :: string
  rs_Metadata :: "ContainerMetadata option"
  rs_State :: ContainerState
  rs_CreatedAt :: int64
  rs_StartedAt :: int64
  rs_FinishedAt :: int64
  rs_ExitCode :: int32
  rs_Image :: "string option"
  rs_ImageRef :: string
  rs_Reason :: string
  rs_Message :: string
  rs_Labels :: labels
  rs_Annotations :: labels
  rs_Mounts :: "Mount list"

record ContainerFilter =
  cf_Id :: string
  cf_State :: "ContainerState option"
  cf_PodSandboxId :: string
  cf_LabelSelector :: labels

record CriPodSandbox =
  rp_Id :: string
  rp_Metadata :: "PodSandboxMetadata option"
  rp_State :: PodSandboxState
  rp_CreatedAt :: int64
  rp_Labels :: labels
  rp_Annotations :: labels

record CriPodSandboxStatus =
  rps_Id :: string
  rps_Metadata :: "PodSandboxMetadata option"
  rps_State :: PodSandboxState
  rps_CreatedAt :: int64
  rps_Ip :: string
  rps_NamespaceOptions :: NamespaceOption
  rps_Labels :: labels
  rps_Annotations :: labels

record PodSandboxFilter =
  pf_Id :: string
  pf_State :: "PodSandboxState option"
  pf_LabelSelector :: labels

record CriImage =
  ri_Id :: string
  ri_RepoTags :: "string list"
  ri_RepoDigests :: "string list"
  ri_Size :: int64
  ri_Uid :: "int option"
  ri_Username :: string

record AuthConfig =
  au_Username :: string
  au_Password :: string
  au_Auth :: string
  au_IdentityToken :: string

record RuntimeCondition =
  cond_Type :: string
  cond_Status :: bool
  cond_Reason :: string
  cond_Message :: string

section \<open>Chains of getters the service uses\<close>

definition container_security_context :: "ContainerConfig option \<Rightarrow> LinuxContainerSecurityContext option" where
  "container_security_context c = pget lc_SecurityContext None (pget cc_Linux None c)"

definition sandbox_namespace_options :: "PodSandboxConfig option \<Rightarrow> NamespaceOption option" where
  "sandbox_namespace_options c =
     pget lss_NamespaceOptions None (pget lp_SecurityContext None (pget pc_Linux None c))"

end
