(* ===== verification/Store_Spec.thy ===== *)
theory Store_Spec
  imports Cri_Api
begin

text \<open>
  What the in-memory stores of \<^verbatim>\<open>pkg/store\<close> promise. Go visits the entries of a map in an
  arbitrary order, so listing takes the order as an argument (\<open>ord\<close>, any permutation of the
  keys: \<open>is_order\<close>). The locale \<open>object_store\<close> is the contract of a store; the clients' facts
  are proved in it once and come to the container and the sandbox store by interpretation.
\<close>

definition is_order :: "(string list \<Rightarrow> string list) \<Rightarrow> bool" where
  "is_order ord \<longleftrightarrow> (\<forall>ks. distinct ks \<longrightarrow> distinct (ord ks) \<and> set (ord ks) = set ks)"

text \<open>\<open>for _, v := range m\<close>: the values of a map in the order of the iteration.\<close>

definition range_values :: "(string list \<Rightarrow> string list) \<Rightarrow> (string \<times> 'v) list \<Rightarrow> 'v list" where
  "range_values ord m = List.map_filter (map_of m) (ord (keys_of m))"

lemma is_order_id [simp]: "is_order (\<lambda>ks. ks)"
  by (simp add: is_order_def)

lemma is_order_rev [simp]: "is_order rev"
  by (simp add: is_order_def)

lemma is_orderD:
  "is_order ord \<Longrightarrow> distinct ks \<Longrightarrow> set (ord ks) = set ks"
  "is_order ord \<Longrightarrow> distinct ks \<Longrightarrow> distinct (ord ks)"
  by (auto simp: is_order_def)

lemma range_values_eq:
  assumes "is_order ord" and "distinct (keys_of m)"
  shows "range_values ord m = map (the \<circ> map_of m) (ord (keys_of m))"
proof -
  have "\<forall>k \<in> set (ord (keys_of m)). map_of m k \<noteq> None"
    using assms by (simp add: is_orderD map_of_eq_None_iff)
  then have "List.map_filter (map_of m) ks = map (the \<circ> map_of m) ks"
    if "set ks \<subseteq> set (ord (keys_of m))" for ks
    using that by (induction ks) (auto simp: List.map_filter_simps)
  then show ?thesis by (simp add: range_values_def)
qed

lemma set_range_values:
  assumes "is_order ord" and "distinct (keys_of m)"
  shows "set (range_values ord m) = ran (map_of m)"
proof -
  have "set (range_values ord m) = (the \<circ> map_of m) ` set (keys_of m)"
    using assms by (simp add: range_values_eq is_orderD)
  also have "set (keys_of m) = dom (map_of m)" by (simp add: dom_map_of_conv_image_fst)
  also have "(the \<circ> map_of m) ` dom (map_of m) = ran (map_of m)"
    by (auto simp: ran_def dom_def image_iff) (metis option.sel)
  finally show ?thesis .
qed

lemma length_range_values:
  assumes "is_order ord" and "distinct (keys_of m)"
  shows "length (range_values ord m) = length m"
proof -
  have "length (ord (keys_of m)) = length (keys_of m)"
    using assms by (metis distinct_card is_orderD)
  then show ?thesis using assms by (simp add: range_values_eq)
qed

lemma distinct_range_values_keys:
  assumes "is_order ord" and "distinct (keys_of m)"
    and "\<And>k v. map_of m k = Some v \<Longrightarrow> key v = k"
  shows "distinct (map key (range_values ord m))"
proof -
  have "map key (range_values ord m) = ord (keys_of m)"
  proof -
    have "key (the (map_of m k)) = k" if "k \<in> set (ord (keys_of m))" for k
    proof -
      from that assms(1,2) have "k \<in> set (keys_of m)" by (simp add: is_orderD)
      then obtain v where "map_of m k = Some v" by (metis map_of_eq_None_iff not_None_eq set_map)
      with assms(3) show ?thesis by simp
    qed
    then show ?thesis using assms(1,2) by (simp add: range_values_eq map_idI)
  qed
  then show ?thesis using assms(1,2) by (simp add: is_orderD)
qed

section \<open>The contract of a store\<close>

locale object_store =
  fixes add :: "'o \<Rightarrow> 's \<Rightarrow> unit result \<times> 's"
    and lookup :: "string \<Rightarrow> 's \<Rightarrow> 'o result"
    and remove :: "string \<Rightarrow> 's \<Rightarrow> 's"
    and listing :: "(string list \<Rightarrow> string list) \<Rightarrow> 's \<Rightarrow> 'o list"
    and key :: "'o \<Rightarrow> string"
    and view :: "'s \<Rightarrow> string \<rightharpoonup> 'o"
    and inv :: "'s \<Rightarrow> bool"
  assumes view_key: "inv s \<Longrightarrow> view s k = Some x \<Longrightarrow> key x = k"
    and inv_add: "inv s \<Longrightarrow> inv (snd (add x s))"
    and inv_remove: "inv s \<Longrightarrow> inv (remove k s)"
    and add_new: "inv s \<Longrightarrow> view s (key x) = None \<Longrightarrow>
      fst (add x s) = Inr () \<and> view (snd (add x s)) = (view s)(key x \<mapsto> x)"
    and add_old: "inv s \<Longrightarrow> view s (key x) = Some y \<Longrightarrow> add x s = (Inl StoreAlreadyExist, s)"
    and lookup_view: "inv s \<Longrightarrow>
      lookup k s = (case view s k of Some x \<Rightarrow> Inr x | None \<Rightarrow> Inl StoreNotExist)"
    and remove_view: "inv s \<Longrightarrow> view (remove k s) = (view s)(k := None)"
    and listing_view: "inv s \<Longrightarrow> is_order ord \<Longrightarrow>
      set (listing ord s) = ran (view s) \<and> distinct (map key (listing ord s))"
begin

lemma lookup_ok_iff: "inv s \<Longrightarrow> lookup k s = Inr x \<longleftrightarrow> view s k = Some x"
  by (simp add: lookup_view split: option.splits)

lemma lookup_key: "inv s \<Longrightarrow> lookup k s = Inr x \<Longrightarrow> key x = k"
  by (simp add: lookup_ok_iff view_key)

lemma lookup_error: "inv s \<Longrightarrow> lookup k s = Inl e \<Longrightarrow> e = StoreNotExist"
  by (simp add: lookup_view split: option.splits)

lemma lookup_after_add:
  assumes "inv s" and "add x s = (Inr u, s')"
  shows "lookup k s' = (if k = key x then Inr x else lookup k s)"
proof -
  have new: "view s (key x) = None"
    using assms add_old [OF assms(1)] by (cases "view s (key x)") auto
  have "inv s'" using inv_add [OF assms(1), of x] assms(2) by simp
  with new assms add_new [OF assms(1) new] show ?thesis by (auto simp: lookup_view)
qed

lemma add_fails_iff: "inv s \<Longrightarrow> fst (add x s) = Inl e \<longleftrightarrow> e = StoreAlreadyExist \<and> view s (key x) \<noteq> None"
  using add_old [of s x] add_new [of s x] by (cases "view s (key x)") auto

lemma add_failed_unchanged: "inv s \<Longrightarrow> add x s = (Inl e, s') \<Longrightarrow> s' = s"
  using add_old [of s x] add_new [of s x] by (cases "view s (key x)") auto

lemma lookup_after_remove:
  "inv s \<Longrightarrow> lookup k' (remove k s) = (if k' = k then Inl StoreNotExist else lookup k' s)"
  by (simp add: lookup_view inv_remove remove_view)

lemma remove_undoes_add:
  assumes "inv s" and "add x s = (Inr u, s')"
  shows "view (remove (key x) s') = view s"
proof -
  have new: "view s (key x) = None"
    using assms add_old [OF assms(1)] by (cases "view s (key x)") auto
  have "inv s'" using inv_add [OF assms(1), of x] assms(2) by simp
  then show ?thesis
    using new assms(2) add_new [OF assms(1) new] by (simp add: remove_view fun_upd_idem)
qed

lemma listing_iff:
  "inv s \<Longrightarrow> is_order ord \<Longrightarrow> x \<in> set (listing ord s) \<longleftrightarrow> lookup (key x) s = Inr x"
  using listing_view [of s ord] view_key [of s]
  by (simp add: lookup_ok_iff ran_def) metis

end

end
