(* ===== verification/Container_Store.thy ===== *)
theory Container_Store
  imports Store_Spec
begin

text \<open>
  \<^verbatim>\<open>pkg/store/container\<close>: the status of a container with its derived state, the transactional
  status storage, and the container store. A \<open>Container\<close> value holds its status by reference
  (\<open>c_Status\<close>, an index into the service's heap of statuses; \<open>None\<close> is the nil interface of the
  zero \<open>Container\<close>), because copies of a container taken from the store share one status.
  \<open>status_step\<close> is the specification of a container's life: the changes of a status the service
  is meant to make. The lemmas on it say that the state only moves forward, that an exit is
  final and that no container runs while it is being removed.
\<close>

record Status =
  st_Pid :: uint32
  st_CreatedAt :: int64
  st_StartedAt :: int64
  st_FinishedAt :: int64
  st_ExitCode :: int32
  st_Reason :: string
  st_Message :: string
  st_Removing :: bool

definition State :: "Status \<Rightarrow> ContainerState" where
  "State c =
     (if st_FinishedAt c \<noteq> 0 then CONTAINER_EXITED
      else if st_StartedAt c \<noteq> 0 then CONTAINER_RUNNING
      else if st_CreatedAt c \<noteq> 0 then CONTAINER_CREATED
      else CONTAINER_UNKNOWN)"

text \<open>The zero \<open>Status\<close> and \<open>Status{CreatedAt: t}\<close>.\<close>

definition created_status :: "int64 \<Rightarrow> Status" where
  "created_status t = \<lparr>st_Pid = 0, st_CreatedAt = t, st_StartedAt = 0, st_FinishedAt = 0,
     st_ExitCode = 0, st_Reason = '''', st_Message = '''', st_Removing = False\<rparr>"

type_synonym UpdateFunc = "Status \<Rightarrow> Status result"

text \<open>A storage is a pointer: the index of its status in the list of all storages that were ever created.
  Creating one always succeeds, the checkpoint on disk is not written yet.\<close>

definition StoreStatus :: "string \<Rightarrow> Status \<Rightarrow> Status list \<Rightarrow> nat result \<times> Status list" where
  "StoreStatus cid status storages = (Inr (length storages), storages @ [status])"

definition statusStorage_Get :: "Status \<Rightarrow> Status" where
  "statusStorage_Get m = m"

definition statusStorage_Update :: "UpdateFunc \<Rightarrow> Status \<Rightarrow> unit result \<times> Status" where
  "statusStorage_Update u m =
     (case u m of Inl err \<Rightarrow> (Inl err, m) | Inr newStatus \<Rightarrow> (Inr (), newStatus))"

definition statusStorage_Delete :: "Status \<Rightarrow> unit result \<times> Status" where
  "statusStorage_Delete m = (Inr (), m)"

record ContainerMeta =
  md_ID :: string
  md_Name :: string
  md_SandboxID :: string
  md_Config :: "ContainerConfig option"
  md_ImageRef :: string

record Container =
  c_Metadata :: ContainerMeta
  c_Status :: "nat option"

abbreviation c_ID :: "Container \<Rightarrow> string" where
  "c_ID c \<equiv> md_ID (c_Metadata c)"

abbreviation c_SandboxID :: "Container \<Rightarrow> string" where
  "c_SandboxID c \<equiv> md_SandboxID (c_Metadata c)"

type_synonym container_store = "(string \<times> Container) list"

definition containerStore_New :: container_store where
  "containerStore_New = []"

definition containerStore_Add :: "Container \<Rightarrow> container_store \<Rightarrow> unit result \<times> container_store" where
  "containerStore_Add c s =
     (case map_of s (c_ID c) of
        Some _ \<Rightarrow> (Inl StoreAlreadyExist, s)
      | None \<Rightarrow> (Inr (), mset_key (c_ID c) c s))"

definition containerStore_Get :: "string \<Rightarrow> container_store \<Rightarrow> Container result" where
  "containerStore_Get cid s =
     (case map_of s cid of Some c \<Rightarrow> Inr c | None \<Rightarrow> Inl StoreNotExist)"

definition containerStore_List :: "(string list \<Rightarrow> string list) \<Rightarrow> container_store \<Rightarrow> Container list" where
  "containerStore_List ord s = range_values ord s"

definition containerStore_Delete :: "string \<Rightarrow> container_store \<Rightarrow> container_store" where
  "containerStore_Delete cid s = mdel_key cid s"

lemmas containerStore_defs [go_defs] =
  containerStore_New_def containerStore_Add_def containerStore_Get_def containerStore_List_def
  containerStore_Delete_def

section \<open>The store keeps its contract\<close>

definition containers_inv :: "container_store \<Rightarrow> bool" where
  "containers_inv s \<longleftrightarrow> distinct (keys_of s) \<and> (\<forall>k c. map_of s k = Some c \<longrightarrow> c_ID c = k)"

lemma containers_invD: "containers_inv s \<Longrightarrow> map_of s k = Some c \<Longrightarrow> c_ID c = k"
  by (simp add: containers_inv_def)

lemma containers_inv_New [simp]: "containers_inv containerStore_New"
  by (simp add: containers_inv_def containerStore_New_def)

lemma containers_inv_Add: "containers_inv s \<Longrightarrow> containers_inv (snd (containerStore_Add c s))"
  by (auto simp: containers_inv_def containerStore_Add_def split: option.splits)

lemma containers_inv_Delete: "containers_inv s \<Longrightarrow> containers_inv (containerStore_Delete k s)"
  by (auto simp: containers_inv_def containerStore_Delete_def)

interpretation cstore: object_store containerStore_Add containerStore_Get containerStore_Delete
  containerStore_List c_ID map_of containers_inv
proof unfold_locales
  fix s :: container_store and ord :: "string list \<Rightarrow> string list"
  assume inv: "containers_inv s" and ord: "is_order ord"
  then have "distinct (keys_of s)" by (simp add: containers_inv_def)
  with inv ord show "set (containerStore_List ord s) = ran (map_of s) \<and>
      distinct (map c_ID (containerStore_List ord s))"
    by (simp add: containerStore_List_def set_range_values distinct_range_values_keys containers_invD)
qed (simp_all add: containers_inv_Add containers_inv_Delete containers_invD,
    simp_all add: containerStore_Add_def containerStore_Get_def containerStore_Delete_def split: option.split)

section \<open>The contract of a status storage\<close>

text \<open>\<^verbatim>\<open>StatusStorage\<close>: an update is one transaction, it takes effect exactly when the update
  function succeeds.\<close>

locale status_storage =
  fixes get :: "'m \<Rightarrow> Status"
    and update :: "UpdateFunc \<Rightarrow> 'm \<Rightarrow> unit result \<times> 'm"
    and delete :: "'m \<Rightarrow> unit result \<times> 'm"
  assumes update_ok: "u (get m) = Inr st \<Longrightarrow> fst (update u m) = Inr () \<and> get (snd (update u m)) = st"
    and update_failed: "u (get m) = Inl e \<Longrightarrow> update u m = (Inl e, m)"
    and delete_idempotent: "fst (delete (snd (delete m))) = fst (delete m)"
    and delete_keeps: "get (snd (delete m)) = get m"
begin

lemma get_after_update:
  "get (snd (update u m)) = (case u (get m) of Inl e \<Rightarrow> get m | Inr st \<Rightarrow> st)"
  using update_ok [of u m] update_failed [of u m] by (auto split: sum.splits)

lemma update_result: "fst (update u m) = (case u (get m) of Inl e \<Rightarrow> Inl e | Inr st \<Rightarrow> Inr ())"
  using update_ok [of u m] update_failed [of u m] by (auto split: sum.splits)

text \<open>A relation kept by the update function is kept by the transaction.\<close>

lemma update_invariant:
  assumes "\<And>st st'. u st = Inr st' \<Longrightarrow> R st st'" and "\<And>st. R st st"
  shows "R (get m) (get (snd (update u m)))"
  using assms by (simp add: get_after_update split: sum.splits)

end

interpretation sstore: status_storage statusStorage_Get statusStorage_Update statusStorage_Delete
  by unfold_locales
    (simp_all add: statusStorage_Get_def statusStorage_Update_def statusStorage_Delete_def)

section \<open>The life of a container\<close>

definition errorStartExitCode :: int32 where "errorStartExitCode = 128"
definition errorStartReason :: string where "errorStartReason = ''StartError''"
definition oomExitReason :: string where "oomExitReason = ''OOMKilled''"
definition completeExitReason :: string where "completeExitReason = ''Completed''"
definition errorExitReason :: string where "errorExitReason = ''Error''"

lemmas reason_defs = errorStartExitCode_def errorStartReason_def oomExitReason_def
  completeExitReason_def errorExitReason_def

inductive status_step :: "Status \<Rightarrow> Status \<Rightarrow> bool" where
  keep: "status_step st st"
| start_ok: "State st = CONTAINER_CREATED \<Longrightarrow> \<not> st_Removing st \<Longrightarrow>
    status_step st (st\<lparr>st_Pid := p, st_StartedAt := t\<rparr>)"
| start_failed: "State st = CONTAINER_CREATED \<Longrightarrow> \<not> st_Removing st \<Longrightarrow>
    status_step st (st\<lparr>st_Pid := 0, st_FinishedAt := t, st_ExitCode := errorStartExitCode,
      st_Reason := errorStartReason, st_Message := m\<rparr>)"
| exited: "st_FinishedAt st = 0 \<Longrightarrow>
    status_step st (st\<lparr>st_Pid := 0, st_FinishedAt := t, st_ExitCode := c\<rparr>)"
| oom: "status_step st (st\<lparr>st_Reason := oomExitReason\<rparr>)"
| set_removing: "State st \<noteq> CONTAINER_RUNNING \<Longrightarrow> \<not> st_Removing st \<Longrightarrow>
    status_step st (st\<lparr>st_Removing := True\<rparr>)"
| reset_removing: "status_step st (st\<lparr>st_Removing := False\<rparr>)"

inductive_cases status_stepE: "status_step st st'"

text \<open>The order of the states.\<close>

fun state_rank :: "ContainerState \<Rightarrow> nat" where
  "state_rank CONTAINER_UNKNOWN = 0"
| "state_rank CONTAINER_CREATED = 1"
| "state_rank CONTAINER_RUNNING = 2"
| "state_rank CONTAINER_EXITED = 3"

text \<open>What an exited container reports and never changes again.\<close>

definition exit_record :: "Status \<Rightarrow> uint32 \<times> int64 \<times> int64 \<times> int64 \<times> uint32 \<times> string" where
  "exit_record st = (st_Pid st, st_CreatedAt st, st_StartedAt st, st_FinishedAt st,
     st_ExitCode st, st_Message st)"

definition not_running_while_removing :: "Status \<Rightarrow> bool" where
  "not_running_while_removing st \<longleftrightarrow> \<not> (st_Removing st \<and> State st = CONTAINER_RUNNING)"

lemma State_split_rank: "state_rank (State st) =
  (if st_FinishedAt st \<noteq> 0 then 3 else if st_StartedAt st \<noteq> 0 then 2
   else if st_CreatedAt st \<noteq> 0 then 1 else 0)"
  by (simp add: State_def)

lemma status_step_rank: "status_step st st' \<Longrightarrow> state_rank (State st) \<le> state_rank (State st')"
  by (induction rule: status_step.induct) (auto simp: State_def split: if_splits)

lemma status_step_exit_record:
  "status_step st st' \<Longrightarrow> State st = CONTAINER_EXITED \<Longrightarrow> exit_record st' = exit_record st"
  by (induction rule: status_step.induct) (auto simp: State_def exit_record_def split: if_splits)

lemma status_step_removing:
  "status_step st st' \<Longrightarrow> not_running_while_removing st \<Longrightarrow> not_running_while_removing st'"
  by (induction rule: status_step.induct)
    (auto simp: State_def not_running_while_removing_def split: if_splits)

lemma status_step_created_at: "status_step st st' \<Longrightarrow> st_CreatedAt st' = st_CreatedAt st"
  by (induction rule: status_step.induct) auto

lemma status_steps_rank: "status_step\<^sup>*\<^sup>* st st' \<Longrightarrow> state_rank (State st) \<le> state_rank (State st')"
  by (induction rule: rtranclp_induct) (auto dest: status_step_rank)

lemma exited_rank: "State st = CONTAINER_EXITED \<longleftrightarrow> 3 \<le> state_rank (State st)"
  by (cases "State st") auto

lemma past_running: "st \<noteq> CONTAINER_RUNNING \<Longrightarrow> 2 \<le> state_rank st \<Longrightarrow> 3 \<le> state_rank st"
  by (cases st) auto

lemma status_steps_exit_record:
  assumes "status_step\<^sup>*\<^sup>* st st'" and "State st = CONTAINER_EXITED"
  shows "State st' = CONTAINER_EXITED \<and> exit_record st' = exit_record st"
  using assms(1)
proof (induction rule: rtranclp_induct)
  case base
  then show ?case using assms(2) by simp
next
  case (step y z)
  then have "State z = CONTAINER_EXITED" using status_step_rank [of y z] by (simp add: exited_rank)
  with step show ?case using status_step_exit_record [of y z] by simp
qed

lemma status_steps_removing:
  "status_step\<^sup>*\<^sup>* st st' \<Longrightarrow> not_running_while_removing st \<Longrightarrow> not_running_while_removing st'"
  by (induction rule: rtranclp_induct) (auto dest: status_step_removing)

lemma created_status_State: "t \<noteq> 0 \<Longrightarrow> State (created_status t) = CONTAINER_CREATED"
  by (simp add: State_def created_status_def)

lemma created_status_not_running: "not_running_while_removing (created_status t)"
  by (simp add: not_running_while_removing_def created_status_def)

end
