(* ===== verification/Sandbox_Store.thy ===== *)
theory Sandbox_Store
  imports Store_Spec
begin

text \<open>
  \<^verbatim>\<open>pkg/store/sandbox\<close>: the metadata of a pod sandbox and the sandbox store, an instance of the
  store contract.
\<close>

record Sandbox =
  sb_ID :: string
  sb_Name :: string
  sb_Config :: "PodSandboxConfig option"
  sb_CreatedAt :: int64
  sb_Pid :: uint32
  sb_NetNS :: string

type_synonym sandbox_store = "(string \<times> Sandbox) list"

definition sandboxStore_New :: sandbox_store where
  "sandboxStore_New = []"

definition sandboxStore_Add :: "Sandbox \<Rightarrow> sandbox_store \<Rightarrow> unit result \<times> sandbox_store" where
  "sandboxStore_Add sb s =
     (case map_of s (sb_ID sb) of
        Some _ \<Rightarrow> (Inl StoreAlreadyExist, s)
      | None \<Rightarrow> (Inr (), mset_key (sb_ID sb) sb s))"

definition sandboxStore_Get :: "string \<Rightarrow> sandbox_store \<Rightarrow> Sandbox result" where
  "sandboxStore_Get sid s =
     (case map_of s sid of Some sb \<Rightarrow> Inr sb | None \<Rightarrow> Inl StoreNotExist)"

definition sandboxStore_List :: "(string list \<Rightarrow> string list) \<Rightarrow> sandbox_store \<Rightarrow> Sandbox list" where
  "sandboxStore_List ord s = range_values ord s"

definition sandboxStore_Delete :: "string \<Rightarrow> sandbox_store \<Rightarrow> sandbox_store" where
  "sandboxStore_Delete sid s = mdel_key sid s"

lemmas sandboxStore_defs [go_defs] =
  sandboxStore_New_def sandboxStore_Add_def sandboxStore_Get_def sandboxStore_List_def
  sandboxStore_Delete_def

definition sandboxes_inv :: "sandbox_store \<Rightarrow> bool" where
  "sandboxes_inv s \<longleftrightarrow> distinct (keys_of s) \<and> (\<forall>k sb. map_of s k = Some sb \<longrightarrow> sb_ID sb = k)"

lemma sandboxes_invD: "sandboxes_inv s \<Longrightarrow> map_of s k = Some sb \<Longrightarrow> sb_ID sb = k"
  by (simp add: sandboxes_inv_def)

lemma sandboxes_inv_New [simp]: "sandboxes_inv sandboxStore_New"
  by (simp add: sandboxes_inv_def sandboxStore_New_def)

lemma sandboxes_inv_Add: "sandboxes_inv s \<Longrightarrow> sandboxes_inv (snd (sandboxStore_Add sb s))"
  by (auto simp: sandboxes_inv_def sandboxStore_Add_def split: option.splits)

lemma sandboxes_inv_Delete: "sandboxes_inv s \<Longrightarrow> sandboxes_inv (sandboxStore_Delete k s)"
  by (auto simp: sandboxes_inv_def sandboxStore_Delete_def)

interpretation sbstore: object_store sandboxStore_Add sandboxStore_Get sandboxStore_Delete
  sandboxStore_List sb_ID map_of sandboxes_inv
proof unfold_locales
  fix s :: sandbox_store and ord :: "string list \<Rightarrow> string list"
  assume inv: "sandboxes_inv s" and ord: "is_order ord"
  then have "distinct (keys_of s)" by (simp add: sandboxes_inv_def)
  with inv ord show "set (sandboxStore_List ord s) = ran (map_of s) \<and>
      distinct (map sb_ID (sandboxStore_List ord s))"
    by (simp add: sandboxStore_List_def set_range_values distinct_range_values_keys sandboxes_invD)
qed (simp_all add: sandboxes_inv_Add sandboxes_inv_Delete sandboxes_invD,
    simp_all add: sandboxStore_Add_def sandboxStore_Get_def sandboxStore_Delete_def split: option.split)

end
