(* ===== verification/Image_Store.thy ===== *)
theory Image_Store
  imports Store_Spec
begin

text \<open>
  \<^verbatim>\<open>pkg/store/image\<close>: the in-memory index of pulled images. Adding an image that is already there
  merges the tags and digests and keeps everything else of the old entry. The merge goes through
  a Go map used as a set, so the order of the merged slices is the arbitrary order of a map
  iteration (\<open>ord\<close>).
\<close>

record ImageConfig =
  ic_User :: string
  ic_Env :: "string list"
  ic_Entrypoint :: "string list"
  ic_Cmd :: "string list"
  ic_WorkingDir :: string
  ic_StopSignal :: string

record Image =
  img_ID :: string
  img_RepoTags :: "string list"
  img_RepoDigests :: "string list"
  img_ChainID :: string
  img_Size :: int64
  img_Config :: "ImageConfig option"

type_synonym image_store = "(string \<times> Image) list"

definition mergeStringSlices ::
  "(string list \<Rightarrow> string list) \<Rightarrow> string list \<Rightarrow> string list \<Rightarrow> string list" where
  "mergeStringSlices ord a b =
     (let seta = foldl (\<lambda>m s. mset_key s () m) [] a;
          setb = foldl (\<lambda>m s. mset_key s () m) seta b
      in ord (keys_of setb))"

definition imageStore_New :: image_store where
  "imageStore_New = []"

definition imageStore_Add :: "(string list \<Rightarrow> string list) \<Rightarrow> Image \<Rightarrow> image_store \<Rightarrow> image_store" where
  "imageStore_Add ord img s =
     (case map_of s (img_ID img) of
        None \<Rightarrow> mset_key (img_ID img) img s
      | Some i \<Rightarrow> mset_key (img_ID img)
          (i\<lparr>img_RepoTags := mergeStringSlices ord (img_RepoTags i) (img_RepoTags img),
             img_RepoDigests := mergeStringSlices ord (img_RepoDigests i) (img_RepoDigests img)\<rparr>) s)"

definition imageStore_Get :: "string \<Rightarrow> image_store \<Rightarrow> Image result" where
  "imageStore_Get iid s =
     (case map_of s iid of Some i \<Rightarrow> Inr i | None \<Rightarrow> Inl StoreNotExist)"

definition imageStore_List :: "(string list \<Rightarrow> string list) \<Rightarrow> image_store \<Rightarrow> Image list" where
  "imageStore_List ord s = range_values ord s"

definition imageStore_Delete :: "string \<Rightarrow> image_store \<Rightarrow> image_store" where
  "imageStore_Delete iid s = mdel_key iid s"

lemmas imageStore_defs [go_defs] =
  imageStore_New_def imageStore_Add_def imageStore_Get_def imageStore_List_def imageStore_Delete_def

section \<open>Merging is union\<close>

lemma fold_set_keys:
  "distinct (keys_of m) \<Longrightarrow> distinct (keys_of (foldl (\<lambda>m s. mset_key s () m) m xs)) \<and>
   set (keys_of (foldl (\<lambda>m s. mset_key s () m) m xs)) = set (keys_of m) \<union> set xs"
proof (induction xs arbitrary: m)
  case (Cons x xs)
  have "set (keys_of (mset_key x () m)) = insert x (set (keys_of m))"
    by (auto simp: update_keys)
  with Cons show ?case by auto
qed simp

lemma set_mergeStringSlices:
  assumes "is_order ord"
  shows "set (mergeStringSlices ord a b) = set a \<union> set b"
    and "distinct (mergeStringSlices ord a b)"
proof -
  let ?a = "foldl (\<lambda>m s. mset_key s () m) [] a"
  have a: "distinct (keys_of ?a)" "set (keys_of ?a) = set a" using fold_set_keys [of "[]" a] by auto
  from fold_set_keys [OF a(1), of b] a(2) assms
  show "set (mergeStringSlices ord a b) = set a \<union> set b" "distinct (mergeStringSlices ord a b)"
    by (simp_all add: mergeStringSlices_def Let_def is_orderD)
qed

section \<open>The invariant and the effect of the operations\<close>

definition images_inv :: "image_store \<Rightarrow> bool" where
  "images_inv s \<longleftrightarrow> distinct (keys_of s) \<and> (\<forall>k i. map_of s k = Some i \<longrightarrow> img_ID i = k)"

lemma images_inv_New [simp]: "images_inv imageStore_New"
  by (simp add: images_inv_def imageStore_New_def)

lemma images_inv_Add: "images_inv s \<Longrightarrow> images_inv (imageStore_Add ord img s)"
  by (simp add: images_inv_def imageStore_Add_def split: option.split)

lemma images_inv_Delete: "images_inv s \<Longrightarrow> images_inv (imageStore_Delete iid s)"
  by (simp add: images_inv_def imageStore_Delete_def)

lemma imageStore_Get_other [simp]:
  "k \<noteq> img_ID img \<Longrightarrow> imageStore_Get k (imageStore_Add ord img s) = imageStore_Get k s"
  by (simp add: imageStore_Get_def imageStore_Add_def split: option.split)

lemma imageStore_Get_Delete:
  "imageStore_Get k (imageStore_Delete iid s) = (if k = iid then Inl StoreNotExist else imageStore_Get k s)"
  by (simp add: imageStore_Get_def imageStore_Delete_def)

text \<open>The references an image is known by.\<close>

definition image_refs :: "Image \<Rightarrow> string set" where
  "image_refs i = set (img_RepoTags i) \<union> set (img_RepoDigests i)"

lemma imageStore_Get_Add:
  assumes "is_order ord"
  shows "\<exists>i. imageStore_Get (img_ID img) (imageStore_Add ord img s) = Inr i \<and>
    set (img_RepoTags i) = set (img_RepoTags img) \<union>
      (case map_of s (img_ID img) of Some old \<Rightarrow> set (img_RepoTags old) | None \<Rightarrow> {}) \<and>
    set (img_RepoDigests i) = set (img_RepoDigests img) \<union>
      (case map_of s (img_ID img) of Some old \<Rightarrow> set (img_RepoDigests old) | None \<Rightarrow> {}) \<and>
    img_Config i = img_Config (case map_of s (img_ID img) of Some old \<Rightarrow> old | None \<Rightarrow> img) \<and>
    img_ChainID i = img_ChainID (case map_of s (img_ID img) of Some old \<Rightarrow> old | None \<Rightarrow> img)"
  using assms
  by (cases "map_of s (img_ID img)")
    (auto simp: imageStore_Get_def imageStore_Add_def set_mergeStringSlices)

end
