(* ===== verification/Oci_Spec.thy ===== *)
theory Oci_Spec
  imports Cri_Api
begin

text \<open>
  The OCI runtime spec and the operations of the vendored spec generator
  (\<^verbatim>\<open>runtime-tools/generate\<close>) that the service calls, starting from the default spec of the
  vendored containerd client. The nested structs of the Go spec (root, process, Linux, resources)
  are all allocated by the default spec, so the fields are flattened into one record and the
  generator's lazy initialisations are no-ops; \<open>None\<close> is a nil pointer of the CPU and memory
  resources.

  One aliasing of the Go code matters and is kept: the default spec's \<open>Env\<close> slice is the
  package-level variable \<open>defaultEnv\<close> itself, and \<open>AddProcessEnv\<close> overwrites an existing entry in
  place. \<open>sp_EnvShared\<close> says that the spec's environment still lives in that variable; an
  \<open>append\<close> moves it to a fresh array. The generator state is the spec and the variable.
\<close>

record OciMount =
  om_Destination :: string
  om_Type :: string
  om_Source :: string
  om_Options :: "string list"

record LinuxDevice =
  ld_Path :: string
  ld_Type :: string
  ld_Major :: int64
  ld_Minor :: int64
  ld_UID :: uint32
  ld_GID :: uint32

record LinuxDeviceCgroup =
  dc_Allow :: bool
  dc_Type :: string
  dc_Major :: "int64 option"
  dc_Minor :: "int64 option"
  dc_Access :: string

record Caps =
  cap_Bounding :: "string list"
  cap_Effective :: "string list"
  cap_Inheritable :: "string list"
  cap_Permitted :: "string list"
  cap_Ambient :: "string list"

record Spec =
  sp_RootPath :: string
  sp_RootReadonly :: bool
  sp_Hostname :: string
  sp_Args :: "string list"
  sp_Cwd :: string
  sp_Terminal :: bool
  sp_Env :: "string list"
  sp_EnvShared :: bool
  sp_Capabilities :: Caps
  sp_AdditionalGids :: "uint32 list"
  sp_OOMScoreAdj :: "int64 option"
  sp_NoNewPrivileges :: bool
  sp_SelinuxLabel :: string
  sp_ApparmorProfile :: string
  sp_Seccomp :: bool
  sp_Mounts :: "OciMount list"
  sp_Namespaces :: "(string \<times> string) list"
  sp_CgroupsPath :: string
  sp_Sysctl :: labels
  sp_DeviceCgroups :: "LinuxDeviceCgroup list"
  sp_Devices :: "LinuxDevice list"
  sp_CPUShares :: "int64 option"
  sp_CPUQuota :: "int64 option"
  sp_CPUPeriod :: "int64 option"
  sp_MemoryLimit :: "int64 option"
  sp_ReadonlyPaths :: "string list"
  sp_MaskedPaths :: "string list"

record Gen =
  g_Spec :: Spec
  g_defaultEnv :: "string list"

abbreviation upd_spec :: "(Spec \<Rightarrow> Spec) \<Rightarrow> Gen \<Rightarrow> Gen" where
  "upd_spec f g \<equiv> g\<lparr>g_Spec := f (g_Spec g)\<rparr>"

section \<open>The default spec\<close>

text \<open>The initial value of the package variable.\<close>

definition init_defaultEnv :: "string list" where
  "init_defaultEnv = [''PATH=/usr/local/sbin:/usr/local/bin:/usr/sbin:/usr/bin:/sbin:/bin'']"

definition defaltCaps :: "string list" where
  "defaltCaps = [''CAP_CHOWN'', ''CAP_DAC_OVERRIDE'', ''CAP_FSETID'', ''CAP_FOWNER'', ''CAP_MKNOD'',
     ''CAP_NET_RAW'', ''CAP_SETGID'', ''CAP_SETUID'', ''CAP_SETFCAP'', ''CAP_SETPCAP'',
     ''CAP_NET_BIND_SERVICE'', ''CAP_SYS_CHROOT'', ''CAP_KILL'', ''CAP_AUDIT_WRITE'']"

definition defaultNamespaces :: "(string \<times> string) list" where
  "defaultNamespaces = [(''pid'', ''''), (''ipc'', ''''), (''uts'', ''''), (''mount'', ''''),
     (''network'', '''')]"

definition om :: "string \<Rightarrow> string \<Rightarrow> string \<Rightarrow> string list \<Rightarrow> OciMount" where
  "om dst ty src opts = \<lparr>om_Destination = dst, om_Type = ty, om_Source = src, om_Options = opts\<rparr>"

definition defaultMounts :: "OciMount list" where
  "defaultMounts =
     [om ''/proc'' ''proc'' ''proc'' [],
      om ''/dev'' ''tmpfs'' ''tmpfs'' [''nosuid'', ''strictatime'', ''mode=755'', ''size=65536k''],
      om ''/dev/pts'' ''devpts'' ''devpts''
        [''nosuid'', ''noexec'', ''newinstance'', ''ptmxmode=0666'', ''mode=0620'', ''gid=5''],
      om ''/dev/shm'' ''tmpfs'' ''shm'' [''nosuid'', ''noexec'', ''nodev'', ''mode=1777'', ''size=65536k''],
      om ''/dev/mqueue'' ''mqueue'' ''mqueue'' [''nosuid'', ''noexec'', ''nodev''],
      om ''/sys'' ''sysfs'' ''sysfs'' [''nosuid'', ''noexec'', ''nodev'', ''ro''],
      om ''/run'' ''tmpfs'' ''tmpfs'' [''nosuid'', ''strictatime'', ''mode=755'', ''size=65536k'']]"

definition createDefaultSpec :: "string list \<Rightarrow> Spec" where
  "createDefaultSpec denv =
     \<lparr>sp_RootPath = ''rootfs'', sp_RootReadonly = False, sp_Hostname = '''', sp_Args = [],
      sp_Cwd = ''/'', sp_Terminal = False, sp_Env = denv, sp_EnvShared = True,
      sp_Capabilities = \<lparr>cap_Bounding = defaltCaps, cap_Effective = defaltCaps,
        cap_Inheritable = defaltCaps, cap_Permitted = defaltCaps, cap_Ambient = []\<rparr>,
      sp_AdditionalGids = [], sp_OOMScoreAdj = None, sp_NoNewPrivileges = True,
      sp_SelinuxLabel = '''', sp_ApparmorProfile = '''', sp_Seccomp = False,
      sp_Mounts = defaultMounts, sp_Namespaces = defaultNamespaces, sp_CgroupsPath = '''',
      sp_Sysctl = [],
      sp_DeviceCgroups = [\<lparr>dc_Allow = False, dc_Type = '''', dc_Major = None, dc_Minor = None,
        dc_Access = ''rwm''\<rparr>],
      sp_Devices = [], sp_CPUShares = None, sp_CPUQuota = None, sp_CPUPeriod = None,
      sp_MemoryLimit = None, sp_ReadonlyPaths = [], sp_MaskedPaths = []\<rparr>"

text \<open>\<open>containerd.GenerateSpec()\<close> without options, and \<open>generate.NewFromSpec\<close>.\<close>

definition GenerateSpec :: "string list \<Rightarrow> Gen" where
  "GenerateSpec denv = \<lparr>g_Spec = createDefaultSpec denv, g_defaultEnv = denv\<rparr>"

section \<open>Generator operations\<close>

definition SetRootPath :: "string \<Rightarrow> Gen \<Rightarrow> Gen" where
  "SetRootPath p = upd_spec (sp_RootPath_update (\<lambda>_. p))"

definition SetRootReadonly :: "bool \<Rightarrow> Gen \<Rightarrow> Gen" where
  "SetRootReadonly b = upd_spec (sp_RootReadonly_update (\<lambda>_. b))"

definition SetHostname :: "string \<Rightarrow> Gen \<Rightarrow> Gen" where
  "SetHostname h = upd_spec (sp_Hostname_update (\<lambda>_. h))"

definition SetProcessArgs :: "string list \<Rightarrow> Gen \<Rightarrow> Gen" where
  "SetProcessArgs a = upd_spec (sp_Args_update (\<lambda>_. a))"

definition SetProcessCwd :: "string \<Rightarrow> Gen \<Rightarrow> Gen" where
  "SetProcessCwd d = upd_spec (sp_Cwd_update (\<lambda>_. d))"

definition SetProcessTerminal :: "bool \<Rightarrow> Gen \<Rightarrow> Gen" where
  "SetProcessTerminal b = upd_spec (sp_Terminal_update (\<lambda>_. b))"

fun find_env :: "string \<Rightarrow> string list \<Rightarrow> nat option" where
  "find_env name [] = None"
| "find_env name (e # es) =
     (if prefix (name @ ''='') e then Some 0 else map_option Suc (find_env name es))"

definition AddProcessEnv :: "string \<Rightarrow> string \<Rightarrow> Gen \<Rightarrow> Gen" where
  "AddProcessEnv name val g =
     (let env = name @ ''='' @ val; sp = g_Spec g in
      case find_env name (sp_Env sp) of
        Some idx \<Rightarrow> g\<lparr>g_Spec := sp\<lparr>sp_Env := (sp_Env sp)[idx := env]\<rparr>,
          g_defaultEnv := (if sp_EnvShared sp then (g_defaultEnv g)[idx := env] else g_defaultEnv g)\<rparr>
      | None \<Rightarrow> g\<lparr>g_Spec := sp\<lparr>sp_Env := sp_Env sp @ [env], sp_EnvShared := False\<rparr>\<rparr>)"

definition AddProcessAdditionalGid :: "uint32 \<Rightarrow> Gen \<Rightarrow> Gen" where
  "AddProcessAdditionalGid gid g =
     (if gid \<in> set (sp_AdditionalGids (g_Spec g)) then g
      else upd_spec (sp_AdditionalGids_update (\<lambda>gs. gs @ [gid])) g)"

definition SetLinuxCgroupsPath :: "string \<Rightarrow> Gen \<Rightarrow> Gen" where
  "SetLinuxCgroupsPath p = upd_spec (sp_CgroupsPath_update (\<lambda>_. p))"

definition SetProcessOOMScoreAdj :: "int64 \<Rightarrow> Gen \<Rightarrow> Gen" where
  "SetProcessOOMScoreAdj adj = upd_spec (sp_OOMScoreAdj_update (\<lambda>_. Some adj))"

definition SetLinuxResourcesCPUShares :: "int64 \<Rightarrow> Gen \<Rightarrow> Gen" where
  "SetLinuxResourcesCPUShares v = upd_spec (sp_CPUShares_update (\<lambda>_. Some v))"

definition SetLinuxResourcesCPUQuota :: "int64 \<Rightarrow> Gen \<Rightarrow> Gen" where
  "SetLinuxResourcesCPUQuota v = upd_spec (sp_CPUQuota_update (\<lambda>_. Some v))"

definition SetLinuxResourcesCPUPeriod :: "int64 \<Rightarrow> Gen \<Rightarrow> Gen" where
  "SetLinuxResourcesCPUPeriod v = upd_spec (sp_CPUPeriod_update (\<lambda>_. Some v))"

definition SetLinuxResourcesMemoryLimit :: "int64 \<Rightarrow> Gen \<Rightarrow> Gen" where
  "SetLinuxResourcesMemoryLimit v = upd_spec (sp_MemoryLimit_update (\<lambda>_. Some v))"

definition AddLinuxSysctl :: "string \<Rightarrow> string \<Rightarrow> Gen \<Rightarrow> Gen" where
  "AddLinuxSysctl k v = upd_spec (sp_Sysctl_update (mset_key k v))"

definition AddCgroupsMount :: "string \<Rightarrow> Gen \<Rightarrow> Gen" where
  "AddCgroupsMount opt = (if opt = ''ro'' \<or> opt = ''rw''
     then upd_spec (sp_Mounts_update (\<lambda>ms. ms @ [om ''/sys/fs/cgroup'' ''cgroup'' ''cgroup''
       [''nosuid'', ''noexec'', ''nodev'', ''relatime'', opt]]))
     else (\<lambda>g. g))"

definition AddBindMount :: "string \<Rightarrow> string \<Rightarrow> string list \<Rightarrow> Gen \<Rightarrow> Gen" where
  "AddBindMount source dest options =
     (let opts = (if options = [] then [''rw''] else options);
          opts' = (if ''bind'' \<in> set opts \<or> ''rbind'' \<in> set opts then opts else opts @ [''bind''])
      in upd_spec (sp_Mounts_update (\<lambda>ms. ms @ [om dest ''bind'' source opts'])))"

fun replace_device :: "LinuxDevice \<Rightarrow> LinuxDevice list \<Rightarrow> LinuxDevice list" where
  "replace_device d [] = [d]"
| "replace_device d (x # xs) = (if ld_Path x = ld_Path d then d # xs else x # replace_device d xs)"

definition AddDevice :: "LinuxDevice \<Rightarrow> Gen \<Rightarrow> Gen" where
  "AddDevice d = upd_spec (sp_Devices_update (replace_device d))"

definition known_namespaces :: "string list" where
  "known_namespaces = [''network'', ''pid'', ''mount'', ''ipc'', ''uts'', ''user'', ''cgroup'']"

fun replace_ns :: "string \<Rightarrow> string \<Rightarrow> (string \<times> string) list \<Rightarrow> (string \<times> string) list" where
  "replace_ns ty p [] = [(ty, p)]"
| "replace_ns ty p (x # xs) = (if fst x = ty then (ty, p) # xs else x # replace_ns ty p xs)"

fun remove_ns :: "string \<Rightarrow> (string \<times> string) list \<Rightarrow> (string \<times> string) list" where
  "remove_ns ty [] = []"
| "remove_ns ty (x # xs) = (if fst x = ty then xs else x # remove_ns ty xs)"

definition AddOrReplaceLinuxNamespace :: "string \<Rightarrow> string \<Rightarrow> Gen \<Rightarrow> Gen" where
  "AddOrReplaceLinuxNamespace ns p =
     (if ns \<in> set known_namespaces then upd_spec (sp_Namespaces_update (replace_ns ns p)) else (\<lambda>g. g))"

definition RemoveLinuxNamespace :: "string \<Rightarrow> Gen \<Rightarrow> Gen" where
  "RemoveLinuxNamespace ns =
     (if ns \<in> set known_namespaces then upd_spec (sp_Namespaces_update (remove_ns ns)) else (\<lambda>g. g))"

section \<open>Capabilities\<close>

definition upper_char :: "char \<Rightarrow> char" where
  "upper_char c = (let n = (of_char c :: nat) in if 97 \<le> n \<and> n \<le> 122 then char_of (n - 32) else c)"

definition strings_ToUpper :: "string \<Rightarrow> string" where
  "strings_ToUpper = map upper_char"

definition capability_List :: "string list" where
  "capability_List = [''chown'', ''dac_override'', ''dac_read_search'', ''fowner'', ''fsetid'', ''kill'',
     ''setgid'', ''setuid'', ''setpcap'', ''linux_immutable'', ''net_bind_service'', ''net_broadcast'',
     ''net_admin'', ''net_raw'', ''ipc_lock'', ''ipc_owner'', ''sys_module'', ''sys_rawio'', ''sys_chroot'',
     ''sys_ptrace'', ''sys_pacct'', ''sys_admin'', ''sys_boot'', ''sys_nice'', ''sys_resource'',
     ''sys_time'', ''sys_tty_config'', ''mknod'', ''lease'', ''audit_write'', ''audit_control'',
     ''setfcap'', ''mac_override'', ''mac_admin'', ''syslog'', ''wake_alarm'', ''block_suspend'',
     ''audit_read'']"

definition all_caps :: "string list" where
  "all_caps = map (\<lambda>c. ''CAP_'' @ strings_ToUpper c) capability_List"

definition CapValid :: "string \<Rightarrow> unit result" where
  "CapValid c =
     (if \<not> prefix ''CAP_'' c then Inl (Errorf [Lit (''capability '' @ c @ '' must start with CAP_'')])
      else if c \<in> set all_caps then Inr ()
      else Inl (Errorf [Lit (''Invalid capability: '' @ c)]))"

definition SetupPrivileged :: "bool \<Rightarrow> Gen \<Rightarrow> Gen" where
  "SetupPrivileged privileged g =
     (if privileged then upd_spec (\<lambda>sp. sp\<lparr>sp_Capabilities := \<lparr>cap_Bounding = all_caps,
        cap_Effective = all_caps, cap_Inheritable = all_caps, cap_Permitted = all_caps,
        cap_Ambient = all_caps\<rparr>, sp_SelinuxLabel := '''', sp_ApparmorProfile := '''',
        sp_Seccomp := False\<rparr>) g
      else g)"

definition has_cap :: "string \<Rightarrow> string list \<Rightarrow> bool" where
  "has_cap cp cs \<longleftrightarrow> cp \<in> set (map strings_ToUpper cs)"

text \<open>The five lists in the order of the code; the first list that already has the capability
  ends the function.\<close>

definition add_cap :: "string \<Rightarrow> Caps \<Rightarrow> Caps" where
  "add_cap cp c =
     (if has_cap cp (cap_Bounding c) then c else
      let c = c\<lparr>cap_Bounding := cap_Bounding c @ [cp]\<rparr> in
      if has_cap cp (cap_Effective c) then c else
      let c = c\<lparr>cap_Effective := cap_Effective c @ [cp]\<rparr> in
      if has_cap cp (cap_Inheritable c) then c else
      let c = c\<lparr>cap_Inheritable := cap_Inheritable c @ [cp]\<rparr> in
      if has_cap cp (cap_Permitted c) then c else
      let c = c\<lparr>cap_Permitted := cap_Permitted c @ [cp]\<rparr> in
      if has_cap cp (cap_Ambient c) then c else
      c\<lparr>cap_Ambient := cap_Ambient c @ [cp]\<rparr>)"

definition AddProcessCapability :: "string \<Rightarrow> Gen \<Rightarrow> Gen result" where
  "AddProcessCapability c g =
     (let cp = strings_ToUpper c in
      case CapValid cp of
        Inl e \<Rightarrow> Inl e
      | Inr _ \<Rightarrow> Inr (upd_spec (sp_Capabilities_update (add_cap cp)) g))"

text \<open>
  \<open>for i, cap := range s { if cap == cp { s = append(s[:i], s[i+1:]...) } }\<close>: the loop runs over the
  indices of the slice it started with, and each deletion shifts the shared array \<open>arr\<close> to the
  left within the current length \<open>m\<close>. \<open>None\<close> is the slice bounds panic of \<open>s[i+1:]\<close>.
\<close>

definition shift_left :: "nat \<Rightarrow> nat \<Rightarrow> string list \<Rightarrow> string list" where
  "shift_left i m arr = take i arr @ drop (Suc i) (take m arr) @ drop (m - 1) arr"

fun drop_cap_loop :: "string \<Rightarrow> nat list \<Rightarrow> nat \<Rightarrow> string list \<Rightarrow> (nat \<times> string list) option" where
  "drop_cap_loop cp [] m arr = Some (m, arr)"
| "drop_cap_loop cp (i # is) m arr =
     (if strings_ToUpper (arr ! i) = cp then
        (if Suc i \<le> m then drop_cap_loop cp is (m - 1) (shift_left i m arr) else None)
      else drop_cap_loop cp is m arr)"

definition drop_cap :: "string \<Rightarrow> string list \<Rightarrow> string list option" where
  "drop_cap cp xs =
     map_option (\<lambda>(m, arr). take m arr) (drop_cap_loop cp [0..<length xs] (length xs) xs)"

text \<open>The outer \<open>option\<close> is the panic, the inner result the error of the validity check.\<close>

definition DropProcessCapability :: "string \<Rightarrow> Gen \<Rightarrow> Gen result option" where
  "DropProcessCapability c g =
     (let cp = strings_ToUpper c in
      case CapValid cp of
        Inl e \<Rightarrow> Some (Inl e)
      | Inr _ \<Rightarrow>
         (let k = sp_Capabilities (g_Spec g) in
          case (drop_cap cp (cap_Bounding k), drop_cap cp (cap_Effective k),
                drop_cap cp (cap_Inheritable k), drop_cap cp (cap_Permitted k),
                drop_cap cp (cap_Ambient k)) of
            (Some b, Some e, Some i, Some p, Some a) \<Rightarrow>
              Some (Inr (upd_spec (sp_Capabilities_update (\<lambda>_. \<lparr>cap_Bounding = b, cap_Effective = e,
                cap_Inheritable = i, cap_Permitted = p, cap_Ambient = a\<rparr>)) g))
          | _ \<Rightarrow> None))"

lemmas gen_defs = SetRootPath_def SetRootReadonly_def SetHostname_def SetProcessArgs_def
  SetProcessCwd_def SetProcessTerminal_def AddProcessAdditionalGid_def SetLinuxCgroupsPath_def
  SetProcessOOMScoreAdj_def SetLinuxResourcesCPUShares_def SetLinuxResourcesCPUQuota_def
  SetLinuxResourcesCPUPeriod_def SetLinuxResourcesMemoryLimit_def AddLinuxSysctl_def
  AddCgroupsMount_def AddBindMount_def AddDevice_def AddOrReplaceLinuxNamespace_def
  RemoveLinuxNamespace_def SetupPrivileged_def

section \<open>Dropping a capability removes it\<close>

lemma drop_cap_loop_none:
  "\<forall>i \<in> set is. strings_ToUpper (arr ! i) \<noteq> cp \<Longrightarrow> drop_cap_loop cp is m arr = Some (m, arr)"
  by (induction "is") auto

lemma drop_cap_loop_append_none:
  "\<forall>i \<in> set is. strings_ToUpper (arr ! i) \<noteq> cp \<Longrightarrow>
   drop_cap_loop cp (is @ js) m arr = drop_cap_loop cp js m arr"
  by (induction "is") auto

lemma shift_left_eq: "shift_left (length ys) (length (ys @ c # zs)) (ys @ c # zs) =
    ys @ zs @ [last (c # zs)]"
proof -
  have "drop (length ys + length zs) (ys @ c # zs) = drop (length zs) (c # zs)" by simp
  also have "\<dots> = [last (c # zs)]"
    by (induction zs arbitrary: c) auto
  finally show ?thesis by (simp add: shift_left_def)
qed

text \<open>What is left to visit after an element was cut out: the elements behind it, and the last one twice.\<close>

lemma shifted_nth_mem:
  assumes "length ys < i" and "i \<le> length ys + length zs"
  shows "(ys @ zs @ [last (c # zs)]) ! i \<in> set zs"
proof -
  from assms have "zs \<noteq> []" by auto
  have "(ys @ zs @ [last (c # zs)]) ! i = (zs @ [last (c # zs)]) ! (i - length ys)" using assms by (simp add: nth_append)
  also have "\<dots> \<in> set (zs @ [last zs])"
    using assms \<open>zs \<noteq> []\<close> nth_mem [of "i - length ys" "zs @ [last zs]"] by simp
  also have "\<dots> = set zs" using \<open>zs \<noteq> []\<close> by auto
  finally show ?thesis .
qed

lemma drop_cap_distinct:
  assumes "distinct (map strings_ToUpper xs)"
  shows "drop_cap cp xs = Some (filter (\<lambda>c. strings_ToUpper c \<noteq> cp) xs)"
proof (cases "cp \<in> strings_ToUpper ` set xs")
  case False
  then have "\<forall>i \<in> set [0..<length xs]. strings_ToUpper (xs ! i) \<noteq> cp" by auto
  moreover have "filter (\<lambda>c. strings_ToUpper c \<noteq> cp) xs = xs"
    by (rule filter_True) (use False in auto)
  ultimately show ?thesis by (simp add: drop_cap_def drop_cap_loop_none)
next
  case True
  then obtain ys c zs where xs: "xs = ys @ c # zs" and c: "strings_ToUpper c = cp"
    by (auto dest: split_list)
  with assms have ys: "\<forall>y \<in> set ys. strings_ToUpper y \<noteq> cp"
    and zs: "\<forall>z \<in> set zs. strings_ToUpper z \<noteq> cp" by (auto simp: image_iff)
  have range: "[0..<length xs] = [0..<length ys] @ length ys # [Suc (length ys)..<length xs]"
  proof -
    have "[0..<length xs] = [0..<length ys] @ [length ys..<length xs]"
      using xs upt_add_eq_append [of 0 "length ys" "Suc (length zs)"] by (simp del: upt_Suc)
    also have "[length ys..<length xs] = length ys # [Suc (length ys)..<length xs]"
      using xs by (intro upt_conv_Cons) simp
    finally show ?thesis .
  qed
  let ?arr = "ys @ zs @ [last (c # zs)]"
  have later: "\<forall>i \<in> set [Suc (length ys)..<length xs]. strings_ToUpper (?arr ! i) \<noteq> cp"
  proof
    fix i
    assume "i \<in> set [Suc (length ys)..<length xs]"
    then have "?arr ! i \<in> set zs" using xs by (intro shifted_nth_mem) auto
    then show "strings_ToUpper (?arr ! i) \<noteq> cp" using zs by blast
  qed
  have "drop_cap_loop cp [0..<length xs] (length xs) xs
      = drop_cap_loop cp (length ys # [Suc (length ys)..<length xs]) (length xs) xs"
    unfolding range by (rule drop_cap_loop_append_none) (use ys in \<open>auto simp: xs nth_append\<close>)
  also have "\<dots> = drop_cap_loop cp [Suc (length ys)..<length xs] (length xs - 1) ?arr"
    using c shift_left_eq [of ys c zs] by (simp add: xs nth_append)
  also have "\<dots> = Some (length xs - 1, ?arr)" using later by (rule drop_cap_loop_none)
  finally show ?thesis using ys zs c by (simp add: drop_cap_def xs)
qed

text \<open>
  C27: Dropping a capability by deleting from the slice that is being iterated over gives the
  same list as filtering it, and never runs past the end of the slice, when no capability is
  listed twice.
\<close>

theorem drop_cap_filter:
  assumes "distinct (map strings_ToUpper xs)"
  shows "drop_cap cp xs = Some (filter (\<lambda>c. strings_ToUpper c \<noteq> cp) xs)"
  using assms by (rule drop_cap_distinct)

end
