(* ===== verification/Service.thy ===== *)
theory Service
  imports Registrar Container_Store Sandbox_Store Image_Store Oci_Spec
begin

text \<open>
  The service object \<^verbatim>\<open>criContainerdService\<close>: its in-memory state (the three stores, the two name
  indices and the heap of container statuses) and everything it talks to. What is outside the
  program (the clock, the id generator, the order of map iterations, the operating system, the
  gRPC services of containerd, the CNI plugin, libraries) is a record of functions \<open>env\<close> over a
  world \<open>'w\<close> nothing is assumed of. Every call of it is one atomic action that may change the
  world and returns a result or an error.
  \<open>svc_inv\<close> is the invariant of the in-memory state, \<open>svc_step\<close> what one atomic action of the
  service may do to it; the leaf lemmas say that every action of the service keeps to it.
\<close>

datatype TaskStatus = StatusUnknown | StatusCreated | StatusRunning | StatusStopped | StatusPaused

record Task =
  tk_ID :: string
  tk_Pid :: uint32
  tk_Status :: TaskStatus

record TaskExit =
  te_ContainerID :: string
  te_ID :: string
  te_Pid :: uint32
  te_ExitStatus :: uint32
  te_ExitedAt :: int64

text \<open>An event envelope by the type its type URL names; unmarshalling the payload may fail.\<close>

datatype Envelope =
    EvTaskExit "TaskExit result"
  | EvTaskOOM "string result"
  | EvOther "unit result"

record Descriptor =
  d_MediaType :: string
  d_Digest :: string

record CreateTaskRequest =
  ct_ContainerID :: string
  ct_Rootfs :: "OciMount list"
  ct_Stdin :: string
  ct_Stdout :: string
  ct_Stderr :: string
  ct_Terminal :: bool

record KillRequest =
  kr_ContainerID :: string
  kr_Signal :: uint32
  kr_All :: bool

record ContainerdContainer =
  cd_ID :: string
  cd_Image :: string
  cd_Runtime :: string
  cd_TypeUrl :: string
  cd_Spec :: string
  cd_RootFS :: string

record HostDevice =
  hd_Path :: string
  hd_Type :: string
  hd_Major :: int64
  hd_Minor :: int64
  hd_Uid :: uint32
  hd_Gid :: uint32
  hd_Permissions :: string

text \<open>A parsed image reference of \<^verbatim>\<open>docker/distribution/reference\<close>: it is a \<open>NamedTagged\<close> when it has
  a tag and a \<open>Canonical\<close> when it has a digest.\<close>

record Named =
  nm_Name :: string
  nm_Tag :: "string option"
  nm_Digest :: "string option"

text \<open>What a \<open>select\<close> over a poll ticker, a timer and the request context delivers.\<close>

datatype Select = Tick | TimerFired | CtxDone

type_synonym handle = nat
type_synonym ('w, 'a) call = "'w \<Rightarrow> 'a result \<times> 'w"

record 'w env =
  time_Now :: "'w \<Rightarrow> int64 \<times> 'w"
  stringid_Generate :: "'w \<Rightarrow> string \<times> 'w"
  map_order :: "'w \<Rightarrow> (string list \<Rightarrow> string list) \<times> 'w"
  select_wait :: "int64 \<Rightarrow> 'w \<Rightarrow> Select \<times> 'w"
  select_ctx :: "'w \<Rightarrow> bool \<times> 'w"
  os_MkdirAll :: "string \<Rightarrow> nat \<Rightarrow> ('w, unit) call"
  os_RemoveAll :: "string \<Rightarrow> ('w, unit) call"
  os_OpenFifo :: "string \<Rightarrow> nat \<Rightarrow> nat \<Rightarrow> ('w, handle) call"
  os_Close :: "handle \<Rightarrow> ('w, unit) call"
  os_Stat :: "string \<Rightarrow> ('w, unit) call"
  os_Open :: "string \<Rightarrow> ('w, handle) call"
  os_OpenFile :: "string \<Rightarrow> nat \<Rightarrow> nat \<Rightarrow> ('w, handle) call"
  io_Copy :: "handle \<Rightarrow> handle \<Rightarrow> ('w, unit) call"
  os_WriteFile :: "string \<Rightarrow> string \<Rightarrow> nat \<Rightarrow> ('w, unit) call"
  os_Mount :: "string \<Rightarrow> string \<Rightarrow> string \<Rightarrow> nat \<Rightarrow> string \<Rightarrow> ('w, unit) call"
  mount_Mounted :: "string \<Rightarrow> ('w, bool) call"
  unix_Unmount :: "string \<Rightarrow> nat \<Rightarrow> ('w, unit) call"
  os_OpenLog :: "string \<Rightarrow> ('w, handle) call"
  os_Lstat_IsSymlink :: "string \<Rightarrow> ('w, bool) call"
  filepath_EvalSymlinks :: "string \<Rightarrow> ('w, string) call"
  devices_HostDevices :: "('w, HostDevice list) call"
  devices_DeviceFromPath :: "string \<Rightarrow> string \<Rightarrow> ('w, HostDevice) call"
  json_Marshal :: "Spec \<Rightarrow> string result"
  signal_ParseSignal :: "string \<Rightarrow> uint32 result"
  containers_Create :: "ContainerdContainer \<Rightarrow> ('w, unit) call"
  containers_Delete :: "string \<Rightarrow> ('w, unit) call"
  tasks_Create :: "CreateTaskRequest \<Rightarrow> ('w, uint32) call"
  tasks_Start :: "string \<Rightarrow> ('w, unit) call"
  tasks_Get :: "string \<Rightarrow> ('w, Task) call"
  tasks_List :: "('w, Task list) call"
  tasks_Kill :: "KillRequest \<Rightarrow> ('w, unit) call"
  tasks_Delete :: "string \<Rightarrow> ('w, unit) call"
  snapshots_View :: "string \<Rightarrow> string \<Rightarrow> ('w, OciMount list) call"
  snapshots_Prepare :: "string \<Rightarrow> string \<Rightarrow> ('w, OciMount list) call"
  snapshots_Mounts :: "string \<Rightarrow> ('w, OciMount list) call"
  snapshots_Remove :: "string \<Rightarrow> ('w, unit) call"
  images_Get :: "string \<Rightarrow> ('w, Descriptor) call"
  images_Create :: "string \<Rightarrow> Descriptor \<Rightarrow> ('w, unit) call"
  images_Update :: "string \<Rightarrow> Descriptor \<Rightarrow> ('w, unit) call"
  images_Delete :: "string \<Rightarrow> ('w, unit) call"
  image_ConfigDigest :: "Descriptor \<Rightarrow> ('w, string) call"
  digest_Parse :: "string \<Rightarrow> unit result"
  image_RootFS :: "Descriptor \<Rightarrow> ('w, string list) call"
  image_Size :: "Descriptor \<Rightarrow> ('w, int64) call"
  reference_ParseNormalizedNamed :: "string \<Rightarrow> Named result"
  reference_WithName :: "string \<Rightarrow> Named result"
  reference_WithDigest :: "Named \<Rightarrow> string \<Rightarrow> Named result"
  resolver_Resolve :: "string \<Rightarrow> (string \<times> string) result \<Rightarrow> ('w, Descriptor) call"
  resolver_Fetcher :: "string \<Rightarrow> ('w, unit) call"
  images_Dispatch :: "Descriptor \<Rightarrow> 'w \<Rightarrow> (Descriptor list \<times> unit result) \<times> 'w"
  remotes_MakeRefKey :: "Descriptor \<Rightarrow> string"
  schema1_Convert :: "Descriptor \<Rightarrow> ('w, Descriptor) call"
  content_ListStatuses :: "('w, string list) call"
  content_ReadBlob :: "string \<Rightarrow> ('w, string) call"
  json_UnmarshalManifest :: "string \<Rightarrow> Descriptor list result"
  json_DecodeImage :: "string \<Rightarrow> ImageConfig result"
  identity_ChainID :: "string list \<Rightarrow> string"
  rootfs_ApplyLayers :: "(Descriptor \<times> Descriptor) list \<Rightarrow> ('w, unit) call"
  client_LoadContainer :: "string \<Rightarrow> ('w, unit) call"
  container_Spec :: "string \<Rightarrow> ('w, Spec) call"
  container_Task :: "string \<Rightarrow> ('w, unit) call"
  task_Exec :: "string \<Rightarrow> string \<Rightarrow> Spec \<Rightarrow> ('w, unit) call"
  process_Start :: "string \<Rightarrow> string \<Rightarrow> ('w, unit) call"
  process_Delete :: "string \<Rightarrow> string \<Rightarrow> ('w, unit) call"
  process_IOWait :: "string \<Rightarrow> string \<Rightarrow> 'w \<Rightarrow> (string \<times> string) \<times> 'w"
  streamServer_GetExec :: "string \<Rightarrow> string list \<Rightarrow> bool \<Rightarrow> bool \<Rightarrow> ('w, string) call"
  health_Check :: "('w, bool) call"
  version_Version :: "('w, string) call"
  events_Subscribe :: "('w, handle) call"
  events_Cancel :: "handle \<Rightarrow> ('w, unit) call"
  events_Recv :: "handle \<Rightarrow> ('w, Envelope) call"
  cni_SetUpPod :: "string \<Rightarrow> string \<Rightarrow> string \<Rightarrow> string \<Rightarrow> ('w, unit) call"
  cni_TearDownPod :: "string \<Rightarrow> string \<Rightarrow> string \<Rightarrow> string \<Rightarrow> ('w, unit) call"
  cni_NetworkStatus :: "string \<Rightarrow> string \<Rightarrow> string \<Rightarrow> string \<Rightarrow> ('w, string) call"
  cni_Status :: "('w, unit) call"

record svc =
  rootDir :: string
  sandboxImage :: string
  sandboxStore :: sandbox_store
  sandboxNameIndex :: Registrar
  containerStore :: container_store
  containerNameIndex :: Registrar
  imageStore :: image_store
  statuses :: "Status list"
  defaultEnv :: "string list"

record 'w st = svc +
  world :: 'w

type_synonym ('w, 'a) act = "('w st, goerror, 'a) go"

definition init_svc :: "string \<Rightarrow> 'w \<Rightarrow> 'w st" where
  "init_svc dir w =
     \<lparr>rootDir = dir, sandboxImage = ''gcr.io/google_containers/pause:3.0'',
      sandboxStore = sandboxStore_New, sandboxNameIndex = NewRegistrar,
      containerStore = containerStore_New, containerNameIndex = NewRegistrar,
      imageStore = imageStore_New, statuses = [], defaultEnv = init_defaultEnv, world = w\<rparr>"

section \<open>Atomic actions\<close>

definition of_result :: "'a result \<Rightarrow> (goerror, 'a) outcome" where
  "of_result r = (case r of Inl e \<Rightarrow> Err e | Inr x \<Rightarrow> Ok x)"

lemma of_result_simps [simp]: "of_result (Inl e) = Err e" "of_result (Inr x) = Ok x"
  by (simp_all add: of_result_def)

text \<open>A call of something outside the program.\<close>

definition ext :: "('w, 'a) call \<Rightarrow> ('w, 'a) act" where
  "ext f = atomic (\<lambda>s. case f (world s) of (r, w) \<Rightarrow> (of_result r, s\<lparr>world := w\<rparr>))"

definition ext_val :: "('w \<Rightarrow> 'a \<times> 'w) \<Rightarrow> ('w, 'a) act" where
  "ext_val f = atomic (\<lambda>s. case f (world s) of (x, w) \<Rightarrow> (Ok x, s\<lparr>world := w\<rparr>))"

text \<open>\<^verbatim>\<open>RealOS\<close> of \<^verbatim>\<open>pkg/os/os.go\<close>: the operations that only forward to a library.\<close>

abbreviation RealOS_MkdirAll :: "'w env \<Rightarrow> string \<Rightarrow> nat \<Rightarrow> ('w, unit) act" where
  "RealOS_MkdirAll env path perm \<equiv> ext (os_MkdirAll env path perm)"

abbreviation RealOS_RemoveAll :: "'w env \<Rightarrow> string \<Rightarrow> ('w, unit) act" where
  "RealOS_RemoveAll env path \<equiv> ext (os_RemoveAll env path)"

abbreviation RealOS_OpenFifo :: "'w env \<Rightarrow> string \<Rightarrow> nat \<Rightarrow> nat \<Rightarrow> ('w, handle) act" where
  "RealOS_OpenFifo env fn flag perm \<equiv> ext (os_OpenFifo env fn flag perm)"

abbreviation RealOS_Stat :: "'w env \<Rightarrow> string \<Rightarrow> ('w, unit) act" where
  "RealOS_Stat env name \<equiv> ext (os_Stat env name)"

abbreviation RealOS_WriteFile :: "'w env \<Rightarrow> string \<Rightarrow> string \<Rightarrow> nat \<Rightarrow> ('w, unit) act" where
  "RealOS_WriteFile env filename data perm \<equiv> ext (os_WriteFile env filename data perm)"

abbreviation RealOS_Mount :: "'w env \<Rightarrow> string \<Rightarrow> string \<Rightarrow> string \<Rightarrow> nat \<Rightarrow> string \<Rightarrow> ('w, unit) act" where
  "RealOS_Mount env source target fstype flags data \<equiv> ext (os_Mount env source target fstype flags data)"

text \<open>A value computed from the service state without changing it.\<close>

definition gets :: "('w st \<Rightarrow> 'a) \<Rightarrow> ('w, 'a) act" where
  "gets f = atomic (\<lambda>s. (Ok (f s), s))"

definition ret :: "'a \<Rightarrow> ('w, 'a) act" where
  "ret x = Ret (Ok x)"

definition fail :: "goerror \<Rightarrow> ('w, 'a) act" where
  "fail e = Ret (Err e)"

definition lift_result :: "'a result \<Rightarrow> ('w, 'a) act" where
  "lift_result r = Ret (of_result r)"

text \<open>The lock-protected operations of the stores and the name indices.\<close>

definition cstore_Get :: "string \<Rightarrow> ('w, Container) act" where
  "cstore_Get cid = atomic (\<lambda>s. (of_result (containerStore_Get cid (containerStore s)), s))"

definition cstore_Add :: "Container \<Rightarrow> ('w, unit) act" where
  "cstore_Add c = atomic (\<lambda>s. case containerStore_Add c (containerStore s) of
     (r, m) \<Rightarrow> (of_result r, s\<lparr>containerStore := m\<rparr>))"

definition cstore_Delete :: "string \<Rightarrow> ('w, unit) act" where
  "cstore_Delete cid = atomic (\<lambda>s. (Ok (), s\<lparr>containerStore := containerStore_Delete cid (containerStore s)\<rparr>))"

definition cstore_List :: "'w env \<Rightarrow> ('w, Container list) act" where
  "cstore_List env = bindE (ext_val (map_order env)) (\<lambda>ord. gets (\<lambda>s. containerStore_List ord (containerStore s)))"

definition sbstore_Get :: "string \<Rightarrow> ('w, Sandbox) act" where
  "sbstore_Get sid = atomic (\<lambda>s. (of_result (sandboxStore_Get sid (sandboxStore s)), s))"

definition sbstore_Add :: "Sandbox \<Rightarrow> ('w, unit) act" where
  "sbstore_Add sb = atomic (\<lambda>s. case sandboxStore_Add sb (sandboxStore s) of
     (r, m) \<Rightarrow> (of_result r, s\<lparr>sandboxStore := m\<rparr>))"

definition sbstore_Delete :: "string \<Rightarrow> ('w, unit) act" where
  "sbstore_Delete sid = atomic (\<lambda>s. (Ok (), s\<lparr>sandboxStore := sandboxStore_Delete sid (sandboxStore s)\<rparr>))"

definition sbstore_List :: "'w env \<Rightarrow> ('w, Sandbox list) act" where
  "sbstore_List env = bindE (ext_val (map_order env)) (\<lambda>ord. gets (\<lambda>s. sandboxStore_List ord (sandboxStore s)))"

definition istore_Get :: "string \<Rightarrow> ('w, Image) act" where
  "istore_Get iid = atomic (\<lambda>s. (of_result (imageStore_Get iid (imageStore s)), s))"

definition istore_Add :: "'w env \<Rightarrow> Image \<Rightarrow> ('w, unit) act" where
  "istore_Add env img = bindE (ext_val (map_order env)) (\<lambda>ord.
     atomic (\<lambda>s. (Ok (), s\<lparr>imageStore := imageStore_Add ord img (imageStore s)\<rparr>)))"

definition istore_Delete :: "string \<Rightarrow> ('w, unit) act" where
  "istore_Delete iid = atomic (\<lambda>s. (Ok (), s\<lparr>imageStore := imageStore_Delete iid (imageStore s)\<rparr>))"

definition istore_List :: "'w env \<Rightarrow> ('w, Image list) act" where
  "istore_List env = bindE (ext_val (map_order env)) (\<lambda>ord. gets (\<lambda>s. imageStore_List ord (imageStore s)))"

definition cname_Reserve :: "string \<Rightarrow> string \<Rightarrow> ('w, unit) act" where
  "cname_Reserve n k = atomic (\<lambda>s. case Reserve n k (containerNameIndex s) of
     (r, m) \<Rightarrow> (of_result r, s\<lparr>containerNameIndex := m\<rparr>))"

definition cname_ReleaseByName :: "string \<Rightarrow> ('w, unit) act" where
  "cname_ReleaseByName n = atomic (\<lambda>s. (Ok (), s\<lparr>containerNameIndex := ReleaseByName n (containerNameIndex s)\<rparr>))"

definition cname_ReleaseByKey :: "string \<Rightarrow> ('w, unit) act" where
  "cname_ReleaseByKey k = atomic (\<lambda>s. (Ok (), s\<lparr>containerNameIndex := ReleaseByKey k (containerNameIndex s)\<rparr>))"

definition sname_Reserve :: "string \<Rightarrow> string \<Rightarrow> ('w, unit) act" where
  "sname_Reserve n k = atomic (\<lambda>s. case Reserve n k (sandboxNameIndex s) of
     (r, m) \<Rightarrow> (of_result r, s\<lparr>sandboxNameIndex := m\<rparr>))"

definition sname_ReleaseByName :: "string \<Rightarrow> ('w, unit) act" where
  "sname_ReleaseByName n = atomic (\<lambda>s. (Ok (), s\<lparr>sandboxNameIndex := ReleaseByName n (sandboxNameIndex s)\<rparr>))"

definition sname_ReleaseByKey :: "string \<Rightarrow> ('w, unit) act" where
  "sname_ReleaseByKey k = atomic (\<lambda>s. (Ok (), s\<lparr>sandboxNameIndex := ReleaseByKey k (sandboxNameIndex s)\<rparr>))"

text \<open>\<open>NewContainer\<close>: a fresh status object on the heap. \<open>container.Status.Get()\<close>,
  \<open>container.Status.Update(u)\<close>; a nil status panics.\<close>

definition NewContainer :: "ContainerMeta \<Rightarrow> Status \<Rightarrow> ('w, Container) act" where
  "NewContainer meta status = atomic (\<lambda>s. case StoreStatus (md_ID meta) status (statuses s) of
     (Inl e, m) \<Rightarrow> (Err e, s\<lparr>statuses := m\<rparr>)
   | (Inr i, m) \<Rightarrow> (Ok \<lparr>c_Metadata = meta, c_Status = Some i\<rparr>, s\<lparr>statuses := m\<rparr>))"

definition status_Get :: "Container \<Rightarrow> ('w, Status) act" where
  "status_Get c = atomic (\<lambda>s. case c_Status c of
     Some i \<Rightarrow> (if i < length (statuses s) then (Ok (statusStorage_Get (statuses s ! i)), s) else (Panic, s))
   | None \<Rightarrow> (Panic, s))"

definition status_Update :: "Container \<Rightarrow> UpdateFunc \<Rightarrow> ('w, unit) act" where
  "status_Update c u = atomic (\<lambda>s. case c_Status c of
     Some i \<Rightarrow> (if i < length (statuses s) then
         (case statusStorage_Update u (statuses s ! i) of
            (r, st) \<Rightarrow> (of_result r, s\<lparr>statuses := (statuses s)[i := st]\<rparr>))
       else (Panic, s))
   | None \<Rightarrow> (Panic, s))"

text \<open>\<open>container.Delete()\<close>: the checkpoint of the status, which is not on disk yet.\<close>

definition container_Delete :: "Container \<Rightarrow> ('w, unit) act" where
  "container_Delete c = atomic (\<lambda>s. case c_Status c of
     Some i \<Rightarrow> (if i < length (statuses s) then
         (case statusStorage_Delete (statuses s ! i) of
            (r, st) \<Rightarrow> (of_result r, s\<lparr>statuses := (statuses s)[i := st]\<rparr>))
       else (Panic, s))
   | None \<Rightarrow> (Panic, s))"

text \<open>An update whose function itself calls the outside: it holds the status lock until it
  returns, so it is one transaction. It always yields the new status and reports its own error
  beside it.\<close>

definition status_UpdateTx ::
  "Container \<Rightarrow> (Status \<Rightarrow> ('w, goerror option \<times> Status) act) \<Rightarrow> ('w, goerror option) act" where
  "status_UpdateTx c body = atomic (\<lambda>s. case c_Status c of
     Some i \<Rightarrow> (if i < length (statuses s) then
         (case run (body (statuses s ! i)) s of
            (Ok (e, st), s') \<Rightarrow> (Ok e, s'\<lparr>statuses := (statuses s')[i := st]\<rparr>)
          | (Err e, s') \<Rightarrow> (Err e, s') | (Panic, s') \<Rightarrow> (Panic, s') | (Diverge, s') \<Rightarrow> (Diverge, s'))
       else (Panic, s))
   | None \<Rightarrow> (Panic, s))"

lemmas act_defs [go_defs] = ext_def ext_val_def gets_def ret_def fail_def lift_result_def
  cstore_Get_def cstore_Add_def cstore_Delete_def cstore_List_def
  sbstore_Get_def sbstore_Add_def sbstore_Delete_def sbstore_List_def
  istore_Get_def istore_Add_def istore_Delete_def istore_List_def
  cname_Reserve_def cname_ReleaseByName_def cname_ReleaseByKey_def
  sname_Reserve_def sname_ReleaseByName_def sname_ReleaseByKey_def
  NewContainer_def StoreStatus_def status_Get_def status_Update_def container_Delete_def status_UpdateTx_def

end
