(* ===== verification/Service_Inv.thy ===== *)
theory Service_Inv
  imports Service
begin

text \<open>
  The invariant of the service's in-memory state and the guarantee of its atomic actions.
  \<open>svc_step s s'\<close> is what any single action of any goroutine of the service may do: keep the
  invariant, move every status along its life (\<open>status_step\<close>) and leave the configuration as it
  is. The lemmas of the collection \<open>svc_guar\<close> show it for each kind of action; together with
  \<open>guar_intros\<close> they reduce the guarantee of a whole handler to a walk over its text.
\<close>

named_theorems svc_guar \<open>guarantees of the atomic actions of the service\<close>

definition status_rel :: "Status list \<Rightarrow> Status list \<Rightarrow> bool" where
  "status_rel xs ys \<longleftrightarrow> length xs \<le> length ys \<and>
     (\<forall>i < length xs. status_step\<^sup>*\<^sup>* (xs ! i) (ys ! i)) \<and>
     (\<forall>i < length ys. length xs \<le> i \<longrightarrow> not_running_while_removing (ys ! i))"

definition svc_inv :: "'w st \<Rightarrow> bool" where
  "svc_inv s \<longleftrightarrow> registrar_inv (containerNameIndex s) \<and> registrar_inv (sandboxNameIndex s) \<and>
     containers_inv (containerStore s) \<and> sandboxes_inv (sandboxStore s) \<and>
     images_inv (imageStore s) \<and> (\<forall>st \<in> set (statuses s). not_running_while_removing st)"

text \<open>What any number of actions does, and what one action does to the entries of the two stores:
  an entry may come or go, but it is never replaced.\<close>

definition svc_rel :: "'w st \<Rightarrow> 'w st \<Rightarrow> bool" where
  "svc_rel s s' \<longleftrightarrow> (svc_inv s \<longrightarrow> svc_inv s') \<and> status_rel (statuses s) (statuses s') \<and>
     rootDir s' = rootDir s \<and> sandboxImage s' = sandboxImage s"

definition entries_kept :: "('k \<rightharpoonup> 'v) \<Rightarrow> ('k \<rightharpoonup> 'v) \<Rightarrow> bool" where
  "entries_kept m m' \<longleftrightarrow> (\<forall>k. m' k = m k \<or> m k = None \<or> m' k = None)"

definition svc_step :: "'w st \<Rightarrow> 'w st \<Rightarrow> bool" where
  "svc_step s s' \<longleftrightarrow> svc_rel s s' \<and>
     entries_kept (map_of (containerStore s)) (map_of (containerStore s')) \<and>
     entries_kept (map_of (sandboxStore s)) (map_of (sandboxStore s'))"

text \<open>Actions that change nothing but the outside.\<close>

definition world_only :: "'w st \<Rightarrow> 'w st \<Rightarrow> bool" where
  "world_only s s' \<longleftrightarrow> (\<exists>w. s' = s\<lparr>world := w\<rparr>)"

lemma svc_inv_init [simp]: "svc_inv (init_svc dir w)"
  by (simp add: svc_inv_def init_svc_def imageStore_New_def images_inv_def)

lemma status_rel_refl [simp]: "status_rel xs xs"
  by (simp add: status_rel_def)

lemma status_rel_update:
  assumes "i < length xs" and "status_step\<^sup>*\<^sup>* (xs ! i) st"
  shows "status_rel xs (xs[i := st])"
  using assms by (auto simp: status_rel_def nth_list_update)

lemma status_rel_append: "not_running_while_removing st \<Longrightarrow> status_rel xs (xs @ [st])"
  by (auto simp: status_rel_def nth_append)

lemma status_rel_removing:
  assumes "status_rel xs ys" and "\<forall>st \<in> set xs. not_running_while_removing st"
  shows "\<forall>st \<in> set ys. not_running_while_removing st"
proof
  fix st
  assume "st \<in> set ys"
  then obtain i where i: "i < length ys" "st = ys ! i" by (auto simp: in_set_conv_nth)
  show "not_running_while_removing st"
  proof (cases "i < length xs")
    case True
    with assms i show ?thesis
      by (auto simp: status_rel_def intro: status_steps_removing)
  next
    case False
    with assms(1) i show ?thesis by (simp add: status_rel_def)
  qed
qed

lemma status_rel_trans:
  assumes "status_rel xs ys" and "status_rel ys zs"
  shows "status_rel xs zs"
  unfolding status_rel_def
proof (intro conjI allI impI)
  show "length xs \<le> length zs" using assms by (simp add: status_rel_def)
next
  fix i
  assume "i < length xs"
  with assms show "status_step\<^sup>*\<^sup>* (xs ! i) (zs ! i)"
    unfolding status_rel_def by (meson less_le_trans rtranclp_trans)
next
  fix i
  assume i: "i < length zs" "length xs \<le> i"
  show "not_running_while_removing (zs ! i)"
  proof (cases "i < length ys")
    case True
    with assms i show ?thesis by (auto simp: status_rel_def intro: status_steps_removing)
  next
    case False
    with assms(2) i show ?thesis by (simp add: status_rel_def)
  qed
qed

lemma entries_kept_refl [simp]: "entries_kept m m"
  by (simp add: entries_kept_def)

lemma entries_kept_delete [simp]: "entries_kept m (m(k := None))"
  by (simp add: entries_kept_def)

lemma svc_rel_refl [simp]: "svc_rel s s"
  by (simp add: svc_rel_def)

lemma svc_rel_trans: "svc_rel s t \<Longrightarrow> svc_rel t u \<Longrightarrow> svc_rel s u"
  by (auto simp: svc_rel_def intro: status_rel_trans)

lemma svc_steps_rel: "svc_step\<^sup>*\<^sup>* s t \<Longrightarrow> svc_rel s t"
  by (induction rule: rtranclp_induct) (auto simp: svc_step_def intro: svc_rel_trans)

lemma svc_step_refl [simp]: "svc_step s s"
  by (simp add: svc_step_def)

lemma svc_step_world [simp]: "svc_step s (s\<lparr>world := w\<rparr>)"
  by (simp add: svc_step_def svc_rel_def svc_inv_def)

lemma svc_step_defaultEnv [simp]: "svc_step s (s\<lparr>defaultEnv := d\<rparr>)"
  by (simp add: svc_step_def svc_rel_def svc_inv_def)

text \<open>Along any number of actions an entry stays as it is, or was absent in between.\<close>

definition absent_between :: "string \<Rightarrow> 'w st \<Rightarrow> 'w st \<Rightarrow> bool" where
  "absent_between cid s t \<longleftrightarrow>
     (\<exists>u. svc_step\<^sup>*\<^sup>* s u \<and> map_of (containerStore u) cid = None \<and> svc_step\<^sup>*\<^sup>* u t)"

lemma absent_between_trans:
  "svc_step\<^sup>*\<^sup>* s t \<Longrightarrow> absent_between cid t u \<Longrightarrow> absent_between cid s u"
  "absent_between cid s t \<Longrightarrow> svc_step\<^sup>*\<^sup>* t u \<Longrightarrow> absent_between cid s u"
  by (auto simp: absent_between_def intro: rtranclp_trans)

lemma svc_steps_entry:
  assumes "svc_step\<^sup>*\<^sup>* s t" and "map_of (containerStore s) cid = Some c"
  shows "map_of (containerStore t) cid = Some c \<or> absent_between cid s t"
  using assms(1)
proof (induction rule: rtranclp_induct)
  case base
  with assms(2) show ?case by simp
next
  case (step y z)
  from step.IH show ?case
  proof
    assume y: "map_of (containerStore y) cid = Some c"
    from step.hyps(2) have "entries_kept (map_of (containerStore y)) (map_of (containerStore z))"
      by (simp add: svc_step_def)
    with y have "map_of (containerStore z) cid = Some c \<or> map_of (containerStore z) cid = None"
      by (auto simp: entries_kept_def dest: spec [where x = cid])
    moreover from step have "svc_step\<^sup>*\<^sup>* s z" by simp
    ultimately show ?thesis by (auto simp: absent_between_def)
  next
    assume "absent_between cid s y"
    with step.hyps(2) show ?thesis by (blast intro: absent_between_trans(2))
  qed
qed

lemma svc_steps_status_at:
  assumes "svc_step\<^sup>*\<^sup>* s t" and "i < length (statuses s)"
  shows "i < length (statuses t)" and "status_step\<^sup>*\<^sup>* (statuses s ! i) (statuses t ! i)"
  using svc_steps_rel [OF assms(1)] assms(2) by (auto simp: svc_rel_def status_rel_def)

lemma svc_steps_exited:
  assumes "svc_step\<^sup>*\<^sup>* s t" and "i < length (statuses s)" and "State (statuses s ! i) = CONTAINER_EXITED"
  shows "State (statuses t ! i) = CONTAINER_EXITED"
  using svc_steps_status_at [OF assms(1,2)] assms(3) by (blast dest: status_steps_exit_record)

lemma world_only_world [simp]: "world_only s (s\<lparr>world := w\<rparr>)"
  by (auto simp: world_only_def)

lemma world_only_refl [simp]: "world_only s s"
  using world_only_world [of s "world s"] by simp

lemma world_only_steps: "world_only\<^sup>*\<^sup>* s t \<Longrightarrow> world_only s t"
  by (induction rule: rtranclp_induct) (auto simp: world_only_def)

lemma world_only_svc_step: "world_only s t \<Longrightarrow> svc_step s t"
  by (auto simp: world_only_def)

lemma guar_world_only_run:
  "guar world_only m \<Longrightarrow> run m s = (r, s') \<Longrightarrow> \<exists>w. s' = s\<lparr>world := w\<rparr>"
  using world_only_steps [OF guar_run [of world_only m s]] by (simp add: world_only_def)

lemma guar_world_only: "guar world_only m \<Longrightarrow> guar svc_step m"
  by (erule guar_mono) (rule world_only_svc_step)
section \<open>The leaves\<close>

lemma world_leaves [svc_guar, intro!]:
  "guar world_only (ext f)" "guar world_only (ext_val g)" "guar world_only (gets h)"
  "guar world_only (ret x)" "guar world_only (fail e)" "guar world_only (lift_result r)"
  "guar world_only (cstore_Get cid)" "guar world_only (sbstore_Get sid)" "guar world_only (istore_Get iid)"
  "guar world_only (status_Get c)"
  by (auto simp: act_defs guar_atomic_iff split: prod.splits option.splits)

lemma world_lists [svc_guar, intro!]:
  "guar world_only (cstore_List env)" "guar world_only (sbstore_List env)" "guar world_only (istore_List env)"
  by (auto simp: cstore_List_def sbstore_List_def istore_List_def intro!: guar_intros)

lemmas svc_world_leaves [svc_guar] = world_leaves [THEN guar_world_only] world_lists [THEN guar_world_only]

lemma entries_kept_Add:
  "entries_kept (map_of m) (map_of (snd (containerStore_Add c m)))"
  "entries_kept (map_of n) (map_of (snd (sandboxStore_Add sb n)))"
  by (auto simp: containerStore_Add_def sandboxStore_Add_def entries_kept_def split: option.split)

lemma svc_store_leaves [svc_guar]:
  "guar svc_step (cstore_Add c)" "guar svc_step (cstore_Delete cid)"
  "guar svc_step (sbstore_Add sb)" "guar svc_step (sbstore_Delete sid)"
  "guar svc_step (istore_Delete iid)"
  by (simp_all add: cstore_Add_def cstore_Delete_def sbstore_Add_def sbstore_Delete_def istore_Delete_def
      guar_atomic_iff svc_step_def svc_rel_def svc_inv_def case_prod_beta entries_kept_Add
      containers_inv_Add containers_inv_Delete sandboxes_inv_Add sandboxes_inv_Delete images_inv_Delete)
    (simp_all add: containerStore_Delete_def sandboxStore_Delete_def)
lemma svc_istore_Add [svc_guar]: "guar svc_step (istore_Add env img)"
  unfolding istore_Add_def
  by (intro guar_bindE svc_world_leaves)
    (auto simp: guar_atomic_iff svc_step_def svc_rel_def svc_inv_def images_inv_Add)

lemma svc_name_leaves [svc_guar]:
  "guar svc_step (cname_Reserve n k)" "guar svc_step (cname_ReleaseByName n)"
  "guar svc_step (cname_ReleaseByKey k)"
  "guar svc_step (sname_Reserve n k)" "guar svc_step (sname_ReleaseByName n)"
  "guar svc_step (sname_ReleaseByKey k)"
  using reg.inv_reserve [of _ n k] reg.inv_release_name [of _ n] reg.inv_release_key [of _ k]
  by (auto simp: cname_Reserve_def cname_ReleaseByName_def cname_ReleaseByKey_def sname_Reserve_def
      sname_ReleaseByName_def sname_ReleaseByKey_def guar_atomic_iff svc_step_def svc_rel_def svc_inv_def
      split: prod.splits) (metis snd_conv)+

lemma svc_step_status:
  assumes "status_rel (statuses s) xs"
  shows "svc_step s (s\<lparr>statuses := xs\<rparr>)"
  using assms status_rel_removing [OF assms] by (auto simp: svc_step_def svc_rel_def svc_inv_def)

lemma svc_NewContainer [svc_guar]:
  "not_running_while_removing st \<Longrightarrow> guar svc_step (NewContainer meta st)"
  by (simp add: NewContainer_def StoreStatus_def guar_atomic_iff svc_step_status status_rel_append)

lemma svc_status_Update:
  assumes "\<And>st st'. u st = Inr st' \<Longrightarrow> status_step\<^sup>*\<^sup>* st st'"
  shows "guar svc_step (status_Update c u :: ('w, unit) act)"
proof -
  have "status_step\<^sup>*\<^sup>* st (snd (statusStorage_Update u st))" for st
    using sstore.update_invariant [of u "status_step\<^sup>*\<^sup>*" st] assms
    by (simp add: statusStorage_Get_def)
  then have "svc_step s (s\<lparr>statuses := (statuses s)[i := snd (statusStorage_Update u (statuses s ! i))]\<rparr>)"
    if "i < length (statuses s)" for s :: "'w st" and i
    using that by (simp add: svc_step_status status_rel_update)
  then show ?thesis
    by (simp add: status_Update_def guar_atomic_iff case_prod_beta split: option.split)
qed

lemma svc_container_Delete [svc_guar]: "guar svc_step (container_Delete c)"
  by (simp add: container_Delete_def statusStorage_Delete_def guar_atomic_iff split: option.split)

lemma svc_status_UpdateTx:
  fixes body :: "Status \<Rightarrow> ('w, goerror option \<times> Status) act"
  assumes "\<And>st. guar world_only (body st)"
    and "\<And>st s e st' s'. run (body st) s = (Ok (e, st'), s') \<Longrightarrow> status_step\<^sup>*\<^sup>* st st'"
  shows "guar svc_step (status_UpdateTx c body)"
proof -
  have "svc_step s (snd (case run (body (statuses s ! i)) s of
            (Ok (e, st), s') \<Rightarrow> (Ok e, s'\<lparr>statuses := (statuses s')[i := st]\<rparr>)
          | (Err e, s') \<Rightarrow> (Err e, s') | (Panic, s') \<Rightarrow> (Panic, s') | (Diverge, s') \<Rightarrow> (Diverge, s')))"
    if i: "i < length (statuses s)" for s :: "'w st" and i
  proof (cases "run (body (statuses s ! i)) s")
    case (Pair r s')
    then obtain w where s': "s' = s\<lparr>world := w\<rparr>" using guar_world_only_run [OF assms(1)] by blast

    show ?thesis
    proof (cases r)
      case (Ok p)
      obtain e st where p: "p = (e, st)" by (cases p)
      from Ok p Pair assms(2) have "status_step\<^sup>*\<^sup>* (statuses s ! i) st" by blast
      with i have "svc_step s (s\<lparr>statuses := (statuses s)[i := st]\<rparr>)"
        by (simp add: svc_step_status status_rel_update)
      with s' have "svc_step s (s'\<lparr>statuses := (statuses s')[i := st]\<rparr>)"
        by (simp add: svc_step_def svc_rel_def svc_inv_def)
      with Ok p Pair show ?thesis by simp
    qed (use s' Pair in auto)
  qed
  then show ?thesis by (simp add: status_UpdateTx_def guar_atomic_iff split: option.split)
qed

end
