(* ===== verification/Helpers.thy ===== *)
theory Helpers
  imports Service_Inv
begin

text \<open>
  \<^verbatim>\<open>pkg/server/helpers.go\<close>: names, paths, namespaces, the image user, the streaming pipes, and
  the thin clients that translate gRPC errors. The image helpers of that file are in the image
  theories. The properties: names determine the metadata they are made of as long as no part
  contains the delimiter, the directories of two containers or sandboxes are never the same, and
  opening the pipes either returns all of them or closes the ones it opened.
\<close>

definition nameDelimiter :: string where "nameDelimiter = ''_''"

definition makeSandboxName :: "PodSandboxMetadata \<Rightarrow> string" where
  "makeSandboxName s = strings_Join [pm_Name s, pm_Namespace s, pm_Uid s,
     fmt_nat (unat (pm_Attempt s))] nameDelimiter"

definition makeContainerName :: "ContainerMetadata \<Rightarrow> PodSandboxMetadata \<Rightarrow> string" where
  "makeContainerName c s = strings_Join [cm_Name c, pm_Name s, pm_Namespace s, pm_Uid s,
     fmt_nat (unat (cm_Attempt c))] nameDelimiter"

definition getCgroupsPath :: "string \<Rightarrow> string \<Rightarrow> string" where
  "getCgroupsPath cgroupsParent cid = filepath_Join [cgroupsParent, cid]"

definition getSandboxRootDir :: "string \<Rightarrow> string \<Rightarrow> string" where
  "getSandboxRootDir dir sid = filepath_Join [dir, ''sandboxes'', sid]"

definition getContainerRootDir :: "string \<Rightarrow> string \<Rightarrow> string" where
  "getContainerRootDir dir cid = filepath_Join [dir, ''containers'', cid]"

definition getStreamingPipes :: "string \<Rightarrow> string \<times> string \<times> string" where
  "getStreamingPipes dir = (filepath_Join [dir, ''stdin''], filepath_Join [dir, ''stdout''],
     filepath_Join [dir, ''stderr''])"

definition getSandboxHosts :: "string \<Rightarrow> string" where
  "getSandboxHosts dir = filepath_Join [dir, ''hosts'']"

definition getResolvPath :: "string \<Rightarrow> string" where
  "getResolvPath dir = filepath_Join [dir, ''resolv.conf'']"

definition getSandboxDevShm :: "string \<Rightarrow> string" where
  "getSandboxDevShm dir = filepath_Join [dir, ''shm'']"

definition getNetworkNamespace :: "uint32 \<Rightarrow> string" where
  "getNetworkNamespace pid = ''/proc/'' @ fmt_nat (unat pid) @ ''/ns/net''"

definition getIPCNamespace :: "uint32 \<Rightarrow> string" where
  "getIPCNamespace pid = ''/proc/'' @ fmt_nat (unat pid) @ ''/ns/ipc''"

definition getUTSNamespace :: "uint32 \<Rightarrow> string" where
  "getUTSNamespace pid = ''/proc/'' @ fmt_nat (unat pid) @ ''/ns/uts''"

definition getPIDNamespace :: "uint32 \<Rightarrow> string" where
  "getPIDNamespace pid = ''/proc/'' @ fmt_nat (unat pid) @ ''/ns/pid''"

fun criContainerStateToString :: "ContainerState \<Rightarrow> string" where
  "criContainerStateToString CONTAINER_CREATED = ''CONTAINER_CREATED''"
| "criContainerStateToString CONTAINER_RUNNING = ''CONTAINER_RUNNING''"
| "criContainerStateToString CONTAINER_EXITED = ''CONTAINER_EXITED''"
| "criContainerStateToString CONTAINER_UNKNOWN = ''CONTAINER_UNKNOWN''"

definition getUserFromImage :: "string \<Rightarrow> int option \<times> string" where
  "getUserFromImage user =
     (if user = '''' then (None, '''')
      else let u = hd (strings_Split user (CHR '':'')) in
        case strconv_ParseInt64 u of
          None \<Rightarrow> (None, u)
        | Some uid \<Rightarrow> (Some uid, ''''))"

lemmas path_defs [go_defs] = getCgroupsPath_def getSandboxRootDir_def getContainerRootDir_def
  getStreamingPipes_def getSandboxHosts_def getResolvPath_def getSandboxDevShm_def

section \<open>Thin clients\<close>

text \<open>What the containerd client does around a gRPC call of the container and snapshot services.\<close>

definition from_grpc :: "('w, 'a) call \<Rightarrow> ('w, 'a) call" where
  "from_grpc f w = (case f w of (Inl e, w') \<Rightarrow> (Inl (errdefs_FromGRPC e), w') | (Inr x, w') \<Rightarrow> (Inr x, w'))"

definition containerService_Create :: "'w env \<Rightarrow> ContainerdContainer \<Rightarrow> ('w, unit) act" where
  "containerService_Create env c = ext (from_grpc (containers_Create env c))"

definition containerService_Delete :: "'w env \<Rightarrow> string \<Rightarrow> ('w, unit) act" where
  "containerService_Delete env cid = ext (from_grpc (containers_Delete env cid))"

definition snapshotService_View :: "'w env \<Rightarrow> string \<Rightarrow> string \<Rightarrow> ('w, OciMount list) act" where
  "snapshotService_View env k parent = ext (from_grpc (snapshots_View env k parent))"

definition snapshotService_Prepare :: "'w env \<Rightarrow> string \<Rightarrow> string \<Rightarrow> ('w, OciMount list) act" where
  "snapshotService_Prepare env k parent = ext (from_grpc (snapshots_Prepare env k parent))"

definition snapshotService_Mounts :: "'w env \<Rightarrow> string \<Rightarrow> ('w, OciMount list) act" where
  "snapshotService_Mounts env k = ext (from_grpc (snapshots_Mounts env k))"

definition snapshotService_Remove :: "'w env \<Rightarrow> string \<Rightarrow> ('w, unit) act" where
  "snapshotService_Remove env k = ext (from_grpc (snapshots_Remove env k))"

lemmas client_defs [go_defs] = containerService_Create_def containerService_Delete_def
  snapshotService_View_def snapshotService_Prepare_def snapshotService_Mounts_def
  snapshotService_Remove_def

lemma client_world [svc_guar, intro!]:
  "guar world_only (containerService_Create env c)" "guar world_only (containerService_Delete env i)"
  "guar world_only (snapshotService_View env k p)" "guar world_only (snapshotService_Prepare env k p)"
  "guar world_only (snapshotService_Mounts env k)" "guar world_only (snapshotService_Remove env k)"
  by (auto simp: client_defs)

lemmas client_svc [svc_guar] = client_world [THEN guar_world_only]

section \<open>Streaming pipes\<close>

text \<open>\<open>O_WRONLY | O_CREAT | O_NONBLOCK\<close> and \<open>O_RDONLY | O_CREAT | O_NONBLOCK\<close>.\<close>

definition stdinFlags :: nat where "stdinFlags = 2113"
definition stdoutFlags :: nat where "stdoutFlags = 2112"

fun open_streams :: "'w env \<Rightarrow> (string \<times> string \<times> nat) list \<Rightarrow> (string \<times> handle) list
    \<Rightarrow> ('w, (string \<times> handle) list) act" where
  "open_streams env [] pipes = ret pipes"
| "open_streams env ((t, path, flag) # rest) pipes =
     (if path = '''' then open_streams env rest pipes
      else bindE (wrap_err (\<lambda>e. Errorf [Lit ''failed to open named pipe '', Q path, Lit '': '', V e])
             (RealOS_OpenFifo env path flag 448))
           (\<lambda>h. on_error (open_streams env rest (mset_key t h pipes)) (ext (os_Close env h))))"

text \<open>The three streams in the order the map iteration visits them.\<close>

definition prepareStreamingPipes :: "'w env \<Rightarrow> string \<Rightarrow> string \<Rightarrow> string
    \<Rightarrow> ('w, handle option \<times> handle option \<times> handle option) act" where
  "prepareStreamingPipes env stdin stdout stderr =
     bindE (ext_val (map_order env)) (\<lambda>ord.
       let streams = [(''stdin'', stdin, stdinFlags), (''stdout'', stdout, stdoutFlags),
                      (''stderr'', stderr, stdoutFlags)];
           visited = List.map_filter (\<lambda>t. map_option (Pair t) (map_of streams t))
                       (ord (keys_of streams))
       in bindE (open_streams env visited [])
            (\<lambda>pipes. ret (map_of pipes ''stdin'', map_of pipes ''stdout'', map_of pipes ''stderr'')))"

lemma open_streams_world [svc_guar, intro!]: "guar world_only (open_streams env xs pipes)"
  by (induction env xs pipes rule: open_streams.induct) (auto intro!: guar_intros)

lemma prepareStreamingPipes_world [svc_guar, intro!]:
  "guar world_only (prepareStreamingPipes env i out err)"
  by (auto simp: prepareStreamingPipes_def Let_def intro!: guar_intros)

definition resolveSymbolicLink :: "'w env \<Rightarrow> string \<Rightarrow> ('w, string) act" where
  "resolveSymbolicLink env path =
     bindE (ext (os_Lstat_IsSymlink env path)) (\<lambda>symlink.
       if \<not> symlink then ret path else ext (filepath_EvalSymlinks env path))"

lemma resolveSymbolicLink_world [svc_guar, intro!]: "guar world_only (resolveSymbolicLink env p)"
  by (auto simp: resolveSymbolicLink_def intro!: guar_intros)

section \<open>Names determine their metadata\<close>

definition delimiter_free :: "string \<Rightarrow> bool" where
  "delimiter_free s \<longleftrightarrow> CHR ''_'' \<notin> set s"

definition sandbox_metadata_ok :: "PodSandboxMetadata \<Rightarrow> bool" where
  "sandbox_metadata_ok m \<longleftrightarrow> delimiter_free (pm_Name m) \<and> delimiter_free (pm_Namespace m) \<and>
     delimiter_free (pm_Uid m)"

lemma makeSandboxName_inj:
  assumes "makeSandboxName m = makeSandboxName m'" and "sandbox_metadata_ok m" and "sandbox_metadata_ok m'"
  shows "m = m'"
proof -
  let ?parts = "\<lambda>m. [pm_Name m, pm_Namespace m, pm_Uid m, fmt_nat (unat (pm_Attempt m))]"
  have "?parts m = ?parts m'"
    by (rule strings_Join_inj [where c = "CHR ''_''"])
      (use assms in \<open>auto simp: makeSandboxName_def nameDelimiter_def sandbox_metadata_ok_def
        delimiter_free_def fmt_nat_no_delimiter\<close>)
  then show ?thesis by (cases m; cases m') (simp add: word_unat_eq_iff)
qed

text \<open>
  C29: The name of a container determines the container metadata and the name, namespace and uid
  of the pod it belongs to, as long as none of the parts contains the delimiter.
\<close>

lemma makeContainerName_inj:
  assumes "makeContainerName c m = makeContainerName c' m'"
    and "sandbox_metadata_ok m" and "sandbox_metadata_ok m'"
    and "delimiter_free (cm_Name c)" and "delimiter_free (cm_Name c')"
  shows "c = c' \<and> pm_Name m = pm_Name m' \<and> pm_Namespace m = pm_Namespace m' \<and> pm_Uid m = pm_Uid m'"
proof -
  let ?parts = "\<lambda>c m. [cm_Name c, pm_Name m, pm_Namespace m, pm_Uid m, fmt_nat (unat (cm_Attempt c))]"
  have "?parts c m = ?parts c' m'"
    by (rule strings_Join_inj [where c = "CHR ''_''"])
      (use assms in \<open>auto simp: makeContainerName_def nameDelimiter_def sandbox_metadata_ok_def
        delimiter_free_def fmt_nat_no_delimiter\<close>)
  then show ?thesis by (cases c; cases c') (simp add: word_unat_eq_iff)
qed

section \<open>Directories are never shared\<close>

text \<open>An id that is one path element, as the generated hexadecimal ids are.\<close>

definition path_element :: "string \<Rightarrow> bool" where
  "path_element s \<longleftrightarrow> s \<noteq> '''' \<and> s \<noteq> ''.'' \<and> s \<noteq> ''..'' \<and> CHR ''/'' \<notin> set s"

lemma strings_Split_append: "strings_Split (a @ c # b) c = strings_Split a c @ strings_Split b c"
proof (induction a)
  case (Cons x a)
  obtain w ws where w: "strings_Split a c = w # ws" by (cases "strings_Split a c") auto
  with Cons.IH show ?case by simp
qed simp

lemma clean_elems_append:
  "\<forall>e \<in> set es. path_element e \<Longrightarrow> clean_elems rooted acc (xs @ es) = clean_elems rooted acc xs @ es"
proof (induction rooted acc xs rule: clean_elems.induct)
  case (1 rooted acc)
  then show ?case
  proof (induction es arbitrary: acc)
    case (Cons e es)
    then have "clean_elems rooted (e # acc) es = rev (e # acc) @ es" by simp
    with Cons.prems show ?case by (auto simp: path_element_def)
  qed simp
qed (auto simp: path_element_def)

lemma clean_elems_subset: "set (clean_elems rooted acc xs) \<subseteq> set acc \<union> set xs"
proof (induction xs arbitrary: acc)
  case (Cons e es)
  have "set (tl acc) \<subseteq> set acc" by (cases acc) auto
  moreover have "clean_elems rooted acc (e # es) = clean_elems rooted acc es \<or>
      clean_elems rooted acc (e # es) = clean_elems rooted (tl acc) es \<or>
      clean_elems rooted acc (e # es) = clean_elems rooted (e # acc) es"
    by simp
  ultimately show ?case
    using Cons.IH [of acc] Cons.IH [of "tl acc"] Cons.IH [of "e # acc"]
    by (elim disjE) (auto simp del: clean_elems.simps)
qed simp

lemma filepath_Join_element:
  assumes "dir \<noteq> ''''" and "path_element k" and "path_element i"
  shows "\<exists>base. filepath_Join [dir, k, i] =
    (if hd dir = CHR ''/'' then ''/'' else '''') @ strings_Join (base @ [k, i]) ''/''
    \<and> base = clean_elems (hd dir = CHR ''/'') [] (strings_Split dir (CHR ''/''))"
proof -
  have "strings_Split (dir @ CHR ''/'' # k @ CHR ''/'' # i) (CHR ''/'')
      = strings_Split dir (CHR ''/'') @ [k, i]"
    using assms(2,3) by (simp add: strings_Split_append path_element_def)
  then have "clean_elems r [] (strings_Split (dir @ CHR ''/'' # k @ CHR ''/'' # i) (CHR ''/''))
      = clean_elems r [] (strings_Split dir (CHR ''/'')) @ [k, i]" for r
    using assms(2,3) by (simp add: clean_elems_append)
  moreover have "strings_Join (xs @ [k, i]) ''/'' \<noteq> ''''" for xs
    using assms(2) by (induction xs rule: induct_list012) (auto simp: path_element_def)
  ultimately show ?thesis using assms(1) by (simp add: filepath_Clean_def Let_def)
qed

lemma filepath_Join_element_inj:
  assumes "dir \<noteq> ''''" and "path_element k" "path_element i" "path_element k'" "path_element i'"
    and "filepath_Join [dir, k, i] = filepath_Join [dir, k', i']"
  shows "k = k' \<and> i = i'"
proof -
  define base where "base = clean_elems (hd dir = CHR ''/'') [] (strings_Split dir (CHR ''/''))"
  have nosep: "\<forall>x \<in> set base. CHR ''/'' \<notin> set x"
    unfolding base_def
    using clean_elems_subset [of _ "[]"] strings_Split_no_sep_inside [of dir "CHR ''/''"] by fastforce
  have "strings_Join (base @ [k, i]) ''/'' = strings_Join (base @ [k', i']) ''/''"
    using assms(6) filepath_Join_element [OF assms(1,2,3)] filepath_Join_element [OF assms(1,4,5)]
    by (auto simp: base_def)
  then have "base @ [k, i] = base @ [k', i']"
    by (rule strings_Join_inj) (use nosep assms in \<open>auto simp: path_element_def\<close>)
  then show ?thesis by simp
qed

text \<open>
  C30: The root directories of containers and sandboxes never coincide: a container directory is
  not a sandbox directory, and two ids have the same directory only if they are equal, for ids
  that are single path elements.
\<close>

lemma dirs_disjoint:
  assumes "dir \<noteq> ''''" and "path_element i" and "path_element j"
  shows "getContainerRootDir dir i \<noteq> getSandboxRootDir dir j \<and>
    (getContainerRootDir dir i = getContainerRootDir dir j \<longleftrightarrow> i = j) \<and>
    (getSandboxRootDir dir i = getSandboxRootDir dir j \<longleftrightarrow> i = j)"
proof -
  have kinds: "path_element ''containers''" "path_element ''sandboxes''" by (auto simp: path_element_def)
  note inj = filepath_Join_element_inj [OF assms(1)]
  have "getContainerRootDir dir i \<noteq> getSandboxRootDir dir j"
    using inj [OF kinds(1) assms(2) kinds(2) assms(3)]
    by (auto simp: getContainerRootDir_def getSandboxRootDir_def simp del: filepath_Join.simps)
  moreover have "getContainerRootDir dir i = getContainerRootDir dir j \<longleftrightarrow> i = j"
    using inj [OF kinds(1) assms(2) kinds(1) assms(3)]
    by (auto simp: getContainerRootDir_def simp del: filepath_Join.simps)
  moreover have "getSandboxRootDir dir i = getSandboxRootDir dir j \<longleftrightarrow> i = j"
    using inj [OF kinds(2) assms(2) kinds(2) assms(3)]
    by (auto simp: getSandboxRootDir_def simp del: filepath_Join.simps)
  ultimately show ?thesis by blast
qed

section \<open>Files below a root directory\<close>

text \<open>The elements of a cleaned path, last first: no empty element and no dot, and a dot-dot only at
  the beginning of a relative path.\<close>

fun cleaned :: "bool \<Rightarrow> string list \<Rightarrow> bool" where
  "cleaned rooted [] \<longleftrightarrow> True"
| "cleaned rooted (e # acc) \<longleftrightarrow> cleaned rooted acc \<and> e \<noteq> '''' \<and> e \<noteq> ''.'' \<and>
     (e = ''..'' \<longrightarrow> \<not> rooted \<and> (acc = [] \<or> hd acc = ''..''))"

lemma cleaned_suffix: "cleaned rooted (xs @ ys) \<Longrightarrow> cleaned rooted ys"
  by (induction xs) auto

lemma clean_elems_cleaned: "cleaned rooted acc \<Longrightarrow> cleaned rooted (rev (clean_elems rooted acc xs))"
proof (induction xs arbitrary: acc)
  case (Cons e xs)
  have "cleaned rooted (tl acc)" using Cons.prems by (cases acc) auto
  with Cons show ?case by auto
qed simp

lemma clean_elems_id: "cleaned rooted (rev xs @ acc) \<Longrightarrow> clean_elems rooted acc xs = rev acc @ xs"
proof (induction xs arbitrary: acc)
  case (Cons e xs)
  then have "cleaned rooted (e # acc)" by (auto dest: cleaned_suffix [of _ "rev xs"])
  with Cons show ?case by auto
qed simp

lemma filepath_Join_cleaned:
  assumes xs: "cleaned rooted (rev xs)" "\<forall>x \<in> set xs. CHR ''/'' \<notin> set x" "xs \<noteq> []" and n: "path_element n"
    and p: "p = (if rooted then ''/'' else '''') @ strings_Join xs ''/''"
  shows "filepath_Join [p, n] = p @ ''/'' @ n"
proof -
  have elems: "strings_Split (strings_Join (xs @ [n]) ''/'') (CHR ''/'') = xs @ [n]"
    using xs n by (intro strings_Split_Join) (auto simp: path_element_def)
  have join: "strings_Join (xs @ [n]) ''/'' = strings_Join xs ''/'' @ ''/'' @ n"
    using xs(3) by (induction xs rule: induct_list012) auto
  have clean: "clean_elems rooted [] (xs @ [n]) = xs @ [n]"
    using xs(1) n by (subst clean_elems_id) (auto simp: path_element_def)
  obtain x zs where x: "xs = x # zs" using xs(3) by (cases xs) auto
  then have "x \<noteq> ''''" using cleaned_suffix [of rooted "rev zs" "[x]"] xs(1) by simp
  moreover have "CHR ''/'' \<notin> set x" using xs(2) x by simp
  ultimately have hd: "strings_Join xs ''/'' \<noteq> ''''" "hd (strings_Join xs ''/'') \<noteq> CHR ''/''"
    using x by (cases x; cases zs; auto)+
  show ?thesis
  proof (cases rooted)
    case True
    with p elems clean join show ?thesis by (simp add: filepath_Clean_def Let_def)
  next
    case False
    with p elems clean join hd show ?thesis by (simp add: filepath_Clean_def Let_def)
  qed
qed

lemma filepath_Join_below:
  assumes "dir \<noteq> ''''" and "path_element k" and "path_element i" and "path_element n"
  shows "filepath_Join [filepath_Join [dir, k, i], n] = filepath_Join [dir, k, i] @ ''/'' @ n"
proof -
  define rooted where "rooted \<longleftrightarrow> hd dir = CHR ''/''"
  define base where "base = clean_elems rooted [] (strings_Split dir (CHR ''/''))"
  have base: "cleaned rooted (rev base)" "\<forall>x \<in> set base. CHR ''/'' \<notin> set x"
    using clean_elems_cleaned [of rooted "[]"] clean_elems_subset [of rooted "[]" "strings_Split dir (CHR ''/'')"]
      strings_Split_no_sep_inside [of dir "CHR ''/''"] unfolding base_def by auto
  show ?thesis
  proof (rule filepath_Join_cleaned [where rooted = rooted and xs = "base @ [k, i]"])
    show "filepath_Join [dir, k, i] = (if rooted then ''/'' else '''') @ strings_Join (base @ [k, i]) ''/''"
      using filepath_Join_element [OF assms(1-3)] by (auto simp: base_def rooted_def)
  qed (use base assms in \<open>auto simp: path_element_def\<close>)
qed

text \<open>
  Every file of a sandbox or a container lies directly below its own root directory: joining a
  file name to the root directory of an id appends the name to it, whatever the state directory
  of the daemon looks like.
\<close>

lemma files_below_root:
  assumes "dir \<noteq> ''''" and "path_element i" and "path_element n"
  shows "filepath_Join [getSandboxRootDir dir i, n] = getSandboxRootDir dir i @ ''/'' @ n \<and>
    filepath_Join [getContainerRootDir dir i, n] = getContainerRootDir dir i @ ''/'' @ n"
  unfolding getSandboxRootDir_def getContainerRootDir_def
  by (intro conjI filepath_Join_below assms) (auto simp: path_element_def)

text \<open>
  The name of a sandbox does not determine its metadata when a part contains the delimiter: two pods of
  different namespaces get the same name, and the second cannot be created while the first exists.
\<close>

lemma makeSandboxName_collides:
  "let a = \<lparr>pm_Name = ''web_a'', pm_Uid = ''u'', pm_Namespace = ''b'', pm_Attempt = 0\<rparr>;
       b = \<lparr>pm_Name = ''web'', pm_Uid = ''u'', pm_Namespace = ''a_b'', pm_Attempt = 0\<rparr>
   in a \<noteq> b \<and> makeSandboxName a = makeSandboxName b \<and>
      fst (Reserve (makeSandboxName b) ''pod2'' (snd (Reserve (makeSandboxName a) ''pod1'' NewRegistrar))) =
        Inl (Errorf [Lit ''name '', Q (makeSandboxName b), Lit '' is reserved for '', Q ''pod1''])"
  by code_simp

end
