(* ===== verification/Container_Start.thy ===== *)
theory Container_Start
  imports Helpers
begin

text \<open>
  \<^verbatim>\<open>pkg/server/container_start.go\<close>. \<open>startContainer\<close> runs inside the transaction of the status
  update and always hands back a status: on any failure after the two guards the container is
  set to exited with the start error. The part between the guards and the status change,
  \<open>start_task\<close>, acquires the pipes and the task and releases them when a later step fails. The
  goroutines it starts (the log redirection, the copy of standard input) are not part of it.
\<close>

definition containerLogger_Start :: "'w env \<Rightarrow> string \<Rightarrow> ('w, unit) act" where
  "containerLogger_Start env path =
     seqE (wrap_err (\<lambda>e. Errorf [Lit ''failed to open log file '', Q path, Lit '': '', V e])
            (ext (os_OpenLog env path)))
          (ret ())"

text \<open>\<open>pipe.Close()\<close>; on a nil pipe the call panics, unless the code checks for nil first.\<close>

definition close_pipe :: "'w env \<Rightarrow> handle option \<Rightarrow> ('w, unit) act" where
  "close_pipe env p = (case p of None \<Rightarrow> Ret Panic | Some h \<Rightarrow> tryE (ext (os_Close env h)) (\<lambda>_. ret ()))"

definition close_pipe_if :: "'w env \<Rightarrow> handle option \<Rightarrow> ('w, unit) act" where
  "close_pipe_if env p = (case p of None \<Rightarrow> ret () | Some h \<Rightarrow> close_pipe env p)"

definition start_loggers :: "'w env \<Rightarrow> ContainerConfig option \<Rightarrow> PodSandboxConfig option \<Rightarrow> ('w, unit) act" where
  "start_loggers env config sandboxConfig =
     (if pget cc_LogPath '''' config = '''' then ret ()
      else let logPath = filepath_Join [pget pc_LogDirectory '''' sandboxConfig, pget cc_LogPath '''' config] in
        seqE (wrap_err (\<lambda>e. Errorf [Lit ''failed to start container stdout logger: '', V e])
               (containerLogger_Start env logPath))
          (if pget cc_Tty False config then ret ()
           else wrap_err (\<lambda>e. Errorf [Lit ''failed to start container stderr logger: '', V e])
             (containerLogger_Start env logPath)))"

text \<open>\<open>rootfs = append(rootfs, &types.Mount{Type, Source, Options})\<close> for every mount of the snapshot.\<close>

definition rootfs_mounts :: "OciMount list \<Rightarrow> OciMount list" where
  "rootfs_mounts ms = map (\<lambda>m. m\<lparr>om_Destination := ''''\<rparr>) ms"

definition start_task :: "'w env \<Rightarrow> string \<Rightarrow> ContainerMeta \<Rightarrow> ('w, uint32) act" where
  "start_task env cid meta =
     (let config = md_Config meta; sandboxID = md_SandboxID meta in
      bindE (wrap_err (\<lambda>e. Errorf [Lit ''sandbox '', Q sandboxID, Lit '' not found: '', V e])
              (sbstore_Get sandboxID)) (\<lambda>sandbox.
      bindE (wrap_err (\<lambda>e. Errorf [Lit ''failed to get sandbox container '', Q sandboxID, Lit '' info: '', V e])
              (ext (tasks_Get env sandboxID))) (\<lambda>sandboxInfo.
      if tk_Status sandboxInfo \<noteq> StatusRunning then
        fail (Errorf [Lit ''sandbox container '', Q sandboxID, Lit '' is not running''])
      else
      bindE (gets rootDir) (\<lambda>dir.
      let (stdin0, stdout, stderr) = getStreamingPipes (getContainerRootDir dir cid);
          stdin = (if pget cc_Stdin False config then stdin0 else '''') in
      bindE (wrap_err (\<lambda>e. Errorf [Lit ''failed to prepare streaming pipes: '', V e])
              (prepareStreamingPipes env stdin stdout stderr)) (\<lambda>(stdinPipe, stdoutPipe, stderrPipe).
      on_error
        (seqE (start_loggers env config (sb_Config sandbox))
        (bindE (wrap_err (\<lambda>e. Errorf [Lit ''failed to get rootfs mounts '', Q cid, Lit '': '', V e])
                 (snapshotService_Mounts env cid)) (\<lambda>rootfs.
         bindE (wrap_err (\<lambda>e. Errorf [Lit ''failed to create containerd task: '', V e])
                 (ext (tasks_Create env \<lparr>ct_ContainerID = cid, ct_Rootfs = rootfs_mounts rootfs, ct_Stdin = stdin,
                    ct_Stdout = stdout, ct_Stderr = stderr, ct_Terminal = pget cc_Tty False config\<rparr>))) (\<lambda>pid.
         on_error
           (seqE (wrap_err (\<lambda>e. Errorf [Lit ''failed to start containerd task '', Q cid, Lit '': '', V e])
                   (ext (tasks_Start env cid)))
                 (ret pid))
           (ext (tasks_Delete env cid))))))
        (seqE (close_pipe_if env stdinPipe) (seqE (close_pipe env stdoutPipe) (close_pipe env stderrPipe))))))))"

definition start_failed_status :: "Status \<Rightarrow> int64 \<Rightarrow> goerror \<Rightarrow> Status" where
  "start_failed_status status t e = status\<lparr>st_Pid := 0, st_FinishedAt := t,
     st_ExitCode := errorStartExitCode, st_Reason := errorStartReason, st_Message := error_text e\<rparr>"

definition startContainer :: "'w env \<Rightarrow> string \<Rightarrow> ContainerMeta \<Rightarrow> Status
    \<Rightarrow> ('w, goerror option \<times> Status) act" where
  "startContainer env cid meta status =
     (if State status \<noteq> CONTAINER_CREATED then
        ret (Some (Errorf [Lit ''container '', Q cid, Lit '' is in '',
          Lit (criContainerStateToString (State status)), Lit '' state'']), status)
      else if st_Removing status then
        ret (Some (Errorf [Lit ''container '', Q cid, Lit '' is in removing state'']), status)
      else tryE (start_task env cid meta) (\<lambda>r. bindE (ext_val (time_Now env)) (\<lambda>t.
        case r of
          Inl e \<Rightarrow> ret (Some e, start_failed_status status t e)
        | Inr pid \<Rightarrow> ret (None, status\<lparr>st_Pid := pid, st_StartedAt := t\<rparr>))))"

definition StartContainer :: "'w env \<Rightarrow> string \<Rightarrow> ('w, unit) act" where
  "StartContainer env rid =
     bindE (wrap_err (\<lambda>e. Errorf [Lit ''an error occurred when try to find container '', Q rid, Lit '': '', V e])
             (cstore_Get rid)) (\<lambda>container.
     bindE (status_UpdateTx container (startContainer env (c_ID container) (c_Metadata container))) (\<lambda>startErr.
     case startErr of Some e \<Rightarrow> fail e | None \<Rightarrow> ret ()))"

section \<open>The transaction touches nothing but the outside and the status\<close>

lemma close_pipe_world [svc_guar, intro!]:
  "guar world_only (close_pipe env p)" "guar world_only (close_pipe_if env p)"
  by (auto simp: close_pipe_def close_pipe_if_def split: option.split intro!: guar_intros)

lemma containerLogger_Start_world [svc_guar, intro!]: "guar world_only (containerLogger_Start env p)"
  by (auto simp: containerLogger_Start_def intro!: guar_intros)

lemma start_loggers_world [svc_guar, intro!]: "guar world_only (start_loggers env c sc)"
  by (auto simp: start_loggers_def Let_def intro!: guar_intros)

lemma start_task_world [svc_guar, intro!]: "guar world_only (start_task env cid meta)"
  by (auto simp: start_task_def Let_def split: prod.split intro!: guar_intros)

lemma startContainer_world [svc_guar, intro!]: "guar world_only (startContainer env cid meta st)"
  by (auto simp: startContainer_def split: sum.split intro!: guar_intros)

section \<open>What the transaction does to the status\<close>

lemma startContainer_guarded:
  "State st \<noteq> CONTAINER_CREATED \<or> st_Removing st \<Longrightarrow>
   \<exists>e. run (startContainer env cid meta st) s = (Ok (Some e, st), s)"
  by (auto simp: startContainer_def ret_def)

lemma startContainer_cases:
  assumes "run (startContainer env cid meta st) s = (Ok (r, st'), s')"
    and "State st = CONTAINER_CREATED" and "\<not> st_Removing st"
  shows "(\<exists>pid t. r = None \<and> st' = st\<lparr>st_Pid := pid, st_StartedAt := t\<rparr>) \<or>
         (\<exists>e t. r = Some e \<and> st' = start_failed_status st t e)"
  using assms
  by (auto simp: startContainer_def run_simps ret_def ext_val_def
      split: prod.splits outcome.splits sum.splits)

lemma startContainer_status_step:
  assumes "run (startContainer env cid meta st) s = (Ok (r, st'), s')"
  shows "status_step\<^sup>*\<^sup>* st st'"
proof (cases "State st = CONTAINER_CREATED \<and> \<not> st_Removing st")
  case True
  with startContainer_cases [OF assms] have "status_step st st'"
    by (auto simp: start_failed_status_def intro: status_step.start_ok status_step.start_failed)
  then show ?thesis by simp
next
  case False
  with startContainer_guarded [of st env cid meta s] assms show ?thesis by auto
qed

lemma StartContainer_guar [svc_guar]: "guar svc_step (StartContainer env rid)"
  unfolding StartContainer_def
  by (auto intro!: guar_intros svc_guar svc_status_UpdateTx startContainer_status_step
      split: option.split)

section \<open>Functional behaviour of the handler\<close>

lemma run_status_UpdateTx:
  assumes "c_Status c = Some i" and "i < length (statuses s)"
  shows "run (status_UpdateTx c body) s =
    (case run (body (statuses s ! i)) s of
       (Ok (e, st), s') \<Rightarrow> (Ok e, s'\<lparr>statuses := (statuses s')[i := st]\<rparr>)
     | (Err e, s') \<Rightarrow> (Err e, s') | (Panic, s') \<Rightarrow> (Panic, s') | (Diverge, s') \<Rightarrow> (Diverge, s'))"
  using assms by (simp add: status_UpdateTx_def)

lemma run_cstore_Get [run_simps]:
  "run (cstore_Get cid) s = (case map_of (containerStore s) cid of
     Some c \<Rightarrow> (Ok c, s) | None \<Rightarrow> (Err StoreNotExist, s))"
  by (simp add: cstore_Get_def containerStore_Get_def split: option.split)

text \<open>
  C14: A container that is not in the created state, or that is being removed, is not started:
  the request fails and nothing changes, inside or outside.
\<close>

lemma StartContainer_refused:
  assumes "map_of (containerStore s) rid = Some c" and "c_Status c = Some i"
    and "i < length (statuses s)"
    and "State (statuses s ! i) \<noteq> CONTAINER_CREATED \<or> st_Removing (statuses s ! i)"
  shows "\<exists>e. run (StartContainer env rid) s = (Err e, s)"
proof -
  obtain e where "run (startContainer env (c_ID c) (c_Metadata c) (statuses s ! i)) s
      = (Ok (Some e, statuses s ! i), s)"
    using startContainer_guarded [OF assms(4)] by blast
  with assms show ?thesis
    by (auto simp: StartContainer_def run_simps run_status_UpdateTx fail_def)
qed

lemma run_StartContainer_tx:
  assumes c: "map_of (containerStore s) rid = Some c" "c_Status c = Some i" "i < length (statuses s)"
    and body: "run (startContainer env (c_ID c) (c_Metadata c) (statuses s ! i)) s = (Ok (e, st), s1)"
  shows "run (StartContainer env rid) s =
    (case e of Some x \<Rightarrow> Err x | None \<Rightarrow> Ok (), s1\<lparr>statuses := (statuses s1)[i := st]\<rparr>)"
  using c body by (simp add: StartContainer_def run_bindE run_wrap_err run_cstore_Get
      run_status_UpdateTx fail_def ret_def split: option.split)

lemma run_StartContainer_created:
  assumes c: "map_of (containerStore s) rid = Some c" "c_Status c = Some i" "i < length (statuses s)"
    and st: "State (statuses s ! i) = CONTAINER_CREATED" "\<not> st_Removing (statuses s ! i)"
    and run: "run (StartContainer env rid) s = (r, s')"
  shows "(\<exists>pid t w. r = Ok () \<and> s' = s\<lparr>world := w, statuses := (statuses s)
            [i := (statuses s ! i)\<lparr>st_Pid := pid, st_StartedAt := t\<rparr>]\<rparr>) \<or>
         (\<exists>e t w. r = Err e \<and> s' = s\<lparr>world := w, statuses := (statuses s)
            [i := start_failed_status (statuses s ! i) t e]\<rparr>) \<or>
         ((r = Panic \<or> r = Diverge) \<and> (\<exists>w. s' = s\<lparr>world := w\<rparr>))"
proof -
  obtain q s1 where body: "run (startContainer env (c_ID c) (c_Metadata c) (statuses s ! i)) s = (q, s1)"
    by (cases "run (startContainer env (c_ID c) (c_Metadata c) (statuses s ! i)) s")
  then obtain w where s1: "s1 = s\<lparr>world := w\<rparr>"
    using guar_world_only_run [OF startContainer_world] by blast
  show ?thesis
  proof (cases q)
    case (Ok p)
    obtain e st' where p: "p = (e, st')" by (cases p)
    note tx = run_StartContainer_tx [OF c body [unfolded Ok p]]
    from startContainer_cases [OF body [unfolded Ok p] st]
    show ?thesis
    proof (elim disjE exE conjE)
      fix pid t
      assume "e = None" "st' = (statuses s ! i)\<lparr>st_Pid := pid, st_StartedAt := t\<rparr>"
      with tx run s1 have "r = Ok () \<and> s' = s\<lparr>world := w, statuses := (statuses s)
            [i := (statuses s ! i)\<lparr>st_Pid := pid, st_StartedAt := t\<rparr>]\<rparr>" by simp
      then show ?thesis by blast
    next
      fix err t
      assume "e = Some err" "st' = start_failed_status (statuses s ! i) t err"
      with tx run s1 have "r = Err err \<and> s' = s\<lparr>world := w, statuses := (statuses s)
            [i := start_failed_status (statuses s ! i) t err]\<rparr>" by simp
      then show ?thesis by blast
    qed
  next
    case (Err e)
    from body Err st have False
      by (auto simp: startContainer_def run_simps ret_def ext_val_def
          split: prod.splits outcome.splits sum.splits)
    then show ?thesis ..
  qed (use run c body s1 in \<open>auto simp: StartContainer_def run_simps run_status_UpdateTx\<close>)
qed


end
