(* ===== verification/Container_Stop.thy ===== *)
theory Container_Stop
  imports Container_Start
begin

text \<open>
  \<^verbatim>\<open>pkg/server/container_stop.go\<close>. A stop sends the image's stop signal, polls the status until
  the event monitor has recorded the exit or the grace period is over, then kills and polls
  again. The poll loop is run with a number of rounds \<open>fuel\<close>; \<open>Diverge\<close> is the result of a loop
  that used them all, and \<open>waitContainerStop_ends\<close> shows that it is never the result when the
  timer or the context fires within that number of ticks.
\<close>

definition unix_SIGKILL :: uint32 where "unix_SIGKILL = 9"
definition unix_SIGTERM :: uint32 where "unix_SIGTERM = 15"

text \<open>Nanoseconds; the product \<open>time.Duration(timeout) * time.Second\<close> wraps around.\<close>

definition time_Second :: int64 where "time_Second = 1000000000"
definition killContainerTimeout :: int64 where "killContainerTimeout = 120 * time_Second"

definition wait_timeout :: "string \<Rightarrow> Select \<Rightarrow> goerror" where
  "wait_timeout cid sel = (case sel of
     CtxDone \<Rightarrow> Errorf [Lit ''wait container '', Q cid, Lit '' is cancelled'']
   | _ \<Rightarrow> Errorf [Lit ''wait container '', Q cid, Lit '' stop timeout''])"

text \<open>What one round does with the container it found; \<open>next\<close> is the next round.\<close>

definition wait_round :: "'w env \<Rightarrow> string \<Rightarrow> int64 \<Rightarrow> ('w, unit) act \<Rightarrow> Container \<Rightarrow> ('w, unit) act" where
  "wait_round env cid timeout next_round container =
     bindE (status_Get container) (\<lambda>st.
       if State st = CONTAINER_EXITED then ret ()
       else bindE (ext_val (select_wait env timeout)) (\<lambda>sel.
         if sel = Tick then next_round else fail (wait_timeout cid sel)))"

fun waitContainerStop :: "'w env \<Rightarrow> nat \<Rightarrow> string \<Rightarrow> int64 \<Rightarrow> ('w, unit) act" where
  "waitContainerStop env 0 cid timeout = Ret Diverge"
| "waitContainerStop env (Suc fuel) cid timeout =
     tryE (cstore_Get cid) (\<lambda>r. case r of
       Inl e \<Rightarrow> if e \<noteq> StoreNotExist
         then fail (Errorf [Lit ''failed to get container '', Q cid, Lit '': '', V e])
         else ret ()
     | Inr container \<Rightarrow> wait_round env cid timeout (waitContainerStop env fuel cid timeout) container)"
text \<open>\<open>taskService.Kill\<close> with the two errors that mean the process is gone already.\<close>

definition kill_unless_gone :: "'w env \<Rightarrow> string \<Rightarrow> uint32 \<Rightarrow> string \<Rightarrow> ('w, unit) act" where
  "kill_unless_gone env cid sig what =
     tryE (ext (tasks_Kill env \<lparr>kr_ContainerID = cid, kr_Signal = sig, kr_All = True\<rparr>)) (\<lambda>r.
       case r of
         Inl e \<Rightarrow> if \<not> isContainerdGRPCNotFoundError e \<and> \<not> isRuncProcessAlreadyFinishedError e
           then fail (Errorf [Lit what, Q cid, Lit '': '', V e]) else ret ()
       | Inr _ \<Rightarrow> ret ())"

text \<open>The signal of the graceful stop; an image without configuration panics.\<close>

definition stop_signal :: "'w env \<Rightarrow> Container \<Rightarrow> ('w, uint32) act" where
  "stop_signal env container =
     bindE (wrap_err (\<lambda>e. Errorf [Lit ''failed to get image metadata '',
              Q (md_ImageRef (c_Metadata container)), Lit '': '', V e])
             (istore_Get (md_ImageRef (c_Metadata container)))) (\<lambda>image.
     case img_Config image of
       None \<Rightarrow> Ret Panic
     | Some config \<Rightarrow>
         if ic_StopSignal config \<noteq> '''' then
           wrap_err (\<lambda>e. Errorf [Lit ''failed to parse stop signal '', Q (ic_StopSignal config), Lit '': '', V e])
             (lift_result (signal_ParseSignal env (ic_StopSignal config)))
         else ret unix_SIGTERM)"

definition kill_and_wait :: "'w env \<Rightarrow> nat \<Rightarrow> string \<Rightarrow> ('w, unit) act" where
  "kill_and_wait env fuel cid =
     seqE (kill_unless_gone env cid unix_SIGKILL ''failed to kill container '')
       (wrap_err (\<lambda>e. Errorf [Lit ''an error occurs during waiting for container '', Q cid,
            Lit '' to stop: '', V e])
         (waitContainerStop env fuel cid killContainerTimeout))"

definition stopContainer :: "'w env \<Rightarrow> nat \<Rightarrow> Container \<Rightarrow> int64 \<Rightarrow> ('w, unit) act" where
  "stopContainer env fuel container timeout =
     (let cid = c_ID container in
      bindE (status_Get container) (\<lambda>st.
      if State st \<noteq> CONTAINER_RUNNING then ret ()
      else if 0 < sint timeout then
        bindE (stop_signal env container) (\<lambda>stopSignal.
        seqE (kill_unless_gone env cid stopSignal ''failed to stop container '')
          (tryE (waitContainerStop env fuel cid timeout) (\<lambda>r. case r of
             Inr _ \<Rightarrow> ret ()
           | Inl _ \<Rightarrow> kill_and_wait env fuel cid)))
      else kill_and_wait env fuel cid))"

definition StopContainer :: "'w env \<Rightarrow> nat \<Rightarrow> string \<Rightarrow> int64 \<Rightarrow> ('w, unit) act" where
  "StopContainer env fuel rid timeout =
     bindE (wrap_err (\<lambda>e. Errorf [Lit ''an error occurred when try to find container '', Q rid, Lit '': '', V e])
             (cstore_Get rid)) (\<lambda>container.
     stopContainer env fuel container (timeout * time_Second))"

section \<open>A stop changes no status itself\<close>

lemma waitContainerStop_world [svc_guar, intro!]: "guar world_only (waitContainerStop env n cid t)"
  by (induction n) (auto simp: wait_round_def intro!: guar_intros split: sum.split Select.split)

lemma kill_unless_gone_world [svc_guar, intro!]: "guar world_only (kill_unless_gone env cid sig w)"
  by (auto simp: kill_unless_gone_def intro!: guar_intros split: sum.split)

lemma stop_signal_world [svc_guar, intro!]: "guar world_only (stop_signal env c)"
  by (auto simp: stop_signal_def intro!: guar_intros split: option.split)

lemma stopContainer_world [svc_guar, intro!]: "guar world_only (stopContainer env n c t)"
  by (auto simp: stopContainer_def kill_and_wait_def Let_def intro!: guar_intros split: sum.split)

lemma StopContainer_world [svc_guar, intro!]: "guar world_only (StopContainer env n rid t)"
  by (auto simp: StopContainer_def intro!: guar_intros)

lemmas stop_guar [svc_guar] = stopContainer_world [THEN guar_world_only]
  StopContainer_world [THEN guar_world_only] waitContainerStop_world [THEN guar_world_only]

section \<open>The wait ends\<close>

text \<open>The number of ticks the world delivers before the timer or the context fires.\<close>

fun fires_within :: "'w env \<Rightarrow> int64 \<Rightarrow> nat \<Rightarrow> 'w \<Rightarrow> bool" where
  "fires_within env t 0 w = False"
| "fires_within env t (Suc n) w =
     (case select_wait env t w of (Tick, w') \<Rightarrow> fires_within env t n w' | _ \<Rightarrow> True)"

lemma run_status_Get:
  "run (status_Get c) s = (case c_Status c of
     Some i \<Rightarrow> (if i < length (statuses s) then (Ok (statuses s ! i), s) else (Panic, s))
   | None \<Rightarrow> (Panic, s))"
  by (simp add: status_Get_def statusStorage_Get_def split: option.split)

lemma run_waitContainerStop_running:
  assumes "map_of (containerStore s) cid = Some c" and "c_Status c = Some i" and "i < length (statuses s)"
    and "State (statuses s ! i) \<noteq> CONTAINER_EXITED" and "select_wait env t (world s) = (sel, w)"
  shows "run (waitContainerStop env (Suc n) cid t) s =
    (if sel = Tick then run (waitContainerStop env n cid t) (s\<lparr>world := w\<rparr>)
     else (Err (wait_timeout cid sel), s\<lparr>world := w\<rparr>))"
  using assms
  by (simp add: wait_round_def run_tryE run_bindE run_cstore_Get run_status_Get ext_val_def fail_def)

lemma run_waitContainerStop_stopped:
  assumes "\<And>c i. map_of (containerStore s) cid = Some c \<Longrightarrow> c_Status c = Some i \<Longrightarrow>
      i < length (statuses s) \<Longrightarrow> State (statuses s ! i) = CONTAINER_EXITED"
  shows "fst (run (waitContainerStop env (Suc n) cid t) s) \<in> {Ok (), Panic}"
proof (cases "map_of (containerStore s) cid")
  case None
  then show ?thesis by (simp add: run_tryE run_cstore_Get ret_def)
next
  case (Some c)
  then show ?thesis using assms [OF Some]
    by (cases "c_Status c")
      (auto simp add: wait_round_def run_tryE run_bindE run_cstore_Get run_status_Get ret_def)
qed

text \<open>
  C31: The wait for a container to stop ends: if the timer or the context fires within
  \<open>n\<close> polls, the loop returns within \<open>n\<close> rounds, whatever the other
  goroutines do to the stores before it starts.
\<close>

lemma waitContainerStop_ends:
  assumes "fires_within env t n (world s)" and "n \<le> fuel"
  shows "fst (run (waitContainerStop env fuel cid t) s) \<noteq> Diverge"
  using assms
proof (induction n arbitrary: fuel s)
  case (Suc n)
  then obtain m where m: "fuel = Suc m" "n \<le> m" by (cases fuel) auto
  show ?case
  proof (cases "\<exists>c i. map_of (containerStore s) cid = Some c \<and> c_Status c = Some i \<and>
      i < length (statuses s) \<and> State (statuses s ! i) \<noteq> CONTAINER_EXITED")
    case True
    obtain sel w where sel: "select_wait env t (world s) = (sel, w)" by (cases "select_wait env t (world s)")
    have "fst (run (waitContainerStop env m cid t) (s\<lparr>world := w\<rparr>)) \<noteq> Diverge" if "sel = Tick"
      using Suc sel that m by simp
    with True sel m show ?thesis
      by (auto simp: run_waitContainerStop_running simp del: waitContainerStop.simps split: if_splits)
  next
    case False
    then have "fst (run (waitContainerStop env (Suc m) cid t) s) \<in> {Ok (), Panic}"
      by (intro run_waitContainerStop_stopped) blast
    with m show ?thesis by (auto simp del: waitContainerStop.simps)
  qed
qed simp

section \<open>A successful stop\<close>

text \<open>
  Stopping a container that is not running succeeds and does nothing.
\<close>

lemma StopContainer_not_running:
  assumes "map_of (containerStore s) rid = Some c" and "c_Status c = Some i" and "i < length (statuses s)"
    and "State (statuses s ! i) \<noteq> CONTAINER_RUNNING"
  shows "run (StopContainer env fuel rid t) s = (Ok (), s)"
  using assms by (simp add: StopContainer_def stopContainer_def run_bindE run_wrap_err run_cstore_Get
      run_status_Get Let_def ret_def)

text \<open>Among other goroutines: a wait that returns has seen the container exited or gone, and
  exited it stays. The assertions speak of the container \<open>c\<close> that is in the store at \<open>s0\<close>.\<close>

definition stopped_since :: "string \<Rightarrow> nat \<Rightarrow> 'w st \<Rightarrow> 'w st \<Rightarrow> bool" where
  "stopped_since cid i s0 t \<longleftrightarrow> svc_step\<^sup>*\<^sup>* s0 t \<and>
     (State (statuses t ! i) = CONTAINER_EXITED \<or> absent_between cid s0 t)"

lemma stable_since [simp]: "stable svc_step (\<lambda>s. svc_step\<^sup>*\<^sup>* s0 s)"
  by (auto simp: stable_def)

lemma stable_stopped_since:
  assumes "i < length (statuses s0)"
  shows "stable svc_step (stopped_since cid i s0)"
proof -
  have "stopped_since cid i s0 u" if "stopped_since cid i s0 t" "svc_step t u" for t u
  proof -
    from that(1) have t: "svc_step\<^sup>*\<^sup>* s0 t" by (simp add: stopped_since_def)
    then have i: "i < length (statuses t)" using assms by (rule svc_steps_status_at)
    have "svc_step\<^sup>*\<^sup>* t u" using that(2) by blast
    then show ?thesis using that t svc_steps_exited [of t u i] i
      by (auto simp: stopped_since_def intro: absent_between_trans(2) rtranclp.rtrancl_into_rtrancl)
  qed
  then show ?thesis by (auto simp: stable_def)
qed

definition found_since :: "Container \<Rightarrow> string \<Rightarrow> 'w st \<Rightarrow> Container \<Rightarrow> 'w st \<Rightarrow> bool" where
  "found_since c cid s0 c' s \<longleftrightarrow> svc_step\<^sup>*\<^sup>* s0 s \<and> (c' = c \<or> absent_between cid s0 s)"

lemma stable_found_since [simp]: "stable svc_step (found_since c cid s0 c')"
  unfolding stable_def found_since_def
  by (meson absent_between_trans(2) r_into_rtranclp rtranclp.rtrancl_into_rtrancl)

lemma stable_absent [simp]: "stable svc_step (\<lambda>s. svc_step\<^sup>*\<^sup>* s0 s \<and> absent_between cid s0 s)"
  unfolding stable_def by (meson absent_between_trans(2) r_into_rtranclp rtranclp.rtrancl_into_rtrancl)

lemma itriple_cstore_Get:
  assumes "map_of (containerStore s0) cid = Some c"
  shows "itriple svc_step (\<lambda>s. svc_step\<^sup>*\<^sup>* s0 s) (cstore_Get cid)
    (\<lambda>r s. case r of Ok c' \<Rightarrow> found_since c cid s0 c' s
       | Err e \<Rightarrow> svc_step\<^sup>*\<^sup>* s0 s \<and> absent_between cid s0 s | _ \<Rightarrow> False)"
  unfolding cstore_Get_def
proof (rule itriple_atomic)
  fix s s' :: "'a st" and x
  assume s: "svc_step\<^sup>*\<^sup>* s0 s" and "(of_result (containerStore_Get cid (containerStore s)), s) = (x, s')"
  with svc_steps_entry [OF s assms] show "case x of Ok c' \<Rightarrow> found_since c cid s0 c' s'
       | Err e \<Rightarrow> svc_step\<^sup>*\<^sup>* s0 s' \<and> absent_between cid s0 s' | _ \<Rightarrow> False"
    by (auto simp: containerStore_Get_def found_since_def split: option.splits)
next
  fix r :: "(goerror, Container) outcome"
  show "stable svc_step (\<lambda>s. case r of Ok c' \<Rightarrow> found_since c cid s0 c' s
       | Err e \<Rightarrow> svc_step\<^sup>*\<^sup>* s0 s \<and> absent_between cid s0 s | _ \<Rightarrow> False)"
    by (cases r) (simp_all, simp_all add: stable_def)
qed simp

lemma itriple_status_Get:
  assumes "c_Status c = Some i" and "i < length (statuses s0)"
  shows "itriple svc_step (found_since c cid s0 c') (status_Get c')
    (\<lambda>r s. svc_step\<^sup>*\<^sup>* s0 s \<and> (\<forall>st. r = Ok st \<longrightarrow>
       absent_between cid s0 s \<or> status_step\<^sup>*\<^sup>* (statuses s0 ! i) st \<and> status_step\<^sup>*\<^sup>* st (statuses s ! i)))"
  unfolding status_Get_def
proof (rule itriple_atomic)
  fix s s' :: "'a st" and x
  assume f: "found_since c cid s0 c' s" and "(case c_Status c' of
       Some i \<Rightarrow> (if i < length (statuses s) then (Ok (statusStorage_Get (statuses s ! i)), s) else (Panic, s))
     | None \<Rightarrow> (Panic, s)) = (x, s')"
  then show "svc_step\<^sup>*\<^sup>* s0 s' \<and> (\<forall>st. x = Ok st \<longrightarrow> absent_between cid s0 s' \<or>
      status_step\<^sup>*\<^sup>* (statuses s0 ! i) st \<and> status_step\<^sup>*\<^sup>* st (statuses s' ! i))"
    using assms svc_steps_status_at [of s0 s i]
    by (auto simp: found_since_def statusStorage_Get_def split: option.splits if_splits)
next
  fix r :: "(goerror, Status) outcome"
  show "stable svc_step (\<lambda>s. svc_step\<^sup>*\<^sup>* s0 s \<and> (\<forall>st. r = Ok st \<longrightarrow> absent_between cid s0 s \<or>
      status_step\<^sup>*\<^sup>* (statuses s0 ! i) st \<and> status_step\<^sup>*\<^sup>* st (statuses s ! i)))"
    unfolding stable_def
  proof (intro allI impI conjI)
    fix s t and st
    assume s: "svc_step\<^sup>*\<^sup>* s0 s \<and> (\<forall>st. r = Ok st \<longrightarrow> absent_between cid s0 s \<or>
      status_step\<^sup>*\<^sup>* (statuses s0 ! i) st \<and> status_step\<^sup>*\<^sup>* st (statuses s ! i))" and t: "svc_step s t"
    then show "svc_step\<^sup>*\<^sup>* s0 t" by (meson rtranclp.rtrancl_into_rtrancl)
    from s have "i < length (statuses s)" using assms(2) svc_steps_status_at by blast
    then have "status_step\<^sup>*\<^sup>* (statuses s ! i) (statuses t ! i)"
      using svc_steps_status_at [of s t i] t by blast
    then have st: "status_step\<^sup>*\<^sup>* st (statuses t ! i)" if "status_step\<^sup>*\<^sup>* st (statuses s ! i)"
      using that by (rule rtranclp_trans [rotated])
    have absent: "absent_between cid s0 t" if "absent_between cid s0 s"
      using that t by (blast intro: absent_between_trans(2))
    assume "r = Ok st"
    with s have "absent_between cid s0 s \<or>
        status_step\<^sup>*\<^sup>* (statuses s0 ! i) st \<and> status_step\<^sup>*\<^sup>* st (statuses s ! i)" by simp
    with st absent show "absent_between cid s0 t \<or>
        status_step\<^sup>*\<^sup>* (statuses s0 ! i) st \<and> status_step\<^sup>*\<^sup>* st (statuses t ! i)" by blast
  qed
qed simp

text \<open>The postcondition of a stop: a successful one has seen the container exited or gone.\<close>

definition stop_post :: "string \<Rightarrow> nat \<Rightarrow> 'w st \<Rightarrow> (goerror, unit) outcome \<Rightarrow> 'w st \<Rightarrow> bool" where
  "stop_post cid i s0 r s \<longleftrightarrow> svc_step\<^sup>*\<^sup>* s0 s \<and> (r = Ok () \<longrightarrow> stopped_since cid i s0 s)"

lemma stable_stop_post: "i < length (statuses s0) \<Longrightarrow> stable svc_step (stop_post cid i s0 r)"
  using stable_stopped_since [of i s0 cid] unfolding stable_def stop_post_def
  by (meson rtranclp.rtrancl_into_rtrancl)

lemma stop_post_failure:
  "svc_step\<^sup>*\<^sup>* s0 s \<Longrightarrow> r \<noteq> Ok () \<Longrightarrow> stop_post cid i s0 r s"
  "svc_step\<^sup>*\<^sup>* s0 s \<Longrightarrow> absent_between cid s0 s \<Longrightarrow> stop_post cid i s0 r s"
  by (simp_all add: stop_post_def stopped_since_def)

text \<open>An action that only has to keep to the guarantee.\<close>

lemma itriple_step:
  assumes "guar svc_step m" and "\<And>x. itriple svc_step (\<lambda>s. svc_step\<^sup>*\<^sup>* s0 s) (k x) (stop_post cid i s0)"
    and "i < length (statuses s0)"
  shows "itriple svc_step (\<lambda>s. svc_step\<^sup>*\<^sup>* s0 s) (bindE m k) (stop_post cid i s0)"
  by (rule itriple_bindE [where M = "\<lambda>_ s. svc_step\<^sup>*\<^sup>* s0 s", OF itriple_weaken [OF itriple_guar [OF assms(1)]]
        assms(2) stable_stop_post [OF assms(3)]])
    (auto split: outcome.split intro: stop_post_failure)

lemma itriple_fail: "itriple svc_step (\<lambda>s. svc_step\<^sup>*\<^sup>* s0 s) (fail e) (stop_post cid i s0)"
  by (auto simp: fail_def intro!: itriple_Ret stop_post_failure(1))

lemma itriple_ret_post:
  assumes "i < length (statuses s0)"
  shows "itriple svc_step (\<lambda>s. svc_step\<^sup>*\<^sup>* s0 s \<and> stop_post cid i s0 (Ok ()) s) (ret ()) (stop_post cid i s0)"
  unfolding ret_def by (intro itriple_Ret stable_conj stable_since stable_stop_post [OF assms]) simp

lemma wait_round_exited:
  assumes next_round: "itriple svc_step (\<lambda>s. svc_step\<^sup>*\<^sup>* s0 s) next_round (stop_post cid i s0)"
    and c: "c_Status c = Some i" "i < length (statuses s0)"
  shows "itriple svc_step (found_since c cid s0 c') (wait_round env cid tm next_round c') (stop_post cid i s0)"
  unfolding wait_round_def
proof (rule itriple_bindE [where M = "\<lambda>st s. svc_step\<^sup>*\<^sup>* s0 s \<and>
      (State st = CONTAINER_EXITED \<longrightarrow> stop_post cid i s0 (Ok ()) s)",
      OF itriple_weaken [OF itriple_status_Get [OF c]] _ stable_stop_post [OF c(2)]])
  fix st
  show "itriple svc_step (\<lambda>s. svc_step\<^sup>*\<^sup>* s0 s \<and> (State st = CONTAINER_EXITED \<longrightarrow> stop_post cid i s0 (Ok ()) s))
      (if State st = CONTAINER_EXITED then ret () else bindE (ext_val (select_wait env tm)) (\<lambda>sel.
        if sel = Tick then next_round else fail (wait_timeout cid sel))) (stop_post cid i s0)"
  proof (cases "State st = CONTAINER_EXITED")
    case True
    show ?thesis using True itriple_ret_post [OF c(2), of cid] by simp
  next
    case False
    have "itriple svc_step (\<lambda>s. svc_step\<^sup>*\<^sup>* s0 s) (bindE (ext_val (select_wait env tm)) (\<lambda>sel.
        if sel = Tick then next_round else fail (wait_timeout cid sel))) (stop_post cid i s0)"
      by (rule itriple_step [OF _ _ c(2)]) (auto intro: svc_guar next_round itriple_fail)
    with False show ?thesis by simp
  qed
qed (auto simp: stop_post_def stopped_since_def split: outcome.split dest: status_steps_exit_record)

lemma waitContainerStop_exited:
  assumes c: "map_of (containerStore s0) cid = Some c" "c_Status c = Some i" "i < length (statuses s0)"
  shows "itriple svc_step (\<lambda>s. svc_step\<^sup>*\<^sup>* s0 s) (waitContainerStop env fuel cid tm) (stop_post cid i s0)"
proof (induction fuel)
  case 0
  show ?case by (simp add: itriple_Ret stop_post_failure)
next
  case (Suc fuel)
  let ?M = "\<lambda>x s. case x of Inr c' \<Rightarrow> found_since c cid s0 c' s
         | Inl e \<Rightarrow> svc_step\<^sup>*\<^sup>* s0 s \<and> absent_between cid s0 s"
  show ?case
    unfolding waitContainerStop.simps
  proof (rule itriple_tryE [where M = ?M, OF itriple_weaken [OF itriple_cstore_Get [OF c(1)]] _
        stable_stop_post [OF c(3)]])
    fix x
    show "itriple svc_step (?M x) (case x of Inl e \<Rightarrow> if e \<noteq> StoreNotExist
         then fail (Errorf [Lit ''failed to get container '', Q cid, Lit '': '', V e]) else ret ()
       | Inr container \<Rightarrow> wait_round env cid tm (waitContainerStop env fuel cid tm) container)
      (stop_post cid i s0)"
    proof (cases x)
      case (Inl e)
      then show ?thesis by (auto simp: ret_def fail_def intro!: itriple_Ret stop_post_failure)
    next
      case (Inr c')
      then show ?thesis using wait_round_exited [OF Suc.IH c(2,3)] by simp
    qed
  qed (auto split: outcome.splits)
qed

lemma kill_and_wait_exited:
  assumes c: "map_of (containerStore s0) cid = Some c" "c_Status c = Some i" "i < length (statuses s0)"
  shows "itriple svc_step (\<lambda>s. svc_step\<^sup>*\<^sup>* s0 s) (kill_and_wait env fuel cid) (stop_post cid i s0)"
  unfolding kill_and_wait_def seqE_def
proof (rule itriple_step [OF guar_world_only [OF kill_unless_gone_world] _ c(3)])
  show "itriple svc_step (\<lambda>s. svc_step\<^sup>*\<^sup>* s0 s) (wrap_err (\<lambda>e. Errorf [Lit ''an error occurs during waiting for container '',
      Q cid, Lit '' to stop: '', V e]) (waitContainerStop env fuel cid killContainerTimeout)) (stop_post cid i s0)" for x :: unit
    by (rule itriple_wrap_err [OF itriple_weaken [OF waitContainerStop_exited [OF c]] stable_stop_post [OF c(3)]])
      (auto simp: stop_post_def split: outcome.splits)
qed

lemma stopContainer_exited:
  assumes c: "map_of (containerStore s0) cid = Some c" "c_Status c = Some i" "i < length (statuses s0)"
    and cid: "c_ID c = cid" and running: "State (statuses s0 ! i) = CONTAINER_RUNNING"
  shows "itriple svc_step (\<lambda>s. svc_step\<^sup>*\<^sup>* s0 s) (stopContainer env fuel c tm) (stop_post cid i s0)"
proof -
  note kill = kill_and_wait_exited [OF c] and wait = waitContainerStop_exited [OF c]
  have grace: "itriple svc_step (\<lambda>s. svc_step\<^sup>*\<^sup>* s0 s) (tryE (waitContainerStop env fuel cid tm)
      (\<lambda>r. case r of Inr _ \<Rightarrow> ret () | Inl _ \<Rightarrow> kill_and_wait env fuel cid)) (stop_post cid i s0)"
  proof (rule itriple_tryE [where M = "\<lambda>x s. svc_step\<^sup>*\<^sup>* s0 s \<and> (x = Inr () \<longrightarrow> stop_post cid i s0 (Ok ()) s)",
        OF itriple_weaken [OF wait] _ stable_stop_post [OF c(3)]])
    show "itriple svc_step (\<lambda>s. svc_step\<^sup>*\<^sup>* s0 s \<and> (x = Inr () \<longrightarrow> stop_post cid i s0 (Ok ()) s))
      (case x of Inr _ \<Rightarrow> ret () | Inl _ \<Rightarrow> kill_and_wait env fuel cid) (stop_post cid i s0)" for x
      by (cases x) (simp_all add: kill itriple_ret_post [OF c(3)])
  qed (auto simp: stop_post_def split: outcome.splits)
  let ?rest = "\<lambda>st. if State st \<noteq> CONTAINER_RUNNING then ret ()
      else if 0 < sint tm then bindE (stop_signal env c) (\<lambda>stopSignal.
        seqE (kill_unless_gone env cid stopSignal ''failed to stop container '')
          (tryE (waitContainerStop env fuel cid tm) (\<lambda>r. case r of Inr _ \<Rightarrow> ret () | Inl _ \<Rightarrow> kill_and_wait env fuel cid)))
      else kill_and_wait env fuel cid"
  let ?M = "\<lambda>st s. svc_step\<^sup>*\<^sup>* s0 s \<and> (State st \<noteq> CONTAINER_RUNNING \<longrightarrow> stop_post cid i s0 (Ok ()) s)"
  have rest: "itriple svc_step (?M st) (?rest st) (stop_post cid i s0)" for st
  proof (cases "State st = CONTAINER_RUNNING")
    case True
    have "itriple svc_step (\<lambda>s. svc_step\<^sup>*\<^sup>* s0 s) (?rest st) (stop_post cid i s0)"
      unfolding seqE_def using True kill grace
      by (auto intro!: itriple_step [OF _ _ c(3)] guar_world_only)
    with True show ?thesis by (simp add: itriple_weaken)
  next
    case False
    show ?thesis using False itriple_ret_post [OF c(3), of cid] by simp
  qed
  have found: "found_since c cid s0 c s" if "svc_step\<^sup>*\<^sup>* s0 s" for s
    using that by (simp add: found_since_def)
  show ?thesis
    unfolding stopContainer_def Let_def cid
    by (rule itriple_bindE [where M = ?M, OF itriple_weaken [OF itriple_status_Get [OF c(2,3)]] rest
          stable_stop_post [OF c(3)]])
      (use running found in \<open>auto simp: stop_post_def stopped_since_def exited_rank
        split: outcome.split dest!: status_steps_rank past_running\<close>)
qed


lemma StopContainer_exited:
  assumes run: "irun svc_step (StopContainer env fuel rid tm) s0 (Ok ()) t" and inv: "svc_inv s0"
    and c: "map_of (containerStore s0) rid = Some c" "c_Status c = Some i" "i < length (statuses s0)"
    and running: "State (statuses s0 ! i) = CONTAINER_RUNNING"
  shows "State (statuses t ! i) = CONTAINER_EXITED \<or> absent_between rid s0 t"
proof -
  let ?stop = "\<lambda>c'. stopContainer env fuel c' (tm * time_Second)"
  from inv c(1) have cid: "c_ID c = rid" by (auto simp: svc_inv_def dest: containers_invD)
  have stop: "itriple svc_step (found_since c rid s0 c') (?stop c') (stop_post rid i s0)" for c'
  proof (cases "c' = c")
    case True
    then show ?thesis
      using itriple_weaken [OF stopContainer_exited [OF c cid running], of "found_since c rid s0 c"]
      by (auto simp: found_since_def)
  next
    case False
    have "absent_between rid s0 u \<and> svc_step\<^sup>*\<^sup>* s0 u"
      if "found_since c rid s0 c' s" "irun svc_step (?stop c') s r u" for s r u
      using that irun_guar [OF that(2) guar_world_only [OF stopContainer_world]] False
      by (auto simp: found_since_def intro: absent_between_trans(2) rtranclp_trans)
    then show ?thesis by (auto simp: itriple_def intro: stop_post_failure(2))
  qed
  have get: "itriple svc_step (\<lambda>s. svc_step\<^sup>*\<^sup>* s0 s) (wrap_err w (cstore_Get rid))
      (\<lambda>r s. case r of Ok c' \<Rightarrow> found_since c rid s0 c' s | _ \<Rightarrow> stop_post rid i s0 (Err StoreNotExist) s)"
    for w
  proof (rule itriple_wrap_err [OF itriple_weaken [OF itriple_cstore_Get [OF c(1)]]])
    fix r :: "(goerror, Container) outcome"
    show "stable svc_step (\<lambda>s. case r of Ok c' \<Rightarrow> found_since c rid s0 c' s
        | _ \<Rightarrow> stop_post rid i s0 (Err StoreNotExist) s)"
      by (cases r) (simp_all add: stable_stop_post [OF c(3)])
  qed (auto simp: stop_post_failure split: outcome.splits)
  have "itriple svc_step (\<lambda>s. svc_step\<^sup>*\<^sup>* s0 s) (StopContainer env fuel rid tm) (stop_post rid i s0)"
    unfolding StopContainer_def
    by (rule itriple_bindE [where M = "found_since c rid s0", OF itriple_weaken [OF get] stop
          stable_stop_post [OF c(3)]]) (auto simp: stop_post_def split: outcome.split)
  from itripleD [OF this rtranclp.rtrancl_refl run] show ?thesis
    by (simp add: stop_post_def stopped_since_def)
qed

end
