(* ===== verification/Container_Remove.thy ===== *)
theory Container_Remove
  imports Container_Stop
begin

text \<open>
  \<^verbatim>\<open>pkg/server/container_remove.go\<close>. A removal first claims the container by setting its
  \<open>Removing\<close> flag, which refuses a running container and one that is already claimed, then
  releases the snapshot, the root directory, the containerd container, the store entry and the
  name. A failure on the way gives the claim back.
\<close>

definition setContainerRemoving :: UpdateFunc where
  "setContainerRemoving status =
     (if State status = CONTAINER_RUNNING then Inl (Errorf [Lit ''container is still running''])
      else if st_Removing status then Inl (Errorf [Lit ''container is already in removing state''])
      else Inr (status\<lparr>st_Removing := True\<rparr>))"

definition resetContainerRemoving :: UpdateFunc where
  "resetContainerRemoving status = Inr (status\<lparr>st_Removing := False\<rparr>)"

text \<open>\<open>if err := m; err != nil { if !harmless(err) { return fmt.Errorf(...) } }\<close>.\<close>

definition tolerate :: "(goerror \<Rightarrow> bool) \<Rightarrow> (goerror \<Rightarrow> goerror) \<Rightarrow> ('w, unit) act \<Rightarrow> ('w, unit) act" where
  "tolerate harmless wrap m = tryE m (\<lambda>r. case r of
     Inl e \<Rightarrow> if \<not> harmless e then fail (wrap e) else ret ()
   | Inr _ \<Rightarrow> ret ())"

text \<open>The resources outside the service, then those inside.\<close>

definition remove_external :: "'w env \<Rightarrow> Container \<Rightarrow> ('w, unit) act" where
  "remove_external env container =
     (let cid = c_ID container in
      seqE (tolerate errdefs_IsNotFound
             (\<lambda>e. Errorf [Lit ''failed to remove container snapshot '', Q cid, Lit '': '', V e])
             (snapshotService_Remove env cid))
      (bindE (gets rootDir) (\<lambda>dir.
       let containerRootDir = getContainerRootDir dir cid in
       seqE (wrap_err (\<lambda>e. Errorf [Lit ''failed to remove container root directory '', Q containerRootDir,
                Lit '': '', V e]) (RealOS_RemoveAll env containerRootDir))
       (seqE (wrap_err (\<lambda>e. Errorf [Lit ''failed to delete container checkpoint for '', Q cid, Lit '': '', V e])
                (container_Delete container))
       (tolerate isContainerdGRPCNotFoundError
                (\<lambda>e. Errorf [Lit ''failed to delete containerd container '', Q cid, Lit '': '', V e])
                (containerService_Delete env cid))))))"

definition remove_resources :: "'w env \<Rightarrow> Container \<Rightarrow> ('w, unit) act" where
  "remove_resources env container =
     seqE (remove_external env container)
       (seqE (cstore_Delete (c_ID container)) (cname_ReleaseByKey (c_ID container)))"
definition RemoveContainer :: "'w env \<Rightarrow> string \<Rightarrow> ('w, unit) act" where
  "RemoveContainer env rid =
     tryE (cstore_Get rid) (\<lambda>r. case r of
       Inl e \<Rightarrow> if e \<noteq> StoreNotExist
         then fail (Errorf [Lit ''an error occurred when try to find container '', Q rid, Lit '': '', V e])
         else ret ()
     | Inr container \<Rightarrow>
         seqE (wrap_err (\<lambda>e. Errorf [Lit ''failed to set removing state for container '', Q (c_ID container),
                  Lit '': '', V e]) (status_Update container setContainerRemoving))
           (on_error (remove_resources env container) (status_Update container resetContainerRemoving)))"

section \<open>Guarantees\<close>

lemma guar_tolerate [guar_intros]: "guar R m \<Longrightarrow> guar R (tolerate h w m)"
  by (auto simp: tolerate_def fail_def ret_def intro!: guar_intros split: sum.split)

lemma setContainerRemoving_step: "setContainerRemoving st = Inr st' \<Longrightarrow> status_step\<^sup>*\<^sup>* st st'"
  by (auto simp: setContainerRemoving_def split: if_splits intro!: r_into_rtranclp status_step.set_removing)

lemma resetContainerRemoving_step: "resetContainerRemoving st = Inr st' \<Longrightarrow> status_step\<^sup>*\<^sup>* st st'"
  by (auto simp: resetContainerRemoving_def intro: status_step.reset_removing)

lemma container_Delete_world [intro!]: "guar world_only (container_Delete c)"
  by (simp add: container_Delete_def statusStorage_Delete_def guar_atomic_iff split: option.split)

lemma remove_external_world [intro!]: "guar world_only (remove_external env c)"
  by (auto simp: remove_external_def Let_def intro!: guar_intros)

lemma remove_resources_guar [svc_guar]: "guar svc_step (remove_resources env c)"
  by (auto simp: remove_resources_def intro!: guar_intros svc_guar intro: guar_world_only)

lemma RemoveContainer_guar [svc_guar]: "guar svc_step (RemoveContainer env rid)"
  by (auto simp: RemoveContainer_def intro!: guar_intros svc_guar svc_status_Update split: sum.split
      intro: setContainerRemoving_step resetContainerRemoving_step)

section \<open>Functional behaviour\<close>

lemma run_tolerate [run_simps]:
  "run (tolerate h w m) s = (case run m s of (r, s') \<Rightarrow>
     (case r of Err e \<Rightarrow> if h e then Ok () else Err (w e) | Ok _ \<Rightarrow> Ok () | Panic \<Rightarrow> Panic | Diverge \<Rightarrow> Diverge, s'))"
  by (simp add: tolerate_def run_tryE fail_def ret_def split: prod.split outcome.split)

lemma run_status_Update:
  assumes "c_Status c = Some i" and "i < length (statuses s)"
  shows "run (status_Update c u) s = (case u (statuses s ! i) of
     Inl e \<Rightarrow> (Err e, s) | Inr st \<Rightarrow> (Ok (), s\<lparr>statuses := (statuses s)[i := st]\<rparr>))"
  using assms by (auto simp: status_Update_def statusStorage_Update_def split: sum.split)

lemma RemoveContainer_unknown:
  "map_of (containerStore s) rid = None \<Longrightarrow> run (RemoveContainer env rid) s = (Ok (), s)"
  by (simp add: RemoveContainer_def run_tryE run_cstore_Get ret_def)

text \<open>
  C15: A running container, or one whose removal is in progress, is not removed: the request
  fails and nothing changes.
\<close>

lemma RemoveContainer_refused:
  assumes "map_of (containerStore s) rid = Some c" and "c_Status c = Some i" and "i < length (statuses s)"
    and "State (statuses s ! i) = CONTAINER_RUNNING \<or> st_Removing (statuses s ! i)"
  shows "\<exists>e. run (RemoveContainer env rid) s = (Err e, s)"
proof -
  from assms(4) obtain e where "setContainerRemoving (statuses s ! i) = Inl e"
    by (cases "State (statuses s ! i) = CONTAINER_RUNNING") (auto simp: setContainerRemoving_def)
  with assms show ?thesis
    by (simp add: RemoveContainer_def run_tryE run_seqE run_cstore_Get run_wrap_err run_status_Update)
qed

lemma run_remove_resources:
  assumes "run (remove_external env c) s = (r, s1)"
  shows "run (remove_resources env c) s =
    (case r of Ok _ \<Rightarrow> (Ok (), s1\<lparr>containerStore := containerStore_Delete (c_ID c) (containerStore s1),
        containerNameIndex := ReleaseByKey (c_ID c) (containerNameIndex s1)\<rparr>)
     | Err e \<Rightarrow> (Err e, s1) | Panic \<Rightarrow> (Panic, s1) | Diverge \<Rightarrow> (Diverge, s1))"
  using assms by (simp add: remove_resources_def run_seqE cstore_Delete_def cname_ReleaseByKey_def
      split: outcome.split)

lemma RemoveContainer_claimed:
  assumes c: "map_of (containerStore s) rid = Some c" "c_Status c = Some i" "i < length (statuses s)"
    and st: "State (statuses s ! i) \<noteq> CONTAINER_RUNNING" "\<not> st_Removing (statuses s ! i)"
  shows "run (RemoveContainer env rid) s = run (on_error (remove_resources env c)
    (status_Update c resetContainerRemoving)) (s\<lparr>statuses := (statuses s)[i := (statuses s ! i)\<lparr>st_Removing := True\<rparr>]\<rparr>)"
  using assms by (simp add: RemoveContainer_def run_tryE run_seqE run_cstore_Get run_wrap_err
      run_status_Update setContainerRemoving_def)


text \<open>
  C40: A container whose containerd container is already gone can never be removed: the client
  has translated the error, so the check for the gRPC code NotFound does not see it.
\<close>

lemma RemoveContainer_missing_container:
  assumes c: "map_of (containerStore s) rid = Some c"
    and gone: "\<And>w. \<exists>d w'. containers_Delete env (c_ID c) w = (Inl (GrpcStatus GNotFound d), w')"
  shows "fst (run (RemoveContainer env rid) s) \<noteq> Ok ()"
proof -
  have del: "\<exists>e t'. run (containerService_Delete env (c_ID c)) t = (Err (errdefs_FromGRPC e), t')" for t
    using gone [of "world t"] by (auto simp: containerService_Delete_def from_grpc_def run_wrap_err ext_def)
  have "fst (run (tolerate isContainerdGRPCNotFoundError w (containerService_Delete env (c_ID c))) t) \<noteq> Ok ()" for t w
    using del [of t] by (auto simp: run_tolerate)
  then have "fst (run (remove_external env c) t) \<noteq> Ok ()" for t
    by (simp add: remove_external_def Let_def run_seqE run_bindE case_prod_beta split: outcome.split)
  then have "fst (run (on_error (remove_resources env c) m) t) \<noteq> Ok ()" for t and m :: "('a, unit) act"
    by (simp add: run_on_error remove_resources_def run_seqE case_prod_beta split: outcome.split)
  with c show ?thesis
    by (simp add: RemoveContainer_def run_tryE run_seqE run_cstore_Get case_prod_beta split: outcome.split)
qed

end
