(* ===== verification/Task_Events.thy ===== *)
theory Task_Events
  imports Container_Remove
begin

text \<open>
  Waiting for the exit event of one process on an event stream, the loop that
  \<open>waitSandboxContainer\<close> (\<^verbatim>\<open>sandbox_stop.go\<close>) and \<open>waitContainerExec\<close> (\<^verbatim>\<open>container_execsync.go\<close>)
  share. The loop runs for at most \<open>fuel\<close> events; it ends with the first exit event that matches,
  and within \<open>n\<close> events whenever the stream delivers such an event or an error among its
  first \<open>n\<close>.
\<close>

fun wait_task_exit :: "'w env \<Rightarrow> nat \<Rightarrow> handle \<Rightarrow> (TaskExit \<Rightarrow> bool) \<Rightarrow> ('w, TaskExit) act" where
  "wait_task_exit env 0 eventstream matches = Ret Diverge"
| "wait_task_exit env (Suc fuel) eventstream matches =
     bindE (ext (events_Recv env eventstream)) (\<lambda>evt. case evt of
       EvTaskExit (Inl e) \<Rightarrow> fail e
     | EvTaskExit (Inr e) \<Rightarrow> if matches e then ret e else wait_task_exit env fuel eventstream matches
     | _ \<Rightarrow> wait_task_exit env fuel eventstream matches)"

definition waitSandboxContainer :: "'w env \<Rightarrow> nat \<Rightarrow> handle \<Rightarrow> string \<Rightarrow> uint32 \<Rightarrow> ('w, unit) act" where
  "waitSandboxContainer env fuel eventstream sid pid =
     bindE (wait_task_exit env fuel eventstream (\<lambda>e. te_ContainerID e = sid \<and> te_Pid e = pid)) (\<lambda>_. ret ())"

definition waitContainerExec :: "'w env \<Rightarrow> nat \<Rightarrow> handle \<Rightarrow> string \<Rightarrow> string \<Rightarrow> ('w, uint32) act" where
  "waitContainerExec env fuel eventstream cid execID =
     bindE (wait_task_exit env fuel eventstream (\<lambda>e. te_ContainerID e = cid \<and> te_ID e = execID))
       (\<lambda>e. ret (te_ExitStatus e))"

lemma wait_task_exit_world [svc_guar, intro!]: "guar world_only (wait_task_exit env n h P)"
  by (induction n) (auto intro!: guar_intros split: Envelope.split sum.split)

lemma wait_events_world [svc_guar, intro!]:
  "guar world_only (waitSandboxContainer env n h sid pid)" "guar world_only (waitContainerExec env n h cid eid)"
  by (auto simp: waitSandboxContainer_def waitContainerExec_def intro!: guar_intros)

section \<open>The loop ends, with a matching event\<close>

definition ends_wait :: "(TaskExit \<Rightarrow> bool) \<Rightarrow> Envelope result \<Rightarrow> bool" where
  "ends_wait P r = (case r of Inl e \<Rightarrow> True
     | Inr (EvTaskExit (Inl e)) \<Rightarrow> True | Inr (EvTaskExit (Inr e)) \<Rightarrow> P e | Inr _ \<Rightarrow> False)"

fun ends_within :: "'w env \<Rightarrow> handle \<Rightarrow> (TaskExit \<Rightarrow> bool) \<Rightarrow> nat \<Rightarrow> 'w \<Rightarrow> bool" where
  "ends_within env h P 0 w = False"
| "ends_within env h P (Suc n) w =
     (case events_Recv env h w of (r, w') \<Rightarrow> ends_wait P r \<or> ends_within env h P n w')"

text \<open>
  C32: The wait for an exit event ends: if the stream delivers a matching event or an error among
  its first \<open>n\<close> messages, the loop returns within \<open>n\<close> rounds.
\<close>

lemma wait_task_exit_ends:
  assumes "ends_within env h P n (world s)" and "n \<le> fuel"
  shows "fst (run (wait_task_exit env fuel h P) s) \<noteq> Diverge"
  using assms
proof (induction n arbitrary: fuel s)
  case (Suc n)
  then obtain m where m: "fuel = Suc m" "n \<le> m" by (cases fuel) auto
  obtain r w where r: "events_Recv env h (world s) = (r, w)" by (cases "events_Recv env h (world s)")
  have more: "fst (run (wait_task_exit env m h P) (s\<lparr>world := w\<rparr>)) \<noteq> Diverge" if "\<not> ends_wait P r"
    using Suc r m that by simp
  show ?case
  proof (cases r)
    case (Inl e)
    with m r show ?thesis by (simp add: run_bindE ext_def)
  next
    case (Inr evt)
    then show ?thesis using m r more
      by (auto simp: run_bindE ext_def ends_wait_def fail_def ret_def split: Envelope.split sum.split)
  qed
qed simp

lemma wait_task_exit_received:
  assumes "run (wait_task_exit env fuel h P) s = (Ok e, s')"
  shows "P e \<and> (\<exists>w. events_Recv env h w = (Inr (EvTaskExit (Inr e)), world s'))"
  using assms
proof (induction fuel arbitrary: s)
  case (Suc fuel)
  obtain r w where r: "events_Recv env h (world s) = (r, w)" by (cases "events_Recv env h (world s)")
  with Suc show ?case
    by (cases r) (auto simp: run_bindE ext_def fail_def ret_def split: Envelope.splits sum.splits if_splits)
qed simp

end
