(* ===== verification/Image_Refs.thy ===== *)
theory Image_Refs
  imports Helpers
begin

text \<open>
  The image helpers of \<^verbatim>\<open>pkg/server/helpers.go\<close> and the handlers that only resolve an image:
  \<open>normalizeImageRef\<close>, \<open>getRepoDigestAndTag\<close>, \<open>localResolve\<close>, \<open>getImageInfo\<close>, \<open>ImageStatus\<close>,
  \<open>ListImages\<close> and \<open>RemoveImage\<close>. The grammar of references belongs to
  \<^verbatim>\<open>docker/distribution/reference\<close>: parsing and the two constructors are parameters, what the code
  reads of a parsed reference is the record \<open>Named\<close>.
\<close>

definition Named_String :: "Named \<Rightarrow> string" where
  "Named_String n = nm_Name n @ (case nm_Tag n of None \<Rightarrow> '''' | Some t \<Rightarrow> '':'' @ t)
     @ (case nm_Digest n of None \<Rightarrow> '''' | Some d \<Rightarrow> ''@'' @ d)"

definition TagNameOnly :: "Named \<Rightarrow> Named" where
  "TagNameOnly n = (if nm_Tag n = None \<and> nm_Digest n = None then n\<lparr>nm_Tag := Some ''latest''\<rparr> else n)"

definition normalizeImageRef :: "'w env \<Rightarrow> string \<Rightarrow> Named result" where
  "normalizeImageRef env ref =
     (case reference_ParseNormalizedNamed env ref of
        Inl e \<Rightarrow> Inl e
      | Inr named \<Rightarrow> (case (nm_Tag named, nm_Digest named) of
          (Some _, Some d) \<Rightarrow> (case reference_WithName env (nm_Name named) of
             Inl e \<Rightarrow> Inl e
           | Inr newNamed \<Rightarrow> reference_WithDigest env newNamed d)
        | _ \<Rightarrow> Inr (TagNameOnly named)))"

text \<open>The repo digest and the repo tag, in this order.\<close>

definition getRepoDigestAndTag :: "Named \<Rightarrow> string \<Rightarrow> bool \<Rightarrow> string \<times> string" where
  "getRepoDigestAndTag namedRef digest schema1 =
     (if nm_Digest namedRef \<noteq> None then Named_String namedRef
      else if \<not> schema1 then nm_Name namedRef @ ''@'' @ digest else '''',
      if nm_Tag namedRef \<noteq> None then Named_String namedRef else '''')"

text \<open>The image store client of containerd.\<close>

definition imageStoreService_Get :: "'w env \<Rightarrow> string \<Rightarrow> ('w, Descriptor) act" where
  "imageStoreService_Get env name = ext (from_grpc (images_Get env name))"

definition imageStoreService_Create :: "'w env \<Rightarrow> string \<Rightarrow> Descriptor \<Rightarrow> ('w, unit) act" where
  "imageStoreService_Create env name d = ext (from_grpc (images_Create env name d))"

definition imageStoreService_Update :: "'w env \<Rightarrow> string \<Rightarrow> Descriptor \<Rightarrow> ('w, unit) act" where
  "imageStoreService_Update env name d = ext (from_grpc (images_Update env name d))"

definition imageStoreService_Delete :: "'w env \<Rightarrow> string \<Rightarrow> ('w, unit) act" where
  "imageStoreService_Delete env name = ext (from_grpc (images_Delete env name))"

text \<open>A reference that is a digest is an image id; any other is looked up in containerd.
  \<open>None\<close> is the nil image of a reference that does not exist.\<close>

definition resolve_image_id :: "'w env \<Rightarrow> string \<Rightarrow> ('w, string option) act" where
  "resolve_image_id env ref =
     (case digest_Parse env ref of
        Inr _ \<Rightarrow> ret (Some ref)
      | Inl _ \<Rightarrow>
          bindE (wrap_err (\<lambda>e. Errorf [Lit ''invalid image reference '', Q ref, Lit '': '', V e])
                  (lift_result (normalizeImageRef env ref))) (\<lambda>normalized.
          tryE (imageStoreService_Get env (Named_String normalized)) (\<lambda>r. case r of
            Inl e \<Rightarrow> if errdefs_IsNotFound e then ret None
              else fail (Errorf [Lit ''an error occurred when getting image '', Q (Named_String normalized),
                Lit '' from containerd image store: '', V e])
          | Inr target \<Rightarrow>
              bindE (wrap_err (\<lambda>e. Errorf [Lit ''failed to get image config descriptor: '', V e])
                      (ext (image_ConfigDigest env target))) (\<lambda>digest. ret (Some digest)))))"

definition localResolve :: "'w env \<Rightarrow> string \<Rightarrow> ('w, Image option) act" where
  "localResolve env ref =
     bindE (resolve_image_id env ref) (\<lambda>r. case r of
       None \<Rightarrow> ret None
     | Some imageID \<Rightarrow> tryE (istore_Get imageID) (\<lambda>i. case i of
         Inl e \<Rightarrow> if e = StoreNotExist then ret None
           else fail (Errorf [Lit ''failed to get image '', Q imageID, Lit '' metadata: '', V e])
       | Inr img \<Rightarrow> ret (Some img)))"

definition getImageInfo :: "'w env \<Rightarrow> string \<Rightarrow> ('w, string \<times> int64 \<times> ImageConfig) act" where
  "getImageInfo env ref =
     bindE (wrap_err (\<lambda>e. Errorf [Lit ''failed to normalize image reference '', Q ref, Lit '': '', V e])
             (lift_result (normalizeImageRef env ref))) (\<lambda>normalized.
     let normalizedRef = Named_String normalized in
     bindE (wrap_err (\<lambda>e. Errorf [Lit ''failed to get image '', Q normalizedRef,
              Lit '' from containerd image store: '', V e])
             (imageStoreService_Get env normalizedRef)) (\<lambda>image.
     bindE (wrap_err (\<lambda>e. Errorf [Lit ''failed to get image config descriptor: '', V e])
             (ext (image_ConfigDigest env image))) (\<lambda>desc.
     bindE (wrap_err (\<lambda>e. Errorf [Lit ''failed to get image config reader: '', V e])
             (ext (content_ReadBlob env desc))) (\<lambda>rc.
     bindE (wrap_err (\<lambda>e. Errorf [Lit ''failed to decode image config: '', V e])
             (lift_result (json_DecodeImage env rc))) (\<lambda>imageConfig.
     bindE (wrap_err (\<lambda>e. Errorf [Lit ''failed to get image diff ids: '', V e])
             (ext (image_RootFS env image))) (\<lambda>diffIDs.
     bindE (wrap_err (\<lambda>e. Errorf [Lit ''failed to get image size: '', V e])
             (ext (image_Size env image))) (\<lambda>size.
     ret (identity_ChainID env diffIDs, size, imageConfig))))))))"

section \<open>The views of an image\<close>

text \<open>\<open>None\<close> is the panic on an image without configuration.\<close>

definition toCRIImage :: "Image \<Rightarrow> CriImage option" where
  "toCRIImage img = map_option (\<lambda>config.
     case getUserFromImage (ic_User config) of (uid, username) \<Rightarrow>
       \<lparr>ri_Id = img_ID img, ri_RepoTags = img_RepoTags img, ri_RepoDigests = img_RepoDigests img,
        ri_Size = img_Size img, ri_Uid = uid, ri_Username = username\<rparr>) (img_Config img)"

definition or_panic :: "'a option \<Rightarrow> ('w, 'a) act" where
  "or_panic x = (case x of None \<Rightarrow> Ret Panic | Some v \<Rightarrow> ret v)"

definition ListImages :: "'w env \<Rightarrow> ('w, CriImage list) act" where
  "ListImages env = bindE (istore_List env) (\<lambda>images. or_panic (those (map toCRIImage images)))"

definition ImageStatus :: "'w env \<Rightarrow> string \<Rightarrow> ('w, CriImage option) act" where
  "ImageStatus env ref =
     bindE (wrap_err (\<lambda>e. Errorf [Lit ''can not resolve '', Q ref, Lit '' locally: '', V e])
             (localResolve env ref)) (\<lambda>image. case image of
       None \<Rightarrow> ret None
     | Some img \<Rightarrow> bindE (or_panic (toCRIImage img)) (\<lambda>i. ret (Some i)))"

definition RemoveImage :: "'w env \<Rightarrow> string \<Rightarrow> ('w, unit) act" where
  "RemoveImage env ref =
     bindE (wrap_err (\<lambda>e. Errorf [Lit ''can not resolve '', Q ref, Lit '' locally: '', V e])
             (localResolve env ref)) (\<lambda>image. case image of
       None \<Rightarrow> ret ()
     | Some img \<Rightarrow>
         seqE (forE (img_RepoTags img @ img_RepoDigests img @ [img_ID img]) (\<lambda>r.
                 tryE (imageStoreService_Delete env r) (\<lambda>d. case d of
                   Inr _ \<Rightarrow> ret ()
                 | Inl e \<Rightarrow> if errdefs_IsNotFound e then ret ()
                     else fail (Errorf [Lit ''failed to delete image reference '', Q r, Lit '' for image '',
                       Q (img_ID img), Lit '': '', V e]))))
           (istore_Delete (img_ID img)))"

section \<open>Guarantees\<close>

lemma image_client_world [svc_guar, intro!]:
  "guar world_only (imageStoreService_Get env n)" "guar world_only (imageStoreService_Create env n d)"
  "guar world_only (imageStoreService_Update env n d)" "guar world_only (imageStoreService_Delete env n)"
  by (auto simp: imageStoreService_Get_def imageStoreService_Create_def imageStoreService_Update_def
      imageStoreService_Delete_def)

lemma guar_or_panic [guar_intros, intro!]: "guar R (or_panic x)"
  by (simp add: or_panic_def ret_def split: option.split)

lemma image_world [svc_guar, intro!]:
  "guar world_only (resolve_image_id env ref)" "guar world_only (getImageInfo env ref)"
  by (auto simp: resolve_image_id_def getImageInfo_def Let_def intro!: guar_intros split: sum.split)

lemma localResolve_world [svc_guar, intro!]: "guar world_only (localResolve env ref)"
  by (auto simp: localResolve_def intro!: guar_intros split: sum.split option.split)

lemma image_views_world [svc_guar, intro!]:
  "guar world_only (ListImages env)" "guar world_only (ImageStatus env ref)"
  by (auto simp: ListImages_def ImageStatus_def intro!: guar_intros split: option.split)

lemmas image_svc [svc_guar] = image_client_world [THEN guar_world_only] image_world [THEN guar_world_only]
  localResolve_world [THEN guar_world_only] image_views_world [THEN guar_world_only]

lemma RemoveImage_guar [svc_guar]: "guar svc_step (RemoveImage env ref)"
  by (auto simp: RemoveImage_def intro!: guar_intros svc_guar split: sum.split option.split)

end
