(* ===== verification/Container_Spec.thy ===== *)
theory Container_Spec
  imports Image_Refs
begin

text \<open>
  The runtime spec of a container (\<^verbatim>\<open>pkg/server/container_create.go\<close>, \<open>generateContainerSpec\<close> and
  its helpers). The steps that work on the generator alone are goroutines over the generator
  state \<open>Gen\<close>, so the control structures of the prelude serve them too; \<open>on_gen\<close> runs such a
  step inside the service, with the package variable \<open>defaultEnv\<close> as the shared part of the state.
  Looking up devices calls the outside.
\<close>

type_synonym 'a gen = "(Gen, goerror, 'a) go"

definition gmod :: "(Gen \<Rightarrow> Gen) \<Rightarrow> unit gen" where
  "gmod f = atomic (\<lambda>g. (Ok (), f g))"

definition greturn :: "'a \<Rightarrow> 'a gen" where
  "greturn x = Ret (Ok x)"

definition gfail :: "goerror \<Rightarrow> 'a gen" where
  "gfail e = Ret (Err e)"

definition gskip :: "unit gen" where
  "gskip = Ret (Ok ())"

definition gresult :: "(Gen \<Rightarrow> Gen result) \<Rightarrow> unit gen" where
  "gresult f = atomic (\<lambda>g. case f g of Inl e \<Rightarrow> (Err e, g) | Inr g' \<Rightarrow> (Ok (), g'))"

definition gresult_panic :: "(Gen \<Rightarrow> Gen result option) \<Rightarrow> unit gen" where
  "gresult_panic f = atomic (\<lambda>g. case f g of
     None \<Rightarrow> (Panic, g) | Some (Inl e) \<Rightarrow> (Err e, g) | Some (Inr g') \<Rightarrow> (Ok (), g'))"

text \<open>A field of the image configuration; a nil configuration panics.\<close>

definition ifield :: "(ImageConfig \<Rightarrow> 'a) \<Rightarrow> ImageConfig option \<Rightarrow> 'a gen" where
  "ifield f c = (case c of None \<Rightarrow> Ret Panic | Some ic \<Rightarrow> greturn (f ic))"

lemmas gen_act_defs = gmod_def greturn_def gfail_def gskip_def gresult_def gresult_panic_def ifield_def

section \<open>The steps on the generator\<close>

definition relativeRootfsPath :: string where "relativeRootfsPath = ''rootfs''"
definition etcHosts :: string where "etcHosts = ''/etc/hosts''"
definition resolvConfPath :: string where "resolvConfPath = ''/etc/resolv.conf''"
definition devShm :: string where "devShm = ''/dev/shm''"

definition setOCIProcessArgs :: "ContainerConfig option \<Rightarrow> ImageConfig option \<Rightarrow> unit gen" where
  "setOCIProcessArgs config imageConfig =
     (let command0 = pget cc_Command None config; args0 = pget cc_Args [] config;
          no_command = (case command0 of None \<Rightarrow> True | Some c \<Rightarrow> c = []) in
      bindE (if no_command \<and> args0 = [] then ifield ic_Cmd imageConfig else greturn args0) (\<lambda>args.
      bindE (case command0 of None \<Rightarrow> ifield ic_Entrypoint imageConfig | Some c \<Rightarrow> greturn c) (\<lambda>command.
      if command = [] \<and> args = [] then gfail (Errorf [Lit ''no command specified''])
      else gmod (SetProcessArgs (command @ args)))))"

definition addImageEnvs :: "string list \<Rightarrow> unit gen" where
  "addImageEnvs imageEnvs = forE imageEnvs (\<lambda>e.
     case strings_Split e (CHR ''='') of
       [k, v] \<Rightarrow> gmod (AddProcessEnv k v)
     | _ \<Rightarrow> gfail (Errorf [Lit ''invalid environment variable '', Q e]))"

definition clearReadOnly :: "OciMount \<Rightarrow> OciMount" where
  "clearReadOnly m = m\<lparr>om_Options := filter (\<lambda>opt. opt \<noteq> ''ro'') (om_Options m)\<rparr>"

definition clear_mount :: "Spec \<Rightarrow> OciMount \<Rightarrow> OciMount" where
  "clear_mount sp m =
     (let m1 = (if om_Destination m = ''/sys'' \<and> \<not> sp_RootReadonly sp then clearReadOnly m else m)
      in if om_Type m = ''cgroup'' then clearReadOnly m1 else m1)"

definition addOCIBindMounts :: "Mount list \<Rightarrow> bool \<Rightarrow> unit gen" where
  "addOCIBindMounts mounts privileged =
     seqE (gmod (AddCgroupsMount ''ro''))
     (seqE (forE mounts (\<lambda>mount. gmod (AddBindMount (mnt_HostPath mount) (mnt_ContainerPath mount)
              (if mnt_Readonly mount then [''ro''] else [''rw'']))))
     (if \<not> privileged then gskip
      else gmod (upd_spec (\<lambda>sp. sp\<lparr>sp_Mounts := map (clear_mount sp) (sp_Mounts sp),
        sp_ReadonlyPaths := [], sp_MaskedPaths := []\<rparr>))))"

definition setOCILinuxResource :: "LinuxContainerResources option \<Rightarrow> unit gen" where
  "setOCILinuxResource resources = (case resources of
     None \<Rightarrow> gskip
   | Some r \<Rightarrow>
       seqE (gmod (SetLinuxResourcesCPUPeriod (lr_CpuPeriod r)))
       (seqE (gmod (SetLinuxResourcesCPUQuota (lr_CpuQuota r)))
       (seqE (gmod (SetLinuxResourcesCPUShares (lr_CpuShares r)))
       (seqE (gmod (SetLinuxResourcesMemoryLimit (lr_MemoryLimitInBytes r)))
       (gmod (SetProcessOOMScoreAdj (lr_OomScoreAdj r)))))))"

definition setOCICapabilities :: "Capability option \<Rightarrow> bool \<Rightarrow> unit gen" where
  "setOCICapabilities capabilities privileged =
     (if privileged then gmod (SetupPrivileged True)
      else case capabilities of
        None \<Rightarrow> gskip
      | Some caps \<Rightarrow>
          seqE (forE (cap_Add caps) (\<lambda>c. gresult (AddProcessCapability (''CAP_'' @ c))))
               (forE (cap_Drop caps) (\<lambda>c. gresult_panic (DropProcessCapability (''CAP_'' @ c)))))"

definition setOCINamespaces :: "uint32 \<Rightarrow> unit gen" where
  "setOCINamespaces sandboxPid =
     seqE (gmod (AddOrReplaceLinuxNamespace ''network'' (getNetworkNamespace sandboxPid)))
     (seqE (gmod (AddOrReplaceLinuxNamespace ''ipc'' (getIPCNamespace sandboxPid)))
     (seqE (gmod (AddOrReplaceLinuxNamespace ''uts'' (getUTSNamespace sandboxPid)))
     (gmod (AddOrReplaceLinuxNamespace ''pid'' (getPIDNamespace sandboxPid)))))"

definition generateContainerMounts :: "string \<Rightarrow> ContainerConfig option \<Rightarrow> Mount list" where
  "generateContainerMounts sandboxRootDir config =
     (let securityContext = container_security_context config;
          ro = pget ls_ReadonlyRootfs False securityContext in
      [\<lparr>mnt_ContainerPath = etcHosts, mnt_HostPath = getSandboxHosts sandboxRootDir, mnt_Readonly = ro\<rparr>,
       \<lparr>mnt_ContainerPath = resolvConfPath, mnt_HostPath = getResolvPath sandboxRootDir, mnt_Readonly = ro\<rparr>,
       \<lparr>mnt_ContainerPath = devShm,
        mnt_HostPath = (if pget ns_HostIpc False (pget ls_NamespaceOptions None securityContext)
          then devShm else getSandboxDevShm sandboxRootDir),
        mnt_Readonly = False\<rparr>])"

section \<open>Devices\<close>

definition oci_device :: "string \<Rightarrow> HostDevice \<Rightarrow> LinuxDevice" where
  "oci_device path d = \<lparr>ld_Path = path, ld_Type = hd_Type d, ld_Major = hd_Major d,
     ld_Minor = hd_Minor d, ld_UID = hd_Uid d, ld_GID = hd_Gid d\<rparr>"

definition allow_all_devices :: LinuxDeviceCgroup where
  "allow_all_devices = \<lparr>dc_Allow = True, dc_Type = '''', dc_Major = None, dc_Minor = None, dc_Access = ''rwm''\<rparr>"

definition allow_device :: "HostDevice \<Rightarrow> LinuxDeviceCgroup" where
  "allow_device d = \<lparr>dc_Allow = True, dc_Type = hd_Type d, dc_Major = Some (hd_Major d),
     dc_Minor = Some (hd_Minor d), dc_Access = hd_Permissions d\<rparr>"

definition add_host_devices :: "HostDevice list \<Rightarrow> Gen \<Rightarrow> Gen" where
  "add_host_devices ds g = foldl (\<lambda>g d.
     if hd_Major d = 0 \<and> hd_Minor d = 0 then g else AddDevice (oci_device (hd_Path d) d) g) g ds"

fun add_devices :: "'w env \<Rightarrow> Device list \<Rightarrow> Gen \<Rightarrow> ('w, Gen) act" where
  "add_devices env [] g = ret g"
| "add_devices env (device # rest) g =
     bindE (resolveSymbolicLink env (dev_HostPath device)) (\<lambda>path.
     bindE (ext (devices_DeviceFromPath env path (dev_Permissions device))) (\<lambda>dev.
     add_devices env rest
       (upd_spec (sp_DeviceCgroups_update (\<lambda>ds. ds @ [allow_device dev]))
         (AddDevice (oci_device (dev_ContainerPath device) dev) g))))"

definition addOCIDevices :: "'w env \<Rightarrow> Device list \<Rightarrow> bool \<Rightarrow> Gen \<Rightarrow> ('w, Gen) act" where
  "addOCIDevices env devs privileged g =
     (if privileged then
        bindE (ext (devices_HostDevices env)) (\<lambda>hostDevices.
          ret (upd_spec (sp_DeviceCgroups_update (\<lambda>_. [allow_all_devices])) (add_host_devices hostDevices g)))
      else add_devices env devs g)"

section \<open>The whole spec\<close>

text \<open>The generator's spec with the environment it shares with the package variable.\<close>

definition sync_env :: "string list \<Rightarrow> Gen \<Rightarrow> Gen" where
  "sync_env denv g = g\<lparr>g_defaultEnv := denv,
     g_Spec := (if sp_EnvShared (g_Spec g) then (g_Spec g)\<lparr>sp_Env := denv\<rparr> else g_Spec g)\<rparr>"

definition on_gen :: "unit gen \<Rightarrow> Gen \<Rightarrow> ('w, Gen) act" where
  "on_gen m g = atomic (\<lambda>s. case run m (sync_env (defaultEnv s) g) of
     (r, g') \<Rightarrow> (case r of Ok _ \<Rightarrow> Ok g' | Err e \<Rightarrow> Err e | Panic \<Rightarrow> Panic | Diverge \<Rightarrow> Diverge,
       s\<lparr>defaultEnv := g_defaultEnv g'\<rparr>))"

text \<open>Everything up to the devices, and everything after them.\<close>

definition spec_process :: "ContainerConfig option \<Rightarrow> ImageConfig option \<Rightarrow> Mount list \<Rightarrow> unit gen" where
  "spec_process config imageConfig extraMounts =
     (let securityContext = container_security_context config in
      seqE (gmod (SetRootPath relativeRootfsPath))
      (seqE (setOCIProcessArgs config imageConfig)
      (seqE (if pget cc_WorkingDir '''' config \<noteq> '''' then gmod (SetProcessCwd (pget cc_WorkingDir '''' config))
             else bindE (ifield ic_WorkingDir imageConfig) (\<lambda>wd.
               if wd \<noteq> '''' then gmod (SetProcessCwd wd) else gskip))
      (seqE (gmod (SetProcessTerminal (pget cc_Tty False config)))
      (seqE (if pget cc_Tty False config then gmod (AddProcessEnv ''TERM'' ''xterm'') else gskip)
      (seqE (bindE (ifield ic_Env imageConfig) addImageEnvs)
      (seqE (forE (pget cc_Envs [] config) (\<lambda>(k, v). gmod (AddProcessEnv k v)))
      (seqE (addOCIBindMounts (extraMounts @ pget cc_Mounts [] config) (pget ls_Privileged False securityContext))
      (gmod (SetRootReadonly (pget ls_ReadonlyRootfs False securityContext)))))))))))"

definition spec_isolation :: "string \<Rightarrow> uint32 \<Rightarrow> ContainerConfig option \<Rightarrow> PodSandboxConfig option \<Rightarrow> unit gen" where
  "spec_isolation cid sandboxPid config sandboxConfig =
     (let securityContext = container_security_context config;
          cgroupParent = pget lp_CgroupParent '''' (pget pc_Linux None sandboxConfig) in
      seqE (setOCILinuxResource (pget lc_Resources None (pget cc_Linux None config)))
      (seqE (if cgroupParent \<noteq> '''' then gmod (SetLinuxCgroupsPath (getCgroupsPath cgroupParent cid)) else gskip)
      (seqE (wrap_err (\<lambda>e. Errorf [Lit ''failed to set capabilities: '', V e])
              (setOCICapabilities (pget ls_Capabilities None securityContext) (pget ls_Privileged False securityContext)))
      (seqE (setOCINamespaces sandboxPid)
      (forE (pget ls_SupplementalGroups [] securityContext) (\<lambda>group.
         gmod (AddProcessAdditionalGid (ucast group))))))))"

definition generateContainerSpec :: "'w env \<Rightarrow> string \<Rightarrow> uint32 \<Rightarrow> ContainerConfig option
    \<Rightarrow> PodSandboxConfig option \<Rightarrow> ImageConfig option \<Rightarrow> Mount list \<Rightarrow> ('w, Spec) act" where
  "generateContainerSpec env cid sandboxPid config sandboxConfig imageConfig extraMounts =
     bindE (gets (\<lambda>s. GenerateSpec (defaultEnv s))) (\<lambda>g0.
     bindE (on_gen (spec_process config imageConfig extraMounts) g0) (\<lambda>g1.
     bindE (wrap_err (\<lambda>e. Errorf [Lit ''failed to set devices mapping: '', V e])
             (addOCIDevices env (pget cc_Devices [] config)
               (pget ls_Privileged False (container_security_context config)) g1)) (\<lambda>g2.
     bindE (on_gen (spec_isolation cid sandboxPid config sandboxConfig) g2) (\<lambda>g3.
     ret (g_Spec g3)))))"

section \<open>Guarantees\<close>

lemma on_gen_guar [svc_guar]: "guar svc_step (on_gen m g)"
  by (simp add: on_gen_def guar_atomic_iff case_prod_beta)

lemma add_devices_world [intro!]: "guar world_only (add_devices env ds g)"
  by (induction env ds g rule: add_devices.induct) (auto intro!: guar_intros)

lemma addOCIDevices_world [intro!]: "guar world_only (addOCIDevices env ds p g)"
  by (auto simp: addOCIDevices_def intro!: guar_intros)

lemma generateContainerSpec_guar [svc_guar]:
  "guar svc_step (generateContainerSpec env cid pid config sconfig iconfig mounts)"
  by (auto simp: generateContainerSpec_def intro!: guar_intros svc_guar intro: guar_world_only)

end
