(* ===== verification/Cleanup.thy ===== *)
theory Cleanup
  imports Container_Spec
begin

text \<open>
  Failing without leaving anything behind. \<open>restores obs x m\<close> says that a goroutine that starts
  with the observation \<open>x\<close> and returns an error ends with the same observation. The rule
  \<open>restores_scoped\<close> is the deferred cleanup of the code: acquire, go on, and release if a later
  step fails. The observation of the service is the resources held outside (\<open>resource\<close>) and the
  names and entries held inside.

  What is held outside is a function \<open>res\<close> of the world the theorems are parametrised by. The
  predicate \<open>resource_laws\<close> collects what the code relies on: creating a snapshot, a container, a
  task, a directory, a file handle, a mount or a network adds that resource and a failed creation adds
  nothing; the call that releases a resource removes it; no other call creates or removes one.
\<close>

datatype resource = RSnapshot string | RDir string | RContainer string | RTask string
  | RHandle handle | RNetwork string | RMount string

definition restores :: "('s \<Rightarrow> 'o) \<Rightarrow> 'o \<Rightarrow> ('s, 'e, 'a) go \<Rightarrow> bool" where
  "restores obs x m \<longleftrightarrow> (\<forall>s e s'. obs s = x \<longrightarrow> run m s = (Err e, s') \<longrightarrow> obs s' = x)"

definition neutral :: "('s \<Rightarrow> 'o) \<Rightarrow> ('s, 'e, 'a) go \<Rightarrow> bool" where
  "neutral obs m \<longleftrightarrow> (\<forall>s. obs (snd (run m s)) = obs s)"

text \<open>\<open>acq\<close> turns the observation \<open>x\<close> into \<open>y a\<close> when it yields \<open>a\<close>, \<open>rel\<close> turns \<open>y\<close> into \<open>x\<close>.\<close>

definition acquires :: "('s \<Rightarrow> 'o) \<Rightarrow> 'o \<Rightarrow> ('a \<Rightarrow> 'o) \<Rightarrow> ('s, 'e, 'a) go \<Rightarrow> bool" where
  "acquires obs x y acq \<longleftrightarrow> (\<forall>s r s'. obs s = x \<longrightarrow> run acq s = (r, s') \<longrightarrow>
     (case r of Ok a \<Rightarrow> obs s' = y a | Err e \<Rightarrow> obs s' = x | _ \<Rightarrow> True))"

text \<open>The same, with something known of what is yielded.\<close>

definition acquires_when :: "('s \<Rightarrow> 'o) \<Rightarrow> 'o \<Rightarrow> ('a \<Rightarrow> bool) \<Rightarrow> ('a \<Rightarrow> 'o) \<Rightarrow> ('s, 'e, 'a) go \<Rightarrow> bool" where
  "acquires_when obs x P y acq \<longleftrightarrow> (\<forall>s r s'. obs s = x \<longrightarrow> run acq s = (r, s') \<longrightarrow>
     (case r of Ok a \<Rightarrow> P a \<and> obs s' = y a | Err e \<Rightarrow> obs s' = x | _ \<Rightarrow> True))"

text \<open>Inside the scope of a directory the observation may ignore what lies in it, since the release of
  the directory removes all of it: two observations, \<open>obs\<close> outside the scope and \<open>obs'\<close> inside.\<close>

definition enters :: "('s \<Rightarrow> 'o) \<Rightarrow> 'o \<Rightarrow> ('s \<Rightarrow> 'o) \<Rightarrow> 'o \<Rightarrow> ('s, 'e, 'a) go \<Rightarrow> bool" where
  "enters obs x obs' y m \<longleftrightarrow> (\<forall>s r s'. obs s = x \<longrightarrow> run m s = (r, s') \<longrightarrow>
     (case r of Ok a \<Rightarrow> obs' s' = y | Err e \<Rightarrow> obs s' = x | _ \<Rightarrow> True))"

definition leaves :: "('s \<Rightarrow> 'o) \<Rightarrow> 'o \<Rightarrow> ('s \<Rightarrow> 'o) \<Rightarrow> 'o \<Rightarrow> ('s, 'e, 'a) go \<Rightarrow> bool" where
  "leaves obs' y obs x m \<longleftrightarrow> (\<forall>s r s'. obs' s = y \<longrightarrow> run m s = (r, s') \<longrightarrow>
     r \<noteq> Panic \<longrightarrow> r \<noteq> Diverge \<longrightarrow> obs s' = x)"

definition releases :: "('s \<Rightarrow> 'o) \<Rightarrow> 'o \<Rightarrow> 'o \<Rightarrow> ('s, 'e, 'a) go \<Rightarrow> bool" where
  "releases obs y x rel \<longleftrightarrow> (\<forall>s r s'. obs s = y \<longrightarrow> run rel s = (r, s') \<longrightarrow>
     r \<noteq> Panic \<longrightarrow> r \<noteq> Diverge \<longrightarrow> obs s' = x)"

named_theorems cleanup \<open>observations of the control structures and the actions\<close>

section \<open>The rules\<close>

lemma neutral_restores: "neutral obs m \<Longrightarrow> restores obs x m"
  unfolding neutral_def restores_def by (metis snd_conv)

lemma restores_Ret [cleanup]: "restores obs x (Ret r)"
  by (simp add: restores_def)

lemma neutral_Ret [cleanup]: "neutral obs (Ret r)"
  by (simp add: neutral_def)

lemma restores_bindE [cleanup]:
  assumes "neutral obs m" and "\<And>a. restores obs x (k a)"
  shows "restores obs x (bindE m k)"
  unfolding restores_def
proof (intro allI impI)
  fix s e s'
  assume "obs s = x" "run (bindE m k) s = (Err e, s')"
  moreover obtain r s1 where m: "run m s = (r, s1)" by (cases "run m s")
  moreover from assms(1) m have "obs s1 = obs s" unfolding neutral_def by (metis snd_conv)
  ultimately show "obs s' = x" using assms(2) by (cases r) (auto simp: run_bindE restores_def)
qed

lemma restores_seqE [cleanup]: "neutral obs m \<Longrightarrow> restores obs x n \<Longrightarrow> restores obs x (seqE m n)"
  unfolding seqE_def by (rule restores_bindE)

lemma restores_wrap_err [cleanup]: "restores obs x m \<Longrightarrow> restores obs x (wrap_err w m)"
  by (auto simp: restores_def run_wrap_err split: prod.splits outcome.splits)

lemma neutral_wrap_err [cleanup]: "neutral obs m \<Longrightarrow> neutral obs (wrap_err w m)"
  by (simp add: neutral_def run_wrap_err case_prod_beta)

lemma neutral_bindE [cleanup]: "neutral obs m \<Longrightarrow> (\<And>a. neutral obs (k a)) \<Longrightarrow> neutral obs (bindE m k)"
  by (simp add: neutral_def run_bindE case_prod_beta split: outcome.split)

lemma neutral_seqE [cleanup]: "neutral obs m \<Longrightarrow> neutral obs n \<Longrightarrow> neutral obs (seqE m n)"
  unfolding seqE_def by (rule neutral_bindE)

lemma neutral_tryE [cleanup]: "neutral obs m \<Longrightarrow> (\<And>a. neutral obs (k a)) \<Longrightarrow> neutral obs (tryE m k)"
  by (simp add: neutral_def run_tryE case_prod_beta split: outcome.split)

lemma neutral_forE [cleanup]: "(\<And>a. neutral obs (body a)) \<Longrightarrow> neutral obs (forE xs body)"
  by (induction xs) (auto intro: cleanup)

lemma neutral_defer [cleanup]: "neutral obs m \<Longrightarrow> neutral obs c \<Longrightarrow> neutral obs (defer_always m c)"
  by (simp add: neutral_def run_defer_always case_prod_beta split: outcome.split)

lemma acquires_wrap_err [cleanup]: "acquires obs x y m \<Longrightarrow> acquires obs x y (wrap_err w m)"
  by (auto simp: acquires_def run_wrap_err split: prod.splits outcome.splits)

lemma acquires_when_True: "acquires_when obs x (\<lambda>_. True) y m \<longleftrightarrow> acquires obs x y m"
  unfolding acquires_when_def acquires_def simp_thms ..

lemma acquires_when_wrap_err: "acquires_when obs x P y m \<Longrightarrow> acquires_when obs x P y (wrap_err w m)"
  by (auto simp: acquires_when_def run_wrap_err split: prod.splits outcome.splits)

lemma restores_scoped_when:
  assumes "acquires_when obs x P y acq" and "\<And>a. P a \<Longrightarrow> restores obs (y a) (k a)"
    and "\<And>a. P a \<Longrightarrow> releases obs (y a) x (rel a)"
  shows "restores obs x (bindE acq (\<lambda>a. on_error (k a) (rel a)))"
  unfolding restores_def
proof (intro allI impI)
  fix s e s'
  assume s: "obs s = x" and run: "run (bindE acq (\<lambda>a. on_error (k a) (rel a))) s = (Err e, s')"
  obtain r s1 where acq: "run acq s = (r, s1)" by (cases "run acq s")
  have r: "case r of Ok a \<Rightarrow> P a \<and> obs s1 = y a | Err e \<Rightarrow> obs s1 = x | _ \<Rightarrow> True"
    using assms(1) s acq unfolding acquires_when_def by blast
  show "obs s' = x"
  proof (cases r)
    case (Ok a)
    obtain q s2 where k: "run (k a) s1 = (q, s2)" by (cases "run (k a) s1")
    obtain c s3 where rel: "run (rel a) s2 = (c, s3)" by (cases "run (rel a) s2")
    show ?thesis
    proof (cases q)
      case (Err e2)
      with r Ok have a: "P a" and "obs s1 = y a" "run (k a) s1 = (Err e2, s2)" using k by simp_all
      then have "obs s2 = y a" using assms(2) [of a] unfolding restores_def by blast
      with assms(3) [OF a] rel have "obs s3 = x" if "c \<noteq> Panic" "c \<noteq> Diverge"
        using that unfolding releases_def by blast
      with run acq Ok k Err rel show ?thesis by (cases c) (simp_all add: run_bindE run_on_error)
    qed (use run acq Ok k in \<open>simp_all add: run_bindE run_on_error\<close>)
  qed (use run acq r in \<open>simp_all add: run_bindE\<close>)
qed

lemma restores_scoped:
  assumes "acquires obs x y acq" and "\<And>a. restores obs (y a) (k a)" and "\<And>a. releases obs (y a) x (rel a)"
  shows "restores obs x (bindE acq (\<lambda>a. on_error (k a) (rel a)))"
  using assms by (intro restores_scoped_when [where P = "\<lambda>_. True" and y = y]) (simp_all add: acquires_when_True)

lemma restores_scoped_two:
  assumes "enters obs x obs' y acq" and "restores obs' y k" and "leaves obs' y obs x rel"
  shows "restores obs x (seqE acq (on_error k rel))"
  unfolding restores_def
proof (intro allI impI)
  fix s e s'
  assume s: "obs s = x" and run: "run (seqE acq (on_error k rel)) s = (Err e, s')"
  obtain r s1 where acq: "run acq s = (r, s1)" by (cases "run acq s")
  obtain q s2 where k: "run k s1 = (q, s2)" by (cases "run k s1")
  obtain c s3 where rel: "run rel s2 = (c, s3)" by (cases "run rel s2")
  have r: "case r of Ok a \<Rightarrow> obs' s1 = y | Err e \<Rightarrow> obs s1 = x | _ \<Rightarrow> True"
    using assms(1) s acq unfolding enters_def by blast
  have "obs s3 = x" if "r = Ok a" "q = Err e2" "c \<noteq> Panic" "c \<noteq> Diverge" for a e2
  proof -
    have "obs' s2 = y" using that r k assms(2) unfolding restores_def by auto
    with assms(3) rel that show ?thesis unfolding leaves_def by blast
  qed
  with run acq k rel r show "obs s' = x"
    by (cases r; cases q; cases c) (auto simp: run_seqE run_on_error)
qed

lemma restores_on_error [cleanup]:
  assumes "restores obs x m" and "neutral obs c"
  shows "restores obs x (on_error m c)"
  unfolding restores_def
proof (intro allI impI)
  fix s e s'
  assume s: "obs s = x" and run: "run (on_error m c) s = (Err e, s')"
  obtain q s1 where m: "run m s = (q, s1)" by (cases "run m s")
  from run m obtain e' where q: "q = Err e'" by (cases q) (auto simp: run_on_error)
  with m s assms(1) have "obs s1 = x" unfolding restores_def by blast
  moreover from run m q have "s' = snd (run c s1)" by (auto simp: run_on_error case_prod_beta)
  ultimately show "obs s' = x" using assms(2) by (simp add: neutral_def)
qed

lemma restores_seq_ret [cleanup]: "restores obs x m \<Longrightarrow> restores obs x (seqE m (ret a))"
  by (auto simp: restores_def run_seqE ret_def split: prod.splits outcome.splits)

lemma restores_gets:
  assumes "\<And>s. obs s = x \<Longrightarrow> restores obs x (k (f s))"
  shows "restores obs x (bindE (gets f) k)"
  unfolding restores_def
proof (intro allI impI)
  fix s e s'
  assume s: "obs s = x" and "run (bindE (gets f) k) s = (Err e, s')"
  then have "run (k (f s)) s = (Err e, s')" by (simp add: run_bindE gets_def)
  with s assms [OF s] show "obs s' = x" unfolding restores_def by blast
qed

lemma restores_scoped_seqE:
  assumes "acquires obs x (\<lambda>_. y) acq" and "restores obs y k" and "releases obs y x rel"
  shows "restores obs x (seqE acq (on_error k rel))"
  unfolding seqE_def using assms by (rule restores_scoped)

lemma releases_seqE:
  assumes "releases obs y z m" and "releases obs z x n" and "\<And>s e s'. run m s \<noteq> (Err e, s')"
  shows "releases obs y x (seqE m n)"
  unfolding releases_def
proof (intro allI impI)
  fix s r s'
  assume "obs s = y" "run (seqE m n) s = (r, s')" "r \<noteq> Panic" "r \<noteq> Diverge"
  moreover obtain q s1 where m: "run m s = (q, s1)" by (cases "run m s")
  ultimately have "obs s1 = z" if "q \<noteq> Panic" "q \<noteq> Diverge"
    using assms(1) that unfolding releases_def by blast
  moreover from m assms(3) have "\<nexists>e. q = Err e" by blast
  ultimately show "obs s' = x"
    using m assms(2) \<open>run (seqE m n) s = (r, s')\<close> \<open>r \<noteq> Panic\<close> \<open>r \<noteq> Diverge\<close>
    unfolding releases_def by (cases q) (simp_all add: run_seqE)
qed

section \<open>Observations of the service\<close>

definition held :: "('w \<Rightarrow> resource set) \<Rightarrow> 'w st \<Rightarrow>
    resource set \<times> string \<times> Registrar \<times> Registrar \<times> container_store \<times> sandbox_store" where
  "held res s = (res (world s), rootDir s, containerNameIndex s, sandboxNameIndex s, containerStore s,
     sandboxStore s)"

text \<open>The laws of one call.\<close>

definition call_neutral :: "('w \<Rightarrow> resource set) \<Rightarrow> ('w \<Rightarrow> 'a \<times> 'w) \<Rightarrow> bool" where
  "call_neutral res f \<longleftrightarrow> (\<forall>w. res (snd (f w)) = res w)"

definition call_acquires :: "('w \<Rightarrow> resource set) \<Rightarrow> ('a \<Rightarrow> resource) \<Rightarrow> ('w, 'a) call \<Rightarrow> bool" where
  "call_acquires res r f \<longleftrightarrow> (\<forall>w. case f w of
     (Inr x, w') \<Rightarrow> res w' = insert (r x) (res w) | (Inl e, w') \<Rightarrow> res w' = res w)"

definition call_releases :: "('w \<Rightarrow> resource set) \<Rightarrow> resource \<Rightarrow> ('w, 'a) call \<Rightarrow> bool" where
  "call_releases res r f \<longleftrightarrow> (\<forall>w. res (snd (f w)) = res w - {r})"

text \<open>A directory and everything below it.\<close>

definition within :: "string \<Rightarrow> string \<Rightarrow> bool" where
  "within p q \<longleftrightarrow> q = p \<or> prefix (p @ ''/'') q"

definition tree :: "string \<Rightarrow> resource set" where
  "tree p = RDir ` {q. within p q}"

definition call_releases_tree :: "('w \<Rightarrow> resource set) \<Rightarrow> string \<Rightarrow> ('w, 'a) call \<Rightarrow> bool" where
  "call_releases_tree res p f \<longleftrightarrow> (\<forall>w. res (snd (f w)) = res w - tree p)"

lemma RDir_in_tree [simp]: "RDir p \<in> tree p"
  by (simp add: tree_def within_def)

lemma tree_only_dirs [simp]: "RSnapshot k \<notin> tree p" "RContainer k \<notin> tree p" "RTask k \<notin> tree p"
  "RHandle h \<notin> tree p" "RNetwork k \<notin> tree p" "RMount k \<notin> tree p"
  by (auto simp: tree_def)

lemma neutral_ext [cleanup]: "call_neutral res f \<Longrightarrow> neutral (held res) (ext f)"
  by (simp add: neutral_def call_neutral_def ext_def held_def case_prod_beta)

lemma neutral_ext_val [cleanup]: "call_neutral res f \<Longrightarrow> neutral (held res) (ext_val f)"
  by (simp add: neutral_def call_neutral_def ext_val_def held_def case_prod_beta)

lemma snd_from_grpc [simp]: "snd (from_grpc f w) = snd (f w)"
  by (simp add: from_grpc_def split: prod.split sum.split)

lemma call_neutral_from_grpc [cleanup]: "call_neutral res f \<Longrightarrow> call_neutral res (from_grpc f)"
  by (simp add: call_neutral_def)

lemma call_acquires_from_grpc [cleanup]: "call_acquires res r f \<Longrightarrow> call_acquires res r (from_grpc f)"
  unfolding call_acquires_def from_grpc_def by (force split: prod.splits sum.splits)

lemma call_releases_from_grpc [cleanup]: "call_releases res r f \<Longrightarrow> call_releases res r (from_grpc f)"
  by (simp add: call_releases_def)

lemma neutral_actions [cleanup]:
  "neutral (held res) (ret a)" "neutral (held res) (fail e)" "neutral (held res) (gets f)"
  "neutral (held res) (lift_result r)" "neutral (held res) (cstore_Get cid)"
  "neutral (held res) (sbstore_Get sid)" "neutral (held res) (istore_Get iid)"
  "neutral (held res) (on_gen gm g)" "neutral (held res) (NewContainer meta st)"
  "neutral (held res) (container_Delete c)" "neutral (held res) (or_panic opt)"
  by (auto simp: neutral_def act_defs on_gen_def held_def statusStorage_Delete_def or_panic_def
      case_prod_beta split: option.split)

lemma restores_actions [cleanup]:
  "restores (held res) x (ret a)" "restores (held res) x (fail e)" "restores (held res) x (cstore_Add c)"
  "restores (held res) x (sbstore_Add sb)"
proof -
  show "restores (held res) x (ret a)" "restores (held res) x (fail e)"
    by (simp_all add: restores_def ret_def fail_def)
  show "restores (held res) x (cstore_Add c)" "restores (held res) x (sbstore_Add sb)"
    by (auto simp: restores_def cstore_Add_def sbstore_Add_def containerStore_Add_def
        sandboxStore_Add_def split: option.splits)
qed

lemma acquires_ext:
  assumes "call_acquires res r f"
  shows "acquires (held res) (R, x) (\<lambda>a. (insert (r a) R, x)) (ext f)"
  unfolding acquires_def
proof (intro allI impI)
  fix s :: "'a st" and q s'
  assume s: "held res s = (R, x)" and run: "run (ext f) s = (q, s')"
  obtain v w where f: "f (world s) = (v, w)" by (cases "f (world s)")
  with assms have "case v of Inr a \<Rightarrow> res w = insert (r a) (res (world s)) | Inl e \<Rightarrow> res w = res (world s)"
    unfolding call_acquires_def by (auto dest: spec [where x = "world s"])
  with s run f show "case q of Ok a \<Rightarrow> held res s' = (insert (r a) R, x) | Err e \<Rightarrow> held res s' = (R, x) | _ \<Rightarrow> True"
    by (cases v) (auto simp: ext_def held_def)
qed

lemma releases_ext:
  assumes "call_releases res r f" and "r \<notin> R"
  shows "releases (held res) (insert r R, x) (R, x) (ext f)"
  using assms by (auto simp: releases_def call_releases_def ext_def held_def case_prod_beta)

lemma releases_ext_tree:
  assumes "call_releases_tree res p f" and "R \<inter> tree p = {}"
  shows "releases (held res) (insert (RDir p) R, x) (R, x) (ext f)"
proof -
  have "insert (RDir p) R - tree p = R" using assms(2) RDir_in_tree [of p] by blast
  with assms(1) show ?thesis by (auto simp: releases_def call_releases_tree_def ext_def held_def case_prod_beta)
qed

lemma releases_neutral: "neutral obs m \<Longrightarrow> releases obs x x m"
  unfolding neutral_def releases_def by (metis snd_conv)

text \<open>The laws of the outside. A log file is left out: the goroutine that writes it closes it.\<close>

definition creation_laws :: "('w \<Rightarrow> resource set) \<Rightarrow> 'w env \<Rightarrow> bool" where
  "creation_laws res env \<longleftrightarrow>
     (\<forall>k p. call_acquires res (\<lambda>_. RSnapshot k) (snapshots_View env k p)) \<and>
     (\<forall>k p. call_acquires res (\<lambda>_. RSnapshot k) (snapshots_Prepare env k p)) \<and>
     (\<forall>c. call_acquires res (\<lambda>_. RContainer (cd_ID c)) (containers_Create env c)) \<and>
     (\<forall>t. call_acquires res (\<lambda>_. RTask (ct_ContainerID t)) (tasks_Create env t)) \<and>
     (\<forall>p m. call_acquires res (\<lambda>_. RDir p) (os_MkdirAll env p m)) \<and>
     (\<forall>p f m. call_acquires res RHandle (os_OpenFifo env p f m)) \<and>
     (\<forall>p. call_acquires res RHandle (os_Open env p)) \<and>
     (\<forall>p f m. call_acquires res RHandle (os_OpenFile env p f m)) \<and>
     (\<forall>a b t f d. call_acquires res (\<lambda>_. RMount b) (os_Mount env a b t f d)) \<and>
     (\<forall>ns nsp n i. call_acquires res (\<lambda>_. RNetwork i) (cni_SetUpPod env ns nsp n i))"

definition release_laws :: "('w \<Rightarrow> resource set) \<Rightarrow> 'w env \<Rightarrow> bool" where
  "release_laws res env \<longleftrightarrow>
     (\<forall>k. call_releases res (RSnapshot k) (snapshots_Remove env k)) \<and>
     (\<forall>k. call_releases res (RContainer k) (containers_Delete env k)) \<and>
     (\<forall>k. call_releases res (RTask k) (tasks_Delete env k)) \<and>
     (\<forall>p. call_releases_tree res p (os_RemoveAll env p)) \<and>
     (\<forall>h. call_releases res (RHandle h) (os_Close env h)) \<and>
     (\<forall>p f. call_releases res (RMount p) (unix_Unmount env p f)) \<and>
     (\<forall>ns nsp n i. call_releases res (RNetwork i) (cni_TearDownPod env ns nsp n i))"

definition neutral_laws :: "('w \<Rightarrow> resource set) \<Rightarrow> 'w env \<Rightarrow> bool" where
  "neutral_laws res env \<longleftrightarrow>
     call_neutral res (time_Now env) \<and> call_neutral res (stringid_Generate env) \<and>
     call_neutral res (map_order env) \<and> (\<forall>k. call_neutral res (tasks_Get env k)) \<and>
     (\<forall>k. call_neutral res (tasks_Start env k)) \<and> (\<forall>k. call_neutral res (tasks_Kill env k)) \<and>
     (\<forall>k. call_neutral res (snapshots_Mounts env k)) \<and>
     (\<forall>n. call_neutral res (images_Get env n)) \<and> (\<forall>d. call_neutral res (image_ConfigDigest env d)) \<and>
     call_neutral res (devices_HostDevices env) \<and> (\<forall>p m. call_neutral res (devices_DeviceFromPath env p m)) \<and>
     (\<forall>p. call_neutral res (os_Lstat_IsSymlink env p)) \<and> (\<forall>p. call_neutral res (filepath_EvalSymlinks env p)) \<and>
     (\<forall>p. call_neutral res (os_OpenLog env p)) \<and> (\<forall>p. call_neutral res (os_Stat env p)) \<and>
     (\<forall>p d m. call_neutral res (os_WriteFile env p d m)) \<and> (\<forall>a b. call_neutral res (io_Copy env a b))"

text \<open>A handle that is handed out is a new one.\<close>

definition handle_laws :: "('w \<Rightarrow> resource set) \<Rightarrow> 'w env \<Rightarrow> bool" where
  "handle_laws res env \<longleftrightarrow>
     (\<forall>p f m w h w'. os_OpenFifo env p f m w = (Inr h, w') \<longrightarrow> RHandle h \<notin> res w) \<and>
     (\<forall>p w h w'. os_Open env p w = (Inr h, w') \<longrightarrow> RHandle h \<notin> res w) \<and>
     (\<forall>p f m w h w'. os_OpenFile env p f m w = (Inr h, w') \<longrightarrow> RHandle h \<notin> res w)"

definition resource_laws :: "('w \<Rightarrow> resource set) \<Rightarrow> 'w env \<Rightarrow> bool" where
  "resource_laws res env \<longleftrightarrow> creation_laws res env \<and> release_laws res env \<and>
     neutral_laws res env \<and> handle_laws res env"

lemma creation_lawsD:
  assumes "resource_laws res env"
  shows "call_acquires res (\<lambda>_. RSnapshot k) (snapshots_View env k p)"
    "call_acquires res (\<lambda>_. RSnapshot k) (snapshots_Prepare env k p)"
    "call_acquires res (\<lambda>_. RContainer (cd_ID c)) (containers_Create env c)"
    "call_acquires res (\<lambda>_. RTask (ct_ContainerID t)) (tasks_Create env t)"
    "call_acquires res (\<lambda>_. RDir path) (os_MkdirAll env path m)"
    "call_acquires res RHandle (os_OpenFifo env path f m)"
    "call_acquires res RHandle (os_Open env path)"
    "call_acquires res RHandle (os_OpenFile env path f m)"
    "call_acquires res (\<lambda>_. RMount b) (os_Mount env a b ty fl d)"
    "call_acquires res (\<lambda>_. RNetwork i) (cni_SetUpPod env ns nsp n i)"
  using assms unfolding resource_laws_def creation_laws_def by simp_all

lemma release_lawsD:
  assumes "resource_laws res env"
  shows "call_releases res (RSnapshot k) (snapshots_Remove env k)"
    "call_releases res (RContainer k) (containers_Delete env k)"
    "call_releases res (RTask k) (tasks_Delete env k)"
    "call_releases_tree res p (os_RemoveAll env p)"
    "call_releases res (RHandle h) (os_Close env h)"
    "call_releases res (RMount p) (unix_Unmount env p fl)"
    "call_releases res (RNetwork i) (cni_TearDownPod env ns nsp n i)"
  using assms unfolding resource_laws_def release_laws_def by simp_all

lemma neutral_lawsE:
  assumes "neutral_laws res env"
  shows "call_neutral res (time_Now env)" "call_neutral res (stringid_Generate env)"
    "call_neutral res (map_order env)" "call_neutral res (tasks_Get env k)"
    "call_neutral res (tasks_Start env k)" "call_neutral res (tasks_Kill env kr)"
    "call_neutral res (snapshots_Mounts env k)" "call_neutral res (images_Get env n)"
    "call_neutral res (image_ConfigDigest env d)" "call_neutral res (devices_HostDevices env)"
    "call_neutral res (devices_DeviceFromPath env p perm)" "call_neutral res (os_Lstat_IsSymlink env p)"
    "call_neutral res (filepath_EvalSymlinks env p)" "call_neutral res (os_OpenLog env p)"
    "call_neutral res (os_Stat env p)" "call_neutral res (os_WriteFile env p text mode)"
    "call_neutral res (io_Copy env h1 h2)"
  using assms unfolding neutral_laws_def by simp_all

lemma resource_laws_neutral: "resource_laws res env \<Longrightarrow> neutral_laws res env"
  by (simp add: resource_laws_def)

lemmas neutral_lawsD = neutral_lawsE [OF resource_laws_neutral]

text \<open>The part of the laws that is about file handles.\<close>

definition file_laws :: "('w \<Rightarrow> resource set) \<Rightarrow> 'w env \<Rightarrow> bool" where
  "file_laws res env \<longleftrightarrow> (\<forall>p f m. call_acquires res RHandle (os_OpenFifo env p f m)) \<and>
     (\<forall>p. call_acquires res RHandle (os_Open env p)) \<and>
     (\<forall>p f m. call_acquires res RHandle (os_OpenFile env p f m)) \<and>
     (\<forall>h. call_releases res (RHandle h) (os_Close env h)) \<and> neutral_laws res env \<and> handle_laws res env"

lemma resource_laws_file: "resource_laws res env \<Longrightarrow> file_laws res env"
  by (simp add: resource_laws_def file_laws_def creation_laws_def release_laws_def)

lemma file_lawsD:
  assumes "file_laws res env"
  shows "call_acquires res RHandle (os_OpenFifo env path f m)" "call_acquires res RHandle (os_Open env path)"
    "call_acquires res RHandle (os_OpenFile env path f m)" "call_releases res (RHandle h) (os_Close env h)"
    "neutral_laws res env" "os_OpenFifo env path f m w = (Inr h', w') \<Longrightarrow> RHandle h' \<notin> res w"
    "os_Open env path w = (Inr h', w') \<Longrightarrow> RHandle h' \<notin> res w"
    "os_OpenFile env path f m w = (Inr h', w') \<Longrightarrow> RHandle h' \<notin> res w"
  using assms unfolding file_laws_def handle_laws_def by (simp_all, blast+)

text \<open>The helpers that only look.\<close>

lemma neutral_localResolve:
  assumes "neutral_laws res env"
  shows "neutral (held res) (localResolve env ref)"
  unfolding localResolve_def resolve_image_id_def imageStoreService_Get_def
  by (auto intro!: cleanup neutral_lawsE [OF assms] split: sum.split option.split)

lemma neutral_add_devices:
  assumes "resource_laws res env"
  shows "neutral (held res) (add_devices env ds g)"
  by (induction ds arbitrary: g)
    (auto simp: resolveSymbolicLink_def intro!: cleanup neutral_lawsD [OF assms])

lemma neutral_generateContainerSpec:
  assumes "resource_laws res env"
  shows "neutral (held res) (generateContainerSpec env cid pid c sc ic ms)"
  unfolding generateContainerSpec_def addOCIDevices_def
  by (auto intro!: cleanup neutral_add_devices [OF assms] neutral_lawsD [OF assms])

section \<open>Names\<close>

lemma mdel_mset_fresh: "k \<notin> set (keys_of m) \<Longrightarrow> mdel_key k (mset_key k v m) = m"
  by (induction m) (auto simp: AList.delete_eq)

lemma ReleaseByName_Reserve:
  assumes "registrar_inv r" and "map_of (keyToName r) key = None" and "Reserve name key r = (Inr (), r')"
  shows "ReleaseByName name r' = r"
proof -
  have "map_of (nameToKey r) name \<noteq> Some key"
    using assms(1,2) by (metis inverse_mapsD option.distinct(1) registrar_inv_maps)
  with assms(2,3) have r': "map_of (nameToKey r) name = None"
      "r' = r\<lparr>nameToKey := mset_key name key (nameToKey r), keyToName := mset_key key name (keyToName r)\<rparr>"
    by (auto simp: Reserve_def split: if_splits option.splits)
  with assms(2) show ?thesis
    by (simp add: ReleaseByName_def mdel_mset_fresh map_of_eq_None_iff)
qed


lemma restores_cname_scoped:
  assumes "registrar_inv idx" and "map_of (keyToName idx) key = None"
    and "\<And>idx'. restores (held res) (R, dir, idx', x) k"
  shows "restores (held res) (R, dir, idx, x)
    (seqE (wrap_err w (cname_Reserve n key)) (on_error k (cname_ReleaseByName n)))"
proof (cases "Reserve n key idx")
  case (Pair q idx')
  show ?thesis
  proof (cases q)
    case (Inl e)
    then show ?thesis using Pair
      by (auto simp: restores_def run_seqE run_wrap_err cname_Reserve_def held_def Reserve_def
          split: if_splits option.splits)
  next
    case (Inr u)
    with Pair have r: "Reserve n key idx = (Inr (), idx')" by simp
    then have "ReleaseByName n idx' = idx" by (rule ReleaseByName_Reserve [OF assms(1,2)])
    then have "releases (held res) (R, dir, idx', x) (R, dir, idx, x) (cname_ReleaseByName n)"
      by (auto simp: releases_def cname_ReleaseByName_def held_def)
    moreover have "acquires (held res) (R, dir, idx, x) (\<lambda>_. (R, dir, idx', x)) (wrap_err w (cname_Reserve n key))"
      using r by (auto simp: acquires_def run_wrap_err cname_Reserve_def held_def)
    ultimately show ?thesis using assms(3) by (intro restores_scoped_seqE)
  qed
qed

lemma restores_sname_scoped:
  assumes "registrar_inv idx" and "map_of (keyToName idx) key = None"
    and "\<And>idx'. restores (held res) (R, dir, cidx, idx', x) k"
  shows "restores (held res) (R, dir, cidx, idx, x)
    (seqE (wrap_err w (sname_Reserve n key)) (on_error k (sname_ReleaseByName n)))"
proof (cases "Reserve n key idx")
  case (Pair q idx')
  show ?thesis
  proof (cases q)
    case (Inl e)
    then show ?thesis using Pair
      by (auto simp: restores_def run_seqE run_wrap_err sname_Reserve_def held_def Reserve_def
          split: if_splits option.splits)
  next
    case (Inr u)
    with Pair have r: "Reserve n key idx = (Inr (), idx')" by simp
    then have "ReleaseByName n idx' = idx" by (rule ReleaseByName_Reserve [OF assms(1,2)])
    then have "releases (held res) (R, dir, cidx, idx', x) (R, dir, cidx, idx, x) (sname_ReleaseByName n)"
      by (auto simp: releases_def sname_ReleaseByName_def held_def)
    moreover have "acquires (held res) (R, dir, cidx, idx, x) (\<lambda>_. (R, dir, cidx, idx', x))
        (wrap_err w (sname_Reserve n key))"
      using r by (auto simp: acquires_def run_wrap_err sname_Reserve_def held_def)
    ultimately show ?thesis using assms(3) by (intro restores_scoped_seqE)
  qed
qed

end
