(* ===== verification/Real_Os.thy ===== *)
theory Real_Os
  imports Cleanup
begin

text \<open>
  \<^verbatim>\<open>pkg/os/os.go\<close>: the two operations of \<open>RealOS\<close> that are more than a forwarded system call.
  Both file handles of a copy are closed on every path; unmounting a target that is not mounted
  is not an error. The operations that only forward are in \<open>Service\<close>.
\<close>

definition RealOS_CopyFile :: "'w env \<Rightarrow> string \<Rightarrow> string \<Rightarrow> nat \<Rightarrow> ('w, unit) act" where
  "RealOS_CopyFile env src dest perm =
     bindE (ext (os_Open env src)) (\<lambda>in_h.
     defer_always
       (bindE (ext (os_OpenFile env dest 577 perm)) (\<lambda>out_h.
        defer_always (ext (io_Copy env out_h in_h)) (ext (os_Close env out_h))))
       (ext (os_Close env in_h)))"

definition RealOS_Unmount :: "'w env \<Rightarrow> string \<Rightarrow> nat \<Rightarrow> ('w, unit) act" where
  "RealOS_Unmount env target flags =
     bindE (ext (mount_Mounted env target)) (\<lambda>mounted.
       if \<not> mounted then ret () else ext (unix_Unmount env target flags))"

lemma real_os_world [svc_guar, intro!]:
  "guar world_only (RealOS_CopyFile env a b m)" "guar world_only (RealOS_Unmount env t f)"
  by (auto simp: RealOS_CopyFile_def RealOS_Unmount_def intro!: guar_intros)

section \<open>A copy leaves no handle open\<close>

text \<open>Opening a new handle, using it and closing it on every path.\<close>

lemma neutral_handle_scoped:
  assumes acq: "call_acquires res RHandle f" and rel: "\<And>h. call_releases res (RHandle h) (g h)"
    and new: "\<And>w h w'. f w = (Inr h, w') \<Longrightarrow> RHandle h \<notin> res w"
    and body: "\<And>h. neutral (held res) (k h)" and returns: "\<And>h. returns (k h)"
  shows "neutral (held res) (bindE (ext f) (\<lambda>h. defer_always (k h) (ext (g h))))"
  unfolding neutral_def
proof
  fix s :: "'a st"
  obtain v w where f: "f (world s) = (v, w)" by (cases "f (world s)")
  have law: "case v of Inr h \<Rightarrow> res w = insert (RHandle h) (res (world s)) | Inl e \<Rightarrow> res w = res (world s)"
    using acq f unfolding call_acquires_def by (auto dest: spec [where x = "world s"])
  show "held res (snd (run (bindE (ext f) (\<lambda>h. defer_always (k h) (ext (g h)))) s)) = held res s"
  proof (cases v)
    case (Inl e)
    with f law show ?thesis by (simp add: run_bindE ext_def held_def)
  next
    case (Inr h)
    obtain q s1 where k: "run (k h) (s\<lparr>world := w\<rparr>) = (q, s1)" by (cases "run (k h) (s\<lparr>world := w\<rparr>)")
    have "held res s1 = held res (s\<lparr>world := w\<rparr>)" using body [of h] k unfolding neutral_def by (metis snd_conv)
    moreover have "q \<noteq> Diverge" using returns [of h] k unfolding returns_def by (metis fst_conv)
    moreover have "res (snd (g h (world s1))) = res (world s1) - {RHandle h}"
      using rel [of h] by (simp add: call_releases_def)
    moreover have "RHandle h \<notin> res (world s)" using new f Inr by blast
    ultimately show ?thesis using f Inr law k
      by (cases q) (simp_all add: run_bindE ext_def run_defer_always held_def case_prod_beta)
  qed
qed

lemma returns_ext [returns_intros]: "returns (ext f)"
  by (simp add: returns_def ext_def of_result_def case_prod_beta split: sum.split)

lemma neutral_CopyFile:
  assumes "file_laws res env"
  shows "neutral (held res) (RealOS_CopyFile env a b m)"
proof -
  have "neutral (held res) (bindE (ext (os_OpenFile env b 577 m)) (\<lambda>out_h.
      defer_always (ext (io_Copy env out_h in_h)) (ext (os_Close env out_h))))" for in_h
    by (rule neutral_handle_scoped)
      (auto intro: file_lawsD neutral_lawsE neutral_ext assms
        returns_intros dest: file_lawsD(8) [OF assms])
  moreover have "returns (bindE (ext (os_OpenFile env b 577 m)) (\<lambda>out_h.
      defer_always (ext (io_Copy env out_h in_h)) (ext (os_Close env out_h))))" for in_h
    by (intro returns_intros)
  ultimately show ?thesis
    unfolding RealOS_CopyFile_def
    by - (rule neutral_handle_scoped, auto intro: file_lawsD assms dest: file_lawsD(7) [OF assms])
qed

end
