(* ===== verification/Sandbox_Stop.thy ===== *)
theory Sandbox_Stop
  imports Task_Events Real_Os
begin

text \<open>
  \<^verbatim>\<open>pkg/server/sandbox_stop.go\<close>: stopping the containers of a sandbox, tearing down its network,
  unmounting its shared memory and killing the sandbox container. \<open>unmountSandboxFiles\<close> is from
  \<^verbatim>\<open>sandbox_run.go\<close>.
\<close>

definition unix_MNT_DETACH :: nat where "unix_MNT_DETACH = 2"

definition host_ipc :: "PodSandboxConfig option \<Rightarrow> bool" where
  "host_ipc config = pget ns_HostIpc False (sandbox_namespace_options config)"

definition host_network :: "PodSandboxConfig option \<Rightarrow> bool" where
  "host_network config = pget ns_HostNetwork False (sandbox_namespace_options config)"

definition unmountSandboxFiles :: "'w env \<Rightarrow> string \<Rightarrow> PodSandboxConfig option \<Rightarrow> ('w, unit) act" where
  "unmountSandboxFiles env dir config =
     (if \<not> host_ipc config then
        tolerate os_IsNotExist (\<lambda>e. e) (RealOS_Unmount env (getSandboxDevShm dir) unix_MNT_DETACH)
      else ret ())"

definition stopSandboxContainer :: "'w env \<Rightarrow> nat \<Rightarrow> string \<Rightarrow> ('w, unit) act" where
  "stopSandboxContainer env fuel sid =
     bindE (wrap_err (\<lambda>e. Errorf [Lit ''failed to get containerd event: '', V e])
             (ext (events_Subscribe env))) (\<lambda>eventstream.
     defer_always
       (tryE (ext (tasks_Get env sid)) (\<lambda>r. case r of
          Inl e \<Rightarrow> if isContainerdGRPCNotFoundError e then ret ()
            else fail (Errorf [Lit ''failed to get sandbox container: '', V e])
        | Inr t \<Rightarrow>
            seqE (if tk_Status t \<noteq> StatusStopped then
                    seqE (tolerate (\<lambda>e. isContainerdGRPCNotFoundError e \<or> isRuncProcessAlreadyFinishedError e)
                           (\<lambda>e. Errorf [Lit ''failed to kill sandbox container: '', V e])
                           (ext (tasks_Kill env \<lparr>kr_ContainerID = sid, kr_Signal = unix_SIGKILL, kr_All = True\<rparr>)))
                      (wrap_err (\<lambda>e. Errorf [Lit ''failed to wait for pod sandbox to stop: '', V e])
                        (waitSandboxContainer env fuel eventstream sid (tk_Pid t)))
                  else ret ())
              (tolerate isContainerdGRPCNotFoundError
                (\<lambda>e. Errorf [Lit ''failed to delete sandbox container: '', V e])
                (ext (tasks_Delete env sid)))))
       (ext (events_Cancel env eventstream)))"

definition stop_containers :: "'w env \<Rightarrow> nat \<Rightarrow> string \<Rightarrow> Container list \<Rightarrow> ('w, unit) act" where
  "stop_containers env fuel sid containers = forE containers (\<lambda>container.
     if c_SandboxID container \<noteq> sid then ret ()
     else wrap_err (\<lambda>e. Errorf [Lit ''failed to stop container '', Q (c_ID container), Lit '': '', V e])
            (stopContainer env fuel container 0))"

definition teardown_network :: "'w env \<Rightarrow> Sandbox \<Rightarrow> ('w, unit) act" where
  "teardown_network env sandbox =
     (let sid = sb_ID sandbox; config = sb_Config sandbox; meta = pget pc_Metadata None config in
      tryE (RealOS_Stat env (sb_NetNS sandbox)) (\<lambda>r. case r of
        Inr _ \<Rightarrow>
          if \<not> host_network config then
            wrap_err (\<lambda>e. Errorf [Lit ''failed to destroy network for sandbox '', Q sid, Lit '': '', V e])
              (ext (cni_TearDownPod env (sb_NetNS sandbox) (pget pm_Namespace '''' meta) (pget pm_Name '''' meta) sid))
          else ret ()
      | Inl e \<Rightarrow>
          if \<not> os_IsNotExist e then
            fail (Errorf [Lit ''failed to stat netns path for sandbox '', Q sid,
              Lit '' before tearing down the network: '', V e])
          else ret ()))"

definition StopPodSandbox :: "'w env \<Rightarrow> nat \<Rightarrow> string \<Rightarrow> ('w, unit) act" where
  "StopPodSandbox env fuel rid =
     bindE (wrap_err (\<lambda>e. Errorf [Lit ''an error occurred when try to find sandbox '', Q rid, Lit '': '', V e])
             (sbstore_Get rid)) (\<lambda>sandbox.
     let sid = sb_ID sandbox in
     bindE (cstore_List env) (\<lambda>containers.
     seqE (stop_containers env fuel sid containers)
     (seqE (teardown_network env sandbox)
     (bindE (gets rootDir) (\<lambda>dir.
      let sandboxRoot = getSandboxRootDir dir sid in
      seqE (wrap_err (\<lambda>e. Errorf [Lit ''failed to unmount sandbox files in '', Q sandboxRoot, Lit '': '', V e])
             (unmountSandboxFiles env sandboxRoot (sb_Config sandbox)))
           (wrap_err (\<lambda>e. Errorf [Lit ''failed to stop sandbox container '', Q sid, Lit '': '', V e])
             (stopSandboxContainer env fuel sid)))))))"

lemma sandbox_stop_world [svc_guar, intro!]:
  "guar world_only (unmountSandboxFiles env dir c)" "guar world_only (stopSandboxContainer env n sid)"
  "guar world_only (stop_containers env n sid cs)" "guar world_only (teardown_network env sb)"
  by (auto simp: unmountSandboxFiles_def stopSandboxContainer_def stop_containers_def teardown_network_def
      Let_def intro!: guar_intros split: sum.split)

lemma StopPodSandbox_world [svc_guar, intro!]: "guar world_only (StopPodSandbox env n rid)"
  by (auto simp: StopPodSandbox_def Let_def intro!: guar_intros)

lemmas sandbox_stop_svc [svc_guar] = sandbox_stop_world [THEN guar_world_only]
  StopPodSandbox_world [THEN guar_world_only]

end
