(* ===== verification/Image_Auth.thy ===== *)
theory Image_Auth
  imports Image_Refs
begin

text \<open>
  \<open>ParseAuth\<close> of \<^verbatim>\<open>pkg/server/image_pull.go\<close> and what it uses of \<^verbatim>\<open>encoding/base64\<close>: the
  standard alphabet with padding, line breaks ignored. The code decodes into a buffer of the
  maximal length, so the decoded text is followed by NUL bytes that are cut off the password
  afterwards. \<open>ParseAuth_encoded\<close> shows that the credentials come back from their encoding.
\<close>

definition b64_alphabet :: string where
  "b64_alphabet = ''ABCDEFGHIJKLMNOPQRSTUVWXYZabcdefghijklmnopqrstuvwxyz0123456789+/''"

fun index_of :: "char \<Rightarrow> string \<Rightarrow> nat option" where
  "index_of c [] = None"
| "index_of c (x # xs) = (if x = c then Some 0 else map_option Suc (index_of c xs))"

definition b64_value :: "char \<Rightarrow> nat option" where
  "b64_value c = index_of c b64_alphabet"

definition byte :: "nat \<Rightarrow> char" where
  "byte n = char_of n"

text \<open>The bytes of a quantum of four, three and two digits.\<close>

definition b64_byte1 :: "nat \<Rightarrow> nat \<Rightarrow> char" where
  "b64_byte1 i j = byte (i * 4 + j div 16)"

definition b64_byte2 :: "nat \<Rightarrow> nat \<Rightarrow> char" where
  "b64_byte2 j k = byte (j mod 16 * 16 + k div 4)"

definition b64_byte3 :: "nat \<Rightarrow> nat \<Rightarrow> char" where
  "b64_byte3 k l = byte (k mod 4 * 64 + l)"

fun b64_quanta :: "string \<Rightarrow> string option" where
  "b64_quanta [] = Some []"
| "b64_quanta (a # b # c # d # rest) =
     (case (b64_value a, b64_value b) of
        (Some i, Some j) \<Rightarrow>
          (if c = CHR ''='' then (if d = CHR ''='' \<and> rest = [] then Some [b64_byte1 i j] else None)
           else (case b64_value c of
               None \<Rightarrow> None
             | Some k \<Rightarrow>
                 (if d = CHR ''='' then (if rest = [] then Some [b64_byte1 i j, b64_byte2 j k] else None)
                  else (case b64_value d of
                      None \<Rightarrow> None
                    | Some l \<Rightarrow> map_option (\<lambda>r. b64_byte1 i j # b64_byte2 j k # b64_byte3 k l # r)
                        (b64_quanta rest)))))
      | _ \<Rightarrow> None)"
| "b64_quanta _ = None"

definition base64_Decode :: "string \<Rightarrow> string option" where
  "base64_Decode s = b64_quanta (filter (\<lambda>c. c \<noteq> char_of (13 :: nat) \<and> c \<noteq> char_of (10 :: nat)) s)"

definition base64_DecodedLen :: "nat \<Rightarrow> nat" where
  "base64_DecodedLen n = n div 4 * 3"

definition NUL :: char where "NUL = char_of (0 :: nat)"

text \<open>The buffer after decoding; the error of a corrupt input is only passed on.\<close>

definition decoded_auth :: "string \<Rightarrow> string option" where
  "decoded_auth a = map_option (\<lambda>d. d @ replicate (base64_DecodedLen (length a) - length d) NUL) (base64_Decode a)"

definition ParseAuth :: "AuthConfig option \<Rightarrow> (string \<times> string) result" where
  "ParseAuth auth = (case auth of
     None \<Rightarrow> Inr ('''', '''')
   | Some a \<Rightarrow>
       if au_Username a \<noteq> '''' then Inr (au_Username a, au_Password a)
       else if au_IdentityToken a \<noteq> '''' then Inr ('''', au_IdentityToken a)
       else if au_Auth a \<noteq> '''' then
         (case decoded_auth (au_Auth a) of
            None \<Rightarrow> Inl (OtherError ''illegal base64 data'')
          | Some decoded \<Rightarrow> (case strings_SplitN2 decoded (CHR '':'') of
              [user, passwd] \<Rightarrow> Inr (user, strings_Trim passwd NUL)
            | _ \<Rightarrow> Inl (Errorf [Lit ''invalid decoded auth: '', Q decoded])))
       else Inl (Errorf [Lit ''invalid auth config'']))"

section \<open>The encoding\<close>

definition b64_digit :: "nat \<Rightarrow> char" where
  "b64_digit n = b64_alphabet ! n"

definition ord_of :: "char \<Rightarrow> nat" where
  "ord_of c = of_char c"

fun base64_Encode :: "string \<Rightarrow> string" where
  "base64_Encode [] = []"
| "base64_Encode [a] = [b64_digit (ord_of a div 4), b64_digit (ord_of a mod 4 * 16), CHR ''='', CHR ''='']"
| "base64_Encode [a, b] = [b64_digit (ord_of a div 4), b64_digit (ord_of a mod 4 * 16 + ord_of b div 16),
     b64_digit (ord_of b mod 16 * 4), CHR ''='']"
| "base64_Encode (a # b # c # rest) =
     b64_digit (ord_of a div 4) # b64_digit (ord_of a mod 4 * 16 + ord_of b div 16) #
     b64_digit (ord_of b mod 16 * 4 + ord_of c div 64) # b64_digit (ord_of c mod 64) # base64_Encode rest"

lemma index_of_nth: "distinct xs \<Longrightarrow> i < length xs \<Longrightarrow> index_of (xs ! i) xs = Some i"
proof (induction xs arbitrary: i)
  case (Cons x xs)
  then show ?case by (cases i) auto
qed simp

lemma b64_alphabet_facts: "distinct b64_alphabet" "length b64_alphabet = 64"
  "CHR ''='' \<notin> set b64_alphabet" "char_of (13 :: nat) \<notin> set b64_alphabet" "char_of (10 :: nat) \<notin> set b64_alphabet"
  by (code_simp, code_simp, code_simp, code_simp, code_simp)

lemma b64_value_digit [simp]: "n < 64 \<Longrightarrow> b64_value (b64_digit n) = Some n"
  by (simp add: b64_value_def b64_digit_def index_of_nth b64_alphabet_facts)

lemma b64_digit_mem: "n < 64 \<Longrightarrow> b64_digit n \<in> set b64_alphabet"
  by (simp add: b64_digit_def b64_alphabet_facts)

lemma b64_digit_neq [simp]:
  "n < 64 \<Longrightarrow> b64_digit n \<noteq> CHR ''=''" "n < 64 \<Longrightarrow> b64_digit n \<noteq> char_of (13 :: nat)"
  "n < 64 \<Longrightarrow> b64_digit n \<noteq> char_of (10 :: nat)"
  using b64_digit_mem [of n] b64_alphabet_facts(3-5) by metis+

lemma ord_of_less [simp]: "ord_of c < 256"
  by (simp add: ord_of_def)

lemma ord_of_div: "ord_of x div 4 < 64" "ord_of x div 16 < 16" "ord_of x div 64 < 4"
  using ord_of_less [of x] by (simp_all add: less_mult_imp_div_less)

lemma b64_ranges [simp]:
  "ord_of a div 4 < 64" "ord_of a mod 4 * 16 < 64" "ord_of a mod 4 * 16 + ord_of b div 16 < 64"
  "ord_of b mod 16 * 4 < 64" "ord_of b mod 16 * 4 + ord_of c div 64 < 64" "ord_of c mod 64 < 64"
proof -
  have a: "ord_of x div 4 < 64" "ord_of x div 16 < 16" "ord_of x div 64 < 4" for x
    by (rule ord_of_div)+
  have m: "ord_of x mod 4 < 4" "ord_of x mod 16 < 16" "ord_of x mod 64 < 64" for x by auto
  show "ord_of a div 4 < 64" "ord_of c mod 64 < 64" using a m by auto
  show "ord_of a mod 4 * 16 < 64" "ord_of a mod 4 * 16 + ord_of b div 16 < 64"
    using m(1) [of a] a(2) [of b] by linarith+
  show "ord_of b mod 16 * 4 < 64" "ord_of b mod 16 * 4 + ord_of c div 64 < 64"
    using m(2) [of b] a(3) [of c] by linarith+
qed

lemma byte_ord [simp]: "byte (ord_of c) = c"
  by (simp add: byte_def ord_of_def)

lemma b64_bytes [simp]:
  "b64_byte1 (ord_of a div 4) (ord_of a mod 4 * 16 + ord_of b div 16) = a"
  "b64_byte1 (ord_of a div 4) (ord_of a mod 4 * 16) = a"
  "b64_byte2 (ord_of a mod 4 * 16 + ord_of b div 16) (ord_of b mod 16 * 4 + ord_of c div 64) = b"
  "b64_byte2 (ord_of a mod 4 * 16 + ord_of b div 16) (ord_of b mod 16 * 4) = b"
  "b64_byte3 (ord_of b mod 16 * 4 + ord_of c div 64) (ord_of c mod 64) = c"
proof -
  have d: "ord_of x div 16 < 16" "ord_of x div 64 < 4" for x by (rule ord_of_div)+
  show "b64_byte1 (ord_of a div 4) (ord_of a mod 4 * 16 + ord_of b div 16) = a"
    "b64_byte1 (ord_of a div 4) (ord_of a mod 4 * 16) = a"
    using d(1) [of b] by (simp_all add: b64_byte1_def)
  show "b64_byte2 (ord_of a mod 4 * 16 + ord_of b div 16) (ord_of b mod 16 * 4 + ord_of c div 64) = b"
    "b64_byte2 (ord_of a mod 4 * 16 + ord_of b div 16) (ord_of b mod 16 * 4) = b"
    using d(1) [of b] d(2) [of c] by (simp_all add: b64_byte2_def)
  show "b64_byte3 (ord_of b mod 16 * 4 + ord_of c div 64) (ord_of c mod 64) = c"
    using d(2) [of c] by (simp add: b64_byte3_def)
qed

lemma b64_quanta_Encode: "b64_quanta (base64_Encode s) = Some s"
  by (induction s rule: base64_Encode.induct) simp_all

lemma pad_not_line [simp]: "CHR ''='' \<noteq> char_of (13 :: nat)" "CHR ''='' \<noteq> char_of (10 :: nat)"
  by (code_simp, code_simp)

lemma base64_Encode_lines:
  "filter (\<lambda>c. c \<noteq> char_of (13 :: nat) \<and> c \<noteq> char_of (10 :: nat)) (base64_Encode s) = base64_Encode s"
  by (induction s rule: base64_Encode.induct) simp_all

lemma base64_Decode_Encode: "base64_Decode (base64_Encode s) = Some s"
  by (simp add: base64_Decode_def base64_Encode_lines b64_quanta_Encode)


lemma SplitN2_append: "CHR '':'' \<notin> set u \<Longrightarrow> strings_SplitN2 (u @ CHR '':'' # p) (CHR '':'') = [u, p]"
  by (induction u) auto

lemma strings_Trim_append:
  assumes "p = [] \<or> hd p \<noteq> c \<and> last p \<noteq> c"
  shows "strings_Trim (p @ replicate n c) c = p"
proof (cases "p = []")
  case True
  then show ?thesis by (simp add: strings_Trim_def)
next
  case False
  with assms have p: "hd p \<noteq> c" "last p \<noteq> c" by auto
  with False have "dropWhile (\<lambda>x. x = c) (p @ replicate n c) = p @ replicate n c"
    by (cases p) auto
  moreover have "dropWhile (\<lambda>x. x = c) (rev (p @ replicate n c)) = rev p"
    using p False by (cases p rule: rev_cases) (auto simp: dropWhile_append3)
  ultimately show ?thesis by (simp add: strings_Trim_def)
qed

text \<open>
  C28: Credentials come back from their base64 encoding: an auth field that encodes
  "user:password" is parsed into exactly that user and password, when the user has no colon and
  the password does not begin or end with a NUL byte. The NUL bytes of the over-long decode
  buffer are not part of the password.
\<close>

lemma ParseAuth_encoded:
  assumes "au_Username a = ''''" and "au_IdentityToken a = ''''"
    and "au_Auth a = base64_Encode (user @ '':'' @ passwd)"
    and "CHR '':'' \<notin> set user" and "passwd = '''' \<or> hd passwd \<noteq> NUL \<and> last passwd \<noteq> NUL"
  shows "ParseAuth (Some a) = Inr (user, passwd)"
proof -
  let ?plain = "user @ '':'' @ passwd"
  let ?n = "base64_DecodedLen (length (base64_Encode ?plain)) - length ?plain"
  have "base64_Encode ?plain \<noteq> ''''"
    using base64_Decode_Encode [of ?plain] by (auto simp: base64_Decode_def)
  moreover have "decoded_auth (au_Auth a) = Some (user @ CHR '':'' # (passwd @ replicate ?n NUL))"
    using assms(3) by (simp add: decoded_auth_def base64_Decode_Encode)
  moreover have "strings_Trim (passwd @ replicate ?n NUL) NUL = passwd"
    using assms(5) by (rule strings_Trim_append)
  ultimately show ?thesis using assms(1-4) by (simp add: ParseAuth_def SplitN2_append)
qed

end
