(* ===== verification/Image_Pull.thy ===== *)
theory Image_Pull
  imports Image_Auth
begin

text \<open>
  \<^verbatim>\<open>pkg/server/image_pull.go\<close>: resolving a reference, fetching its contents, waiting for
  downloads, unpacking the layers and recording the image, in containerd under its tag, digest
  and id and in the in-memory index. Fetching runs in the vendored dispatcher, which calls the
  service's tracking handler for every descriptor it visits; \<open>images_Dispatch\<close> returns the visited
  descriptors. \<open>ensureImageExists\<close> of \<^verbatim>\<open>pkg/server/helpers.go\<close> is here too.
\<close>

definition MediaTypeDockerSchema1Manifest :: string where
  "MediaTypeDockerSchema1Manifest = ''application/vnd.docker.distribution.manifest.v1+prettyjws''"

definition MediaTypeImageLayer :: string where
  "MediaTypeImageLayer = ''application/vnd.oci.image.layer.v1.tar''"

text \<open>\<open>resourceSet\<close>: a map used as a set.\<close>

type_synonym resourceSet = "(string \<times> unit) list"

definition newResourceSet :: resourceSet where
  "newResourceSet = []"

definition resourceSet_add :: "string \<Rightarrow> resourceSet \<Rightarrow> resourceSet" where
  "resourceSet_add resource r = mset_key resource () r"

definition resourceSet_all :: "resourceSet \<Rightarrow> resourceSet" where
  "resourceSet_all r = foldl (\<lambda>acc (resource, _). mset_key resource () acc) [] r"

text \<open>The handler that tracks what the dispatcher visits.\<close>

definition track_all :: "'w env \<Rightarrow> Descriptor list \<Rightarrow> resourceSet" where
  "track_all env ds = foldl (\<lambda>r d. resourceSet_add (remotes_MakeRefKey env d) r) newResourceSet ds"

definition createImageReference :: "'w env \<Rightarrow> string \<Rightarrow> Descriptor \<Rightarrow> ('w, unit) act" where
  "createImageReference env name desc =
     tryE (imageStoreService_Create env name desc) (\<lambda>r. case r of
       Inr _ \<Rightarrow> ret ()
     | Inl e \<Rightarrow> if \<not> errdefs_IsAlreadyExists e then fail e
         else imageStoreService_Update env name desc)"

fun waitForResourcesDownloading :: "'w env \<Rightarrow> nat \<Rightarrow> resourceSet \<Rightarrow> ('w, unit) act" where
  "waitForResourcesDownloading env 0 resources = Ret Diverge"
| "waitForResourcesDownloading env (Suc fuel) resources =
     bindE (ext_val (select_ctx env)) (\<lambda>ctx_done.
     if ctx_done then fail (Errorf [Lit ''image resources pulling is cancelled''])
     else bindE (wrap_err (\<lambda>e. Errorf [Lit ''failed to get content status: '', V e])
                  (ext (content_ListStatuses env))) (\<lambda>refs.
       let pulling = (\<exists>ref \<in> set refs. map_of resources ref \<noteq> None) in
       if \<not> pulling then ret () else waitForResourcesDownloading env fuel resources))"

text \<open>Resolve, download and convert; the error of the dispatcher is only logged.\<close>

definition fetch_image :: "'w env \<Rightarrow> nat \<Rightarrow> string \<Rightarrow> AuthConfig option \<Rightarrow> ('w, Descriptor \<times> bool) act" where
  "fetch_image env fuel ref auth =
     bindE (wrap_err (\<lambda>e. Errorf [Lit ''failed to resolve ref '', Q ref, Lit '': '', V e])
             (ext (resolver_Resolve env ref (ParseAuth auth)))) (\<lambda>desc.
     seqE (wrap_err (\<lambda>e. Errorf [Lit ''failed to get fetcher for ref '', Q ref, Lit '': '', V e])
             (ext (resolver_Fetcher env ref)))
     (bindE (ext_val (images_Dispatch env desc)) (\<lambda>(visited, _).
      seqE (wrap_err (\<lambda>e. Errorf [Lit ''failed to wait for image '', Q ref, Lit '' downloading: '', V e])
             (waitForResourcesDownloading env fuel (resourceSet_all (track_all env visited))))
      (let schema1 = (d_MediaType desc = MediaTypeDockerSchema1Manifest) in
       if schema1 then
         bindE (wrap_err (\<lambda>e. Errorf [Lit ''failed to convert schema 1 image '', Q ref, Lit '': '', V e])
                 (ext (schema1_Convert env desc))) (\<lambda>d. ret (d, True))
       else ret (desc, False)))))"

definition layer_pairs :: "string list \<Rightarrow> Descriptor list \<Rightarrow> (Descriptor \<times> Descriptor) list" where
  "layer_pairs diffIDs layers =
     map (\<lambda>(i, l). (\<lparr>d_MediaType = MediaTypeImageLayer, d_Digest = i\<rparr>, l)) (zip diffIDs layers)"

definition unpack_image :: "'w env \<Rightarrow> string \<Rightarrow> ('w, Descriptor) act" where
  "unpack_image env ref =
     bindE (wrap_err (\<lambda>e. Errorf [Lit ''failed to get image '', Q ref, Lit '' from containerd image store: '', V e])
             (imageStoreService_Get env ref)) (\<lambda>image.
     bindE (wrap_err (\<lambda>e. Errorf [Lit ''readblob failed for manifest digest '', Q (d_Digest image), Lit '': '', V e])
             (ext (content_ReadBlob env (d_Digest image)))) (\<lambda>p.
     bindE (wrap_err (\<lambda>e. Errorf [Lit ''unmarshal blob to manifest failed for manifest digest '',
              Q (d_Digest image), Lit '': '', V e])
             (lift_result (json_UnmarshalManifest env p))) (\<lambda>layers.
     bindE (wrap_err (\<lambda>e. Errorf [Lit ''failed to get image rootfs: '', V e])
             (ext (image_RootFS env image))) (\<lambda>diffIDs.
     if length diffIDs \<noteq> length layers then
       fail (Errorf [Lit ''mismatched image rootfs and manifest layers''])
     else seqE (wrap_err (\<lambda>e. Errorf [Lit ''failed to apply layers: '', V e])
             (ext (rootfs_ApplyLayers env (layer_pairs diffIDs layers))))
          (ret image)))))"

definition pullImage :: "'w env \<Rightarrow> nat \<Rightarrow> string \<Rightarrow> AuthConfig option \<Rightarrow> ('w, string \<times> string \<times> string) act" where
  "pullImage env fuel rawRef auth =
     bindE (wrap_err (\<lambda>e. Errorf [Lit ''failed to parse image reference '', Q rawRef, Lit '': '', V e])
             (lift_result (normalizeImageRef env rawRef))) (\<lambda>namedRef.
     let ref = Named_String namedRef in
     bindE (fetch_image env fuel ref auth) (\<lambda>(desc, schema1).
     let (repoDigest, repoTag) = getRepoDigestAndTag namedRef (d_Digest desc) schema1 in
     if ref \<noteq> repoTag \<and> ref \<noteq> repoDigest then
       fail (Errorf [Lit ''unexpected repo tag '', Q repoTag, Lit '' and repo digest '', Q repoDigest,
         Lit '' for '', Q ref])
     else seqE (forE [repoTag, repoDigest] (\<lambda>r.
             if r = '''' then ret ()
             else wrap_err (\<lambda>e. Errorf [Lit ''failed to update image reference '', Q r, Lit '': '', V e])
                    (createImageReference env r desc)))
     (bindE (unpack_image env ref) (\<lambda>image.
      bindE (wrap_err (\<lambda>e. Errorf [Lit ''failed to get config descriptor for image '', Q ref, Lit '': '', V e])
              (ext (image_ConfigDigest env image))) (\<lambda>imageID.
      seqE (wrap_err (\<lambda>e. Errorf [Lit ''failed to update image id '', Q imageID, Lit '': '', V e])
             (createImageReference env imageID desc))
        (ret (imageID, repoTag, repoDigest)))))))"

definition PullImage :: "'w env \<Rightarrow> nat \<Rightarrow> string \<Rightarrow> AuthConfig option \<Rightarrow> ('w, string) act" where
  "PullImage env fuel imageRef auth =
     bindE (wrap_err (\<lambda>e. Errorf [Lit ''failed to pull image '', Q imageRef, Lit '': '', V e])
             (pullImage env fuel imageRef auth)) (\<lambda>(imageID, repoTag, repoDigest).
     bindE (wrap_err (\<lambda>e. Errorf [Lit ''failed to get image '', Q imageRef, Lit '' information: '', V e])
             (getImageInfo env imageRef)) (\<lambda>(chainID, size, config).
     seqE (istore_Add env \<lparr>img_ID = imageID,
             img_RepoTags = (if repoTag \<noteq> '''' then [repoTag] else []),
             img_RepoDigests = (if repoDigest \<noteq> '''' then [repoDigest] else []),
             img_ChainID = chainID, img_Size = size, img_Config = Some config\<rparr>)
       (ret imageID)))"

definition ensureImageExists :: "'w env \<Rightarrow> nat \<Rightarrow> string \<Rightarrow> ('w, Image) act" where
  "ensureImageExists env fuel ref =
     bindE (wrap_err (\<lambda>e. Errorf [Lit ''failed to resolve image '', Q ref, Lit '': '', V e])
             (localResolve env ref)) (\<lambda>found. case found of
       Some img \<Rightarrow> ret img
     | None \<Rightarrow>
         bindE (wrap_err (\<lambda>e. Errorf [Lit ''failed to pull image '', Q ref, Lit '': '', V e])
                 (PullImage env fuel ref None)) (\<lambda>imageID.
         wrap_err (\<lambda>e. Errorf [Lit ''failed to get image '', Q imageID, Lit '' metadata after pulling: '', V e])
           (istore_Get imageID)))"

section \<open>Guarantees\<close>

lemma createImageReference_world [svc_guar, intro!]: "guar world_only (createImageReference env n d)"
  by (auto simp: createImageReference_def intro!: guar_intros split: sum.split)

lemma waitForResourcesDownloading_world [svc_guar, intro!]:
  "guar world_only (waitForResourcesDownloading env n rs)"
  by (induction n) (auto simp: Let_def intro!: guar_intros)

lemma fetch_image_world [svc_guar, intro!]: "guar world_only (fetch_image env n ref auth)"
  by (auto simp: fetch_image_def Let_def intro!: guar_intros split: prod.split)

lemma unpack_image_world [svc_guar, intro!]: "guar world_only (unpack_image env ref)"
  by (auto simp: unpack_image_def intro!: guar_intros)

lemma pullImage_world [svc_guar, intro!]: "guar world_only (pullImage env n ref auth)"
  by (auto simp: pullImage_def Let_def intro!: guar_intros split: prod.split)

lemma PullImage_guar [svc_guar]: "guar svc_step (PullImage env n ref auth)"
  by (auto simp: PullImage_def intro!: guar_intros svc_guar intro: guar_world_only split: prod.split)

lemma ensureImageExists_guar [svc_guar]: "guar svc_step (ensureImageExists env n ref)"
  by (auto simp: ensureImageExists_def intro!: guar_intros svc_guar split: option.split)

section \<open>References\<close>

text \<open>What the reference library promises of its constructors: a name alone has neither tag nor
  digest, and adding a digest to a name gives the name with that digest.\<close>

definition reference_laws :: "'w env \<Rightarrow> bool" where
  "reference_laws env \<longleftrightarrow>
     (\<forall>n r. reference_WithName env n = Inr r \<longrightarrow> r = \<lparr>nm_Name = n, nm_Tag = None, nm_Digest = None\<rparr>) \<and>
     (\<forall>r d r'. reference_WithDigest env r d = Inr r' \<longrightarrow> r' = r\<lparr>nm_Digest := Some d\<rparr>)"

lemma normalizeImageRef_one:
  assumes "reference_laws env" and "normalizeImageRef env ref = Inr n"
  shows "(nm_Tag n = None) \<noteq> (nm_Digest n = None)"
proof -
  have laws: "nm_Tag r = None \<and> nm_Digest r = None" if "reference_WithName env m = Inr r" for m r
    using assms(1) that unfolding reference_laws_def by fastforce
  have laws': "nm_Tag r' = nm_Tag r \<and> nm_Digest r' = Some d" if "reference_WithDigest env r d = Inr r'" for r d r'
    using assms(1) that unfolding reference_laws_def by fastforce
  show ?thesis using assms(2)
    by (auto simp: normalizeImageRef_def TagNameOnly_def
        split: sum.splits option.splits if_splits dest!: laws laws')
qed

lemma repo_names_of_normalized:
  assumes "(nm_Tag n = None) \<noteq> (nm_Digest n = None)" and "getRepoDigestAndTag n d schema1 = (repoDigest, repoTag)"
  shows "Named_String n = repoTag \<or> Named_String n = repoDigest"
  using assms by (auto simp: getRepoDigestAndTag_def split: if_splits)

lemma set_resourceSet_all: "set (keys_of (resourceSet_all r)) = set (keys_of r)"
proof -
  have "set (keys_of (foldl (\<lambda>acc (resource, _). mset_key resource () acc) acc r))
      = set (keys_of acc) \<union> set (keys_of r)" for acc :: resourceSet
  proof (induction r arbitrary: acc)
    case (Cons p r)
    then show ?case by (cases p) (simp add: dom_update)
  qed simp
  from this [of "[]"] show ?thesis by (simp add: resourceSet_all_def)
qed

lemma set_track_all: "set (keys_of (track_all env ds)) = set (map (remotes_MakeRefKey env) ds)"
proof -
  have "set (keys_of (foldl (\<lambda>r d. resourceSet_add (remotes_MakeRefKey env d) r) acc ds))
      = set (keys_of acc) \<union> set (map (remotes_MakeRefKey env) ds)" for acc
    by (induction ds arbitrary: acc) (simp_all add: resourceSet_add_def dom_update)
  from this [of "[]"] show ?thesis by (simp add: track_all_def newResourceSet_def)
qed

end
