(* ===== verification/Container_Create.thy ===== *)
theory Container_Create
  imports Cleanup Container_Start
begin

text \<open>
  \<^verbatim>\<open>pkg/server/container_create.go\<close>, \<open>CreateContainer\<close>. The handler reserves the name, prepares
  the root file system, makes the container directory, creates the containerd container and adds
  the new container to the store; a failure releases what was acquired, last first.
  One definition per acquisition, in the order of the code.
\<close>

definition defaultRuntime :: string where "defaultRuntime = ''io.containerd.runtime.v1.linux''"
definition runtimespec_Version :: string where "runtimespec_Version = ''1.0.0''"

definition containerd_container :: "string \<Rightarrow> string \<Rightarrow> string \<Rightarrow> ContainerdContainer" where
  "containerd_container cid imageID rawSpec = \<lparr>cd_ID = cid, cd_Image = imageID, cd_Runtime = defaultRuntime,
     cd_TypeUrl = runtimespec_Version, cd_Spec = rawSpec, cd_RootFS = cid\<rparr>"

definition create_entry :: "'w env \<Rightarrow> ContainerMeta \<Rightarrow> ('w, string) act" where
  "create_entry env meta =
     bindE (ext_val (time_Now env)) (\<lambda>t.
     bindE (NewContainer meta (created_status t)) (\<lambda>container.
     on_error
       (seqE (wrap_err (\<lambda>e. Errorf [Lit ''failed to add container '', Q (md_ID meta), Lit '' into store: '', V e])
               (cstore_Add container))
             (ret (md_ID meta)))
       (container_Delete container)))"

definition create_containerd :: "'w env \<Rightarrow> ContainerMeta \<Rightarrow> string \<Rightarrow> ('w, string) act" where
  "create_containerd env meta rawSpec =
     seqE (wrap_err (\<lambda>e. Errorf [Lit ''failed to create containerd container: '', V e])
            (containerService_Create env (containerd_container (md_ID meta) (md_ImageRef meta) rawSpec)))
       (on_error (create_entry env meta) (containerService_Delete env (md_ID meta)))"

definition create_directory :: "'w env \<Rightarrow> ContainerMeta \<Rightarrow> string \<Rightarrow> string \<Rightarrow> ('w, string) act" where
  "create_directory env meta rawSpec containerRootDir =
     seqE (wrap_err (\<lambda>e. Errorf [Lit ''failed to create container root directory '', Q containerRootDir,
              Lit '': '', V e]) (RealOS_MkdirAll env containerRootDir 493))
       (on_error (create_containerd env meta rawSpec) (RealOS_RemoveAll env containerRootDir))"

definition create_rootfs :: "'w env \<Rightarrow> ContainerMeta \<Rightarrow> string \<Rightarrow> Image \<Rightarrow> bool \<Rightarrow> string \<Rightarrow> ('w, string) act" where
  "create_rootfs env meta rawSpec img readonly dir =
     (let cid = md_ID meta; chainID = img_ChainID img in
      seqE (if readonly
              then wrap_err (\<lambda>e. Errorf [Lit ''failed to view container rootfs '', Q chainID, Lit '': '', V e])
                     (snapshotService_View env cid chainID)
              else wrap_err (\<lambda>e. Errorf [Lit ''failed to prepare container rootfs '', Q chainID, Lit '': '', V e])
                     (snapshotService_Prepare env cid chainID))
        (on_error (create_directory env (meta\<lparr>md_ImageRef := img_ID img\<rparr>) rawSpec (getContainerRootDir dir cid))
          (snapshotService_Remove env cid)))"

definition create_reserved :: "'w env \<Rightarrow> string \<Rightarrow> string \<Rightarrow> Sandbox \<Rightarrow> ContainerConfig option
    \<Rightarrow> PodSandboxConfig option \<Rightarrow> ('w, string) act" where
  "create_reserved env cid name sandbox config sandboxConfig =
     (let imageRef = (case pget cc_Image None config of None \<Rightarrow> '''' | Some i \<Rightarrow> i);
          meta = \<lparr>md_ID = cid, md_Name = name, md_SandboxID = sb_ID sandbox, md_Config = config, md_ImageRef = ''''\<rparr> in
      bindE (wrap_err (\<lambda>e. Errorf [Lit ''failed to resolve image '', Q imageRef, Lit '': '', V e])
              (localResolve env imageRef)) (\<lambda>resolved.
      case resolved of
        None \<Rightarrow> fail (Errorf [Lit ''image '', Q imageRef, Lit '' not found''])
      | Some img \<Rightarrow>
          bindE (gets rootDir) (\<lambda>dir.
          bindE (wrap_err (\<lambda>e. Errorf [Lit ''failed to generate container '', Q cid, Lit '' spec: '', V e])
                  (generateContainerSpec env cid (sb_Pid sandbox) config sandboxConfig (img_Config img)
                    (generateContainerMounts (getSandboxRootDir dir (sb_ID sandbox)) config))) (\<lambda>spec.
          bindE (wrap_err (\<lambda>e. Errorf [Lit ''failed to marshal oci spec: '', V e])
                  (lift_result (json_Marshal env spec))) (\<lambda>rawSpec.
          create_rootfs env meta rawSpec img
            (pget ls_ReadonlyRootfs False (container_security_context config)) dir)))))"

text \<open>A request without container or sandbox metadata panics when the name is made.\<close>

definition CreateContainer :: "'w env \<Rightarrow> string \<Rightarrow> ContainerConfig option \<Rightarrow> PodSandboxConfig option
    \<Rightarrow> ('w, string) act" where
  "CreateContainer env podSandboxId config sandboxConfig =
     bindE (wrap_err (\<lambda>e. Errorf [Lit ''failed to find sandbox id '', Q podSandboxId, Lit '': '', V e])
             (sbstore_Get podSandboxId)) (\<lambda>sandbox.
     bindE (ext_val (stringid_Generate env)) (\<lambda>cid.
     case (pget cc_Metadata None config, pget pc_Metadata None sandboxConfig) of
       (Some cm, Some pm) \<Rightarrow>
         (let name = makeContainerName cm pm in
          seqE (wrap_err (\<lambda>e. Errorf [Lit ''failed to reserve container name '', Q name, Lit '': '', V e])
                 (cname_Reserve name cid))
            (on_error (create_reserved env cid name sandbox config sandboxConfig)
              (cname_ReleaseByName name)))
     | _ \<Rightarrow> Ret Panic))"

lemmas create_defs = create_entry_def create_containerd_def create_directory_def create_rootfs_def
  create_reserved_def CreateContainer_def

section \<open>Guarantees\<close>

lemma create_entry_guar [svc_guar]: "guar svc_step (create_entry env meta)"
  by (auto simp: create_entry_def intro!: guar_intros svc_guar created_status_not_running)

lemma create_rootfs_guar [svc_guar]: "guar svc_step (create_rootfs env meta raw img ro dir)"
  by (auto simp: create_rootfs_def create_directory_def create_containerd_def Let_def
      intro!: guar_intros svc_guar)

lemma create_reserved_guar [svc_guar]: "guar svc_step (create_reserved env cid name sb c sc)"
  by (auto simp: create_reserved_def Let_def intro!: guar_intros svc_guar split: option.split)

lemma CreateContainer_guar [svc_guar]: "guar svc_step (CreateContainer env sid c sc)"
  by (auto simp: CreateContainer_def Let_def intro!: guar_intros svc_guar split: option.split)

section \<open>A failed creation leaves nothing behind\<close>

lemma create_entry_restores:
  "resource_laws res env \<Longrightarrow> restores (held res) x (create_entry env meta)"
  unfolding create_entry_def
  by (intro restores_bindE restores_on_error restores_seq_ret restores_wrap_err restores_actions
      neutral_actions neutral_ext_val neutral_lawsD)

lemma create_containerd_restores:
  assumes "resource_laws res env" and "RContainer (md_ID meta) \<notin> R"
  shows "restores (held res) (R, x) (create_containerd env meta raw)"
  unfolding create_containerd_def containerService_Create_def containerService_Delete_def
proof (rule restores_scoped_seqE [where y = "(insert (RContainer (md_ID meta)) R, x)"])
  have "call_acquires res (\<lambda>_. RContainer (md_ID meta))
      (containers_Create env (containerd_container (md_ID meta) (md_ImageRef meta) raw))"
    using creation_lawsD(3) [OF assms(1), of "containerd_container (md_ID meta) (md_ImageRef meta) raw"]
    by (simp add: containerd_container_def)
  then show "acquires (held res) (R, x) (\<lambda>_. (insert (RContainer (md_ID meta)) R, x))
      (wrap_err (\<lambda>e. Errorf [Lit ''failed to create containerd container: '', V e])
        (ext (from_grpc (containers_Create env (containerd_container (md_ID meta) (md_ImageRef meta) raw)))))"
    by (intro acquires_wrap_err acquires_ext call_acquires_from_grpc)
  show "releases (held res) (insert (RContainer (md_ID meta)) R, x) (R, x)
      (ext (from_grpc (containers_Delete env (md_ID meta))))"
    by (intro releases_ext call_releases_from_grpc release_lawsD assms)
qed (rule create_entry_restores [OF assms(1)])

lemma create_directory_restores:
  assumes "resource_laws res env" and "RContainer (md_ID meta) \<notin> R" and "R \<inter> tree dir = {}"
  shows "restores (held res) (R, x) (create_directory env meta raw dir)"
  unfolding create_directory_def
  by (intro restores_scoped_seqE [where y = "(insert (RDir dir) R, x)"] acquires_wrap_err
      create_containerd_restores releases_ext_tree acquires_ext creation_lawsD release_lawsD)
    (use assms in auto)

lemma create_rootfs_restores:
  assumes "resource_laws res env" and "RContainer (md_ID meta) \<notin> R"
    and "R \<inter> tree (getContainerRootDir dir (md_ID meta)) = {}" and "RSnapshot (md_ID meta) \<notin> R"
  shows "restores (held res) (R, x) (create_rootfs env meta raw img ro dir)"
  unfolding create_rootfs_def Let_def snapshotService_View_def snapshotService_Prepare_def
    snapshotService_Remove_def
proof (rule restores_scoped_seqE [where y = "(insert (RSnapshot (md_ID meta)) R, x)"])
  show "acquires (held res) (R, x) (\<lambda>_. (insert (RSnapshot (md_ID meta)) R, x))
    (if ro then wrap_err (\<lambda>e. Errorf [Lit ''failed to view container rootfs '', Q (img_ChainID img), Lit '': '', V e])
              (ext (from_grpc (snapshots_View env (md_ID meta) (img_ChainID img))))
     else wrap_err (\<lambda>e. Errorf [Lit ''failed to prepare container rootfs '', Q (img_ChainID img), Lit '': '', V e])
              (ext (from_grpc (snapshots_Prepare env (md_ID meta) (img_ChainID img)))))"
    by (simp add: acquires_wrap_err acquires_ext call_acquires_from_grpc creation_lawsD [OF assms(1)])
  show "releases (held res) (insert (RSnapshot (md_ID meta)) R, x) (R, x)
      (ext (from_grpc (snapshots_Remove env (md_ID meta))))"
    by (intro releases_ext call_releases_from_grpc release_lawsD assms)
qed (intro create_directory_restores, use assms in auto)

lemma create_reserved_restores:
  assumes "resource_laws res env" and "RContainer cid \<notin> R" and "RSnapshot cid \<notin> R"
    and "R \<inter> tree (getContainerRootDir dir cid) = {}"
  shows "restores (held res) (R, dir, x) (create_reserved env cid name sb c sc)"
proof -
  have img: "restores (held res) (R, dir, x) (bindE (gets rootDir) (\<lambda>d.
      bindE (wrap_err w1 (generateContainerSpec env cid pid c sc ic (ms d))) (\<lambda>spec.
      bindE (wrap_err w2 (lift_result (json_Marshal env spec))) (\<lambda>raw. create_rootfs env meta raw img ro d))))"
    if "md_ID meta = cid" for w1 w2 pid ic ms meta img ro
  proof (rule restores_gets)
    fix s :: "'a st"
    assume "held res s = (R, dir, x)"
    then have "rootDir s = dir" by (simp add: held_def)
    then show "restores (held res) (R, dir, x) (bindE (wrap_err w1 (generateContainerSpec env cid pid c sc ic
      (ms (rootDir s)))) (\<lambda>spec. bindE (wrap_err w2 (lift_result (json_Marshal env spec)))
      (\<lambda>raw. create_rootfs env meta raw img ro (rootDir s))))"
      by (intro restores_bindE neutral_wrap_err neutral_generateContainerSpec neutral_actions
          create_rootfs_restores) (use assms that in auto)
  qed
  show ?thesis
    unfolding create_reserved_def Let_def
    by (rule restores_bindE)
      (auto intro!: neutral_wrap_err neutral_localResolve resource_laws_neutral restores_actions assms(1) img split: option.split)
qed


text \<open>What is fresh about a generated id: nothing outside or inside carries it.\<close>

definition fresh_container_id :: "('w \<Rightarrow> resource set) \<Rightarrow> string \<Rightarrow> 'w st \<Rightarrow> bool" where
  "fresh_container_id res cid s \<longleftrightarrow> RContainer cid \<notin> res (world s) \<and> RSnapshot cid \<notin> res (world s) \<and>
     res (world s) \<inter> tree (getContainerRootDir (rootDir s) cid) = {} \<and>
     map_of (keyToName (containerNameIndex s)) cid = None"



section \<open>A successful creation\<close>

text \<open>Actions that keep everything inside but the generator's package variable.\<close>

definition same_stores :: "'w st \<Rightarrow> 'w st \<Rightarrow> bool" where
  "same_stores s s' \<longleftrightarrow> (\<exists>w d. s' = s\<lparr>world := w, defaultEnv := d\<rparr>)"

lemma same_stores_refl [simp]: "same_stores s s"
  unfolding same_stores_def by (intro exI [of _ "world s"] exI [of _ "defaultEnv s"]) simp

lemma same_stores_trans: "same_stores s t \<Longrightarrow> same_stores t u \<Longrightarrow> same_stores s u"
  unfolding same_stores_def by (elim exE, simp) blast

lemma world_only_same_stores: "world_only s t \<Longrightarrow> same_stores s t"
  unfolding world_only_def same_stores_def
  by (auto intro!: exI [of _ "defaultEnv s"])

lemma guar_world_same_stores: "guar world_only m \<Longrightarrow> guar same_stores m"
  by (erule guar_mono) (rule world_only_same_stores)

lemma guar_same_stores_run:
  assumes "guar same_stores m" and "run m s = (r, s')"
  shows "same_stores s s'"
proof -
  have "same_stores\<^sup>*\<^sup>* s s'" using guar_run [OF assms(1), of s] assms(2) by simp
  then show ?thesis by (induction rule: rtranclp_induct) (auto intro: same_stores_trans)
qed

lemma on_gen_same_stores: "guar same_stores (on_gen m g)"
proof -
  have "same_stores s (s\<lparr>defaultEnv := d\<rparr>)" for s :: "'a st" and d
    unfolding same_stores_def by (intro exI [of _ "world s"] exI [of _ d]) simp
  then show ?thesis by (simp add: on_gen_def guar_atomic_iff case_prod_beta)
qed

lemma generateContainerSpec_same_stores:
  "guar same_stores (generateContainerSpec env cid pid config sconfig iconfig mounts)"
  by (auto simp: generateContainerSpec_def intro!: guar_intros on_gen_same_stores intro: guar_world_same_stores)

lemma run_bindE_Ok:
  "run (bindE m k) s = (Ok r, s') \<Longrightarrow> \<exists>x s1. run m s = (Ok x, s1) \<and> run (k x) s1 = (Ok r, s')"
  by (auto simp: run_bindE split: prod.splits outcome.splits)

lemma run_seqE_Ok:
  "run (seqE m n) s = (Ok r, s') \<Longrightarrow> \<exists>x s1. run m s = (Ok x, s1) \<and> run n s1 = (Ok r, s')"
  unfolding seqE_def by (rule run_bindE_Ok)

lemma run_on_error_Ok: "run (on_error m c) s = (Ok r, s') \<Longrightarrow> run m s = (Ok r, s')"
  by (auto simp: run_on_error split: prod.splits outcome.splits)

lemma run_wrap_err_Ok: "run (wrap_err w m) s = (Ok r, s') \<longleftrightarrow> run m s = (Ok r, s')"
  by (auto simp: run_wrap_err split: prod.splits outcome.splits)

definition new_container :: "ContainerMeta \<Rightarrow> 'w st \<Rightarrow> Container" where
  "new_container meta s = \<lparr>c_Metadata = meta, c_Status = Some (length (statuses s))\<rparr>"

definition entry_added :: "ContainerMeta \<Rightarrow> 'w st \<Rightarrow> 'w st \<Rightarrow> bool" where
  "entry_added meta s s' \<longleftrightarrow> map_of (containerStore s) (md_ID meta) = None \<and>
     (\<exists>t. same_stores (s\<lparr>statuses := statuses s @ [created_status t],
       containerStore := mset_key (md_ID meta) (new_container meta s) (containerStore s)\<rparr>) s')"

lemma entry_added_trans: "same_stores s s1 \<Longrightarrow> entry_added meta s1 s' \<Longrightarrow> entry_added meta s s'"
  by (auto simp: entry_added_def same_stores_def new_container_def) metis

lemma create_entry_ok:
  assumes "run (create_entry env meta) s = (Ok r, s')"
  shows "r = md_ID meta \<and> entry_added meta s s'"
proof -
  obtain t w where t: "time_Now env (world s) = (t, w)" by (cases "time_Now env (world s)")
  let ?c = "new_container meta s" and ?s = "s\<lparr>world := w, statuses := statuses s @ [created_status t]\<rparr>"
  from assms t have run: "run (on_error (seqE (wrap_err (\<lambda>e. Errorf [Lit ''failed to add container '',
      Q (md_ID meta), Lit '' into store: '', V e]) (cstore_Add ?c)) (ret (md_ID meta))) (container_Delete ?c)) ?s
      = (Ok r, s')"
    by (simp add: create_entry_def run_bindE ext_val_def NewContainer_def StoreStatus_def new_container_def)
  from run_seqE_Ok [OF run_on_error_Ok [OF this]] obtain u s1 where
    add: "run (cstore_Add ?c) ?s = (Ok u, s1)" and r: "r = md_ID meta" "s' = s1"
    by (auto simp: run_wrap_err_Ok ret_def)
  from add have "map_of (containerStore s) (md_ID meta) = None"
      "s1 = ?s\<lparr>containerStore := mset_key (md_ID meta) ?c (containerStore s)\<rparr>"
    by (auto simp: cstore_Add_def containerStore_Add_def new_container_def split: option.splits)
  moreover have "same_stores (s\<lparr>statuses := statuses s @ [created_status t], containerStore := m\<rparr>)
      (?s\<lparr>containerStore := m\<rparr>)" for m
    unfolding same_stores_def by (intro exI [of _ w] exI [of _ "defaultEnv s"]) simp
  ultimately show ?thesis using r by (auto simp: entry_added_def)
qed

text \<open>Actions that add the entry of a container and change nothing else inside, when they succeed.\<close>

definition adds_entry :: "(ContainerMeta \<Rightarrow> bool) \<Rightarrow> ('w, string) act \<Rightarrow> bool" where
  "adds_entry M m \<longleftrightarrow> (\<forall>s r s'. run m s = (Ok r, s') \<longrightarrow>
     (\<exists>meta. M meta \<and> r = md_ID meta \<and> entry_added meta s s'))"

lemma adds_bindE:
  assumes "guar same_stores m" and "\<And>x. adds_entry M (k x)"
  shows "adds_entry M (bindE m k)"
  unfolding adds_entry_def
proof (intro allI impI)
  fix s r s'
  assume "run (bindE m k) s = (Ok r, s')"
  from run_bindE_Ok [OF this] obtain x s1 where "run m s = (Ok x, s1)" and k: "run (k x) s1 = (Ok r, s')" by blast
  with assms(1) have "same_stores s s1" by (blast intro: guar_same_stores_run)
  moreover from k assms(2) [of x] obtain meta where "M meta" "r = md_ID meta" "entry_added meta s1 s'"
    unfolding adds_entry_def by blast
  ultimately show "\<exists>meta. M meta \<and> r = md_ID meta \<and> entry_added meta s s'"
    by (blast intro: entry_added_trans)
qed

lemma adds_scoped:
  assumes "guar world_only a" and "adds_entry M k"
  shows "adds_entry M (seqE a (on_error k c))"
proof -
  have "adds_entry M (on_error k c)"
    using assms(2) unfolding adds_entry_def by (blast dest: run_on_error_Ok)
  then show ?thesis
    unfolding seqE_def by (intro adds_bindE guar_world_same_stores [OF assms(1)])
qed

lemma adds_fail [simp]: "adds_entry M (fail e)"
  by (simp add: adds_entry_def fail_def)

lemma create_rootfs_adds:
  assumes "M (meta\<lparr>md_ImageRef := img_ID img\<rparr>)"
  shows "adds_entry M (create_rootfs env meta raw img ro dir)"
proof -
  have "adds_entry M (create_entry env (meta\<lparr>md_ImageRef := img_ID img\<rparr>))"
    using create_entry_ok assms unfolding adds_entry_def by blast
  then show ?thesis
    unfolding create_rootfs_def create_directory_def create_containerd_def Let_def
    by (auto intro!: adds_scoped guar_intros)
qed

lemma create_reserved_adds:
  "adds_entry (\<lambda>meta. md_ID meta = cid \<and> md_Name meta = name \<and> md_SandboxID meta = sb_ID sb \<and>
     md_Config meta = config) (create_reserved env cid name sb config sc)"
  unfolding create_reserved_def Let_def
  by (auto intro!: adds_bindE guar_wrap_err generateContainerSpec_same_stores
      create_rootfs_adds intro: guar_world_same_stores split: option.split)


end
