(* ===== verification/Sandbox_Run.thy ===== *)
theory Sandbox_Run
  imports Sandbox_Stop Image_Pull Container_Create
begin

text \<open>
  \<^verbatim>\<open>pkg/server/sandbox_run.go\<close>, \<open>RunPodSandbox\<close>. The handler acquires, in this order, the name,
  the root file system, the containerd container, the sandbox directory, the output pipes, the
  shared-memory mount, the task and the network, and releases what it has, last first, when a
  later step fails. One definition per acquisition, in the order of the code. The sandbox
  loggers only start a goroutine that discards the output, so they have no action here.
\<close>

definition maxDNSSearches :: nat where "maxDNSSearches = 6"
definition defaultSandboxImage :: string where "defaultSandboxImage = ''gcr.io/google_containers/pause:3.0''"
definition defaultSandboxOOMAdj :: int64 where "defaultSandboxOOMAdj = - 998"
definition defaultSandboxCPUshares :: int64 where "defaultSandboxCPUshares = 2"
definition defaultShmSize :: nat where "defaultShmSize = 1024 * 1024 * 64"

text \<open>\<open>MS_NOEXEC | MS_NOSUID | MS_NODEV\<close>.\<close>

definition shm_mount_flags :: nat where "shm_mount_flags = 14"

definition newline :: string where "newline = [char_of (10 :: nat)]"

definition parseDNSOptions :: "string list \<Rightarrow> string list \<Rightarrow> string list \<Rightarrow> string result" where
  "parseDNSOptions servers searches options =
     (if length searches > maxDNSSearches then Inl (Errorf [Lit ''DNSOption.Searches has more than 6 domains''])
      else Inr
        ((if searches \<noteq> [] then ''search '' @ strings_Join searches '' '' @ newline else '''') @
         (if servers \<noteq> [] then ''nameserver '' @ strings_Join servers (newline @ ''nameserver '') @ newline else '''') @
         (if options \<noteq> [] then ''options '' @ strings_Join options '' '' @ newline else '''')))"

definition generateSandboxContainerSpec :: "string \<Rightarrow> PodSandboxConfig option \<Rightarrow> ImageConfig option \<Rightarrow> unit gen" where
  "generateSandboxContainerSpec sid config imageConfig =
     (let linux = pget pc_Linux None config; cgroupParent = pget lp_CgroupParent '''' linux;
          nsOptions = sandbox_namespace_options config in
      bindE (ifield ic_Env imageConfig) (\<lambda>envs.
      seqE (addImageEnvs envs)
      (bindE (ifield ic_WorkingDir imageConfig) (\<lambda>wd.
      seqE (if wd \<noteq> '''' then gmod (SetProcessCwd wd) else gskip)
      (bindE (ifield ic_Entrypoint imageConfig) (\<lambda>entrypoint.
      bindE (ifield ic_Cmd imageConfig) (\<lambda>cmd.
      if entrypoint = [] then gfail (Errorf [Lit ''invalid empty entrypoint in image config''])
      else
      seqE (gmod (SetProcessArgs (entrypoint @ cmd)))
      (seqE (gmod (SetRootPath relativeRootfsPath))
      (seqE (gmod (SetRootReadonly True))
      (seqE (gmod (SetHostname (pget pc_Hostname '''' config)))
      (seqE (if cgroupParent \<noteq> '''' then gmod (SetLinuxCgroupsPath (getCgroupsPath cgroupParent sid)) else gskip)
      (seqE (if pget ns_HostNetwork False nsOptions then gmod (RemoveLinuxNamespace ''network'') else gskip)
      (seqE (if pget ns_HostPid False nsOptions then gmod (RemoveLinuxNamespace ''pid'') else gskip)
      (seqE (if pget ns_HostIpc False nsOptions then gmod (RemoveLinuxNamespace ''ipc'') else gskip)
      (seqE (forE (pget lp_Sysctls [] linux) (\<lambda>(k, v). gmod (AddLinuxSysctl k v)))
      (seqE (gmod (SetLinuxResourcesCPUShares defaultSandboxCPUshares))
      (gmod (SetProcessOOMScoreAdj defaultSandboxOOMAdj))))))))))))))))))"

definition sandbox_spec :: "string \<Rightarrow> PodSandboxConfig option \<Rightarrow> ImageConfig option \<Rightarrow> ('w, Spec) act" where
  "sandbox_spec sid config imageConfig =
     bindE (gets (\<lambda>s. GenerateSpec (defaultEnv s))) (\<lambda>g0.
     bindE (on_gen (generateSandboxContainerSpec sid config imageConfig) g0) (\<lambda>g1. ret (g_Spec g1)))"

definition setupSandboxFiles :: "'w env \<Rightarrow> string \<Rightarrow> PodSandboxConfig option \<Rightarrow> ('w, unit) act" where
  "setupSandboxFiles env dir config =
     (let sandboxEtcHosts = getSandboxHosts dir; resolvPath = getResolvPath dir;
          sandboxDevShm = getSandboxDevShm dir in
      seqE (wrap_err (\<lambda>e. Errorf [Lit ''failed to generate sandbox hosts file '', Q sandboxEtcHosts, Lit '': '', V e])
             (RealOS_CopyFile env etcHosts sandboxEtcHosts 420))
      (bindE (case pget pc_DnsConfig None config of
          None \<Rightarrow> ret ''''
        | Some dns \<Rightarrow> wrap_err (\<lambda>e. Errorf [Lit ''failed to parse sandbox DNSConfig: '', V e])
            (lift_result (parseDNSOptions (dns_Servers dns) (dns_Searches dns) (dns_Options dns)))) (\<lambda>resolvContent.
       seqE (if resolvContent = ''''
             then wrap_err (\<lambda>e. Errorf [Lit ''failed to copy host's resolv.conf to '', Q resolvPath, Lit '': '', V e])
                    (RealOS_CopyFile env resolvConfPath resolvPath 420)
             else wrap_err (\<lambda>e. Errorf [Lit ''failed to write resolv content to '', Q resolvPath, Lit '': '', V e])
                    (RealOS_WriteFile env resolvPath resolvContent 420))
       (if host_ipc config then
          wrap_err (\<lambda>e. Errorf [Lit ''host '', Q devShm, Lit '' is not available for host ipc: '', V e])
            (RealOS_Stat env devShm)
        else
          seqE (wrap_err (\<lambda>e. Errorf [Lit ''failed to create sandbox shm: '', V e])
                 (RealOS_MkdirAll env sandboxDevShm 448))
               (wrap_err (\<lambda>e. Errorf [Lit ''failed to mount sandbox shm: '', V e])
                 (RealOS_Mount env ''shm'' sandboxDevShm ''tmpfs'' shm_mount_flags
                   (''mode=1777,size='' @ fmt_nat defaultShmSize)))))))"

definition run_start :: "'w env \<Rightarrow> Sandbox \<Rightarrow> ('w, string) act" where
  "run_start env sandbox =
     (let sid = sb_ID sandbox in
      seqE (wrap_err (\<lambda>e. Errorf [Lit ''failed to start sandbox container '', Q sid, Lit '': '', V e])
             (ext (tasks_Start env sid)))
      (bindE (ext_val (time_Now env)) (\<lambda>t.
       seqE (wrap_err (\<lambda>e. Errorf [Lit ''failed to add sandbox into store: '', V e])
              (sbstore_Add (sandbox\<lparr>sb_CreatedAt := t\<rparr>)))
            (ret sid))))"

definition run_network :: "'w env \<Rightarrow> Sandbox \<Rightarrow> ('w, string) act" where
  "run_network env sandbox =
     (let config = sb_Config sandbox; meta = pget pc_Metadata None config; sid = sb_ID sandbox;
          nsp = pget pm_Namespace '''' meta; podName = pget pm_Name '''' meta in
      if \<not> host_network config then
        seqE (wrap_err (\<lambda>e. Errorf [Lit ''failed to setup network for sandbox '', Q sid, Lit '': '', V e])
               (ext (cni_SetUpPod env (sb_NetNS sandbox) nsp podName sid)))
          (on_error (run_start env sandbox)
            (ext (cni_TearDownPod env (sb_NetNS sandbox) nsp podName sid)))
      else run_start env sandbox)"

definition sandbox_task :: "string \<Rightarrow> OciMount list \<Rightarrow> string \<Rightarrow> string \<Rightarrow> CreateTaskRequest" where
  "sandbox_task sid rootfs stdout stderr = \<lparr>ct_ContainerID = sid,
     ct_Rootfs = rootfs_mounts rootfs, ct_Stdin = '''',
     ct_Stdout = stdout, ct_Stderr = stderr, ct_Terminal = False\<rparr>"

definition run_task :: "'w env \<Rightarrow> nat \<Rightarrow> Sandbox \<Rightarrow> CreateTaskRequest \<Rightarrow> ('w, string) act" where
  "run_task env fuel sandbox createOpts =
     (let sid = sb_ID sandbox in
      bindE (wrap_err (\<lambda>e. Errorf [Lit ''failed to create sandbox container '', Q sid, Lit '': '', V e])
              (ext (tasks_Create env createOpts))) (\<lambda>pid.
      on_error (run_network env (sandbox\<lparr>sb_Pid := pid, sb_NetNS := getNetworkNamespace pid\<rparr>))
        (stopSandboxContainer env fuel sid)))"

definition run_files :: "'w env \<Rightarrow> nat \<Rightarrow> Sandbox \<Rightarrow> CreateTaskRequest \<Rightarrow> string \<Rightarrow> ('w, string) act" where
  "run_files env fuel sandbox createOpts sandboxRootDir =
     seqE (wrap_err (\<lambda>e. Errorf [Lit ''failed to setup sandbox files: '', V e])
            (setupSandboxFiles env sandboxRootDir (sb_Config sandbox)))
       (on_error (run_task env fuel sandbox createOpts)
         (unmountSandboxFiles env sandboxRootDir (sb_Config sandbox)))"

definition run_pipes :: "'w env \<Rightarrow> nat \<Rightarrow> Sandbox \<Rightarrow> OciMount list \<Rightarrow> string \<Rightarrow> ('w, string) act" where
  "run_pipes env fuel sandbox rootfs sandboxRootDir =
     (let (_, stdout, stderr) = getStreamingPipes sandboxRootDir in
      bindE (wrap_err (\<lambda>e. Errorf [Lit ''failed to prepare streaming pipes: '', V e])
              (prepareStreamingPipes env '''' stdout stderr)) (\<lambda>(_, stdoutPipe, stderrPipe).
      on_error (run_files env fuel sandbox (sandbox_task (sb_ID sandbox) rootfs stdout stderr) sandboxRootDir)
        (seqE (close_pipe env stdoutPipe) (close_pipe env stderrPipe))))"

definition run_directory :: "'w env \<Rightarrow> nat \<Rightarrow> Sandbox \<Rightarrow> OciMount list \<Rightarrow> string \<Rightarrow> ('w, string) act" where
  "run_directory env fuel sandbox rootfs sandboxRootDir =
     seqE (wrap_err (\<lambda>e. Errorf [Lit ''failed to create sandbox root directory '', Q sandboxRootDir, Lit '': '', V e])
            (RealOS_MkdirAll env sandboxRootDir 493))
       (on_error (run_pipes env fuel sandbox rootfs sandboxRootDir) (RealOS_RemoveAll env sandboxRootDir))"

definition run_containerd :: "'w env \<Rightarrow> nat \<Rightarrow> Sandbox \<Rightarrow> OciMount list \<Rightarrow> string \<Rightarrow> string \<Rightarrow> ('w, string) act" where
  "run_containerd env fuel sandbox rootfs imageID rawSpec =
     (let sid = sb_ID sandbox in
      seqE (wrap_err (\<lambda>e. Errorf [Lit ''failed to create containerd container: '', V e])
             (containerService_Create env (containerd_container sid imageID rawSpec)))
        (on_error (bindE (gets rootDir) (\<lambda>dir. run_directory env fuel sandbox rootfs (getSandboxRootDir dir sid)))
          (containerService_Delete env sid)))"

definition run_rootfs :: "'w env \<Rightarrow> nat \<Rightarrow> Sandbox \<Rightarrow> Image \<Rightarrow> ('w, string) act" where
  "run_rootfs env fuel sandbox img =
     (let sid = sb_ID sandbox in
      bindE (wrap_err (\<lambda>e. Errorf [Lit ''failed to prepare sandbox rootfs '', Q (img_ChainID img), Lit '': '', V e])
              (snapshotService_View env sid (img_ChainID img))) (\<lambda>rootfs.
      on_error
        (bindE (wrap_err (\<lambda>e. Errorf [Lit ''failed to generate sandbox container spec: '', V e])
                 (sandbox_spec sid (sb_Config sandbox) (img_Config img))) (\<lambda>spec.
         bindE (wrap_err (\<lambda>e. Errorf [Lit ''failed to marshal oci spec: '', V e])
                 (lift_result (json_Marshal env spec))) (\<lambda>rawSpec.
         run_containerd env fuel sandbox rootfs (img_ID img) rawSpec)))
        (snapshotService_Remove env sid)))"

definition run_reserved :: "'w env \<Rightarrow> nat \<Rightarrow> Sandbox \<Rightarrow> ('w, string) act" where
  "run_reserved env fuel sandbox =
     bindE (gets sandboxImage) (\<lambda>ref.
     bindE (wrap_err (\<lambda>e. Errorf [Lit ''failed to get sandbox image '', Q defaultSandboxImage, Lit '': '', V e])
             (ensureImageExists env fuel ref)) (\<lambda>img.
     run_rootfs env fuel sandbox img))"

text \<open>A request without sandbox metadata panics when the name is made.\<close>

definition RunPodSandbox :: "'w env \<Rightarrow> nat \<Rightarrow> PodSandboxConfig option \<Rightarrow> ('w, string) act" where
  "RunPodSandbox env fuel config =
     bindE (ext_val (stringid_Generate env)) (\<lambda>sid.
     case pget pc_Metadata None config of
       None \<Rightarrow> Ret Panic
     | Some meta \<Rightarrow>
         (let name = makeSandboxName meta in
          seqE (wrap_err (\<lambda>e. Errorf [Lit ''failed to reserve sandbox name '', Q name, Lit '': '', V e])
                 (sname_Reserve name sid))
            (on_error
              (run_reserved env fuel \<lparr>sb_ID = sid, sb_Name = name, sb_Config = config, sb_CreatedAt = 0,
                 sb_Pid = 0, sb_NetNS = ''''\<rparr>)
              (sname_ReleaseByName name))))"

section \<open>Guarantees\<close>

lemma setupSandboxFiles_world [svc_guar, intro!]: "guar world_only (setupSandboxFiles env d c)"
  by (auto simp: setupSandboxFiles_def Let_def intro!: guar_intros split: option.split)

lemma run_network_guar [svc_guar]: "guar svc_step (run_network env sb)"
  by (auto simp: run_network_def run_start_def Let_def intro!: guar_intros svc_guar)

lemma run_files_guar [svc_guar]: "guar svc_step (run_files env n sb opts d)"
  by (auto simp: run_files_def run_task_def Let_def intro!: guar_intros svc_guar intro: guar_world_only)

lemma run_directory_guar [svc_guar]: "guar svc_step (run_directory env n sb m d)"
  by (auto simp: run_directory_def run_pipes_def Let_def intro!: guar_intros svc_guar
      intro: guar_world_only split: prod.split)

lemma run_rootfs_guar [svc_guar]: "guar svc_step (run_rootfs env n sb img)"
  by (auto simp: run_rootfs_def run_containerd_def sandbox_spec_def Let_def intro!: guar_intros svc_guar)

lemma RunPodSandbox_guar [svc_guar]: "guar svc_step (RunPodSandbox env n c)"
  by (auto simp: RunPodSandbox_def run_reserved_def Let_def intro!: guar_intros svc_guar split: option.split)

section \<open>The resolver configuration\<close>

text \<open>The lines of the file, in the order of the code.\<close>

definition resolv_lines :: "string list \<Rightarrow> string list \<Rightarrow> string list \<Rightarrow> string list" where
  "resolv_lines servers searches options =
     (if searches = [] then [] else [''search '' @ strings_Join searches '' '']) @
     map (\<lambda>s. ''nameserver '' @ s) servers @
     (if options = [] then [] else [''options '' @ strings_Join options '' ''])"

text \<open>
  C35: The resolver configuration of a sandbox is a line for the search domains, one line per name server and a
  line for the options, each ended by a newline and left out when it is empty; more than six search domains
  are an error.
\<close>

lemma parseDNSOptions_lines:
  "parseDNSOptions servers searches options =
     (if length searches > 6 then Inl (Errorf [Lit ''DNSOption.Searches has more than 6 domains''])
      else Inr (concat (map (\<lambda>l. l @ newline) (resolv_lines servers searches options))))"
proof -
  have "strings_Join (x # xs) (newline @ ''nameserver '') @ newline =
    x @ newline @ concat (map (\<lambda>s. ''nameserver '' @ s @ newline) xs)" for x xs
    by (induction xs arbitrary: x) auto
  then show ?thesis
    by (cases servers) (auto simp: parseDNSOptions_def resolv_lines_def maxDNSSearches_def o_def)
qed

end
