(* ===== verification/Events.thy ===== *)
theory Events
  imports Container_Remove
begin

text \<open>
  \<^verbatim>\<open>pkg/server/events.go\<close>: the goroutine that turns the exit and out-of-memory events of containerd
  into status updates. Errors of the handler are logged only, so it returns normally on every
  path but one: an out-of-memory event of a container that is not in the store dereferences the
  nil status of the zero container.
\<close>

definition zero_ContainerMeta :: ContainerMeta where
  "zero_ContainerMeta = \<lparr>md_ID = '''', md_Name = '''', md_SandboxID = '''', md_Config = None, md_ImageRef = ''''\<rparr>"

definition zero_Container :: Container where
  "zero_Container = \<lparr>c_Metadata = zero_ContainerMeta, c_Status = None\<rparr>"

definition exit_update :: "TaskExit \<Rightarrow> UpdateFunc" where
  "exit_update e status =
     (if st_FinishedAt status \<noteq> 0 then Inr status
      else Inr (status\<lparr>st_Pid := 0, st_FinishedAt := te_ExitedAt e, st_ExitCode := te_ExitStatus e\<rparr>))"

definition oom_update :: UpdateFunc where
  "oom_update status = Inr (status\<lparr>st_Reason := oomExitReason\<rparr>)"

definition log_error :: "('w, 'a) act \<Rightarrow> ('w, unit) act" where
  "log_error m = tryE m (\<lambda>_. ret ())"

definition handleTaskExit :: "'w env \<Rightarrow> TaskExit \<Rightarrow> ('w, unit) act" where
  "handleTaskExit env e =
     tryE (cstore_Get (te_ContainerID e)) (\<lambda>r. case r of
       Inl _ \<Rightarrow> ret ()
     | Inr cntr \<Rightarrow> bindE (status_Get cntr) (\<lambda>st.
         if te_Pid e \<noteq> st_Pid st then ret ()
         else tryE (ext (tasks_Delete env (te_ContainerID e))) (\<lambda>d. case d of
             Inl err \<Rightarrow> if \<not> isContainerdGRPCNotFoundError err then ret ()
               else log_error (status_Update cntr (exit_update e))
           | Inr _ \<Rightarrow> log_error (status_Update cntr (exit_update e)))))"

definition handleTaskOOM :: "string \<Rightarrow> ('w, unit) act" where
  "handleTaskOOM cid =
     tryE (cstore_Get cid) (\<lambda>r.
       let cntr = (case r of Inl _ \<Rightarrow> zero_Container | Inr c \<Rightarrow> c) in
       log_error (status_Update cntr oom_update))"

definition handleEvent :: "'w env \<Rightarrow> Envelope \<Rightarrow> ('w, unit) act" where
  "handleEvent env evt = (case evt of
     EvTaskExit (Inr e) \<Rightarrow> handleTaskExit env e
   | EvTaskOOM (Inr cid) \<Rightarrow> handleTaskOOM cid
   | _ \<Rightarrow> ret ())"

definition handleEventStream :: "'w env \<Rightarrow> handle \<Rightarrow> ('w, unit) act" where
  "handleEventStream env eventstream = bindE (ext (events_Recv env eventstream)) (handleEvent env)"

text \<open>The two nested loops of the monitor, cut off after a number of rounds: the goroutine itself
  runs for the life of the daemon. The first number bounds the subscriptions, the second the
  events of each.\<close>

fun drain_events :: "'w env \<Rightarrow> nat \<Rightarrow> handle \<Rightarrow> ('w, unit) act" where
  "drain_events env 0 h = Ret Diverge"
| "drain_events env (Suc n) h = tryE (handleEventStream env h) (\<lambda>r. case r of
     Inl _ \<Rightarrow> ret () | Inr _ \<Rightarrow> drain_events env n h)"

fun startEventMonitor :: "'w env \<Rightarrow> nat \<Rightarrow> nat \<Rightarrow> ('w, unit) act" where
  "startEventMonitor env 0 n = Ret Diverge"
| "startEventMonitor env (Suc m) n = tryE (ext (events_Subscribe env)) (\<lambda>r. case r of
     Inl _ \<Rightarrow> startEventMonitor env m n
   | Inr h \<Rightarrow> seqE (drain_events env n h) (startEventMonitor env m n))"

section \<open>Guarantees\<close>

lemma guar_log_error [guar_intros]: "guar R m \<Longrightarrow> guar R (log_error m)"
  by (auto simp: log_error_def ret_def intro!: guar_intros)

lemma exit_update_step: "exit_update e st = Inr st' \<Longrightarrow> status_step\<^sup>*\<^sup>* st st'"
  by (auto simp: exit_update_def split: if_splits intro: status_step.exited)

lemma oom_update_step: "oom_update st = Inr st' \<Longrightarrow> status_step\<^sup>*\<^sup>* st st'"
  by (auto simp: oom_update_def intro: status_step.oom)

lemma svc_event_updates [svc_guar]:
  "guar svc_step (status_Update c (exit_update e))" "guar svc_step (status_Update c oom_update)"
  by (auto intro: svc_status_Update exit_update_step oom_update_step)

lemma handleEvent_guar [svc_guar]: "guar svc_step (handleEvent env evt)"
  by (auto simp: handleEvent_def handleTaskExit_def handleTaskOOM_def Let_def
      intro!: guar_intros svc_guar split: Envelope.split sum.split)

lemma drain_events_guar [svc_guar]: "guar svc_step (drain_events env n h)"
  by (induction n) (auto simp: handleEventStream_def intro!: guar_intros svc_guar split: sum.split)

lemma startEventMonitor_guar [svc_guar]: "guar svc_step (startEventMonitor env m n)"
  by (induction m) (auto intro!: guar_intros svc_guar split: sum.split)

section \<open>Functional behaviour\<close>

lemma run_log_error [run_simps]:
  "run (log_error m) s = (case run m s of (r, s') \<Rightarrow>
     (case r of Panic \<Rightarrow> Panic | Diverge \<Rightarrow> Diverge | _ \<Rightarrow> Ok (), s'))"
  by (simp add: log_error_def run_tryE ret_def split: prod.split outcome.split)

text \<open>
  An exit event of a container that is not in the store, or of a process that is not the
  init process, changes nothing.
\<close>

lemma handleTaskExit_ignored:
  assumes "map_of (containerStore s) (te_ContainerID e) = None \<or>
    (\<exists>c i. map_of (containerStore s) (te_ContainerID e) = Some c \<and> c_Status c = Some i \<and>
       i < length (statuses s) \<and> te_Pid e \<noteq> st_Pid (statuses s ! i))"
  shows "run (handleTaskExit env e) s = (Ok (), s)"
  using assms by (auto simp: handleTaskExit_def run_tryE run_bindE run_cstore_Get run_status_Get ret_def)

lemma run_handleTaskExit:
  assumes c: "map_of (containerStore s) (te_ContainerID e) = Some c" "c_Status c = Some i"
      "i < length (statuses s)"
    and pid: "te_Pid e = st_Pid (statuses s ! i)" and running: "State (statuses s ! i) = CONTAINER_RUNNING"
    and del: "tasks_Delete env (te_ContainerID e) (world s) = (r, w)"
      "case r of Inl err \<Rightarrow> isContainerdGRPCNotFoundError err | Inr _ \<Rightarrow> True"
  shows "run (handleTaskExit env e) s = (Ok (), s\<lparr>world := w, statuses := (statuses s)[i := (statuses s ! i)
     \<lparr>st_Pid := 0, st_FinishedAt := te_ExitedAt e, st_ExitCode := te_ExitStatus e\<rparr>]\<rparr>)"
proof -
  have "run (status_Update c (exit_update e)) (s\<lparr>world := w\<rparr>) = (Ok (), s\<lparr>world := w,
      statuses := (statuses s)[i := (statuses s ! i)
      \<lparr>st_Pid := 0, st_FinishedAt := te_ExitedAt e, st_ExitCode := te_ExitStatus e\<rparr>]\<rparr>)"
    using c running by (simp add: run_status_Update exit_update_def State_def split: if_splits)
  with c pid del show ?thesis
    by (cases r) (simp_all add: handleTaskExit_def run_tryE run_bindE run_cstore_Get run_status_Get ext_def
        run_log_error)
qed

text \<open>
  C16: The exit event of the init process of a running container, whose task is deleted or was
  already gone, sets the process id to 0 and records the exit time and exit code, and changes
  nothing else.
\<close>

lemma handleTaskExit_recorded:
  assumes c: "map_of (containerStore s) (te_ContainerID e) = Some c" "c_Status c = Some i"
      "i < length (statuses s)"
    and pid: "te_Pid e = st_Pid (statuses s ! i)" and running: "State (statuses s ! i) = CONTAINER_RUNNING"
    and del: "tasks_Delete env (te_ContainerID e) (world s) = (r, w)"
      "case r of Inl err \<Rightarrow> isContainerdGRPCNotFoundError err | Inr _ \<Rightarrow> True"
  shows "run (handleTaskExit env e) s = (Ok (), s\<lparr>world := w, statuses := (statuses s)[i := (statuses s ! i)
     \<lparr>st_Pid := 0, st_FinishedAt := te_ExitedAt e, st_ExitCode := te_ExitStatus e\<rparr>]\<rparr>)"
  using assms by (rule run_handleTaskExit)

text \<open>A failed delete loses the event: the container keeps its running state.\<close>

lemma handleTaskExit_lost:
  assumes c: "map_of (containerStore s) (te_ContainerID e) = Some c" "c_Status c = Some i"
      "i < length (statuses s)" and pid: "te_Pid e = st_Pid (statuses s ! i)"
    and del: "tasks_Delete env (te_ContainerID e) (world s) = (Inl err, w)" "\<not> isContainerdGRPCNotFoundError err"
  shows "run (handleTaskExit env e) s = (Ok (), s\<lparr>world := w\<rparr>)"
  using assms by (simp add: handleTaskExit_def run_tryE run_bindE run_cstore_Get run_status_Get ext_def ret_def)

text \<open>
  C39: An out-of-memory event of a container that is not in the store panics the event monitor:
  the error of the lookup is logged but the handler goes on with the zero container, whose
  status is nil.
\<close>

lemma handleTaskOOM_unknown:
  "map_of (containerStore s) cid = None \<Longrightarrow> run (handleTaskOOM cid) s = (Panic, s)"
  by (simp add: handleTaskOOM_def run_tryE run_cstore_Get run_log_error status_Update_def zero_Container_def)

lemma handleTaskOOM_known:
  assumes "map_of (containerStore s) cid = Some c" "c_Status c = Some i" "i < length (statuses s)"
  shows "run (handleTaskOOM cid) s = (Ok (), s\<lparr>statuses := (statuses s)
     [i := (statuses s ! i)\<lparr>st_Reason := oomExitReason\<rparr>]\<rparr>)"
  using assms by (simp add: handleTaskOOM_def run_tryE run_cstore_Get run_log_error run_status_Update oom_update_def)

end
