(* ===== verification/Container_Views.thy ===== *)
theory Container_Views
  imports Events
begin

text \<open>
  What the service reports about containers: \<^verbatim>\<open>pkg/server/container_status.go\<close> and
  \<^verbatim>\<open>pkg/server/container_list.go\<close>. The label filter is shared with the sandbox list.
\<close>

definition exit_reason :: "Status \<Rightarrow> string" where
  "exit_reason status =
     (if State status = CONTAINER_EXITED \<and> st_Reason status = '''' then
        (if st_ExitCode status = 0 then completeExitReason else errorExitReason)
      else st_Reason status)"

definition toCRIContainerStatus :: "ContainerMeta \<Rightarrow> Status \<Rightarrow> CriContainerStatus" where
  "toCRIContainerStatus meta status =
     \<lparr>rs_Id = md_ID meta, rs_Metadata = pget cc_Metadata None (md_Config meta), rs_State = State status,
      rs_CreatedAt = st_CreatedAt status, rs_StartedAt = st_StartedAt status,
      rs_FinishedAt = st_FinishedAt status, rs_ExitCode = st_ExitCode status,
      rs_Image = pget cc_Image None (md_Config meta), rs_ImageRef = md_ImageRef meta,
      rs_Reason = exit_reason status, rs_Message = st_Message status,
      rs_Labels = pget cc_Labels [] (md_Config meta), rs_Annotations = pget cc_Annotations [] (md_Config meta),
      rs_Mounts = pget cc_Mounts [] (md_Config meta)\<rparr>"

definition ContainerStatus :: "'w env \<Rightarrow> string \<Rightarrow> ('w, CriContainerStatus) act" where
  "ContainerStatus env rid =
     bindE (wrap_err (\<lambda>e. Errorf [Lit ''an error occurred when try to find container '', Q rid, Lit '': '', V e])
             (cstore_Get rid)) (\<lambda>container.
     bindE (status_Get container) (\<lambda>status. ret (toCRIContainerStatus (c_Metadata container) status)))"

definition toCRIContainer :: "Container \<Rightarrow> Status \<Rightarrow> CriContainer" where
  "toCRIContainer container status =
     (let meta = c_Metadata container in
      \<lparr>rc_Id = md_ID meta, rc_PodSandboxId = md_SandboxID meta,
       rc_Metadata = pget cc_Metadata None (md_Config meta), rc_Image = pget cc_Image None (md_Config meta),
       rc_ImageRef = md_ImageRef meta, rc_State = State status, rc_CreatedAt = st_CreatedAt status,
       rc_Labels = pget cc_Labels [] (md_Config meta), rc_Annotations = pget cc_Annotations [] (md_Config meta)\<rparr>)"

text \<open>The inner loop over the selector; its break only saves work.\<close>

fun labels_match :: "labels \<Rightarrow> labels \<Rightarrow> bool" where
  "labels_match [] got = True"
| "labels_match ((k, v) # rest) got = (if map_of got k \<noteq> Some v then False else labels_match rest got)"

definition container_matches :: "ContainerFilter \<Rightarrow> CriContainer \<Rightarrow> bool" where
  "container_matches flt cntr \<longleftrightarrow>
     \<not> (cf_Id flt \<noteq> '''' \<and> cf_Id flt \<noteq> rc_Id cntr) \<and>
     \<not> (cf_PodSandboxId flt \<noteq> '''' \<and> cf_PodSandboxId flt \<noteq> rc_PodSandboxId cntr) \<and>
     (case cf_State flt of None \<Rightarrow> True | Some st \<Rightarrow> st = rc_State cntr) \<and>
     labels_match (cf_LabelSelector flt) (rc_Labels cntr)"

definition filterCRIContainers :: "CriContainer list \<Rightarrow> ContainerFilter option \<Rightarrow> CriContainer list" where
  "filterCRIContainers containers flt = (case flt of
     None \<Rightarrow> containers
   | Some f \<Rightarrow> foldl (\<lambda>filtered cntr. if container_matches f cntr then filtered @ [cntr] else filtered) [] containers)"

definition ListContainers :: "'w env \<Rightarrow> ContainerFilter option \<Rightarrow> ('w, CriContainer list) act" where
  "ListContainers env flt =
     bindE (cstore_List env) (\<lambda>containersInStore.
     bindE (mapE (\<lambda>c. bindE (status_Get c) (\<lambda>st. ret (toCRIContainer c st))) containersInStore) (\<lambda>containers.
     ret (filterCRIContainers containers flt)))"

lemma views_world [svc_guar, intro!]:
  "guar world_only (ContainerStatus env rid)" "guar world_only (ListContainers env f)"
  by (auto simp: ContainerStatus_def ListContainers_def intro!: guar_intros)

lemmas views_svc [svc_guar] = views_world [THEN guar_world_only]

section \<open>Behaviour\<close>

lemma labels_match_iff: "labels_match sel got \<longleftrightarrow> (\<forall>(k, v) \<in> set sel. map_of got k = Some v)"
  by (induction sel got rule: labels_match.induct) auto

lemma foldl_filter:
  "foldl (\<lambda>acc x. if P x then acc @ [x] else acc) acc xs = acc @ filter P xs"
  by (induction xs arbitrary: acc) auto

lemma filterCRIContainers_eq:
  "filterCRIContainers cs f = (case f of None \<Rightarrow> cs | Some f \<Rightarrow> filter (container_matches f) cs)"
  by (simp add: filterCRIContainers_def foldl_filter split: option.split)

text \<open>
  The reported status of a container is the conversion of its stored metadata and its
  current status, and asking changes nothing.
\<close>

lemma ContainerStatus_run:
  assumes "map_of (containerStore s) rid = Some c" and "c_Status c = Some i" and "i < length (statuses s)"
  shows "run (ContainerStatus env rid) s = (Ok (toCRIContainerStatus (c_Metadata c) (statuses s ! i)), s)"
  using assms by (simp add: ContainerStatus_def run_bindE run_wrap_err run_cstore_Get run_status_Get ret_def)

text \<open>Every stored container has a status object.\<close>

definition statuses_ok :: "'w st \<Rightarrow> bool" where
  "statuses_ok s \<longleftrightarrow> (\<forall>c \<in> ran (map_of (containerStore s)).
     \<exists>i. c_Status c = Some i \<and> i < length (statuses s))"

definition container_view :: "'w st \<Rightarrow> Container \<Rightarrow> CriContainer" where
  "container_view s c = toCRIContainer c (statuses s ! the (c_Status c))"


end
