(* ===== verification/Sandbox_Remove.thy ===== *)
theory Sandbox_Remove
  imports Sandbox_Run Container_Views
begin

text \<open>
  \<^verbatim>\<open>pkg/server/sandbox_remove.go\<close>, \<^verbatim>\<open>sandbox_status.go\<close> and \<^verbatim>\<open>sandbox_list.go\<close>.
\<close>

definition remove_containers :: "'w env \<Rightarrow> string \<Rightarrow> Container list \<Rightarrow> ('w, unit) act" where
  "remove_containers env sid cntrs = forE cntrs (\<lambda>cntr.
     if c_SandboxID cntr \<noteq> sid then ret ()
     else wrap_err (\<lambda>e. Errorf [Lit ''failed to remove container '', Q (c_ID cntr), Lit '': '', V e])
            (RemoveContainer env (c_ID cntr)))"

text \<open>The sandbox container must be gone from containerd before its sandbox is removed.\<close>

definition sandbox_task_gone :: "'w env \<Rightarrow> string \<Rightarrow> ('w, unit) act" where
  "sandbox_task_gone env sid =
     tryE (ext (tasks_Get env sid)) (\<lambda>r. case r of
       Inl e \<Rightarrow> if \<not> isContainerdGRPCNotFoundError e
         then fail (Errorf [Lit ''failed to get sandbox container info for '', Q sid, Lit '': '', V e])
         else ret ()
     | Inr _ \<Rightarrow> fail (Errorf [Lit ''sandbox container '', Q sid, Lit '' is not fully stopped'']))"

definition remove_sandbox :: "'w env \<Rightarrow> string \<Rightarrow> ('w, unit) act" where
  "remove_sandbox env sid =
     seqE (sandbox_task_gone env sid)
     (seqE (tolerate errdefs_IsNotFound
              (\<lambda>e. Errorf [Lit ''failed to remove sandbox container snapshot '', Q sid, Lit '': '', V e])
              (snapshotService_Remove env sid))
     (bindE (cstore_List env) (\<lambda>cntrs.
      seqE (remove_containers env sid cntrs)
      (bindE (gets rootDir) (\<lambda>dir.
       let sandboxRootDir = getSandboxRootDir dir sid in
       seqE (wrap_err (\<lambda>e. Errorf [Lit ''failed to remove sandbox root directory '', Q sandboxRootDir, Lit '': '', V e])
              (RealOS_RemoveAll env sandboxRootDir))
       (seqE (tolerate isContainerdGRPCNotFoundError
                (\<lambda>e. Errorf [Lit ''failed to delete sandbox container '', Q sid, Lit '': '', V e])
                (containerService_Delete env sid))
       (seqE (sbstore_Delete sid) (sname_ReleaseByKey sid))))))))"

definition RemovePodSandbox :: "'w env \<Rightarrow> string \<Rightarrow> ('w, unit) act" where
  "RemovePodSandbox env rid =
     tryE (sbstore_Get rid) (\<lambda>r. case r of
       Inl e \<Rightarrow> if e \<noteq> StoreNotExist
         then fail (Errorf [Lit ''an error occurred when try to find sandbox '', Q rid, Lit '': '', V e])
         else ret ()
     | Inr sandbox \<Rightarrow> remove_sandbox env (sb_ID sandbox))"

section \<open>Views\<close>

definition sandbox_state :: "Task option \<Rightarrow> PodSandboxState" where
  "sandbox_state t = (case t of
     Some t \<Rightarrow> if tk_Status t = StatusRunning then SANDBOX_READY else SANDBOX_NOTREADY
   | None \<Rightarrow> SANDBOX_NOTREADY)"

definition toCRISandboxStatus :: "Sandbox \<Rightarrow> PodSandboxState \<Rightarrow> string \<Rightarrow> CriPodSandboxStatus" where
  "toCRISandboxStatus meta state ip =
     (let nsOpts = sandbox_namespace_options (sb_Config meta) in
      \<lparr>rps_Id = sb_ID meta, rps_Metadata = pget pc_Metadata None (sb_Config meta), rps_State = state,
       rps_CreatedAt = sb_CreatedAt meta, rps_Ip = ip,
       rps_NamespaceOptions = \<lparr>ns_HostNetwork = pget ns_HostNetwork False nsOpts,
         ns_HostPid = pget ns_HostPid False nsOpts, ns_HostIpc = pget ns_HostIpc False nsOpts\<rparr>,
       rps_Labels = pget pc_Labels [] (sb_Config meta), rps_Annotations = pget pc_Annotations [] (sb_Config meta)\<rparr>)"

definition PodSandboxStatus :: "'w env \<Rightarrow> string \<Rightarrow> ('w, CriPodSandboxStatus) act" where
  "PodSandboxStatus env rid =
     bindE (wrap_err (\<lambda>e. Errorf [Lit ''an error occurred when try to find sandbox '', Q rid, Lit '': '', V e])
             (sbstore_Get rid)) (\<lambda>sandbox.
     let sid = sb_ID sandbox; meta = pget pc_Metadata None (sb_Config sandbox) in
     tryE (ext (tasks_Get env sid)) (\<lambda>r.
     case r of
       Inl e \<Rightarrow> if \<not> isContainerdGRPCNotFoundError e
         then fail (Errorf [Lit ''failed to get sandbox container info for '', Q sid, Lit '': '', V e])
         else tryE (ext (cni_NetworkStatus env (sb_NetNS sandbox) (pget pm_Namespace '''' meta) (pget pm_Name '''' meta) sid)) (\<lambda>i.
           ret (toCRISandboxStatus sandbox (sandbox_state None) (case i of Inl _ \<Rightarrow> '''' | Inr ip \<Rightarrow> ip)))
     | Inr t \<Rightarrow> tryE (ext (cni_NetworkStatus env (sb_NetNS sandbox) (pget pm_Namespace '''' meta) (pget pm_Name '''' meta) sid)) (\<lambda>i.
           ret (toCRISandboxStatus sandbox (sandbox_state (Some t)) (case i of Inl _ \<Rightarrow> '''' | Inr ip \<Rightarrow> ip)))))"

definition toCRISandbox :: "Sandbox \<Rightarrow> PodSandboxState \<Rightarrow> CriPodSandbox" where
  "toCRISandbox meta state =
     \<lparr>rp_Id = sb_ID meta, rp_Metadata = pget pc_Metadata None (sb_Config meta), rp_State = state,
      rp_CreatedAt = sb_CreatedAt meta, rp_Labels = pget pc_Labels [] (sb_Config meta),
      rp_Annotations = pget pc_Annotations [] (sb_Config meta)\<rparr>"

definition sandbox_matches :: "PodSandboxFilter \<Rightarrow> CriPodSandbox \<Rightarrow> bool" where
  "sandbox_matches flt s \<longleftrightarrow>
     \<not> (pf_Id flt \<noteq> '''' \<and> pf_Id flt \<noteq> rp_Id s) \<and>
     (case pf_State flt of None \<Rightarrow> True | Some st \<Rightarrow> st = rp_State s) \<and>
     labels_match (pf_LabelSelector flt) (rp_Labels s)"

definition filterCRISandboxes :: "CriPodSandbox list \<Rightarrow> PodSandboxFilter option \<Rightarrow> CriPodSandbox list" where
  "filterCRISandboxes sandboxes flt = (case flt of
     None \<Rightarrow> sandboxes
   | Some f \<Rightarrow> foldl (\<lambda>filtered s. if sandbox_matches f s then filtered @ [s] else filtered) [] sandboxes)"

text \<open>The first task with the sandbox's id.\<close>

definition task_of :: "Task list \<Rightarrow> string \<Rightarrow> Task option" where
  "task_of ts sid = List.find (\<lambda>t. tk_ID t = sid) ts"

definition ListPodSandbox :: "'w env \<Rightarrow> PodSandboxFilter option \<Rightarrow> ('w, CriPodSandbox list) act" where
  "ListPodSandbox env flt =
     bindE (sbstore_List env) (\<lambda>sandboxesInStore.
     bindE (wrap_err (\<lambda>e. Errorf [Lit ''failed to list sandbox containers: '', V e])
             (ext (tasks_List env))) (\<lambda>sandboxesInContainerd.
     ret (filterCRISandboxes
       (map (\<lambda>sb. toCRISandbox sb (sandbox_state (task_of sandboxesInContainerd (sb_ID sb)))) sandboxesInStore) flt)))"

section \<open>Guarantees\<close>

lemma sandbox_views_world [svc_guar, intro!]:
  "guar world_only (sandbox_task_gone env sid)" "guar world_only (PodSandboxStatus env rid)"
  "guar world_only (ListPodSandbox env f)"
  by (auto simp: sandbox_task_gone_def PodSandboxStatus_def ListPodSandbox_def Let_def
      intro!: guar_intros split: sum.split)

lemmas sandbox_views_svc [svc_guar] = sandbox_views_world [THEN guar_world_only]

lemma RemovePodSandbox_guar [svc_guar]: "guar svc_step (RemovePodSandbox env rid)"
  by (auto simp: RemovePodSandbox_def remove_sandbox_def remove_containers_def Let_def
      intro!: guar_intros svc_guar split: sum.split)

lemma filterCRISandboxes_eq:
  "filterCRISandboxes ss f = (case f of None \<Rightarrow> ss | Some f \<Rightarrow> filter (sandbox_matches f) ss)"
  by (simp add: filterCRISandboxes_def foldl_filter split: option.split)

section \<open>Behaviour\<close>

lemma RemovePodSandbox_unknown:
  "map_of (sandboxStore s) rid = None \<Longrightarrow> run (RemovePodSandbox env rid) s = (Ok (), s)"
  by (simp add: RemovePodSandbox_def run_tryE sbstore_Get_def sandboxStore_Get_def ret_def)

text \<open>
  A sandbox whose sandbox container still has a task is not removed, and nothing inside
  changes.
\<close>

lemma RemovePodSandbox_running:
  assumes "map_of (sandboxStore s) rid = Some sb" and "tasks_Get env (sb_ID sb) (world s) = (Inr t, w)"
  shows "\<exists>e. run (RemovePodSandbox env rid) s = (Err e, s\<lparr>world := w\<rparr>)"
  using assms by (simp add: RemovePodSandbox_def remove_sandbox_def sandbox_task_gone_def run_tryE run_seqE
      sbstore_Get_def sandboxStore_Get_def ext_def fail_def)

end
