(* ===== verification/Exec.thy ===== *)
theory Exec
  imports Task_Events
begin

text \<open>
  Running commands in a container: \<^verbatim>\<open>pkg/server/container_execsync.go\<close>, \<^verbatim>\<open>container_exec.go\<close>
  and the streaming runtime of \<^verbatim>\<open>streaming.go\<close>. A process that was created is deleted on every path,
  and the event subscription is cancelled on every path. The output the copying goroutines of
  containerd collect is the result of waiting for them, \<open>process_IOWait\<close>.
\<close>

definition container_running :: "Container \<Rightarrow> ('w, unit) act" where
  "container_running cntr = bindE (status_Get cntr) (\<lambda>st.
     if State st \<noteq> CONTAINER_RUNNING then
       fail (Errorf [Lit ''container is in '', Lit (criContainerStateToString (State st)), Lit '' state''])
     else ret ())"

definition exec_process :: "'w env \<Rightarrow> nat \<Rightarrow> string \<Rightarrow> string \<Rightarrow> ('w, uint32 \<times> string \<times> string) act" where
  "exec_process env fuel cid execID =
     bindE (wrap_err (\<lambda>e. Errorf [Lit ''failed to subscribe event stream: '', V e])
             (ext (events_Subscribe env))) (\<lambda>eventstream.
     defer_always
       (seqE (wrap_err (\<lambda>e. Errorf [Lit ''failed to start exec '', Q execID, Lit '': '', V e])
               (ext (process_Start env cid execID)))
        (bindE (wrap_err (\<lambda>e. Errorf [Lit ''failed to wait for exec in container '', Q cid, Lit '' to finish: '', V e])
                 (waitContainerExec env fuel eventstream cid execID)) (\<lambda>exitCode.
         bindE (ext_val (process_IOWait env cid execID)) (\<lambda>io. ret (exitCode, io)))))
       (ext (events_Cancel env eventstream)))"

definition execInContainer :: "'w env \<Rightarrow> nat \<Rightarrow> string \<Rightarrow> string list \<Rightarrow> bool
    \<Rightarrow> ('w, uint32 \<times> string \<times> string) act" where
  "execInContainer env fuel rid cmd tty =
     bindE (wrap_err (\<lambda>e. Errorf [Lit ''failed to find container in store: '', V e]) (cstore_Get rid)) (\<lambda>cntr.
     let cid = c_ID cntr in
     seqE (container_running cntr)
     (seqE (wrap_err (\<lambda>e. Errorf [Lit ''failed to load container: '', V e]) (ext (client_LoadContainer env cid)))
     (bindE (wrap_err (\<lambda>e. Errorf [Lit ''failed to get container spec: '', V e]) (ext (container_Spec env cid))) (\<lambda>spec.
      seqE (wrap_err (\<lambda>e. Errorf [Lit ''failed to load task: '', V e]) (ext (container_Task env cid)))
      (bindE (ext_val (stringid_Generate env)) (\<lambda>execID.
       seqE (wrap_err (\<lambda>e. Errorf [Lit ''failed to create exec '', Q execID, Lit '': '', V e])
              (ext (task_Exec env cid execID (spec\<lparr>sp_Args := cmd, sp_Terminal := tty\<rparr>))))
         (defer_always (exec_process env fuel cid execID) (ext (process_Delete env cid execID)))))))))"

text \<open>Standard output, standard error and the exit code; the timeout of the request is not used.\<close>

definition ExecSync :: "'w env \<Rightarrow> nat \<Rightarrow> string \<Rightarrow> string list \<Rightarrow> int64 \<Rightarrow> ('w, string \<times> string \<times> uint32) act" where
  "ExecSync env fuel rid cmd timeout =
     bindE (wrap_err (\<lambda>e. Errorf [Lit ''failed to exec in container: '', V e])
             (execInContainer env fuel rid cmd False)) (\<lambda>(exitCode, stdout, stderr).
     ret (stdout, stderr, exitCode))"

definition Exec :: "'w env \<Rightarrow> string \<Rightarrow> string list \<Rightarrow> bool \<Rightarrow> bool \<Rightarrow> ('w, string) act" where
  "Exec env rid cmd tty stdin =
     bindE (wrap_err (\<lambda>e. Errorf [Lit ''failed to find container in store: '', V e]) (cstore_Get rid)) (\<lambda>cntr.
     seqE (container_running cntr) (ext (streamServer_GetExec env rid cmd tty stdin)))"

text \<open>The streaming runtime reports a non-zero exit code as an error.\<close>

definition exit_error :: "string list \<Rightarrow> uint32 \<Rightarrow> goerror" where
  "exit_error cmd code = Errorf [Lit ''error executing command ['', Lit (strings_Join cmd '' ''),
     Lit ''], exit code '', Lit (fmt_nat (unat code))]"

definition streamRuntime_Exec :: "'w env \<Rightarrow> nat \<Rightarrow> string \<Rightarrow> string list \<Rightarrow> bool \<Rightarrow> ('w, string \<times> string) act" where
  "streamRuntime_Exec env fuel containerID cmd tty =
     bindE (wrap_err (\<lambda>e. Errorf [Lit ''failed to exec in container: '', V e])
             (execInContainer env fuel containerID cmd tty)) (\<lambda>(exitCode, io).
     if exitCode = 0 then ret io else fail (exit_error cmd exitCode))"

text \<open>\<open>handleResizing\<close>: the sizes of the channel that are passed on, until it is closed.\<close>

definition handleResizing :: "(nat \<times> nat) list \<Rightarrow> (nat \<times> nat) list" where
  "handleResizing resize = filter (\<lambda>(width, height). \<not> (height < 1 \<or> width < 1)) resize"

text \<open>Handlers that are not implemented.\<close>

definition not_implemented :: "('w, 'a) act" where
  "not_implemented = fail (OtherError ''not implemented'')"

definition Attach :: "('w, string) act" where "Attach = not_implemented"
definition PortForward :: "('w, string) act" where "PortForward = not_implemented"
definition streamRuntime_Attach :: "('w, unit) act" where "streamRuntime_Attach = not_implemented"
definition streamRuntime_PortForward :: "('w, unit) act" where "streamRuntime_PortForward = not_implemented"
definition ContainerStats :: "('w, unit) act" where "ContainerStats = not_implemented"
definition ListContainerStats :: "('w, unit) act" where "ListContainerStats = not_implemented"
definition ImageFsInfo :: "('w, unit) act" where "ImageFsInfo = not_implemented"
definition UpdateRuntimeConfig :: "('w, unit) act" where "UpdateRuntimeConfig = ret ()"

lemma exec_world [svc_guar, intro!]:
  "guar world_only (container_running c)" "guar world_only (exec_process env n cid eid)"
  by (auto simp: container_running_def exec_process_def intro!: guar_intros)

lemma execInContainer_world [svc_guar, intro!]: "guar world_only (execInContainer env n rid cmd tty)"
  by (auto simp: execInContainer_def Let_def intro!: guar_intros)

lemma exec_handlers_world [svc_guar, intro!]:
  "guar world_only (ExecSync env n rid cmd t)" "guar world_only (Exec env rid cmd tty stdin)"
  "guar world_only (streamRuntime_Exec env n rid cmd tty)"
  by (auto simp: ExecSync_def Exec_def streamRuntime_Exec_def intro!: guar_intros split: prod.split)

lemmas exec_svc [svc_guar] = exec_handlers_world [THEN guar_world_only]

section \<open>What an exec reports\<close>

text \<open>
  A command is only executed in a running container: for any other state the request fails and reports
  the state, and containerd is not called.
\<close>

lemma ExecSync_not_running:
  assumes "map_of (containerStore s) rid = Some c" "c_Status c = Some i" "i < length (statuses s)"
    and "State (statuses s ! i) \<noteq> CONTAINER_RUNNING"
  shows "run (ExecSync env fuel rid cmd timeout) s = (Err (Errorf [Lit ''failed to exec in container: '',
    V (Errorf [Lit ''container is in '', Lit (criContainerStateToString (State (statuses s ! i))), Lit '' state''])]), s)"
  using assms by (simp add: ExecSync_def execInContainer_def container_running_def run_bindE run_wrap_err seqE_def
      cstore_Get_def status_Get_def containerStore_Get_def statusStorage_Get_def of_result_def fail_def Let_def)

lemma exec_process_code:
  assumes "run (exec_process env fuel cid execID) s = (Ok (code, io), s')"
  shows "\<exists>h e w w'. events_Recv env h w = (Inr (EvTaskExit (Inr e)), w') \<and> te_ContainerID e = cid \<and>
    te_ID e = execID \<and> te_ExitStatus e = code"
  using assms
  by (auto simp: exec_process_def run_bindE run_wrap_err seqE_def run_defer_always ret_def waitContainerExec_def
      dest!: wait_task_exit_received split: prod.splits outcome.splits)

text \<open>
  C23: The exit code of a synchronous exec is the one of the exit event of its own process: when a request
  succeeds, the event stream delivered an exit event of the container and of the exec id that the request
  generated with that code, and deleting that process was the last call the request made.
\<close>

lemma ExecSync_exit_code:
  assumes "run (ExecSync env fuel rid cmd timeout) s = (Ok (out, err, code), s')"
  shows "\<exists>c execID h e. map_of (containerStore s) rid = Some c \<and>
    (\<exists>w w'. stringid_Generate env w = (execID, w')) \<and>
    (\<exists>w w'. events_Recv env h w = (Inr (EvTaskExit (Inr e)), w')) \<and>
    te_ContainerID e = c_ID c \<and> te_ID e = execID \<and> te_ExitStatus e = code \<and>
    (\<exists>w q. process_Delete env (c_ID c) execID w = (q, world s'))"
proof -
  from assms obtain c execID w w' t t' q where "map_of (containerStore s) rid = Some c"
    "stringid_Generate env w = (execID, w')" and p: "run (exec_process env fuel (c_ID c) execID) t = (Ok (code, out, err), t')" and
    "process_Delete env (c_ID c) execID (world t') = (q, world s')"
    by (auto simp: ExecSync_def execInContainer_def run_bindE run_wrap_err seqE_def run_defer_always ret_def Let_def
        cstore_Get_def containerStore_Get_def ext_val_def of_result_def ext_def
        split: prod.splits outcome.splits option.splits sum.splits)
  with exec_process_code [OF p] show ?thesis by metis
qed


end
