(* ===== verification/Runtime_Info.thy ===== *)
theory Runtime_Info
  imports Events
begin

text \<open>
  The rest of the service: \<^verbatim>\<open>status.go\<close>, \<^verbatim>\<open>version.go\<close>, the versioned encoding of the metadata
  (\<^verbatim>\<open>pkg/store/container/metadata.go\<close>, \<^verbatim>\<open>pkg/store/sandbox/metadata.go\<close>).
\<close>

section \<open>Status and version\<close>

definition runtimeNotReadyReason :: string where "runtimeNotReadyReason = ''ContainerdNotReady''"
definition networkNotReadyReason :: string where "networkNotReadyReason = ''NetworkPluginNotReady''"

definition runtime_condition :: "goerror + bool \<Rightarrow> RuntimeCondition" where
  "runtime_condition r = (case r of
     Inl e \<Rightarrow> \<lparr>cond_Type = ''RuntimeReady'', cond_Status = False, cond_Reason = runtimeNotReadyReason,
       cond_Message = ''Containerd healthcheck returns error: '' @ error_text e\<rparr>
   | Inr serving \<Rightarrow> if \<not> serving
       then \<lparr>cond_Type = ''RuntimeReady'', cond_Status = False, cond_Reason = runtimeNotReadyReason,
         cond_Message = ''Containerd grpc server is not serving''\<rparr>
       else \<lparr>cond_Type = ''RuntimeReady'', cond_Status = True, cond_Reason = '''', cond_Message = ''''\<rparr>)"

definition network_condition :: "goerror + unit \<Rightarrow> RuntimeCondition" where
  "network_condition r = (case r of
     Inl e \<Rightarrow> \<lparr>cond_Type = ''NetworkReady'', cond_Status = False, cond_Reason = networkNotReadyReason,
       cond_Message = ''Network plugin returns error: '' @ error_text e\<rparr>
   | Inr _ \<Rightarrow> \<lparr>cond_Type = ''NetworkReady'', cond_Status = True, cond_Reason = '''', cond_Message = ''''\<rparr>)"

definition Status_handler :: "'w env \<Rightarrow> ('w, RuntimeCondition list) act" where
  "Status_handler env =
     tryE (ext (health_Check env)) (\<lambda>h.
     tryE (ext (cni_Status env)) (\<lambda>n.
     ret [runtime_condition h, network_condition n]))"

definition kubeAPIVersion :: string where "kubeAPIVersion = ''0.1.0''"
definition containerName :: string where "containerName = ''containerd''"
definition containerdAPIVersion :: string where "containerdAPIVersion = ''0.0.0''"

definition Version :: "'w env \<Rightarrow> ('w, string \<times> string \<times> string \<times> string) act" where
  "Version env =
     bindE (wrap_err (\<lambda>e. Errorf [Lit ''failed to get containerd version: '', V e]) (ext (version_Version env)))
       (\<lambda>v. ret (kubeAPIVersion, containerName, v, containerdAPIVersion))"

lemma info_world [svc_guar, intro!]: "guar world_only (Status_handler env)" "guar world_only (Version env)"
  by (auto simp: Status_handler_def Version_def intro!: guar_intros)

lemmas info_svc [svc_guar] = info_world [THEN guar_world_only]

text \<open>The status handler always answers.\<close>

lemma Status_handler_answers: "\<exists>h n s'. run (Status_handler env) s = (Ok [runtime_condition h, network_condition n], s')"
proof -
  obtain h w where h: "health_Check env (world s) = (h, w)" by (cases "health_Check env (world s)")
  obtain n w' where n: "cni_Status env w = (n, w')" by (cases "cni_Status env w")
  from h n show ?thesis
    by (cases h; cases n) (auto simp: Status_handler_def run_tryE ext_def ret_def)
qed

section \<open>Versioned metadata\<close>

text \<open>\<open>marshal\<close> and \<open>unmarshal\<close> are the JSON library on the versioned struct.\<close>

definition metadataVersion :: string where "metadataVersion = ''v1''"

definition Encode :: "(string \<times> 'm \<Rightarrow> string result) \<Rightarrow> 'm \<Rightarrow> string result" where
  "Encode marshal m = marshal (metadataVersion, m)"

definition Decode :: "(string \<Rightarrow> (string \<times> 'm) result) \<Rightarrow> string \<Rightarrow> 'm result" where
  "Decode unmarshal d = (case unmarshal d of
     Inl e \<Rightarrow> Inl e
   | Inr (version, m) \<Rightarrow> if version = metadataVersion then Inr m
       else Inl (Errorf [Lit ''unsupported version'']))"


lemma Decode_other_version:
  "unmarshal d = Inr (version, m) \<Longrightarrow> version \<noteq> metadataVersion \<Longrightarrow>
   Decode unmarshal d = Inl (Errorf [Lit ''unsupported version''])"
  by (simp add: Decode_def)

text \<open>The metadata of a sandbox has a version and a codec of its own.\<close>

definition sandbox_metadataVersion :: string where "sandbox_metadataVersion = ''v1''"

definition sandbox_Encode :: "(string \<times> Sandbox \<Rightarrow> string result) \<Rightarrow> Sandbox \<Rightarrow> string result" where
  "sandbox_Encode marshal m = marshal (sandbox_metadataVersion, m)"

definition sandbox_Decode :: "(string \<Rightarrow> (string \<times> Sandbox) result) \<Rightarrow> string \<Rightarrow> Sandbox result" where
  "sandbox_Decode unmarshal d = (case unmarshal d of
     Inl e \<Rightarrow> Inl e
   | Inr (version, m) \<Rightarrow> if version = sandbox_metadataVersion then Inr m
       else Inl (Errorf [Lit ''unsupported version'']))"

lemma sandbox_Decode_Encode:
  assumes "\<And>v d. marshal v = Inr d \<Longrightarrow> unmarshal d = Inr v" and "sandbox_Encode marshal m = Inr d"
  shows "sandbox_Decode unmarshal d = Inr m"
proof -
  have "unmarshal d = Inr (sandbox_metadataVersion, m)" using assms by (simp add: sandbox_Encode_def)
  then show ?thesis by (simp add: sandbox_Decode_def)
qed

end
