(* ===== verification/Concurrency.thy ===== *)
theory Concurrency
  imports Sandbox_Remove Exec Runtime_Info
begin

text \<open>
  The service as a whole: at any moment any number of requests and the event monitor are running,
  and their atomic actions interleave arbitrarily (\<open>pool_step\<close>). \<open>goroutine env\<close> lists every
  handler of the service with every request. All of them keep to \<open>svc_step\<close>, so whatever
  \<open>svc_step\<close> guarantees holds for every interleaving.
\<close>

text \<open>A handler as a goroutine: its answer goes to the client.\<close>

definition spawned :: "('w, 'a) act \<Rightarrow> ('w st, (goerror, unit) outcome) proc" where
  "spawned m = bindE m (\<lambda>_. ret ())"

inductive goroutine :: "'w env \<Rightarrow> ('w st, (goerror, unit) outcome) proc \<Rightarrow> bool" for env where
  "goroutine env (spawned (RunPodSandbox env n config))"
| "goroutine env (spawned (StopPodSandbox env n rid))"
| "goroutine env (spawned (RemovePodSandbox env rid))"
| "goroutine env (spawned (PodSandboxStatus env rid))"
| "goroutine env (spawned (ListPodSandbox env pflt))"
| "goroutine env (spawned (CreateContainer env rid cconfig config))"
| "goroutine env (spawned (StartContainer env rid))"
| "goroutine env (StopContainer env n rid timeout)"
| "goroutine env (spawned (RemoveContainer env rid))"
| "goroutine env (spawned (ListContainers env cflt))"
| "goroutine env (spawned (ContainerStatus env rid))"
| "goroutine env (spawned (ExecSync env n rid cmd timeout))"
| "goroutine env (spawned (Exec env rid cmd tty stdin))"
| "goroutine env (spawned (streamRuntime_Exec env n rid cmd tty))"
| "goroutine env (spawned (PullImage env n ref auth))"
| "goroutine env (spawned (ListImages env))"
| "goroutine env (spawned (ImageStatus env ref))"
| "goroutine env (spawned (RemoveImage env ref))"
| "goroutine env (spawned (Status_handler env))"
| "goroutine env (spawned (Version env))"
| "goroutine env (startEventMonitor env m n)"

type_synonym 'w service = "('w st, (goerror, unit) outcome) pool"

abbreviation service_steps :: "'w env \<Rightarrow> 'w service \<Rightarrow> 'w service \<Rightarrow> bool" where
  "service_steps env \<equiv> (pool_step (goroutine env))\<^sup>*\<^sup>*"

lemma guar_spawned [guar_intros]: "guar svc_step m \<Longrightarrow> guar svc_step (spawned m)"
  by (auto simp: spawned_def intro!: guar_intros svc_guar)

lemma goroutine_guar: "goroutine env p \<Longrightarrow> guar svc_step p"
  by (induction rule: goroutine.induct) (auto intro!: guar_spawned svc_guar intro: guar_world_only)

section \<open>Every interleaving\<close>

lemma service_steps_rel:
  assumes "service_steps env (s, []) (s', ps)"
  shows "svc_rel s s'"
proof -
  have "pool_guar svc_step (s, [])" by (simp add: pool_guar_def)
  from pool_steps_guar [OF assms goroutine_guar this] show ?thesis by (simp add: svc_steps_rel)
qed

lemma service_pool_guar:
  assumes "service_steps env (s, []) c"
  shows "pool_guar svc_step c"
  using pool_steps_guar [OF assms goroutine_guar] by (simp add: pool_guar_def)

lemma reachable_inv:
  assumes "service_steps env (init_svc dir w, []) (s, ps)"
  shows "svc_inv s"
  using service_steps_rel [OF assms] by (simp add: svc_rel_def)

lemma statuses_follow_life:
  assumes "service_steps env (init_svc dir w, []) (s, ps)" and "service_steps env (s, ps) (s', ps')"
    and "i < length (statuses s)"
  shows "i < length (statuses s') \<and> status_step\<^sup>*\<^sup>* (statuses s ! i) (statuses s' ! i)"
proof -
  have "svc_step\<^sup>*\<^sup>* s s'"
    using pool_steps_guar [OF assms(2) goroutine_guar service_pool_guar [OF assms(1)]] by simp
  with assms(3) show ?thesis using svc_steps_status_at by blast
qed

end
