(* ===== verification/Stop_Concurrency.thy ===== *)
theory Stop_Concurrency
  imports Concurrency
begin

text \<open>
  Statuses and stops among other goroutines. \<open>pool_guar svc_step (s, ps)\<close> says that the goroutines \<open>ps\<close>
  that are running keep to the guarantee of the service, which every handler and the event monitor do
  (\<open>goroutine_guar\<close>) at every stage of their execution.
\<close>

section \<open>The life of a status\<close>

lemma pool_svc_steps:
  assumes "service_steps env c c'" and "pool_guar svc_step c"
  shows "svc_step\<^sup>*\<^sup>* (fst c) (fst c')"
  using pool_steps_guar [OF assms(1) goroutine_guar assms(2)] by simp

text \<open>
  C4: A container only moves forward, through created, running and exited, under every interleaving of
  requests and events; once it has exited, its process id, its times, its exit code and its message never
  change again.
\<close>

lemma statuses_move_forward:
  assumes "service_steps env (s, ps) (s', ps')" and "pool_guar svc_step (s, ps)" and "i < length (statuses s)"
  shows "i < length (statuses s') \<and> state_rank (State (statuses s ! i)) \<le> state_rank (State (statuses s' ! i)) \<and>
    st_CreatedAt (statuses s' ! i) = st_CreatedAt (statuses s ! i) \<and>
    (State (statuses s ! i) = CONTAINER_EXITED \<longrightarrow>
      State (statuses s' ! i) = CONTAINER_EXITED \<and> exit_record (statuses s' ! i) = exit_record (statuses s ! i))"
proof -
  have "svc_step\<^sup>*\<^sup>* s s'" using pool_svc_steps [OF assms(1,2)] by simp
  note life = svc_steps_status_at [OF this assms(3)]
  moreover have "st_CreatedAt st' = st_CreatedAt st" if "status_step\<^sup>*\<^sup>* st st'" for st st'
    using that by (induction rule: rtranclp_induct) (auto dest: status_step_created_at)
  ultimately show ?thesis using status_steps_rank status_steps_exit_record by blast
qed

section \<open>A successful stop\<close>


section \<open>An exit ends the wait\<close>

lemma itriple_absent:
  assumes "guar svc_step m"
  shows "itriple svc_step (\<lambda>s. svc_step\<^sup>*\<^sup>* s0 s \<and> absent_between cid s0 s) m
    (\<lambda>r s. svc_step\<^sup>*\<^sup>* s0 s \<and> absent_between cid s0 s)"
  unfolding itriple_def using irun_guar [OF _ assms] by (meson absent_between_trans(2) rtranclp_trans)

definition woken :: "string \<Rightarrow> 'w st \<Rightarrow> (goerror, unit) outcome \<Rightarrow> 'w st \<Rightarrow> bool" where
  "woken cid s0 r s \<longleftrightarrow> svc_step\<^sup>*\<^sup>* s0 s \<and> (r = Ok () \<or> absent_between cid s0 s)"

lemma stable_woken: "stable svc_step (woken cid s0 r)"
  unfolding stable_def woken_def by (meson absent_between_trans(2) r_into_rtranclp rtranclp.rtrancl_into_rtrancl)

lemma itriple_status_Get_exited:
  assumes c: "c_Status c = Some i" "i < length (statuses s0)" and exited: "State (statuses s0 ! i) = CONTAINER_EXITED"
  shows "itriple svc_step (found_since c cid s0 c') (status_Get c')
    (\<lambda>r s. svc_step\<^sup>*\<^sup>* s0 s \<and> (absent_between cid s0 s \<or> (\<exists>st. r = Ok st \<and> State st = CONTAINER_EXITED)))"
  unfolding status_Get_def
proof (rule itriple_atomic)
  fix s s' :: "'a st" and x
  assume f: "found_since c cid s0 c' s" and "(case c_Status c' of
       Some i \<Rightarrow> (if i < length (statuses s) then (Ok (statusStorage_Get (statuses s ! i)), s) else (Panic, s))
     | None \<Rightarrow> (Panic, s)) = (x, s')"
  moreover have "i < length (statuses s) \<and> State (statuses s ! i) = CONTAINER_EXITED" if "svc_step\<^sup>*\<^sup>* s0 s"
    using svc_steps_status_at [OF that c(2)] status_steps_exit_record exited by blast
  ultimately show "svc_step\<^sup>*\<^sup>* s0 s' \<and> (absent_between cid s0 s' \<or> (\<exists>st. x = Ok st \<and> State st = CONTAINER_EXITED))"
    using c by (auto simp: found_since_def statusStorage_Get_def split: option.splits if_splits)
next
  fix r :: "(goerror, Status) outcome"
  show "stable svc_step (\<lambda>s. svc_step\<^sup>*\<^sup>* s0 s \<and> (absent_between cid s0 s \<or> (\<exists>st. r = Ok st \<and> State st = CONTAINER_EXITED)))"
  proof (cases "\<exists>st. r = Ok st \<and> State st = CONTAINER_EXITED")
    case True
    then show ?thesis by simp
  next
    case False
    then show ?thesis by (simp only: simp_thms stable_absent)
  qed
qed simp

lemma wait_woken:
  assumes c: "map_of (containerStore s0) cid = Some c" "c_Status c = Some i" "i < length (statuses s0)"
    and exited: "State (statuses s0 ! i) = CONTAINER_EXITED"
  shows "itriple svc_step (\<lambda>s. svc_step\<^sup>*\<^sup>* s0 s) (waitContainerStop env (Suc fuel) cid tm) (woken cid s0)"
proof -
  let ?M = "\<lambda>x s. case x of Inr c' \<Rightarrow> found_since c cid s0 c' s
         | Inl e \<Rightarrow> svc_step\<^sup>*\<^sup>* s0 s \<and> absent_between cid s0 s"
  let ?N = "\<lambda>st s. svc_step\<^sup>*\<^sup>* s0 s \<and> (absent_between cid s0 s \<or> State st = CONTAINER_EXITED)"
  have gone: "itriple svc_step (\<lambda>s. svc_step\<^sup>*\<^sup>* s0 s \<and> absent_between cid s0 s) m (woken cid s0)"
    if "guar svc_step m" for m
    by (rule itriple_weaken [OF itriple_absent [OF that]]) (auto simp: woken_def)
  have ok: "itriple svc_step (\<lambda>s. svc_step\<^sup>*\<^sup>* s0 s) (ret ()) (woken cid s0)"
    unfolding ret_def by (rule itriple_Ret) (simp_all add: woken_def)
  have rest: "itriple svc_step (?N st) (if State st = CONTAINER_EXITED then ret () else bindE (ext_val (select_wait env tm)) (\<lambda>sel.
      if sel = Tick then waitContainerStop env fuel cid tm else fail (wait_timeout cid sel))) (woken cid s0)" for st
  proof (cases "State st = CONTAINER_EXITED")
    case True
    then show ?thesis using itriple_weaken [OF ok] by simp
  next
    case False
    have "guar svc_step (bindE (ext_val (select_wait env tm)) (\<lambda>sel.
      if sel = Tick then waitContainerStop env fuel cid tm else fail (wait_timeout cid sel)))"
      by (auto intro!: guar_intros svc_guar)
    from gone [OF this] False show ?thesis by simp
  qed
  have round: "itriple svc_step (found_since c cid s0 c') (wait_round env cid tm (waitContainerStop env fuel cid tm) c')
      (woken cid s0)" for c'
    unfolding wait_round_def
    by (rule itriple_bindE [where M = ?N, OF itriple_weaken [OF itriple_status_Get_exited [OF c(2,3) exited]] rest stable_woken])
      (auto simp: woken_def split: outcome.split)
  show ?thesis
    unfolding waitContainerStop.simps
  proof (rule itriple_tryE [where M = ?M, OF itriple_weaken [OF itriple_cstore_Get [OF c(1)]] _ stable_woken])
    show "itriple svc_step (?M x) (case x of Inl e \<Rightarrow> if e \<noteq> StoreNotExist
         then fail (Errorf [Lit ''failed to get container '', Q cid, Lit '': '', V e]) else ret ()
       | Inr container \<Rightarrow> wait_round env cid tm (waitContainerStop env fuel cid tm) container) (woken cid s0)" for x
      by (cases x) (auto intro!: round gone svc_guar)
  qed (auto split: outcome.splits)
qed


section \<open>Stopping a pod\<close>

lemma irun_bindE_Ok:
  assumes "irun R (bindE m k) s (Ok y) t"
  obtains x u where "irun R m s (Ok x) u" "irun R (k x) u (Ok y) t"
  using irun_bindE [OF assms]
proof (elim exE conjE)
  fix x u
  assume "irun R m s x u" and "case x of Ok z \<Rightarrow> irun R (k z) u (Ok y) t | Err e \<Rightarrow> Ok y = Err e \<and> R\<^sup>*\<^sup>* u t
      | Panic \<Rightarrow> Ok y = Panic \<and> R\<^sup>*\<^sup>* u t | Diverge \<Rightarrow> Ok y = Diverge \<and> R\<^sup>*\<^sup>* u t"
  then show thesis by (cases x) (auto intro: that)
qed

lemma irun_wrap_err_Ok:
  assumes "irun R (wrap_err w m) s (Ok y) t"
  obtains u where "irun R m s (Ok y) u" "R\<^sup>*\<^sup>* u t"
proof -
  from irun_wrap_err [OF assms] obtain x u where "irun R m s x u" "Ok y = (case x of Err e \<Rightarrow> Err (w e) | _ \<Rightarrow> x)"
    "R\<^sup>*\<^sup>* u t" by blast
  then show thesis by (cases x) (auto intro: that)
qed

text \<open>A loop that succeeds has run its body on every element, successfully.\<close>

lemma irun_forE_Ok:
  assumes "irun R (forE xs body) s (Ok ()) t" and "x \<in> set xs" and "\<And>y. guar R (body y)"
  shows "\<exists>u v. R\<^sup>*\<^sup>* s u \<and> irun R (body x) u (Ok ()) v \<and> R\<^sup>*\<^sup>* v t"
  using assms(1,2)
proof (induction xs arbitrary: s)
  case (Cons y ys)
  from Cons.prems(1) obtain u where y: "irun R (body y) s (Ok ()) u" and ys: "irun R (forE ys body) u (Ok ()) t"
    by (auto elim: irun_bindE_Ok)
  have su: "R\<^sup>*\<^sup>* s u" and ut: "R\<^sup>*\<^sup>* u t"
    using irun_guar [OF y assms(3)] irun_guar [OF ys guar_forE [OF assms(3)]] by simp_all
  show ?case
  proof (cases "x = y")
    case True
    with y ut show ?thesis by blast
  next
    case False
    with Cons.prems(2) Cons.IH [OF ys] obtain u' v where "R\<^sup>*\<^sup>* u u'" "irun R (body x) u' (Ok ()) v" "R\<^sup>*\<^sup>* v t" by auto
    with su show ?thesis by (meson rtranclp_trans)
  qed
qed simp

text \<open>Every entry is in the list of the store, or is gone in the meantime.\<close>

lemma irun_cstore_List:
  assumes "irun svc_step (cstore_List env) s (Ok cs) t" and "\<And>w. is_order (fst (map_order env w))"
    and "svc_inv s" and "map_of (containerStore s) cid = Some c"
  shows "svc_step\<^sup>*\<^sup>* s t \<and> (c \<in> set cs \<or> absent_between cid s t)"
proof -
  have step: "svc_step\<^sup>*\<^sup>* s t"
    using irun_guar [OF assms(1) guar_world_only [OF world_lists(1)]] .
  from assms(1) [unfolded cstore_List_def] obtain ord u where
    o: "irun svc_step (ext_val (map_order env)) s (Ok ord) u" and
    l: "irun svc_step (gets (\<lambda>s. containerStore_List ord (containerStore s))) u (Ok cs) t"
    by (rule irun_bindE_Ok)
  have su: "svc_step\<^sup>*\<^sup>* s u" using irun_guar [OF o guar_world_only [OF world_leaves(2)]] .
  have ord: "is_order ord" using o assms(2)
    by (auto simp: ext_val_def dest!: irun_atomic split: prod.splits) (metis fst_conv)
  from l obtain v where v: "svc_step\<^sup>*\<^sup>* u v" "cs = containerStore_List ord (containerStore v)" "svc_step\<^sup>*\<^sup>* v t"
    by (auto simp: gets_def dest!: irun_atomic)
  have sv: "svc_step\<^sup>*\<^sup>* s v" using su v(1) by simp
  from svc_steps_entry [OF this assms(4)] show ?thesis
  proof
    assume "map_of (containerStore v) cid = Some c"
    moreover have "containers_inv (containerStore v)"
      using svc_steps_rel [OF sv] assms(3) by (simp add: svc_rel_def svc_inv_def)
    ultimately have "c \<in> set cs" using ord v(2)
      by (auto simp: containerStore_List_def set_range_values containers_inv_def intro: ranI)
    with step show ?thesis by simp
  next
    assume "absent_between cid s v"
    with step v(3) show ?thesis by (auto intro: absent_between_trans(2))
  qed
qed

lemma irun_sbstore_Get:
  assumes "irun svc_step (wrap_err w (sbstore_Get rid)) s (Ok sb) t" and "svc_inv s"
  shows "svc_step\<^sup>*\<^sup>* s t \<and> sb_ID sb = rid"
proof -
  have t: "svc_step\<^sup>*\<^sup>* s t" using irun_guar [OF assms(1) guar_wrap_err [OF guar_world_only [OF world_leaves(8)]]] .
  from assms(1) obtain u where "irun svc_step (sbstore_Get rid) s (Ok sb) u" by (rule irun_wrap_err_Ok)
  then obtain v where v: "svc_step\<^sup>*\<^sup>* s v" "sandboxStore_Get rid (sandboxStore v) = Inr sb"
    by (auto simp: sbstore_Get_def of_result_def dest!: irun_atomic split: sum.splits)
  have "sandboxes_inv (sandboxStore v)" using svc_steps_rel [OF v(1)] assms(2) by (simp add: svc_rel_def svc_inv_def)
  with v(2) t show ?thesis by (auto simp: sandboxStore_Get_def dest: sandboxes_invD split: option.splits)
qed

lemma stopContainer_since:
  assumes "irun svc_step (stopContainer env fuel c 0) u (Ok ()) v" and su: "svc_step\<^sup>*\<^sup>* s u" and inv: "svc_inv s"
    and c: "map_of (containerStore s) cid = Some c" "c_Status c = Some i" "i < length (statuses s)"
    and running: "State (statuses s ! i) = CONTAINER_RUNNING"
  shows "stopped_since cid i s v"
proof -
  have "c_ID c = cid" using inv c(1) by (auto simp: svc_inv_def dest: containers_invD)
  from itripleD [OF stopContainer_exited [OF c this running] su assms(1)] show ?thesis by (simp add: stop_post_def)
qed

lemma pod_containers:
  assumes sb: "irun svc_step (wrap_err w (sbstore_Get rid)) s (Ok sb) u1" and cs: "irun svc_step (cstore_List env) u1 (Ok cs) u2"
    and inv: "svc_inv s" and order: "\<And>w. is_order (fst (map_order env w))" and c: "map_of (containerStore s) cid = Some c"
  shows "svc_step\<^sup>*\<^sup>* s u2 \<and> (c \<in> set cs \<or> absent_between cid s u2) \<and> sb_ID sb = rid"
proof -
  from irun_sbstore_Get [OF sb inv] have s1: "svc_step\<^sup>*\<^sup>* s u1" and rid: "sb_ID sb = rid" by simp_all
  have s12: "svc_step\<^sup>*\<^sup>* u1 u2" using irun_guar [OF cs guar_world_only [OF world_lists(1)]] .
  from svc_steps_entry [OF s1 c] show ?thesis
  proof
    assume "map_of (containerStore u1) cid = Some c"
    moreover have "svc_inv u1" using svc_steps_rel [OF s1] inv by (simp add: svc_rel_def)
    ultimately show ?thesis
      using irun_cstore_List [OF cs order, of cid c] s1 s12 rid by (auto intro: absent_between_trans(1))
  next
    assume "absent_between cid s u1"
    with s1 s12 rid show ?thesis by (auto intro: absent_between_trans(2))
  qed
qed

lemma stop_containers_since:
  assumes stop: "irun svc_step (stop_containers env fuel sid cs) u (Ok ()) v" and su: "svc_step\<^sup>*\<^sup>* s u" and inv: "svc_inv s"
    and c: "map_of (containerStore s) cid = Some c" "c_Status c = Some i" "i < length (statuses s)" "c_SandboxID c = sid"
    and running: "State (statuses s ! i) = CONTAINER_RUNNING" and listed: "c \<in> set cs \<or> absent_between cid s u"
  shows "stopped_since cid i s v"
  using listed
proof
  assume "c \<in> set cs"
  with stop obtain u1 v1 where u1: "svc_step\<^sup>*\<^sup>* u u1" and body: "irun svc_step (if c_SandboxID c \<noteq> sid then ret ()
     else wrap_err (\<lambda>e. Errorf [Lit ''failed to stop container '', Q (c_ID c), Lit '': '', V e])
            (stopContainer env fuel c 0)) u1 (Ok ()) v1" and v: "svc_step\<^sup>*\<^sup>* v1 v"
    unfolding stop_containers_def by (auto intro!: guar_intros svc_guar intro: guar_world_only dest!: irun_forE_Ok)
  from body c(4) obtain v0 where v0: "irun svc_step (stopContainer env fuel c 0) u1 (Ok ()) v0" "svc_step\<^sup>*\<^sup>* v0 v1"
    by (auto elim: irun_wrap_err_Ok)
  have "stopped_since cid i s v0"
    by (rule stopContainer_since [OF v0(1) _ inv c(1,2,3) running]) (use su u1 in simp)
  moreover have "svc_step\<^sup>*\<^sup>* v0 v" using v0(2) v by simp
  ultimately show ?thesis using stable_rtranclp [OF _ stable_stopped_since [OF c(3)]] by blast
next
  assume "absent_between cid s u"
  moreover have "svc_step\<^sup>*\<^sup>* u v" using irun_guar [OF stop guar_world_only [OF sandbox_stop_world(3)]] .
  ultimately show ?thesis using su by (auto simp: stopped_since_def intro: absent_between_trans(2))
qed

lemma StopPodSandbox_phases:
  assumes "irun svc_step (StopPodSandbox env fuel rid) s (Ok ()) t"
  obtains w sb u1 cs u2 u3 where "irun svc_step (wrap_err w (sbstore_Get rid)) s (Ok sb) u1"
    "irun svc_step (cstore_List env) u1 (Ok cs) u2" "irun svc_step (stop_containers env fuel (sb_ID sb) cs) u2 (Ok ()) u3"
    "svc_step\<^sup>*\<^sup>* u3 t"
proof -
  from assms [unfolded StopPodSandbox_def Let_def seqE_def] show thesis
    apply (rule irun_bindE_Ok)
    apply (erule irun_bindE_Ok)
    apply (erule irun_bindE_Ok)
    apply (rule that, assumption, assumption, simp)
    apply (erule irun_guar)
    by (auto intro!: guar_intros svc_guar)
qed


end
