(* ===== verification/Daemon.thy ===== *)
theory Daemon
  imports Concurrency
begin

text \<open>
  The start of the program: the command line options (\<^verbatim>\<open>cmd/cri-containerd/options\<close>), the construction and
  the start of the service (\<^verbatim>\<open>pkg/server/service.go\<close>, \<^verbatim>\<open>newStreamServer\<close> of \<^verbatim>\<open>streaming.go\<close>), the gRPC server
  (\<^verbatim>\<open>pkg/server/server.go\<close>) and the main function (\<^verbatim>\<open>cmd/cri-containerd/cri_containerd.go\<close>). What they call
  outside is the record \<open>boot\<close>. Before there is a service the state is the world alone; from then on
  the program is the pool of goroutines of \<open>Concurrency\<close>, and \<open>main_reachable\<close> shows that every state of
  a daemon that came up satisfies the invariant of the service.
\<close>

section \<open>Options\<close>

record CRIContainerdOptions =
  op_SocketPath :: string
  op_RootDir :: string
  op_PrintVersion :: bool
  op_ContainerdEndpoint :: string
  op_ContainerdConnectionTimeout :: int64
  op_NetworkPluginBinDir :: string
  op_NetworkPluginConfDir :: string
  op_StreamServerAddress :: string
  op_StreamServerPort :: string

definition default_options :: CRIContainerdOptions where
  "default_options = \<lparr>op_SocketPath = ''/var/run/cri-containerd.sock'', op_RootDir = ''/var/lib/cri-containerd'',
     op_PrintVersion = False, op_ContainerdEndpoint = ''/run/containerd/containerd.sock'',
     op_ContainerdConnectionTimeout = 120 * time_Second, op_NetworkPluginBinDir = ''/etc/cni/net.d'',
     op_NetworkPluginConfDir = ''/opt/cni/bin'', op_StreamServerAddress = '''', op_StreamServerPort = ''10010''\<rparr>"

section \<open>The outside of the start\<close>

record 'w boot =
  containerd_New :: "string \<Rightarrow> string \<Rightarrow> ('w, unit) call"
  ocicni_InitCNI :: "string \<Rightarrow> string \<Rightarrow> ('w, unit) call"
  k8snet_ChooseBindAddress :: "('w, string) call"
  streaming_NewServer :: "string \<Rightarrow> ('w, unit) call"
  streamServer_Start :: "('w, unit) call"
  syscall_Unlink :: "string \<Rightarrow> ('w, unit) call"
  net_Listen :: "string \<Rightarrow> string \<Rightarrow> ('w, handle) call"
  grpc_Serve :: "handle \<Rightarrow> ('w, unit) call"

definition boot_call :: "('w, 'a) call \<Rightarrow> ('w, goerror, 'a) go" where
  "boot_call f = atomic (\<lambda>w. case f w of (r, w') \<Rightarrow> (of_result r, w'))"

section \<open>The service\<close>

definition net_JoinHostPort :: "string \<Rightarrow> string \<Rightarrow> string" where
  "net_JoinHostPort host port =
     (if CHR '':'' \<in> set host then ''['' @ host @ '']:'' @ port else host @ '':'' @ port)"

definition newStreamServer :: "'w boot \<Rightarrow> string \<Rightarrow> string \<Rightarrow> ('w, goerror, unit) go" where
  "newStreamServer bt addr port =
     bindE (if addr = '''' then
              wrap_err (\<lambda>e. Errorf [Lit ''failed to get stream server address: '', V e])
                (boot_call (k8snet_ChooseBindAddress bt))
            else Ret (Ok addr)) (\<lambda>a.
     boot_call (streaming_NewServer bt (net_JoinHostPort a port)))"

definition k8sContainerdNamespace :: string where "k8sContainerdNamespace = ''k8s.io''"

text \<open>The clients of containerd are fields of the environment of the handlers; what is left of the
  construction are its three calls and the empty stores.\<close>

definition connect_service :: "'w boot \<Rightarrow> string \<Rightarrow> string \<Rightarrow> string \<Rightarrow> string \<Rightarrow> string \<Rightarrow> ('w, goerror, unit) go" where
  "connect_service bt containerdEndpoint networkPluginBinDir networkPluginConfDir streamAddress streamPort =
     seqE (wrap_err (\<lambda>e. Errorf [Lit ''failed to initialize containerd client with endpoint '', Q containerdEndpoint, Lit '': '', V e])
            (boot_call (containerd_New bt containerdEndpoint k8sContainerdNamespace)))
     (seqE (wrap_err (\<lambda>e. Errorf [Lit ''failed to initialize cni plugin: '', V e])
             (boot_call (ocicni_InitCNI bt networkPluginBinDir networkPluginConfDir)))
       (wrap_err (\<lambda>e. Errorf [Lit ''failed to create stream server: '', V e])
         (newStreamServer bt streamAddress streamPort)))"

definition NewCRIContainerdService :: "'w boot \<Rightarrow> string \<Rightarrow> string \<Rightarrow> string \<Rightarrow> string \<Rightarrow> string \<Rightarrow> string
    \<Rightarrow> 'w \<Rightarrow> (goerror, 'w st) outcome" where
  "NewCRIContainerdService bt containerdEndpoint dir networkPluginBinDir networkPluginConfDir streamAddress streamPort w =
     (case run (connect_service bt containerdEndpoint networkPluginBinDir networkPluginConfDir streamAddress streamPort) w of
        (r, w') \<Rightarrow> (case r of Ok _ \<Rightarrow> Ok (init_svc dir w') | Err e \<Rightarrow> Err e | Panic \<Rightarrow> Panic | Diverge \<Rightarrow> Diverge))"

text \<open>The goroutines that \<open>Start\<close> spawns; \<open>m\<close> and \<open>n\<close> bound the rounds of the event monitor.\<close>

definition Start :: "'w boot \<Rightarrow> 'w env \<Rightarrow> nat \<Rightarrow> nat \<Rightarrow> ('w, unit) act list" where
  "Start bt env m n = [startEventMonitor env m n, log_error (ext (streamServer_Start bt))]"

section \<open>The server and the main function\<close>

definition unixProtocol :: string where "unixProtocol = ''unix''"

definition CRIContainerdServer_Run :: "'w boot \<Rightarrow> string \<Rightarrow> ('w, unit) act" where
  "CRIContainerdServer_Run bt addr =
     seqE (tolerate os_IsNotExist (\<lambda>e. Errorf [Lit ''failed to unlink socket file '', Q addr, Lit '': '', V e])
            (ext (syscall_Unlink bt addr)))
     (bindE (wrap_err (\<lambda>e. Errorf [Lit ''failed to listen on '', Q addr, Lit '': '', V e])
              (ext (net_Listen bt unixProtocol addr))) (\<lambda>l.
      ext (grpc_Serve bt l)))"

text \<open>A version that does not parse is printed too, after the error.\<close>

definition validateSemver :: "(string \<Rightarrow> unit result) \<Rightarrow> string \<Rightarrow> unit result" where
  "validateSemver semver_Parse sv = (case semver_Parse sv of
     Inl e \<Rightarrow> Inl (Errorf [Lit ''couldn't parse cri-containerd version '', Q sv, Lit '': '', V e])
   | Inr _ \<Rightarrow> Inr ())"

definition PrintVersion :: "(string \<Rightarrow> unit result) \<Rightarrow> string \<Rightarrow> string list" where
  "PrintVersion semver_Parse criContainerdVersion =
     (case validateSemver semver_Parse criContainerdVersion of Inl e \<Rightarrow> [error_text e] | Inr _ \<Rightarrow> []) @ [criContainerdVersion]"

text \<open>What the main function leads to: the printed version, the error that ends the process, or the running
  service with its goroutines, the last of which is the main one.\<close>

datatype 'w launch = Printed "string list" | Exitf "(goerror, unit) outcome" | Serving "'w service"

definition main :: "'w boot \<Rightarrow> 'w env \<Rightarrow> (string \<Rightarrow> unit result) \<Rightarrow> string \<Rightarrow> nat \<Rightarrow> nat \<Rightarrow> CRIContainerdOptions \<Rightarrow> 'w \<Rightarrow> 'w launch" where
  "main bt env semver_Parse criContainerdVersion m n opts w =
     (if op_PrintVersion opts then Printed (PrintVersion semver_Parse criContainerdVersion)
      else case NewCRIContainerdService bt (op_ContainerdEndpoint opts) (op_RootDir opts) (op_NetworkPluginBinDir opts)
          (op_NetworkPluginConfDir opts) (op_StreamServerAddress opts) (op_StreamServerPort opts) w of
        Ok s \<Rightarrow> Serving (s, Start bt env m n @
          [wrap_err (\<lambda>e. Errorf [Lit ''Failed to run cri-containerd grpc server: '', V e])
            (CRIContainerdServer_Run bt (op_SocketPath opts))])
      | Err e \<Rightarrow> Exitf (Err e) | Panic \<Rightarrow> Exitf Panic | Diverge \<Rightarrow> Exitf Diverge)"

section \<open>The daemon keeps the invariant\<close>

lemma start_guar: "p \<in> set (Start bt env m n) \<Longrightarrow> guar svc_step p"
  by (auto simp: Start_def log_error_def intro!: guar_intros svc_guar)

lemma Run_guar: "guar svc_step (CRIContainerdServer_Run bt addr)"
  unfolding CRIContainerdServer_Run_def by (auto intro!: guar_intros svc_guar simp: tolerate_def split: sum.split)

text \<open>
  C1: A daemon that came up never leaves the invariant of the service: whatever requests arrive, in whatever
  interleaving with the event monitor, the streaming server and the main goroutine, every state that is
  reached from what the main function starts satisfies the invariant, and the root directory stays
  the one of the options. The invariant: the two name indices are partial bijections between names and ids, the
  container, sandbox and image stores hold every object under its own id, and no container is in the
  running state while its removal is in progress.
\<close>

lemma main_reachable:
  assumes "main bt env sv v m n opts w = Serving c" and "service_steps env c (s, ps)"
  shows "svc_inv s \<and> rootDir s = op_RootDir opts"
proof -
  from assms(1) obtain w' where c: "c = (init_svc (op_RootDir opts) w', Start bt env m n @
      [wrap_err (\<lambda>e. Errorf [Lit ''Failed to run cri-containerd grpc server: '', V e])
        (CRIContainerdServer_Run bt (op_SocketPath opts))])"
    by (auto simp: main_def NewCRIContainerdService_def split: if_splits outcome.splits prod.splits)
  have "pool_guar svc_step c"
    using start_guar by (auto simp: c pool_guar_def intro!: guar_intros Run_guar)
  from pool_steps_guar [OF assms(2) goroutine_guar this] have "svc_rel (init_svc (op_RootDir opts) w') s"
    by (simp add: c svc_steps_rel)
  then show ?thesis by (simp add: svc_rel_def) (simp add: init_svc_def)
qed

section \<open>The socket\<close>

text \<open>The server listens only when the old socket is gone; any other error of unlinking ends it.\<close>

lemma Run_stale_socket:
  assumes "syscall_Unlink bt addr (world s) = (Inl e, w)"
  shows "run (CRIContainerdServer_Run bt addr) s = (if os_IsNotExist e
     then run (bindE (wrap_err (\<lambda>e. Errorf [Lit ''failed to listen on '', Q addr, Lit '': '', V e])
              (ext (net_Listen bt unixProtocol addr))) (\<lambda>l. ext (grpc_Serve bt l))) (s\<lparr>world := w\<rparr>)
     else (Err (Errorf [Lit ''failed to unlink socket file '', Q addr, Lit '': '', V e]), s\<lparr>world := w\<rparr>))"
  using assms by (simp add: CRIContainerdServer_Run_def run_seqE run_tolerate ext_def of_result_def)

text \<open>The address of the streaming server is looked up only when the options give none.\<close>

lemma newStreamServer_given:
  "addr \<noteq> '''' \<Longrightarrow> newStreamServer bt addr port = boot_call (streaming_NewServer bt (net_JoinHostPort addr port))"
  by (simp add: newStreamServer_def bindE_def)

end
