(* ===== verification/Logger.thy ===== *)
theory Logger
  imports Go_Text
begin

text \<open>
  \<^verbatim>\<open>pkg/server/agents/logger.go\<close>: the goroutine that copies a container's output into its log
  file. Every line becomes one record, a time stamp, the stream name and the line; a line that is
  longer than the read buffer becomes several records. The reader is \<open>bufio.Reader.ReadLine\<close> of a
  reader with that buffer sz. The buffer sz is chosen so that a record never exceeds the sz
  up to which a write is atomic: \<open>redirectLogs_atomic\<close>.
\<close>

definition pipeBufSize :: nat where "pipeBufSize = 4096"

definition timestampFormat :: string where "timestampFormat = ''2006-01-02T15:04:05.999999999Z07:00''"

definition Stdout :: string where "Stdout = ''stdout''"
definition Stderr :: string where "Stderr = ''stderr''"

definition bufSize :: nat where
  "bufSize = pipeBufSize - length timestampFormat - length Stdout - 2 - 1"

definition LF :: char where "LF = char_of (10 :: nat)"
definition CR :: char where "CR = char_of (13 :: nat)"

definition drop_CR :: "string \<Rightarrow> string" where
  "drop_CR line = (if line \<noteq> [] \<and> last line = CR then butlast line else line)"

text \<open>One \<open>ReadLine\<close> on the bytes that are still to come: the line and the rest, or the end of
  the input. Inside the buffer the line ends at its line feed, and a carriage return before it is
  dropped. A full buffer without a line feed is returned as it is, except that a carriage return
  at its end is kept for the next read.\<close>

definition ReadLine :: "nat \<Rightarrow> string \<Rightarrow> (string \<times> string) option" where
  "ReadLine sz s =
     (if s = [] then None
      else let chunk = take sz s; line = takeWhile (\<lambda>c. c \<noteq> LF) chunk in
        if LF \<in> set chunk then Some (drop_CR line, drop (Suc (length line)) s)
        else if sz \<le> length s then
          (if last chunk = CR then Some (butlast chunk, drop (sz - 1) s) else Some (chunk, drop sz s))
        else Some (chunk, []))"

lemma ReadLine_shorter:
  assumes "ReadLine sz s = Some (line, rest)" and "2 \<le> sz"
  shows "length rest < length s"
  using assms by (auto simp: ReadLine_def Let_def split: if_splits)

text \<open>The records of an input; \<open>ts k\<close> is the time stamp of the \<open>k\<close>th one. A write error is logged
  and the loop goes on, so the records do not depend on it.\<close>

definition log_record :: "string \<Rightarrow> string \<Rightarrow> string \<Rightarrow> string" where
  "log_record timestamp stream line = strings_Join [timestamp, stream, line] '' '' @ [LF]"

function (sequential) redirect_from :: "nat \<Rightarrow> string \<Rightarrow> (nat \<Rightarrow> string) \<Rightarrow> nat \<Rightarrow> string \<Rightarrow> string list" where
  "redirect_from sz stream ts k s =
     (if sz < 2 then [] else case ReadLine sz s of
        None \<Rightarrow> []
      | Some (line, rest) \<Rightarrow> log_record (ts k) stream line # redirect_from sz stream ts (Suc k) rest)"
  by pat_completeness auto
termination
  by (relation "measure (\<lambda>(sz, stream, ts, k, s). length s)") (auto dest: ReadLine_shorter)

declare redirect_from.simps [simp del]

definition redirectLogs :: "string \<Rightarrow> (nat \<Rightarrow> string) \<Rightarrow> string \<Rightarrow> string list" where
  "redirectLogs stream ts input = redirect_from bufSize stream ts 0 input"

section \<open>Properties\<close>

lemma bufSize_eq: "bufSize = 4052"
  by (simp add: bufSize_def pipeBufSize_def timestampFormat_def Stdout_def)

lemma ReadLine_length:
  assumes "ReadLine sz s = Some (line, rest)"
  shows "length line \<le> sz"
proof -
  have "length (takeWhile (\<lambda>c. c \<noteq> LF) (take sz s)) \<le> sz"
    using length_takeWhile_le [of "\<lambda>c. c \<noteq> LF" "take sz s"] by simp
  with assms show ?thesis
    by (auto simp: ReadLine_def Let_def drop_CR_def split: if_splits)
qed

lemma log_record_length:
  "length (log_record t stream line) = length t + length stream + length line + 3"
  by (simp add: log_record_def)

lemma redirect_from_bound:
  "r \<in> set (redirect_from sz stream ts k s) \<Longrightarrow> \<forall>k. length (ts k) \<le> n \<Longrightarrow>
   length r \<le> n + length stream + sz + 3"
proof (induction sz stream ts k s rule: redirect_from.induct)
  case (1 sz stream ts k s)
  from 1(2) obtain line rest where sz: "\<not> sz < 2" and l: "ReadLine sz s = Some (line, rest)"
    and r: "r = log_record (ts k) stream line \<or> r \<in> set (redirect_from sz stream ts (Suc k) rest)"
    using redirect_from.simps [of sz stream ts k s] by (auto split: if_splits option.splits)
  from r show ?case
  proof
    assume "r = log_record (ts k) stream line"
    with ReadLine_length [OF l] 1(3) show ?thesis
      by (simp add: log_record_length) (metis add_mono add.commute add.assoc)
  next
    assume "r \<in> set (redirect_from sz stream ts (Suc k) rest)"
    with 1(1) sz l 1(3) show ?thesis by blast
  qed
qed

text \<open>
  C25: A record of the container log never exceeds the size up to which a pipe write is atomic,
  so the records of standard output and standard error, which two goroutines append to one file,
  do not interleave. The time stamp is at most as long as its format.
\<close>

lemma redirectLogs_atomic:
  assumes "r \<in> set (redirectLogs stream ts input)" and "stream = Stdout \<or> stream = Stderr"
    and "\<forall>k. length (ts k) \<le> length timestampFormat"
  shows "length r \<le> pipeBufSize"
proof -
  have "length stream = 6" using assms(2) by (auto simp: Stdout_def Stderr_def)
  with redirect_from_bound [OF assms(1) [unfolded redirectLogs_def] assms(3)] show ?thesis
    by (simp add: bufSize_eq pipeBufSize_def timestampFormat_def)
qed

text \<open>Short lines are copied one by one.\<close>

lemma ReadLine_short:
  assumes "LF \<notin> set l" and "CR \<notin> set l" and "length l < sz"
  shows "ReadLine sz (l @ LF # rest) = Some (l, rest)"
proof -
  obtain m where m: "sz - length l = Suc m" using assms(3) by (metis Suc_diff_Suc)
  then have chunk: "take sz (l @ LF # rest) = l @ LF # take m rest" using assms(3) by simp
  then have line: "takeWhile (\<lambda>c. c \<noteq> LF) (take sz (l @ LF # rest)) = l"
    using assms(1) by (simp add: takeWhile_append takeWhile_eq_all_conv)
  have "drop_CR l = l" unfolding drop_CR_def using assms(2) by (metis last_in_set)
  moreover have "LF \<in> set (take sz (l @ LF # rest))" unfolding chunk by simp
  ultimately show ?thesis unfolding ReadLine_def Let_def line
    by (simp only: if_True if_False append_is_Nil_conv list.distinct conj_assoc simp_thms drop_append) simp
qed

lemma redirect_from_lines:
  assumes "\<forall>l \<in> set ls. LF \<notin> set l \<and> CR \<notin> set l \<and> length l < sz" and "2 \<le> sz"
  shows "redirect_from sz stream ts k (concat (map (\<lambda>l. l @ [LF]) ls))
    = map (\<lambda>(i, l). log_record (ts i) stream l) (enumerate k ls)"
  using assms(1)
proof (induction ls arbitrary: k)
  case Nil
  then show ?case by (simp add: redirect_from.simps ReadLine_def)
next
  case (Cons l ls)
  then have "ReadLine sz (l @ LF # concat (map (\<lambda>l. l @ [LF]) ls)) = Some (l, concat (map (\<lambda>l. l @ [LF]) ls))"
    by (intro ReadLine_short) auto
  with Cons assms(2) show ?case
    by (subst redirect_from.simps) simp
qed

text \<open>
  C26: Lines that fit in the read buffer and contain no carriage return are logged one by one, in
  their order and with nothing lost, each with its own time stamp.
\<close>

lemma redirectLogs_lines:
  assumes "\<forall>l \<in> set ls. LF \<notin> set l \<and> CR \<notin> set l \<and> length l < bufSize"
  shows "redirectLogs stream ts (concat (map (\<lambda>l. l @ [LF]) ls))
    = map (\<lambda>(i, l). log_record (ts i) stream l) (enumerate 0 ls)"
  unfolding redirectLogs_def by (rule redirect_from_lines [OF assms]) (simp add: bufSize_eq)

end
