(* ===== verification/Pipe_Cleanup.thy ===== *)
theory Pipe_Cleanup
  imports Real_Os Container_Start
begin

text \<open>
  The streaming pipes as resources: opening them yields all of them or none, and the deferred
  close of a failed start gives all of them back. With that, a failed start of a container
  (\<open>start_task\<close>) leaves no task and no open pipe behind.
\<close>

definition pipe_handles :: "(string \<times> handle) list \<Rightarrow> resource set" where
  "pipe_handles ps = RHandle ` ran (map_of ps)"

lemma pipe_handles_Nil [simp]: "pipe_handles [] = {}"
  by (simp add: pipe_handles_def)

lemma pipe_handles_set:
  "t \<notin> set (keys_of ps) \<Longrightarrow> pipe_handles (mset_key t h ps) = insert (RHandle h) (pipe_handles ps)"
  by (simp add: pipe_handles_def map_of_eq_None_iff)

text \<open>
  How opening the pipes of \<open>xs\<close> besides the open ones \<open>ps\<close> may end, where \<open>R\<close> and \<open>x\<close> are what is held apart from
  pipes: with all of them open, or with an error and none.
\<close>

definition opened where
  "opened res R x ps xs r s' \<longleftrightarrow> (case r of
      Ok ps' \<Rightarrow> held res s' = (R \<union> pipe_handles ps', x) \<and> R \<inter> pipe_handles ps' = {} \<and>
        set (keys_of ps') \<subseteq> set (keys_of ps) \<union> set (map fst (filter (\<lambda>(t, p, f). p \<noteq> '''') xs))
    | Err e \<Rightarrow> held res s' = (R \<union> pipe_handles ps, x) | _ \<Rightarrow> True)"

lemma OpenFifo_acquires:
  assumes "file_laws res env" and "os_OpenFifo env path flag 448 (world s) = (v, w)"
  shows "case v of Inr h \<Rightarrow> res w = insert (RHandle h) (res (world s)) \<and> RHandle h \<notin> res (world s)
    | Inl e \<Rightarrow> res w = res (world s)"
  using spec [OF file_lawsD(1) [OF assms(1), of path flag 448, unfolded call_acquires_def], of "world s"]
    assms(2) file_lawsD(6) [OF assms(1), of path flag 448 "world s"]
  by (cases v) simp_all

text \<open>One pipe is open and the others are next: when they fail, the deferred close gives this one back.\<close>

lemma opened_on_error:
  assumes laws: "file_laws res env" and t: "t \<notin> set (keys_of ps)" and new: "RHandle h \<notin> R \<union> pipe_handles ps"
    and rest: "run m s = (q, s2)" and IH: "opened res R x (mset_key t h ps) xs q s2"
    and run: "run (on_error m (ext (os_Close env h))) s = (r, s')" and path: "path \<noteq> ''''"
  shows "opened res R x ps ((t, path, flag) # xs) r s'"
proof (cases q)
  case (Ok ps')
  have "set (keys_of (mset_key t h ps)) = insert t (set (keys_of ps))" by (simp add: dom_update)
  with Ok run rest IH path show ?thesis by (auto simp: run_on_error opened_def)
next
  case (Err e)
  have close: "releases (held res) (R \<union> pipe_handles (mset_key t h ps), x) (R \<union> pipe_handles ps, x) (ext (os_Close env h))"
    using releases_ext [OF file_lawsD(4) [OF laws] new] by (simp add: pipe_handles_set [OF t])
  obtain c s3 where c: "run (ext (os_Close env h)) s2 = (c, s3)" by (cases "run (ext (os_Close env h)) s2")
  with close IH Err have "held res s3 = (R \<union> pipe_handles ps, x)" if "c \<noteq> Panic" "c \<noteq> Diverge"
    using that unfolding releases_def opened_def by auto
  with run rest Err c show ?thesis by (cases c) (auto simp: run_on_error opened_def)
qed (use run rest in \<open>auto simp: run_on_error opened_def\<close>)

lemma open_streams_pipes:
  assumes laws: "file_laws res env"
    and "run (open_streams env xs ps) s = (r, s')" and "held res s = (R \<union> pipe_handles ps, x)"
    and "R \<inter> pipe_handles ps = {}" and "distinct (map fst xs)" and "set (map fst xs) \<inter> set (keys_of ps) = {}"
  shows "opened res R x ps xs r s'"
  using assms(2-6)
proof (induction xs arbitrary: ps s r s')
  case Nil
  then show ?case by (auto simp: ret_def opened_def)
next
  case (Cons y xs)
  obtain t path flag where y: "y = (t, path, flag)" by (cases y)
  obtain v w where f: "os_OpenFifo env path flag 448 (world s) = (v, w)"
    by (cases "os_OpenFifo env path flag 448 (world s)")
  note law = OpenFifo_acquires [OF laws f]
  consider "path = ''''" | e where "path \<noteq> ''''" "v = Inl e" | h where "path \<noteq> ''''" "v = Inr h" by (cases v) blast+
  then show ?case
  proof cases
    case 1
    have "opened res R x ps xs r s'" by (rule Cons.IH) (use Cons.prems y 1 in simp_all)
    then show ?thesis by (cases r) (simp_all add: y 1 opened_def)
  next
    case 2
    with Cons.prems f law y show ?thesis by (auto simp: run_bindE run_wrap_err ext_def held_def opened_def)
  next
    case (3 h)
    let ?s = "s\<lparr>world := w\<rparr>" and ?ps = "mset_key t h ps"
    have t: "t \<notin> set (keys_of ps)" using Cons.prems(5) y by simp
    have new: "RHandle h \<notin> R \<union> pipe_handles ps" using law 3 Cons.prems(2) by (simp add: held_def)
    have s1: "held res ?s = (R \<union> pipe_handles ?ps, x)"
      using law 3 Cons.prems(2) by (simp add: held_def pipe_handles_set [OF t])
    obtain q s2 where rest: "run (open_streams env xs ?ps) ?s = (q, s2)" by (cases "run (open_streams env xs ?ps) ?s")
    have "opened res R x ?ps xs q s2"
      by (rule Cons.IH [OF rest s1]) (use Cons.prems(3-5) y t new in \<open>auto simp: pipe_handles_set dom_update\<close>)
    moreover have "run (on_error (open_streams env xs ?ps) (ext (os_Close env h))) ?s = (r, s')"
      using Cons.prems(1) f 3 y by (simp add: run_bindE run_wrap_err ext_def)
    ultimately show ?thesis unfolding y by (rule opened_on_error [OF laws t new rest _ _ 3(1)])
  qed
qed

section \<open>The three pipes of a task\<close>

definition handles :: "handle option \<times> handle option \<times> handle option \<Rightarrow> resource set" where
  "handles p = (case p of (i, out, err) \<Rightarrow> RHandle ` (set_option i \<union> set_option out \<union> set_option err))"

lemma fst_map_filter: "map fst (List.map_filter (\<lambda>t. map_option (Pair t) (m t)) ts) = filter (\<lambda>t. m t \<noteq> None) ts"
  by (induction ts) (auto simp: List.map_filter_simps split: option.split)

lemma pipe_handles_three:
  assumes "set (keys_of ps) \<subseteq> {''stdin'', ''stdout'', ''stderr''}"
  shows "pipe_handles ps = handles (map_of ps ''stdin'', map_of ps ''stdout'', map_of ps ''stderr'')"
proof -
  have "t \<in> {''stdin'', ''stdout'', ''stderr''}" if "map_of ps t = Some h" for t h
    using map_of_SomeD [OF that] assms by force
  then have "ran (map_of ps) = set_option (map_of ps ''stdin'') \<union> set_option (map_of ps ''stdout'') \<union>
      set_option (map_of ps ''stderr'')"
    by (intro set_eqI) (simp add: ran_def elem_set, blast)
  then show ?thesis by (simp add: pipe_handles_def handles_def)
qed

text \<open>Ranging over a map visits every key once.\<close>

definition order_law :: "'w env \<Rightarrow> bool" where
  "order_law env \<longleftrightarrow> (\<forall>w. is_order (fst (map_order env w)))"

lemma prepareStreamingPipes_acquires:
  assumes laws: "file_laws res env" and ord: "order_law env"
  shows "acquires_when (held res) (R, x) (\<lambda>p. R \<inter> handles p = {} \<and> (i = '''' \<longrightarrow> fst p = None)) (\<lambda>p. (R \<union> handles p, x))
    (prepareStreamingPipes env i out err)"
  unfolding acquires_when_def
proof (intro allI impI)
  fix s :: "'a st" and r s'
  assume s: "held res s = (R, x)" and run: "run (prepareStreamingPipes env i out err) s = (r, s')"
  obtain f w where f: "map_order env (world s) = (f, w)" by (cases "map_order env (world s)")
  let ?streams = "[(''stdin'', i, stdinFlags), (''stdout'', out, stdoutFlags), (''stderr'', err, stdoutFlags)]"
  let ?xs = "List.map_filter (\<lambda>t. map_option (Pair t) (map_of ?streams t)) (f (keys_of ?streams))"
  have order: "is_order f" using ord f unfolding order_law_def by (metis fst_conv)
  have keys: "distinct (keys_of ?streams)" "set (keys_of ?streams) = {''stdin'', ''stdout'', ''stderr''}" by simp_all
  have d: "distinct (map fst ?xs)" "set (map fst ?xs) \<subseteq> {''stdin'', ''stdout'', ''stderr''}"
    unfolding fst_map_filter using is_orderD [OF order keys(1)] keys(2) by auto
  have w: "held res (s\<lparr>world := w\<rparr>) = (R \<union> pipe_handles [], x)"
    using s f neutral_lawsE(3) [OF file_lawsD(5) [OF laws]] by (auto simp: call_neutral_def held_def dest: spec [where x = "world s"])
  obtain q s1 where o1: "run (open_streams env ?xs []) (s\<lparr>world := w\<rparr>) = (q, s1)"
    by (cases "run (open_streams env ?xs []) (s\<lparr>world := w\<rparr>)")
  note pipes = open_streams_pipes [OF laws o1 w _ d(1), unfolded opened_def]
  have stdin: "path = i" if "(''stdin'', path, fl) \<in> set ?xs" for path fl
    using that by (auto simp: List.map_filter_def split: if_splits)
  show "case r of Ok p \<Rightarrow> (R \<inter> handles p = {} \<and> (i = '''' \<longrightarrow> fst p = None)) \<and> held res s' = (R \<union> handles p, x) | Err e \<Rightarrow> held res s' = (R, x) | _ \<Rightarrow> True"
  proof (cases q)
    case (Ok ps)
    have "set (keys_of ps) \<subseteq> set (map fst ?xs)" using pipes Ok by auto
    then have "pipe_handles ps = handles (map_of ps ''stdin'', map_of ps ''stdout'', map_of ps ''stderr'')"
      using d(2) by (intro pipe_handles_three) blast
    moreover have "map_of ps ''stdin'' = None" if "i = ''''"
    proof -
      have "''stdin'' \<notin> set (map fst (filter (\<lambda>(t, p, f). p \<noteq> '''') ?xs))" using stdin that by auto
      then have "''stdin'' \<notin> set (keys_of ps)" using pipes Ok by auto
      then show ?thesis by (simp add: map_of_eq_None_iff)
    qed
    ultimately show ?thesis using pipes Ok run f o1
      by (auto simp: prepareStreamingPipes_def run_bindE ext_val_def ret_def Let_def)
  qed (use pipes run f o1 in \<open>auto simp: prepareStreamingPipes_def run_bindE ext_val_def ret_def Let_def\<close>)
qed

section \<open>A failed start releases everything\<close>

lemma run_close_pipe:
  "run (close_pipe env (Some h)) s = (Ok (), s\<lparr>world := snd (os_Close env h (world s))\<rparr>)"
  by (simp add: close_pipe_def run_tryE ext_def ret_def of_result_def case_prod_beta split: sum.split)

lemma held_close_pipe:
  assumes "file_laws res env" and "held res s = (R, x)"
  shows "held res (s\<lparr>world := snd (os_Close env h (world s))\<rparr>) = (R - {RHandle h}, x)"
  using assms(2) file_lawsD(4) [OF assms(1), of h] by (auto simp: held_def call_releases_def)

lemma close_releases:
  assumes laws: "file_laws res env"
  shows "releases (held res) (H, x) (H - RHandle ` set_option p, x) (close_pipe env p)"
    and "releases (held res) (H, x) (H - RHandle ` set_option p, x) (close_pipe_if env p)"
  by (cases p; auto simp: releases_def close_pipe_if_def run_close_pipe held_close_pipe [OF laws] ret_def
      close_pipe_def [of env None])+

lemma close_no_error: "run (close_pipe env p) s \<noteq> (Err e, s')" "run (close_pipe_if env p) s \<noteq> (Err e, s')"
  by (cases p; simp add: close_pipe_if_def run_close_pipe ret_def close_pipe_def [of env None])+

lemma close_pipes_release:
  assumes "file_laws res env" and "R \<inter> handles (i, out, err) = {}"
  shows "releases (held res) (R \<union> handles (i, out, err), x) (R, x)
    (seqE (close_pipe_if env i) (seqE (close_pipe env out) (close_pipe env err)))"
proof -
  have "R \<union> handles (i, out, err) - RHandle ` set_option i - RHandle ` set_option out - RHandle ` set_option err = R"
    using assms(2) by (auto simp: handles_def)
  then show ?thesis
    using close_releases [OF assms(1)] by (metis releases_seqE close_no_error)
qed

lemma close_outputs_release:
  assumes "file_laws res env" and "R \<inter> handles (None, out, err) = {}"
  shows "releases (held res) (R \<union> handles (None, out, err), x) (R, x)
    (seqE (close_pipe env out) (close_pipe env err))"
proof -
  have "R \<union> handles (None, out, err) - RHandle ` set_option out - RHandle ` set_option err = R"
    using assms(2) by (auto simp: handles_def)
  then show ?thesis
    using close_releases [OF assms(1)] by (metis releases_seqE close_no_error)
qed

lemma start_loggers_neutral:
  assumes "resource_laws res env"
  shows "neutral (held res) (start_loggers env c sc)"
  unfolding start_loggers_def containerLogger_Start_def Let_def
  by (auto intro!: cleanup neutral_lawsD [OF assms])

lemma RTask_not_handles [simp]: "RTask k \<notin> handles p"
  by (auto simp: handles_def split: prod.split)

text \<open>The scope of the pipes: whatever closes the pipes it is given releases what was opened.\<close>

lemma restores_pipes_scoped:
  assumes laws: "file_laws res env" and ord: "order_law env"
    and body: "\<And>i' out' err'. R \<inter> handles (i', out', err') = {} \<Longrightarrow> (i = '''' \<Longrightarrow> i' = None) \<Longrightarrow>
      restores (held res) (R \<union> handles (i', out', err'), x) (k i' out' err')"
    and close: "\<And>i' out' err'. R \<inter> handles (i', out', err') = {} \<Longrightarrow> (i = '''' \<Longrightarrow> i' = None) \<Longrightarrow>
      releases (held res) (R \<union> handles (i', out', err'), x) (R, x) (rel i' out' err')"
  shows "restores (held res) (R, x) (bindE (wrap_err w (prepareStreamingPipes env i out err)) (\<lambda>(i', out', err').
      on_error (k i' out' err') (rel i' out' err')))"
proof -
  have "restores (held res) (R, x) (bindE (wrap_err w (prepareStreamingPipes env i out err)) (\<lambda>p.
      on_error (case p of (i', out', err') \<Rightarrow> k i' out' err') (case p of (i', out', err') \<Rightarrow> rel i' out' err')))"
  proof (rule restores_scoped_when)
    show "acquires_when (held res) (R, x) (\<lambda>p. R \<inter> handles p = {} \<and> (i = '''' \<longrightarrow> fst p = None))
        (\<lambda>p. (R \<union> handles p, x)) (wrap_err w (prepareStreamingPipes env i out err))"
      by (intro acquires_when_wrap_err prepareStreamingPipes_acquires laws ord)
  qed (auto intro: body close)
  also have "(\<lambda>p. on_error (case p of (i', out', err') \<Rightarrow> k i' out' err') (case p of (i', out', err') \<Rightarrow> rel i' out' err'))
      = (\<lambda>(i', out', err'). on_error (k i' out' err') (rel i' out' err'))"
    by (auto simp: fun_eq_iff)
  finally show ?thesis .
qed

lemma start_task_restores:
  assumes laws: "resource_laws res env" and ord: "order_law env" and fresh: "RTask cid \<notin> R"
  shows "restores (held res) (R, x) (start_task env cid meta)"
proof -
  have task: "restores (held res) (H, x) (bindE (wrap_err w1 (ext (tasks_Create env req))) (\<lambda>pid.
      on_error (seqE (wrap_err w2 (ext (tasks_Start env cid))) (ret pid)) (ext (tasks_Delete env cid))))"
    if "ct_ContainerID req = cid" "RTask cid \<notin> H" for H w1 w2 req
    by (rule restores_scoped [where y = "\<lambda>_. (insert (RTask cid) H, x)"])
      (use that creation_lawsD(4) [OF laws, of req] in \<open>auto intro!: acquires_wrap_err acquires_ext releases_ext
        release_lawsD [OF laws] restores_seqE restores_actions neutral_wrap_err neutral_ext neutral_lawsD [OF laws]\<close>)
  show ?thesis
    unfolding start_task_def Let_def snapshotService_Mounts_def
    by (auto intro!: restores_bindE restores_seqE neutral_wrap_err neutral_actions neutral_ext neutral_lawsD [OF laws]
        restores_actions restores_pipes_scoped [OF resource_laws_file [OF laws] ord]
        close_pipes_release [OF resource_laws_file [OF laws]] start_loggers_neutral [OF laws] task
        call_neutral_from_grpc
        simp: fresh split: prod.split)
qed

lemma startContainer_error:
  assumes "restores (held res) (held res s) (start_task env cid meta)" and "call_neutral res (time_Now env)"
    and "run (startContainer env cid meta st) s = (q, s')" and "q = Ok (Some e, st') \<or> q = Err e"
  shows "held res s' = held res s"
proof -
  obtain r s1 where r: "run (start_task env cid meta) s = (r, s1)" by (cases "run (start_task env cid meta) s")
  have time: "held res (s1\<lparr>world := snd (time_Now env (world s1))\<rparr>) = held res s1"
    using assms(2) by (simp add: held_def call_neutral_def)
  have "held res s1 = held res s" if "r = Err e'" for e' using assms(1) r that unfolding restores_def by blast
  with assms(3,4) r time show ?thesis
    by (cases r) (auto simp: startContainer_def run_tryE run_bindE ext_val_def ret_def case_prod_beta split: if_splits)
qed


end
