(* ===== verification/Sandbox_Cleanup.thy ===== *)
theory Sandbox_Cleanup
  imports Sandbox_Run Pipe_Cleanup
begin

text \<open>
  What a failing \<open>RunPodSandbox\<close> releases. Inside the scope of the sandbox directory the directory's
  contents are not observed, since the deferred \<open>RemoveAll\<close> removes all of it. The task is not
  observed either: the deferred \<open>stopSandboxContainer\<close> has to kill it and wait for its exit before it
  can delete it, and gives up when one of these fails. Everything else that was acquired is released.
\<close>

section \<open>Observing less\<close>

definition but :: "resource set \<Rightarrow> ('w \<Rightarrow> resource set) \<Rightarrow> 'w \<Rightarrow> resource set" where
  "but X res = (\<lambda>w. res w - X)"

lemma call_neutral_but [cleanup]: "call_neutral res f \<Longrightarrow> call_neutral (but X res) f"
  by (simp add: call_neutral_def but_def)

lemma call_acquires_but [cleanup]:
  assumes "call_acquires res r f" and "\<And>a. r a \<notin> X"
  shows "call_acquires (but X res) r f"
  unfolding call_acquires_def but_def
proof
  fix w
  obtain v w' where f: "f w = (v, w')" by (cases "f w")
  with assms(1) have "case v of Inr x \<Rightarrow> res w' = insert (r x) (res w) | Inl e \<Rightarrow> res w' = res w"
    unfolding call_acquires_def by (auto dest: spec [where x = w])
  with f assms(2) show "case f w of (Inr x, w') \<Rightarrow> res w' - X = insert (r x) (res w - X) | (Inl e, w') \<Rightarrow> res w' - X = res w - X"
    by (cases v) (auto simp: insert_Diff_if)
qed

lemma call_releases_but [cleanup]: "call_releases res r f \<Longrightarrow> call_releases (but X res) r f"
  by (auto simp: call_releases_def but_def)

lemma acquires_ignored:
  assumes "call_acquires res r f" and "\<And>a. r a \<in> X"
  shows "call_neutral (but X res) f"
  unfolding call_neutral_def but_def
proof
  fix w
  obtain v w' where f: "f w = (v, w')" by (cases "f w")
  with assms(1) have "case v of Inr x \<Rightarrow> res w' = insert (r x) (res w) | Inl e \<Rightarrow> res w' = res w"
    unfolding call_acquires_def by (auto dest: spec [where x = w])
  with f assms(2) show "res (snd (f w)) - X = res w - X" by (cases v) auto
qed

lemma releases_ignored: "call_releases res r f \<Longrightarrow> r \<in> X \<Longrightarrow> call_neutral (but X res) f"
  by (auto simp: call_releases_def call_neutral_def but_def)

lemma neutral_laws_but: "neutral_laws res env \<Longrightarrow> neutral_laws (but X res) env"
  by (simp add: neutral_laws_def call_neutral_but)

lemma file_laws_but:
  assumes "file_laws res env" and "\<And>h. RHandle h \<notin> X"
  shows "file_laws (but X res) env"
proof -
  have "handle_laws (but X res) env"
    using assms(1) unfolding file_laws_def handle_laws_def but_def by blast
  then show ?thesis
    using assms by (simp add: file_laws_def neutral_laws_but call_acquires_but call_releases_but)
qed

section \<open>Further laws\<close>

text \<open>Pulling an image does not touch the resources of sandboxes and containers.\<close>

definition pull_laws :: "('w \<Rightarrow> resource set) \<Rightarrow> 'w env \<Rightarrow> bool" where
  "pull_laws res env \<longleftrightarrow> call_neutral res (select_ctx env) \<and> (\<forall>r a. call_neutral res (resolver_Resolve env r a)) \<and>
     (\<forall>r. call_neutral res (resolver_Fetcher env r)) \<and> (\<forall>d. call_neutral res (images_Dispatch env d)) \<and>
     call_neutral res (content_ListStatuses env) \<and> (\<forall>d. call_neutral res (schema1_Convert env d)) \<and>
     (\<forall>n d. call_neutral res (images_Create env n d)) \<and> (\<forall>n d. call_neutral res (images_Update env n d)) \<and>
     (\<forall>b. call_neutral res (content_ReadBlob env b)) \<and> (\<forall>d. call_neutral res (image_RootFS env d)) \<and>
     (\<forall>l. call_neutral res (rootfs_ApplyLayers env l)) \<and> (\<forall>d. call_neutral res (image_Size env d))"

text \<open>Following events does not either, and the table of mounts can be read and is right.\<close>

definition sandbox_laws :: "('w \<Rightarrow> resource set) \<Rightarrow> 'w env \<Rightarrow> bool" where
  "sandbox_laws res env \<longleftrightarrow> call_neutral res (events_Subscribe env) \<and> (\<forall>h. call_neutral res (events_Cancel env h)) \<and>
     (\<forall>h. call_neutral res (events_Recv env h)) \<and>
     (\<forall>p w. \<exists>w'. mount_Mounted env p w = (Inr (RMount p \<in> res w), w') \<and> res w' = res w)"

lemma pull_lawsD:
  assumes "pull_laws res env"
  shows "call_neutral res (select_ctx env)" "call_neutral res (resolver_Resolve env r a)"
    "call_neutral res (resolver_Fetcher env r)" "call_neutral res (images_Dispatch env d)"
    "call_neutral res (content_ListStatuses env)" "call_neutral res (schema1_Convert env d)"
    "call_neutral res (images_Create env n d)" "call_neutral res (images_Update env n d)"
    "call_neutral res (content_ReadBlob env b)" "call_neutral res (image_RootFS env d)"
    "call_neutral res (rootfs_ApplyLayers env l)" "call_neutral res (image_Size env d)"
  using assms unfolding pull_laws_def by simp_all

lemma pull_laws_but: "pull_laws res env \<Longrightarrow> pull_laws (but X res) env"
  by (simp add: pull_laws_def call_neutral_but)

section \<open>Helpers that leave the resources alone\<close>

lemma neutral_istore_Add [cleanup]:
  "call_neutral res (map_order env) \<Longrightarrow> neutral (held res) (istore_Add env img)"
  by (auto simp: neutral_def istore_Add_def call_neutral_def held_def run_bindE ext_val_def case_prod_beta)

lemma neutral_tolerate [cleanup]: "neutral (held res) m \<Longrightarrow> neutral (held res) (tolerate h w m)"
  unfolding tolerate_def by (auto intro!: cleanup split: sum.split)

lemma neutral_waitForResourcesDownloading:
  "pull_laws res env \<Longrightarrow> neutral (held res) (waitForResourcesDownloading env fuel rs)"
  by (induction fuel) (auto simp: Let_def intro!: cleanup pull_lawsD)

lemma neutral_pullImage:
  assumes "neutral_laws res env" and "pull_laws res env"
  shows "neutral (held res) (pullImage env fuel ref auth)"
proof -
  have ref: "neutral (held res) (createImageReference env n d)" for n d
    unfolding createImageReference_def imageStoreService_Create_def imageStoreService_Update_def
    by (auto intro!: cleanup pull_lawsD [OF assms(2)] split: sum.split)
  have fetch: "neutral (held res) (fetch_image env fuel r auth)" for r
    unfolding fetch_image_def Let_def
    by (auto intro!: cleanup pull_lawsD [OF assms(2)] neutral_waitForResourcesDownloading [OF assms(2)] split: prod.split)
  have unpack: "neutral (held res) (unpack_image env r)" for r
    unfolding unpack_image_def imageStoreService_Get_def
    by (auto intro!: cleanup pull_lawsD [OF assms(2)] neutral_lawsE [OF assms(1)])
  show ?thesis
    unfolding pullImage_def Let_def
    by (auto intro!: cleanup ref fetch unpack neutral_lawsE [OF assms(1)] split: prod.split)
qed

lemma neutral_ensureImageExists:
  assumes "neutral_laws res env" and "pull_laws res env"
  shows "neutral (held res) (ensureImageExists env fuel ref)"
proof -
  have info: "neutral (held res) (getImageInfo env r)" for r
    unfolding getImageInfo_def Let_def imageStoreService_Get_def
    by (auto intro!: cleanup pull_lawsD [OF assms(2)] neutral_lawsE [OF assms(1)])
  show ?thesis
    unfolding ensureImageExists_def PullImage_def
    by (auto intro!: cleanup info neutral_pullImage [OF assms] neutral_localResolve [OF assms(1)] neutral_lawsE [OF assms(1)]
        split: prod.split option.split)
qed

lemma neutral_stopSandboxContainer:
  assumes laws: "neutral_laws res env" "sandbox_laws res0 env" and res: "res = but X res0" and task: "RTask sid \<in> X"
    and del: "call_releases res0 (RTask sid) (tasks_Delete env sid)"
  shows "neutral (held res) (stopSandboxContainer env fuel sid)"
proof -
  have ev: "call_neutral res (events_Subscribe env)" "call_neutral res (events_Cancel env h)"
      "call_neutral res (events_Recv env h)" for h
    using laws(2) by (simp_all add: sandbox_laws_def res call_neutral_but)
  have wait: "neutral (held res) (wait_task_exit env n h P)" for n h P
    by (induction n) (auto intro!: cleanup ev split: Envelope.split sum.split)
  have "call_neutral res (tasks_Delete env sid)" unfolding res by (rule releases_ignored [OF del task])
  then show ?thesis
    unfolding stopSandboxContainer_def waitSandboxContainer_def
    by (auto intro!: cleanup ev wait neutral_lawsE [OF laws(1)] split: sum.split)
qed

section \<open>The scopes, innermost first\<close>

lemma acquires_neutral:
  assumes "neutral obs m"
  shows "acquires obs x (\<lambda>_. x) m"
  unfolding acquires_def
proof (intro allI impI)
  fix s r s'
  assume "obs s = x" "run m s = (r, s')"
  then have "obs s' = x" using assms unfolding neutral_def by (metis snd_conv)
  then show "case r of Ok a \<Rightarrow> obs s' = x | Err e \<Rightarrow> obs s' = x | _ \<Rightarrow> True" by (cases r) simp_all
qed

lemma acquires_bindE:
  assumes "neutral obs m" and "\<And>a. acquires obs x y (k a)"
  shows "acquires obs x y (bindE m k)"
  unfolding acquires_def
proof (intro allI impI)
  fix s r s'
  assume s: "obs s = x" and run: "run (bindE m k) s = (r, s')"
  obtain q s1 where m: "run m s = (q, s1)" by (cases "run m s")
  then have "obs s1 = x" using assms(1) s unfolding neutral_def by (metis snd_conv)
  then show "case r of Ok a \<Rightarrow> obs s' = y a | Err e \<Rightarrow> obs s' = x | _ \<Rightarrow> True"
    using run m assms(2) unfolding acquires_def by (cases q) (auto simp: run_bindE)
qed

lemma acquires_seqE: "neutral obs m \<Longrightarrow> acquires obs x y n \<Longrightarrow> acquires obs x y (seqE m n)"
  unfolding seqE_def by (rule acquires_bindE)

definition shm_mount :: "string \<Rightarrow> PodSandboxConfig option \<Rightarrow> resource set" where
  "shm_mount dir config = (if host_ipc config then {} else {RMount (getSandboxDevShm dir)})"

lemma setupSandboxFiles_acquires:
  assumes laws: "resource_laws res env" and rs: "rs = but X res" and X: "\<And>h. RHandle h \<notin> X" "\<And>p. RMount p \<notin> X"
    and shm: "RDir (getSandboxDevShm dir) \<in> X"
  shows "acquires (held rs) (R, x) (\<lambda>_. (R \<union> shm_mount dir config, x)) (setupSandboxFiles env dir config)"
proof -
  have files: "file_laws rs env" unfolding rs by (rule file_laws_but [OF resource_laws_file [OF laws] X(1)])
  note neutral = neutral_lawsE [OF file_lawsD(5) [OF files]]
  have mkdir: "call_neutral rs (os_MkdirAll env (getSandboxDevShm dir) m)" for m
    unfolding rs by (rule acquires_ignored [OF creation_lawsD(5) [OF laws] shm])
  have mount: "call_acquires rs (\<lambda>_. RMount (getSandboxDevShm dir)) (os_Mount env a (getSandboxDevShm dir) t f d)" for a t f d
    unfolding rs by (rule call_acquires_but [OF creation_lawsD(9) [OF laws] X(2)])
  have last: "acquires (held rs) (R, x) (\<lambda>_. (R \<union> shm_mount dir config, x))
     (if host_ipc config then wrap_err w1 (ext (os_Stat env p))
      else seqE (wrap_err w2 (ext (os_MkdirAll env (getSandboxDevShm dir) m)))
        (wrap_err w3 (ext (os_Mount env a (getSandboxDevShm dir) t f d))))" for w1 w2 w3 p m a t f d
    using acquires_neutral [OF neutral_wrap_err [OF neutral_ext [OF neutral(15)]]]
      acquires_seqE [OF neutral_wrap_err [OF neutral_ext [OF mkdir]] acquires_wrap_err [OF acquires_ext [OF mount]]]
    by (auto simp: shm_mount_def)
  show ?thesis
    unfolding setupSandboxFiles_def Let_def
    by (intro acquires_seqE acquires_bindE last)
      (auto intro!: cleanup neutral neutral_CopyFile [OF files] split: option.split)
qed

lemma unmountSandboxFiles_releases:
  assumes laws: "resource_laws res env" "sandbox_laws res env" and rs: "rs = but X res" and X: "\<And>p. RMount p \<notin> X"
    and R: "R \<inter> shm_mount dir config = {}"
  shows "releases (held rs) (R \<union> shm_mount dir config, x) (R, x) (unmountSandboxFiles env dir config)"
proof (cases "host_ipc config")
  case True
  then show ?thesis by (simp add: unmountSandboxFiles_def shm_mount_def releases_def ret_def)
next
  case False
  let ?p = "getSandboxDevShm dir"
  have "held rs s' = (R, x)" if s: "held rs s = (insert (RMount ?p) R, x)"
    and run: "run (unmountSandboxFiles env dir config) s = (r, s')" for s :: "'a st" and r s'
  proof -
    obtain w where w: "mount_Mounted env ?p (world s) = (Inr (RMount ?p \<in> res (world s)), w)" "res w = res (world s)"
      using laws(2) unfolding sandbox_laws_def by blast
    have held: "RMount ?p \<in> res (world s)" using s X by (auto simp: held_def rs but_def)
    have "res (snd (unix_Unmount env ?p f w)) = res w - {RMount ?p}" for f
      using release_lawsD(6) [OF laws(1)] by (simp add: call_releases_def)
    moreover have "s' = s\<lparr>world := snd (unix_Unmount env ?p unix_MNT_DETACH w)\<rparr>"
      using run w held False
      by (auto simp: unmountSandboxFiles_def tolerate_def RealOS_Unmount_def run_tryE run_bindE ext_def ret_def fail_def
          of_result_def case_prod_beta split: sum.splits if_splits)
    ultimately show ?thesis using s w(2) R False by (auto simp: held_def rs but_def shm_mount_def)
  qed
  with False show ?thesis by (simp add: releases_def shm_mount_def)
qed

definition run_laws :: "('w \<Rightarrow> resource set) \<Rightarrow> 'w env \<Rightarrow> bool" where
  "run_laws res env \<longleftrightarrow> resource_laws res env \<and> sandbox_laws res env \<and> pull_laws res env \<and> order_law env"

text \<open>What is not observed while the sandbox directory exists.\<close>

definition unobserved :: "string \<Rightarrow> string \<Rightarrow> resource set" where
  "unobserved sid dir = insert (RTask sid) (tree dir)"

lemma unobserved_simps [simp]: "RTask sid \<in> unobserved sid dir" "RHandle h \<notin> unobserved sid dir"
  "RMount p \<notin> unobserved sid dir" "RNetwork k \<notin> unobserved sid dir"
  by (simp_all add: unobserved_def)

lemma run_network_restores:
  assumes laws: "resource_laws res env" and rs: "rs = but (unobserved sid dir) res"
    and sb: "sb_ID sb = sid" "RNetwork sid \<notin> R"
  shows "restores (held rs) (R, x) (run_network env sb)"
proof -
  have neutral: "neutral_laws rs env" unfolding rs by (rule neutral_laws_but [OF resource_laws_neutral [OF laws]])
  have start: "restores (held rs) z (run_start env sb)" for z
    unfolding run_start_def Let_def
    by (intro restores_seqE restores_bindE restores_seq_ret restores_wrap_err restores_actions neutral_wrap_err
        neutral_ext neutral_ext_val neutral_lawsE [OF neutral])
  have up: "call_acquires rs (\<lambda>_. RNetwork sid) (cni_SetUpPod env ns nsp n sid)" for ns nsp n
    unfolding rs by (rule call_acquires_but [OF creation_lawsD(10) [OF laws]]) simp
  have down: "call_releases rs (RNetwork sid) (cni_TearDownPod env ns nsp n sid)" for ns nsp n
    unfolding rs by (rule call_releases_but [OF release_lawsD(7) [OF laws]])
  have "restores (held rs) (R, x) (seqE (wrap_err w (ext (cni_SetUpPod env ns nsp n sid)))
      (on_error (run_start env sb) (ext (cni_TearDownPod env ns nsp n sid))))" for w ns nsp n
    by (rule restores_scoped_seqE [where y = "(insert (RNetwork sid) R, x)"])
      (auto intro!: acquires_wrap_err acquires_ext releases_ext up down start sb)
  with start sb show ?thesis unfolding run_network_def Let_def by auto
qed

lemma run_task_restores:
  assumes laws: "resource_laws res env" "sandbox_laws res env" and rs: "rs = but (unobserved sid dir) res"
    and sb: "sb_ID sb = sid" "RNetwork sid \<notin> R" "ct_ContainerID opts = sid"
  shows "restores (held rs) (R, x) (run_task env fuel sb opts)"
proof -
  have "call_neutral rs (tasks_Create env opts)"
    unfolding rs by (rule acquires_ignored [OF creation_lawsD(4) [OF laws(1)]]) (simp add: sb)
  moreover have "neutral (held rs) (stopSandboxContainer env fuel sid)"
    by (rule neutral_stopSandboxContainer [OF _ laws(2) rs])
      (simp_all add: rs neutral_laws_but resource_laws_neutral laws release_lawsD)
  moreover have "restores (held rs) (R, x) (run_network env (sb\<lparr>sb_Pid := pid, sb_NetNS := ns\<rparr>))" for pid ns
    by (rule run_network_restores [OF laws(1) rs]) (simp_all add: sb)
  ultimately show ?thesis
    unfolding run_task_def Let_def
    by (intro restores_bindE restores_on_error neutral_wrap_err neutral_ext) (simp_all add: sb)
qed

lemma run_pipes_restores:
  assumes laws: "run_laws res env" and rs: "rs = but (unobserved sid dir) res"
    and sb: "sb_ID sb = sid" "RNetwork sid \<notin> R" and shm: "RDir (getSandboxDevShm dir) \<in> tree dir"
    and mount: "RMount (getSandboxDevShm dir) \<notin> R"
  shows "restores (held rs) (R, x) (run_pipes env fuel sb rootfs dir)"
proof -
  have laws': "resource_laws res env" "sandbox_laws res env" "order_law env" using laws by (simp_all add: run_laws_def)
  have files: "file_laws rs env" unfolding rs by (rule file_laws_but [OF resource_laws_file [OF laws'(1)]]) simp
  have run_files: "restores (held rs) (H, x) (run_files env fuel sb opts dir)"
    if "RNetwork sid \<notin> H" "RMount (getSandboxDevShm dir) \<notin> H" "ct_ContainerID opts = sid" for H opts
    unfolding run_files_def
  proof (rule restores_scoped_seqE [where y = "(H \<union> shm_mount dir (sb_Config sb), x)"])
    show "acquires (held rs) (H, x) (\<lambda>_. (H \<union> shm_mount dir (sb_Config sb), x))
        (wrap_err (\<lambda>e. Errorf [Lit ''failed to setup sandbox files: '', V e]) (setupSandboxFiles env dir (sb_Config sb)))"
      by (intro acquires_wrap_err setupSandboxFiles_acquires [OF laws'(1) rs]) (simp_all add: unobserved_def shm)
    show "releases (held rs) (H \<union> shm_mount dir (sb_Config sb), x) (H, x) (unmountSandboxFiles env dir (sb_Config sb))"
      by (rule unmountSandboxFiles_releases [OF laws'(1,2) rs]) (use that in \<open>simp_all add: shm_mount_def\<close>)
  qed (rule run_task_restores [OF laws'(1,2) rs sb(1)], use that in \<open>simp_all add: shm_mount_def\<close>)
  have nothandle: "RNetwork k \<notin> handles p" "RMount m \<notin> handles p" for k m p
    by (auto simp: handles_def split: prod.split)
  show ?thesis
    unfolding run_pipes_def getStreamingPipes_def Let_def prod.case
  proof (rule restores_pipes_scoped [OF files laws'(3)])
    fix i' out' err' :: "handle option"
    assume R: "R \<inter> handles (i', out', err') = {}" and "'''' = '''' \<Longrightarrow> i' = None"
    then show "releases (held rs) (R \<union> handles (i', out', err'), x) (R, x) (seqE (close_pipe env out') (close_pipe env err'))"
      using close_outputs_release [OF files] by simp
    show "restores (held rs) (R \<union> handles (i', out', err'), x)
      (run_files env fuel sb (sandbox_task (sb_ID sb) rootfs (filepath_Join [dir, ''stdout'']) (filepath_Join [dir, ''stderr''])) dir)"
      by (rule run_files) (use sb mount nothandle in \<open>simp_all add: sandbox_task_def\<close>)
  qed
qed

lemma run_directory_restores:
  assumes laws: "run_laws res env" and rs0: "rs0 = but {RTask sid} res"
    and sb: "sb_ID sb = sid" "RNetwork sid \<notin> R" and shm: "RDir (getSandboxDevShm dir) \<in> tree dir"
    and R: "RMount (getSandboxDevShm dir) \<notin> R" "R \<inter> tree dir = {}"
  shows "restores (held rs0) (R, x) (run_directory env fuel sb rootfs dir)"
  unfolding run_directory_def
proof (rule restores_scoped_two)
  define rs where "rs = but (unobserved sid dir) res"
  have laws': "resource_laws res env" using laws by (simp add: run_laws_def)
  show "restores (held rs) (R, x) (run_pipes env fuel sb rootfs dir)"
    by (rule run_pipes_restores [OF laws rs_def sb shm R(1)])
  have rm: "res (snd (os_RemoveAll env dir w)) = res w - tree dir" for w
    using release_lawsD(4) [OF laws'] by (simp add: call_releases_tree_def)
  show "leaves (held rs) (R, x) (held rs0) (R, x) (ext (os_RemoveAll env dir))"
    by (auto simp: leaves_def ext_def case_prod_beta held_def rs_def rs0 but_def unobserved_def rm)
  have mk: "call_acquires res (\<lambda>_. RDir dir) (os_MkdirAll env dir 493)" by (rule creation_lawsD(5) [OF laws'])
  show "enters (held rs0) (R, x) (held rs) (R, x) (wrap_err (\<lambda>e. Errorf [Lit ''failed to create sandbox root directory '',
      Q dir, Lit '': '', V e]) (ext (os_MkdirAll env dir 493)))"
    unfolding enters_def
  proof (intro allI impI)
    fix s :: "'a st" and r s'
    assume s: "held rs0 s = (R, x)" and run: "run (wrap_err (\<lambda>e. Errorf [Lit ''failed to create sandbox root directory '',
      Q dir, Lit '': '', V e]) (ext (os_MkdirAll env dir 493))) s = (r, s')"
    obtain v w where v: "os_MkdirAll env dir 493 (world s) = (v, w)" by (cases "os_MkdirAll env dir 493 (world s)")
    have "case v of Inr _ \<Rightarrow> res w = insert (RDir dir) (res (world s)) | Inl e \<Rightarrow> res w = res (world s)"
      using mk v unfolding call_acquires_def by (auto dest: spec [where x = "world s"])
    then show "case r of Ok a \<Rightarrow> held rs s' = (R, x) | Err e \<Rightarrow> held rs0 s' = (R, x) | _ \<Rightarrow> True"
      using s run v R(2) by (cases v) (auto simp: run_wrap_err ext_def held_def rs_def rs0 but_def unobserved_def)
  qed
qed

text \<open>What is fresh about a generated sandbox id: nothing outside or inside carries it.\<close>

definition fresh_sandbox :: "string \<Rightarrow> string \<Rightarrow> resource set \<Rightarrow> bool" where
  "fresh_sandbox sid dir R \<longleftrightarrow> path_element sid \<and> dir \<noteq> '''' \<and> RContainer sid \<notin> R \<and> RNetwork sid \<notin> R \<and> RMount (getSandboxDevShm (getSandboxRootDir dir sid)) \<notin> R \<and>
     R \<inter> tree (getSandboxRootDir dir sid) = {}"

lemma shm_in_tree:
  assumes "path_element sid" and "dir \<noteq> ''''"
  shows "RDir (getSandboxDevShm (getSandboxRootDir dir sid)) \<in> tree (getSandboxRootDir dir sid)"
proof -
  have "path_element ''sandboxes''" "path_element ''shm''" by (simp_all add: path_element_def)
  then have "getSandboxDevShm (getSandboxRootDir dir sid) = getSandboxRootDir dir sid @ ''/'' @ ''shm''"
    using filepath_Join_below [OF assms(2) _ assms(1)]
    by (simp add: getSandboxDevShm_def getSandboxRootDir_def del: filepath_Join.simps)
  then show ?thesis by (simp add: tree_def within_def del: filepath_Join.simps)
qed

lemma run_containerd_restores:
  assumes laws: "run_laws res env" and rs0: "rs0 = but {RTask sid} res" and sb: "sb_ID sb = sid"
    and fresh: "fresh_sandbox sid dir R"
  shows "restores (held rs0) (R, dir, x) (run_containerd env fuel sb rootfs iid raw)"
  unfolding run_containerd_def Let_def containerService_Create_def containerService_Delete_def sb
proof (rule restores_scoped_seqE [where y = "(insert (RContainer sid) R, dir, x)"])
  have laws': "resource_laws res env" using laws by (simp add: run_laws_def)
  have "call_acquires rs0 (\<lambda>_. RContainer sid) (containers_Create env (containerd_container sid iid raw))"
    unfolding rs0 using creation_lawsD(3) [OF laws', of "containerd_container sid iid raw"]
    by (intro call_acquires_but) (simp_all add: containerd_container_def)
  then show "acquires (held rs0) (R, dir, x) (\<lambda>_. (insert (RContainer sid) R, dir, x))
      (wrap_err (\<lambda>e. Errorf [Lit ''failed to create containerd container: '', V e])
        (ext (from_grpc (containers_Create env (containerd_container sid iid raw)))))"
    by (intro acquires_wrap_err acquires_ext call_acquires_from_grpc)
  show "releases (held rs0) (insert (RContainer sid) R, dir, x) (R, dir, x) (ext (from_grpc (containers_Delete env sid)))"
    unfolding rs0 by (intro releases_ext call_releases_from_grpc call_releases_but release_lawsD laws')
      (use fresh in \<open>simp add: fresh_sandbox_def\<close>)
  show "restores (held rs0) (insert (RContainer sid) R, dir, x)
      (bindE (gets rootDir) (\<lambda>dir. run_directory env fuel sb rootfs (getSandboxRootDir dir sid)))"
  proof (rule restores_gets)
    fix s :: "'a st"
    assume "held rs0 s = (insert (RContainer sid) R, dir, x)"
    then have dir: "rootDir s = dir" by (simp add: held_def)
    show "restores (held rs0) (insert (RContainer sid) R, dir, x)
        (run_directory env fuel sb rootfs (getSandboxRootDir (rootDir s) sid))"
      unfolding dir by (rule run_directory_restores [OF laws rs0 sb])
        (use fresh shm_in_tree in \<open>auto simp: fresh_sandbox_def\<close>)
  qed
qed

lemma run_reserved_restores:
  assumes laws: "run_laws res env" and rs0: "rs0 = but {RTask sid} res" and sb: "sb_ID sb = sid"
    and fresh: "fresh_sandbox sid dir R" "RSnapshot sid \<notin> R"
  shows "restores (held rs0) (R, dir, x) (run_reserved env fuel sb)"
proof -
  have laws': "resource_laws res env" "pull_laws res env" using laws by (simp_all add: run_laws_def)
  have neutral: "neutral_laws rs0 env" "pull_laws rs0 env"
    unfolding rs0 by (simp_all add: neutral_laws_but pull_laws_but resource_laws_neutral laws')
  have up: "call_acquires rs0 (\<lambda>_. RSnapshot sid) (snapshots_View env sid p)" for p
    unfolding rs0 by (rule call_acquires_but [OF creation_lawsD(1) [OF laws'(1)]]) simp
  have down: "call_releases rs0 (RSnapshot sid) (snapshots_Remove env sid)"
    unfolding rs0 by (rule call_releases_but [OF release_lawsD(1) [OF laws'(1)]])
  have spec: "neutral (held rs0) (sandbox_spec sid c ic)" for c ic
    unfolding sandbox_spec_def by (auto intro!: cleanup)
  have inside: "fresh_sandbox sid dir (insert (RSnapshot sid) R)"
    using fresh by (auto simp: fresh_sandbox_def)
  have "restores (held rs0) (R, dir, x) (run_rootfs env fuel sb img)" for img
    unfolding run_rootfs_def Let_def snapshotService_View_def snapshotService_Remove_def sb
    by (rule restores_scoped [where y = "\<lambda>_. (insert (RSnapshot sid) R, dir, x)"])
      (auto intro!: acquires_wrap_err acquires_ext call_acquires_from_grpc up releases_ext call_releases_from_grpc down
        restores_bindE neutral_wrap_err spec neutral_actions run_containerd_restores [OF laws rs0 sb] inside fresh(2))
  then show ?thesis
    unfolding run_reserved_def
    by (intro restores_bindE neutral_wrap_err neutral_actions neutral_ensureImageExists [OF neutral])
qed


end
