(* ===== verification/Spec_Properties.thy ===== *)
theory Spec_Properties
  imports Container_Create
begin

text \<open>
  What the generated runtime spec of a container contains: the namespaces of its sandbox, the variables of
  the image, the mounts of a privileged container; and the package variable that the default spec
  shares with every container.
\<close>

section \<open>Steps of the generator that keep a property\<close>

abbreviation keeps :: "(Gen \<Rightarrow> bool) \<Rightarrow> 'a gen \<Rightarrow> bool" where
  "keeps P m \<equiv> guar (\<lambda>g g'. P g \<longrightarrow> P g') m"

lemma keeps_run:
  assumes "keeps P m" and "P g" and "run m g = (r, g')"
  shows "P g'"
proof -
  have "(\<lambda>g g'. P g \<longrightarrow> P g')\<^sup>*\<^sup>* g g'" using guar_run [OF assms(1), of g] assms(3) by simp
  then show ?thesis using assms(2) by (induction rule: rtranclp_induct) auto
qed

lemma keeps_acts [guar_intros]:
  "(\<And>g. P g \<Longrightarrow> P (f g)) \<Longrightarrow> keeps P (gmod f)" "keeps P (greturn x)" "keeps P (gfail e)" "keeps P gskip"
  "keeps P (ifield fl ic)"
  by (auto simp: gen_act_defs guar_atomic_iff split: option.split)

section \<open>Variables of the image\<close>

lemma run_addImageEnvs_Nil: "run (addImageEnvs []) g = (Ok (), g)"
  by (simp add: addImageEnvs_def)

lemma run_addImageEnvs_Cons:
  "run (addImageEnvs (e # es)) g = (case strings_Split e (CHR ''='') of
     [k, v] \<Rightarrow> run (addImageEnvs es) (AddProcessEnv k v g)
   | _ \<Rightarrow> (Err (Errorf [Lit ''invalid environment variable '', Q e]), g))"
  by (simp add: addImageEnvs_def run_bindE gmod_def gfail_def split: list.split)

text \<open>
  C37: The environment of an image is accepted exactly when every variable contains the equals sign once:
  a variable whose value contains an equals sign makes the creation of the container fail.
\<close>

lemma addImageEnvs_accepts:
  "fst (run (addImageEnvs envs) g) = Ok () \<longleftrightarrow> list_all (\<lambda>e. count_list e (CHR ''='') = 1) envs"
proof (induction envs arbitrary: g)
  case Nil
  then show ?case by (simp add: addImageEnvs_def)
next
  case (Cons e es)
  have "length (strings_Split e (CHR ''='')) = Suc (count_list e (CHR ''=''))" by (rule length_strings_Split)
  then show ?case using Cons.IH unfolding run_addImageEnvs_Cons
    by (auto split: list.split)
qed

section \<open>The three phases of the generation\<close>

lemma generateContainerSpec_phases:
  assumes "run (generateContainerSpec env cid pid config sc ic ms) s = (Ok sp, s')"
  obtains g1 s1 g2 s2 g3 where
    "run (spec_process config ic ms) (GenerateSpec (defaultEnv s)) = (Ok (), g1)"
    "run (addOCIDevices env (pget cc_Devices [] config) (pget ls_Privileged False (container_security_context config)) g1) s1 = (Ok g2, s2)"
    "run (spec_isolation cid pid config sc) (sync_env (defaultEnv s2) g2) = (Ok (), g3)" "sp = g_Spec g3"
    "defaultEnv s1 = g_defaultEnv g1" "defaultEnv s' = g_defaultEnv g3"
proof -
  have "sync_env (defaultEnv s) (GenerateSpec (defaultEnv s)) = GenerateSpec (defaultEnv s)"
    by (simp add: sync_env_def GenerateSpec_def createDefaultSpec_def)
  with assms show thesis
    by (auto simp: generateContainerSpec_def run_bindE run_wrap_err gets_def ret_def on_gen_def intro!: that
        split: prod.splits outcome.splits)
qed

lemma add_host_devices_keeps:
  "(\<And>d g. f (AddDevice d g) = f g) \<Longrightarrow> f (add_host_devices ds g) = f g"
  unfolding add_host_devices_def by (induction ds arbitrary: g) auto

lemma add_devices_keeps:
  assumes "\<And>d g. f (AddDevice d g) = f g" and "\<And>h g. f (upd_spec (sp_DeviceCgroups_update h) g) = f g"
  shows "run (add_devices env ds g) s = (Ok g', s') \<Longrightarrow> f g' = f g"
  using assms by (induction env ds g arbitrary: s rule: add_devices.induct)
    (auto simp: run_bindE ret_def split: prod.splits outcome.splits)

lemma addOCIDevices_keeps:
  assumes "\<And>d g. f (AddDevice d g) = f g" and "\<And>h g. f (upd_spec (sp_DeviceCgroups_update h) g) = f g"
    and "run (addOCIDevices env ds p g) s = (Ok g', s')"
  shows "f g' = f g"
  using assms add_devices_keeps [of f, OF assms(1,2)] add_host_devices_keeps [of f, OF assms(1)]
  by (auto simp: addOCIDevices_def run_bindE ret_def split: prod.splits outcome.splits if_splits)

text \<open>A property of the spec that none of the steps of a phase touches.\<close>

lemma AddProcessEnv_fields [simp]:
  "sp_Namespaces (g_Spec (AddProcessEnv k v g)) = sp_Namespaces (g_Spec g)"
  "sp_Capabilities (g_Spec (AddProcessEnv k v g)) = sp_Capabilities (g_Spec g)"
  "sp_Mounts (g_Spec (AddProcessEnv k v g)) = sp_Mounts (g_Spec g)"
  "sp_RootPath (g_Spec (AddProcessEnv k v g)) = sp_RootPath (g_Spec g)"
  "sp_RootReadonly (g_Spec (AddProcessEnv k v g)) = sp_RootReadonly (g_Spec g)"
  "sp_Terminal (g_Spec (AddProcessEnv k v g)) = sp_Terminal (g_Spec g)"
  by (auto simp: AddProcessEnv_def Let_def split: option.split)

lemma sync_env_fields [simp]:
  "sp_Namespaces (g_Spec (sync_env d g)) = sp_Namespaces (g_Spec g)"
  "sp_Capabilities (g_Spec (sync_env d g)) = sp_Capabilities (g_Spec g)"
  "sp_Mounts (g_Spec (sync_env d g)) = sp_Mounts (g_Spec g)"
  "sp_RootPath (g_Spec (sync_env d g)) = sp_RootPath (g_Spec g)"
  "sp_RootReadonly (g_Spec (sync_env d g)) = sp_RootReadonly (g_Spec g)"
  "sp_DeviceCgroups (g_Spec (sync_env d g)) = sp_DeviceCgroups (g_Spec g)"
  by (simp_all add: sync_env_def)

text \<open>Which operations each step performs.\<close>

lemma keeps_if: "(b \<Longrightarrow> keeps P m) \<Longrightarrow> (\<not> b \<Longrightarrow> keeps P n) \<Longrightarrow> keeps P (if b then m else n)"
  by simp

lemma setOCIProcessArgs_keeps:
  "(\<And>a g. P g \<Longrightarrow> P (SetProcessArgs a g)) \<Longrightarrow> keeps P (setOCIProcessArgs config ic)"
  unfolding setOCIProcessArgs_def Let_def by (intro guar_intros keeps_if) (auto split: option.split intro: guar_intros)

lemma addImageEnvs_keeps:
  "(\<And>k v g. P g \<Longrightarrow> P (AddProcessEnv k v g)) \<Longrightarrow> keeps P (addImageEnvs envs)"
  unfolding addImageEnvs_def by (intro guar_intros) (auto split: list.split intro: guar_intros)

lemma spec_process_keeps:
  assumes "\<And>x g. P g \<Longrightarrow> P (SetRootPath x g)" "\<And>x g. P g \<Longrightarrow> P (SetProcessArgs x g)"
    "\<And>x g. P g \<Longrightarrow> P (SetProcessCwd x g)" "\<And>x g. P g \<Longrightarrow> P (SetProcessTerminal x g)"
    "\<And>k v g. P g \<Longrightarrow> P (AddProcessEnv k v g)" "keeps P (addOCIBindMounts (ms @ pget cc_Mounts [] config)
       (pget ls_Privileged False (container_security_context config)))" "\<And>x g. P g \<Longrightarrow> P (SetRootReadonly x g)"
  shows "keeps P (spec_process config ic ms)"
  unfolding spec_process_def Let_def case_prod_beta
  by (intro guar_intros keeps_if setOCIProcessArgs_keeps addImageEnvs_keeps assms)

lemma setOCILinuxResource_keeps:
  assumes "\<And>x g. P g \<Longrightarrow> P (SetLinuxResourcesCPUPeriod x g)" "\<And>x g. P g \<Longrightarrow> P (SetLinuxResourcesCPUQuota x g)"
    "\<And>x g. P g \<Longrightarrow> P (SetLinuxResourcesCPUShares x g)" "\<And>x g. P g \<Longrightarrow> P (SetLinuxResourcesMemoryLimit x g)"
    "\<And>x g. P g \<Longrightarrow> P (SetProcessOOMScoreAdj x g)"
  shows "keeps P (setOCILinuxResource r)"
  unfolding setOCILinuxResource_def by (cases r) (auto intro!: guar_intros assms)

section \<open>What a successful generation yields\<close>

definition yields :: "(Gen \<Rightarrow> bool) \<Rightarrow> unit gen \<Rightarrow> (Gen \<Rightarrow> bool) \<Rightarrow> bool" where
  "yields P m B \<longleftrightarrow> (\<forall>g g'. P g \<longrightarrow> run m g = (Ok (), g') \<longrightarrow> B g')"

lemma yields_seqE: "yields P m R \<Longrightarrow> yields R n B \<Longrightarrow> yields P (seqE m n) B"
  unfolding yields_def seqE_def run_bindE by (fastforce split: prod.splits outcome.splits)

lemma yields_keeps: "keeps P m \<Longrightarrow> yields P m P"
  unfolding yields_def using keeps_run by blast

lemma yields_keeps_seqE: "keeps P (m :: unit gen) \<Longrightarrow> yields P n B \<Longrightarrow> yields P (seqE m n) B"
  by (rule yields_seqE [OF yields_keeps])

lemma yieldsD: "yields P m B \<Longrightarrow> P g \<Longrightarrow> run m g = (Ok (), g') \<Longrightarrow> B g'"
  by (simp add: yields_def)

lemma yields_from: "yields P m B \<Longrightarrow> P g \<Longrightarrow> yields (\<lambda>g'. g' = g) m B"
  by (simp add: yields_def)

lemma generateContainerSpec_yields:
  assumes gen: "run (generateContainerSpec env cid pid config sc ic ms) s = (Ok sp, s')"
    and process: "yields (\<lambda>g. g = GenerateSpec (defaultEnv s)) (spec_process config ic ms) P"
    and devices: "\<And>g g' t t'. P g \<Longrightarrow> run (addOCIDevices env (pget cc_Devices [] config)
      (pget ls_Privileged False (container_security_context config)) g) t = (Ok g', t') \<Longrightarrow> P' g'"
    and sync: "\<And>d g. P' g \<Longrightarrow> P' (sync_env d g)"
    and isolation: "yields P' (spec_isolation cid pid config sc) B"
  obtains g where "sp = g_Spec g" "B g"
proof -
  from gen obtain g1 s1 g2 s2 g3 where
    "run (spec_process config ic ms) (GenerateSpec (defaultEnv s)) = (Ok (), g1)" and
    d: "run (addOCIDevices env (pget cc_Devices [] config) (pget ls_Privileged False (container_security_context config)) g1) s1 = (Ok g2, s2)" and
    i: "run (spec_isolation cid pid config sc) (sync_env (defaultEnv s2) g2) = (Ok (), g3)" and sp: "sp = g_Spec g3"
    by (rule generateContainerSpec_phases)
  with process have "P g1" by (auto simp: yields_def)
  then have "P' (sync_env (defaultEnv s2) g2)" using devices [OF _ d] sync by blast
  with isolation i have "B g3" by (auto simp: yields_def)
  with sp show thesis by (rule that)
qed

section \<open>The namespaces of the sandbox\<close>

lemma addOCIBindMounts_keeps:
  assumes "\<And>x g. P g \<Longrightarrow> P (AddCgroupsMount x g)" "\<And>a b c g. P g \<Longrightarrow> P (AddBindMount a b c g)"
    "\<And>g. P g \<Longrightarrow> P (upd_spec (\<lambda>sp. sp\<lparr>sp_Mounts := map (clear_mount sp) (sp_Mounts sp),
        sp_ReadonlyPaths := [], sp_MaskedPaths := []\<rparr>) g)"
  shows "keeps P (addOCIBindMounts ms p)"
  unfolding addOCIBindMounts_def by (intro guar_intros keeps_if assms)

lemma setOCICapabilities_keeps:
  assumes "\<And>g. P g \<Longrightarrow> P (SetupPrivileged True g)" "\<And>f g. P g \<Longrightarrow> P (upd_spec (sp_Capabilities_update f) g)"
  shows "keeps P (setOCICapabilities caps p)"
proof -
  have "keeps P (gresult (AddProcessCapability c))" for c
    using assms(2) by (auto simp: gresult_def AddProcessCapability_def guar_atomic_iff Let_def split: sum.splits)
  moreover have "keeps P (gresult_panic (DropProcessCapability c))" for c
    using assms(2) by (auto simp: gresult_panic_def DropProcessCapability_def guar_atomic_iff Let_def
        split: sum.splits option.splits)
  ultimately show ?thesis
    unfolding setOCICapabilities_def by (cases caps) (auto intro!: guar_intros keeps_if assms(1))
qed

definition joined_namespaces :: "uint32 \<Rightarrow> (string \<times> string) list" where
  "joined_namespaces pid = [(''pid'', getPIDNamespace pid), (''ipc'', getIPCNamespace pid),
     (''uts'', getUTSNamespace pid), (''mount'', ''''), (''network'', getNetworkNamespace pid)]"

lemma setOCINamespaces_yields:
  "yields (\<lambda>g. sp_Namespaces (g_Spec g) = defaultNamespaces) (setOCINamespaces pid)
     (\<lambda>g. sp_Namespaces (g_Spec g) = joined_namespaces pid)"
  by (simp add: yields_def setOCINamespaces_def seqE_def run_bindE gmod_def AddOrReplaceLinuxNamespace_def
      known_namespaces_def defaultNamespaces_def joined_namespaces_def)

lemma spec_isolation_yields:
  assumes "\<And>x g. P g \<Longrightarrow> P (SetLinuxResourcesCPUPeriod x g)" "\<And>x g. P g \<Longrightarrow> P (SetLinuxResourcesCPUQuota x g)"
    "\<And>x g. P g \<Longrightarrow> P (SetLinuxResourcesCPUShares x g)" "\<And>x g. P g \<Longrightarrow> P (SetLinuxResourcesMemoryLimit x g)"
    "\<And>x g. P g \<Longrightarrow> P (SetProcessOOMScoreAdj x g)" "\<And>x g. P g \<Longrightarrow> P (SetLinuxCgroupsPath x g)"
    and caps: "yields P (wrap_err (\<lambda>e. Errorf [Lit ''failed to set capabilities: '', V e])
      (setOCICapabilities (pget ls_Capabilities None (container_security_context config))
        (pget ls_Privileged False (container_security_context config)))) R"
    and ns: "yields R (setOCINamespaces pid) B" and gid: "\<And>x g. B g \<Longrightarrow> B (AddProcessAdditionalGid x g)"
  shows "yields P (spec_isolation cid pid config sc) B"
  unfolding spec_isolation_def Let_def
  by (rule yields_seqE [OF yields_keeps yields_seqE [OF yields_keeps yields_seqE [OF caps yields_seqE [OF ns yields_keeps]]]])
    (auto intro!: setOCILinuxResource_keeps guar_intros assms(1-6) gid)


section \<open>Privileged containers\<close>

definition writable_sys :: "OciMount list \<Rightarrow> bool" where
  "writable_sys mounts \<longleftrightarrow> list_all (\<lambda>m. (om_Destination m = ''/sys'' \<or> om_Type m = ''cgroup'') \<longrightarrow> ''ro'' \<notin> set (om_Options m)) mounts"

lemma clear_mount_writable:
  "om_Destination (clear_mount sp m) = om_Destination m" "om_Type (clear_mount sp m) = om_Type m"
  "\<not> sp_RootReadonly sp \<Longrightarrow> om_Destination m = ''/sys'' \<or> om_Type m = ''cgroup'' \<Longrightarrow> ''ro'' \<notin> set (om_Options (clear_mount sp m))"
  by (auto simp: clear_mount_def clearReadOnly_def Let_def)

lemma addOCIBindMounts_privileged:
  "yields (\<lambda>g. \<not> sp_RootReadonly (g_Spec g)) (addOCIBindMounts ms True)
     (\<lambda>g. writable_sys (sp_Mounts (g_Spec g)) \<and> sp_ReadonlyPaths (g_Spec g) = [] \<and> sp_MaskedPaths (g_Spec g) = [])"
proof -
  let ?P = "\<lambda>g. \<not> sp_RootReadonly (g_Spec g)"
  have "keeps ?P (gmod (AddCgroupsMount ''ro''))"
    "keeps ?P (forE ms (\<lambda>mount. gmod (AddBindMount (mnt_HostPath mount) (mnt_ContainerPath mount)
              (if mnt_Readonly mount then [''ro''] else [''rw'']))))"
    by (auto simp: gen_defs Let_def intro!: guar_intros)
  note keeps = this [THEN yields_keeps]
  show ?thesis
    unfolding addOCIBindMounts_def if_True not_True_eq_False if_False
    by (rule yields_seqE [OF keeps(1) yields_seqE [OF keeps(2)]])
      (simp add: yields_def gmod_def writable_sys_def list_all_iff clear_mount_writable)
qed

lemma spec_process_yields:
  assumes "\<And>x g. P g \<Longrightarrow> P (SetRootPath x g)" "\<And>x g. P g \<Longrightarrow> P (SetProcessArgs x g)"
    "\<And>x g. P g \<Longrightarrow> P (SetProcessCwd x g)" "\<And>x g. P g \<Longrightarrow> P (SetProcessTerminal x g)"
    "\<And>k v g. P g \<Longrightarrow> P (AddProcessEnv k v g)"
    and mounts: "yields P (addOCIBindMounts (ms @ pget cc_Mounts [] config)
       (pget ls_Privileged False (container_security_context config))) R"
    and ro: "\<And>x g. R g \<Longrightarrow> R (SetRootReadonly x g)"
  shows "yields P (spec_process config ic ms) R"
proof -
  note keeps = guar_intros keeps_if setOCIProcessArgs_keeps addImageEnvs_keeps assms(1-5)
  show ?thesis
    unfolding spec_process_def Let_def case_prod_beta
    by (intro yields_keeps_seqE yields_seqE [OF mounts yields_keeps] keeps ro)
qed

lemma setOCICapabilities_privileged:
  assumes "\<And>g. P g \<Longrightarrow> P (SetupPrivileged True g)"
  shows "yields P (wrap_err w (setOCICapabilities caps True))
    (\<lambda>g. P g \<and> cap_Bounding (sp_Capabilities (g_Spec g)) = all_caps \<and> cap_Effective (sp_Capabilities (g_Spec g)) = all_caps)"
  using assms by (auto simp: yields_def setOCICapabilities_def run_wrap_err gmod_def SetupPrivileged_def)

lemma addOCIDevices_privileged:
  "run (addOCIDevices env ds True g) s = (Ok g', s') \<Longrightarrow> sp_DeviceCgroups (g_Spec g') = [allow_all_devices]"
  by (auto simp: addOCIDevices_def run_bindE ret_def split: prod.splits outcome.splits)


section \<open>Capabilities of an unprivileged container\<close>

definition cap_lists :: "Caps \<Rightarrow> string list list" where
  "cap_lists c = [cap_Bounding c, cap_Effective c, cap_Inheritable c, cap_Permitted c, cap_Ambient c]"

text \<open>Every list is free of duplicates, inside \<open>A\<close> and outside \<open>D\<close>, up to upper case.\<close>

definition confined_list :: "string set \<Rightarrow> string set \<Rightarrow> string list \<Rightarrow> bool" where
  "confined_list A D l \<longleftrightarrow> distinct (map strings_ToUpper l) \<and> strings_ToUpper ` set l \<subseteq> A - D"

definition confined :: "string set \<Rightarrow> string set \<Rightarrow> Caps \<Rightarrow> bool" where
  "confined A D c \<longleftrightarrow> list_all (confined_list A D) (cap_lists c)"

definition asked :: "string list \<Rightarrow> string set" where
  "asked cs = (\<lambda>c. strings_ToUpper (''CAP_'' @ c)) ` set cs"

lemma upper_char_idem [simp]: "upper_char (upper_char c) = upper_char c"
proof -
  have "97 \<le> (of_char c :: nat) \<and> (of_char c :: nat) \<le> 122 \<Longrightarrow> (of_char (char_of ((of_char c :: nat) - 32)) :: nat) = of_char c - 32"
    by (auto intro!: of_char_of [THEN trans] mod_less)
  then show ?thesis by (auto simp: upper_char_def Let_def)
qed

lemma strings_ToUpper_idem [simp]: "strings_ToUpper (strings_ToUpper c) = strings_ToUpper c"
  by (simp add: strings_ToUpper_def)

lemma confined_list_append:
  "confined_list A {} l \<Longrightarrow> strings_ToUpper k \<in> A \<Longrightarrow> \<not> has_cap (strings_ToUpper k) l \<Longrightarrow> confined_list A {} (l @ [strings_ToUpper k])"
  by (auto simp: confined_list_def has_cap_def)

lemma confined_list_drop:
  assumes "confined_list A D l" and "drop_cap k l = Some l'"
  shows "confined_list A (insert k D) l'"
proof -
  have "l' = filter (\<lambda>c. strings_ToUpper c \<noteq> k) l" using assms drop_cap_distinct [of l k] by (simp add: confined_list_def)
  then show ?thesis using assms(1) by (auto simp: confined_list_def distinct_map_filter)
qed

lemma confined_add: "confined A {} c \<Longrightarrow> strings_ToUpper k \<in> A \<Longrightarrow> confined A {} (add_cap (strings_ToUpper k) c)"
  by (simp add: confined_def cap_lists_def add_cap_def Let_def confined_list_append)

lemma confined_drop:
  assumes "confined A D (sp_Capabilities (g_Spec g))" and "DropProcessCapability k g = Some (Inr g')"
  shows "confined A (insert (strings_ToUpper k) D) (sp_Capabilities (g_Spec g'))"
  using assms by (auto simp: confined_def cap_lists_def DropProcessCapability_def Let_def
      split: sum.splits option.splits intro: confined_list_drop)

lemma yields_forE:
  assumes "\<And>x D. x \<in> set xs \<Longrightarrow> yields (P D) (body x) (P (insert (h x) D))"
  shows "yields (P D) (forE xs body) (P (h ` set xs \<union> D))"
  using assms
proof (induction xs arbitrary: D)
  case (Cons x xs)
  from yields_seqE [OF Cons.prems [of x] Cons.IH] show ?case
    using Cons.prems by (simp add: seqE_def)
qed (simp add: yields_def)

lemma defaltCaps_upper: "map strings_ToUpper defaltCaps = defaltCaps" "distinct defaltCaps"
  by code_simp+

lemma confined_default:
  "set defaltCaps \<subseteq> A \<Longrightarrow> confined A {} (sp_Capabilities (createDefaultSpec denv))"
  using defaltCaps_upper by (auto simp: confined_def cap_lists_def confined_list_def createDefaultSpec_def simp flip: set_map)

lemma setOCICapabilities_confined:
  assumes "asked (pget cap_Add [] caps) \<subseteq> A"
  shows "yields (\<lambda>g. confined A {} (sp_Capabilities (g_Spec g))) (wrap_err w (setOCICapabilities caps False))
    (\<lambda>g. confined A (asked (pget cap_Drop [] caps)) (sp_Capabilities (g_Spec g)))"
proof -
  let ?P = "\<lambda>D g. confined A D (sp_Capabilities (g_Spec g))"
  let ?up = "\<lambda>c. strings_ToUpper (''CAP_'' @ c)"
  have add: "yields (?P {}) (gresult (AddProcessCapability (''CAP_'' @ c))) (?P {})" if "?up c \<in> A" for c
    using that by (auto simp: yields_def gresult_def AddProcessCapability_def Let_def confined_add split: sum.splits)
  have drop: "yields (?P D) (gresult_panic (DropProcessCapability (''CAP_'' @ c))) (?P (insert (?up c) D))" for c D
    by (auto simp: yields_def gresult_panic_def confined_drop split: sum.splits option.splits)
  have "yields (?P {}) (setOCICapabilities caps False) (?P (asked (pget cap_Drop [] caps)))"
  proof (cases caps)
    case None
    then show ?thesis by (simp add: setOCICapabilities_def asked_def yields_def gskip_def)
  next
    case (Some cs)
    have adds: "yields (?P {}) (forE (cap_Add cs) (\<lambda>c. gresult (AddProcessCapability (''CAP_'' @ c)))) (?P {})"
      by (rule yields_forE [where P = "\<lambda>D. ?P {}"]) (rule add, use assms Some in \<open>auto simp: asked_def\<close>)
    show ?thesis
      using yields_seqE [OF adds yields_forE [where P = ?P and h = ?up, OF drop]] Some
      by (simp add: setOCICapabilities_def asked_def)
  qed
  then show ?thesis by (auto simp: yields_def run_wrap_err split: prod.splits outcome.splits)
qed

text \<open>
  C18: An unprivileged container is confined to what it asked for: each of the five capability lists of its
  spec has only default capabilities and capabilities the configuration adds, and none that it drops,
  in whatever case the configuration writes them.
\<close>

lemma generateContainerSpec_capabilities:
  assumes gen: "run (generateContainerSpec env cid pid config sc ic ms) s = (Ok sp, s')"
    and unprivileged: "\<not> pget ls_Privileged False (container_security_context config)"
    and caps: "caps = pget ls_Capabilities None (container_security_context config)"
    and l: "l \<in> set (cap_lists (sp_Capabilities sp))" and c: "c \<in> set l"
  shows "strings_ToUpper c \<in> set defaltCaps \<union> asked (pget cap_Add [] caps) \<and> strings_ToUpper c \<notin> asked (pget cap_Drop [] caps)"
proof -
  define A where "A = set defaltCaps \<union> asked (pget cap_Add [] caps)"
  let ?P = "\<lambda>D g. confined A D (sp_Capabilities (g_Spec g))"
  have "yields (?P {}) (spec_process config ic ms) (?P {})"
    by (intro yields_keeps spec_process_keeps addOCIBindMounts_keeps) (auto simp: gen_defs Let_def)
  then have process: "yields (\<lambda>g. g = GenerateSpec (defaultEnv s)) (spec_process config ic ms) (?P {})"
    by (rule yields_from) (simp add: GenerateSpec_def confined_default A_def)
  have isolation: "yields (?P {}) (spec_isolation cid pid config sc) (?P (asked (pget cap_Drop [] caps)))"
    by (rule spec_isolation_yields [where R = "?P (asked (pget cap_Drop [] caps))"])
      (auto simp: gen_defs unprivileged setOCINamespaces_def A_def simp flip: caps
        intro!: yields_keeps guar_intros setOCICapabilities_confined)
  have "?P {} g'" if "?P {} g" "run (addOCIDevices env ds p g) t = (Ok g', t')" for g g' t t' ds p
    using addOCIDevices_keeps [where f = "\<lambda>g. sp_Capabilities (g_Spec g)", OF _ _ that(2)] that(1) by (simp add: gen_defs)
  then have "confined A (asked (pget cap_Drop [] caps)) (sp_Capabilities sp)"
    by (rule generateContainerSpec_yields [OF gen process _ _ isolation]) simp_all
  then show ?thesis using l c by (auto simp: confined_def list_all_iff confined_list_def A_def)
qed

section \<open>The environment that containers share\<close>

text \<open>Operations that leave the environment and the package variable alone.\<close>

definition env_is :: "string list \<Rightarrow> Gen \<Rightarrow> bool" where
  "env_is d g \<longleftrightarrow> g_defaultEnv g = d \<and> sp_Env (g_Spec g) = d \<and> sp_EnvShared (g_Spec g)"

lemma env_is_GenerateSpec: "env_is d (GenerateSpec d)"
  by (simp add: env_is_def GenerateSpec_def createDefaultSpec_def)

lemma spec_process_path:
  assumes "ic_Env icfg = [''PATH='' @ v]" "CHR ''='' \<notin> set v" "\<not> pget cc_Tty False config" "pget cc_Envs [] config = []"
  shows "yields (env_is [''PATH='' @ old]) (spec_process config (Some icfg) ms) (\<lambda>g. g_defaultEnv g = [''PATH='' @ v])"
proof -
  have split: "strings_Split (''PATH='' @ v) (CHR ''='') = [''PATH'', v]"
    using assms(2) by simp
  have envs: "yields (env_is [''PATH='' @ old]) (bindE (ifield ic_Env (Some icfg)) addImageEnvs) (\<lambda>g. g_defaultEnv g = [''PATH='' @ v])"
    using split by (auto simp: yields_def ifield_def greturn_def run_bindE assms(1) run_addImageEnvs_Cons
        run_addImageEnvs_Nil env_is_def AddProcessEnv_def Let_def)
  show ?thesis
    unfolding spec_process_def Let_def assms(4) case_prod_beta
    by (rule yields_keeps_seqE [OF _ yields_keeps_seqE [OF _ yields_keeps_seqE [OF _ yields_keeps_seqE [OF _
        yields_keeps_seqE [OF _ yields_seqE [OF envs yields_keeps]]]]]])
      (auto simp: assms(3) env_is_def gen_defs Let_def intro!: guar_intros setOCIProcessArgs_keeps addOCIBindMounts_keeps)
qed

lemma spec_isolation_keeps_default: "keeps (\<lambda>g. g_defaultEnv g = d) (spec_isolation cid pid config sc)"
  unfolding spec_isolation_def setOCINamespaces_def Let_def
  by (intro guar_intros keeps_if setOCILinuxResource_keeps setOCICapabilities_keeps) (auto simp: gen_defs)


end
