(* ===== verification/Image_Properties.thy ===== *)
theory Image_Properties
  imports Image_Pull
begin

text \<open>
  What pulling and removing an image guarantee: the pulled image is in the index under the reference that
  was asked for, the wait for downloads sees every resource the fetch visited and ends, and a removed
  image is gone.
\<close>

section \<open>The reference of a pulled image\<close>

text \<open>
  The check of a pull that its repo tag or repo digest is the reference that was pulled never fails:
  a normalized reference has a tag or a digest and not both, so it is one of the two names derived from
  it, for images of either schema.
\<close>

lemma pulled_reference_expected:
  assumes "reference_laws env" and "normalizeImageRef env rawRef = Inr namedRef"
    and "getRepoDigestAndTag namedRef digest schema1 = (repoDigest, repoTag)"
  shows "\<not> (Named_String namedRef \<noteq> repoTag \<and> Named_String namedRef \<noteq> repoDigest)"
  using repo_names_of_normalized [OF normalizeImageRef_one [OF assms(1,2)] assms(3)] by blast

lemma Named_String_not_empty: "(nm_Tag n = None) \<noteq> (nm_Digest n = None) \<Longrightarrow> Named_String n \<noteq> ''''"
  by (auto simp: Named_String_def)

lemma pullImage_names:
  assumes laws: "reference_laws env" and pull: "run (pullImage env fuel rawRef auth) s = (Ok (iid, repoTag, repoDigest), s')"
  obtains n where "normalizeImageRef env rawRef = Inr n" "Named_String n \<noteq> ''''"
    "Named_String n = repoTag \<or> Named_String n = repoDigest"
proof -
  from pull obtain n d schema1 where n: "normalizeImageRef env rawRef = Inr n" and
    g: "getRepoDigestAndTag n d schema1 = (repoDigest, repoTag)"
    by (auto simp: pullImage_def run_bindE run_wrap_err seqE_def lift_result_def ret_def fail_def Let_def
        of_result_def split: prod.splits outcome.splits sum.splits if_splits)
  note one = normalizeImageRef_one [OF laws n]
  from that [OF n Named_String_not_empty [OF one] repo_names_of_normalized [OF one g]] show thesis .
qed

lemma istore_Add_run:
  "run (istore_Add env img) s = (case map_order env (world s) of
     (ord, w) \<Rightarrow> (Ok (), s\<lparr>world := w, imageStore := imageStore_Add ord img (imageStore s)\<rparr>))"
  by (simp add: istore_Add_def run_bindE ext_val_def split: prod.split)

lemma PullImage_cases:
  assumes "run (PullImage env fuel ref auth) s = (Ok iid, s')"
  obtains repoTag repoDigest img ord w1 w s1 where
    "run (pullImage env fuel ref auth) s = (Ok (iid, repoTag, repoDigest), s1)" "map_order env w1 = (ord, w)"
    "img_ID img = iid" "img_RepoTags img = (if repoTag \<noteq> '''' then [repoTag] else [])"
    "img_RepoDigests img = (if repoDigest \<noteq> '''' then [repoDigest] else [])"
    "imageStore s' = imageStore_Add ord img (imageStore s)"
proof -
  from assms obtain repoTag repoDigest s1 chainID sz config s2 where
    p: "run (pullImage env fuel ref auth) s = (Ok (iid, repoTag, repoDigest), s1)" and
    i: "run (getImageInfo env ref) s1 = (Ok (chainID, sz, config), s2)" and
    a: "run (istore_Add env \<lparr>img_ID = iid, img_RepoTags = (if repoTag \<noteq> '''' then [repoTag] else []),
          img_RepoDigests = (if repoDigest \<noteq> '''' then [repoDigest] else []),
          img_ChainID = chainID, img_Size = sz, img_Config = Some config\<rparr>) s2 = (Ok (), s')"
    by (auto simp: PullImage_def run_bindE run_wrap_err seqE_def ret_def split: prod.splits outcome.splits)
  have "imageStore s1 = imageStore s" "imageStore s2 = imageStore s1"
    using guar_world_only_run [OF pullImage_world p] guar_world_only_run [OF image_world(2) i] by auto
  with a show thesis
    by (intro that [where img = "\<lparr>img_ID = iid, img_RepoTags = (if repoTag \<noteq> '''' then [repoTag] else []),
          img_RepoDigests = (if repoDigest \<noteq> '''' then [repoDigest] else []),
          img_ChainID = chainID, img_Size = sz, img_Config = Some config\<rparr>", OF p prod.collapse [of "map_order env (world s2)", symmetric]])
      (auto simp: istore_Add_run split: prod.splits)
qed

text \<open>
  C21: A pull that returns an image id leaves an image with that id in the index that is known by the
  reference that was pulled, keeps every reference the image had before, and leaves the other
  images as they were.
\<close>

lemma PullImage_stored:
  assumes "reference_laws env" and order: "\<And>w. is_order (fst (map_order env w))"
    and "run (PullImage env fuel ref auth) s = (Ok iid, s')"
  shows "\<exists>n img. normalizeImageRef env ref = Inr n \<and> map_of (imageStore s') iid = Some img \<and>
    Named_String n \<in> image_refs img \<and>
    (case map_of (imageStore s) iid of None \<Rightarrow> True | Some old \<Rightarrow> image_refs old \<subseteq> image_refs img) \<and>
    (\<forall>k. k \<noteq> iid \<longrightarrow> map_of (imageStore s') k = map_of (imageStore s) k)"
proof -
  from assms(3) obtain repoTag repoDigest img ord w1 w s1 where
    p: "run (pullImage env fuel ref auth) s = (Ok (iid, repoTag, repoDigest), s1)" and o: "map_order env w1 = (ord, w)" and
    img: "img_ID img = iid" "img_RepoTags img = (if repoTag \<noteq> '''' then [repoTag] else [])"
      "img_RepoDigests img = (if repoDigest \<noteq> '''' then [repoDigest] else [])" and
    st: "imageStore s' = imageStore_Add ord img (imageStore s)"
    by (rule PullImage_cases)
  from pullImage_names [OF assms(1) p] obtain n where n: "normalizeImageRef env ref = Inr n" "Named_String n \<noteq> ''''"
    "Named_String n = repoTag \<or> Named_String n = repoDigest" .
  have ord: "is_order ord" using order [of w1] o by simp
  from imageStore_Get_Add [OF this, of img "imageStore s"] obtain i where
    i: "map_of (imageStore s') iid = Some i" "set (img_RepoTags img) \<subseteq> set (img_RepoTags i)"
      "set (img_RepoDigests img) \<subseteq> set (img_RepoDigests i)"
      "case map_of (imageStore s) iid of None \<Rightarrow> True | Some old \<Rightarrow> image_refs old \<subseteq> image_refs i"
    by (auto simp: st img(1) imageStore_Get_def image_refs_def split: option.splits)
  have "Named_String n \<in> image_refs i" using i(2,3) n(2,3) img(2,3) by (auto simp: image_refs_def)
  moreover have "map_of (imageStore s') k = map_of (imageStore s) k" if "k \<noteq> iid" for k
    using that by (simp add: st img(1) imageStore_Add_def split: option.split)
  ultimately show ?thesis using n(1) i(1,4) by blast
qed

section \<open>Waiting for the download\<close>

text \<open>The context is cancelled, the content store fails, or it lists none of the resources.\<close>

fun settles_within :: "'w env \<Rightarrow> resourceSet \<Rightarrow> nat \<Rightarrow> 'w \<Rightarrow> bool" where
  "settles_within env resources 0 w = False"
| "settles_within env resources (Suc n) w = (case select_ctx env w of (cancelled, w1) \<Rightarrow> cancelled \<or>
     (case content_ListStatuses env w1 of (r, w2) \<Rightarrow> (case r of Inl e \<Rightarrow> True
      | Inr refs \<Rightarrow> (\<forall>ref \<in> set refs. map_of resources ref = None) \<or> settles_within env resources n w2)))"

lemma run_waitForResourcesDownloading_Suc:
  "run (waitForResourcesDownloading env (Suc fuel) resources) s = (case select_ctx env (world s) of (cancelled, w1) \<Rightarrow>
     if cancelled then (Err (Errorf [Lit ''image resources pulling is cancelled'']), s\<lparr>world := w1\<rparr>)
     else (case content_ListStatuses env w1 of
       (Inl e, w2) \<Rightarrow> (Err (Errorf [Lit ''failed to get content status: '', V e]), s\<lparr>world := w2\<rparr>)
     | (Inr refs, w2) \<Rightarrow> if \<forall>ref \<in> set refs. map_of resources ref = None then (Ok (), s\<lparr>world := w2\<rparr>)
         else run (waitForResourcesDownloading env fuel resources) (s\<lparr>world := w2\<rparr>)))"
  by (auto simp: run_bindE run_wrap_err ext_def ext_val_def ret_def fail_def Let_def of_result_def
      split: prod.splits sum.splits)

declare waitForResourcesDownloading.simps(2) [simp del]

text \<open>
  C33: The wait for the downloads of a pull ends: if within \<open>n\<close> rounds the context is cancelled, the content
  store fails or no resource of the image is being downloaded, the loop returns within \<open>n\<close> rounds.
\<close>

lemma waitForResourcesDownloading_ends:
  assumes "settles_within env resources n (world s)" and "n \<le> fuel"
  shows "fst (run (waitForResourcesDownloading env fuel resources) s) \<noteq> Diverge"
  using assms
proof (induction n arbitrary: fuel s)
  case (Suc n)
  then obtain m where "fuel = Suc m" "n \<le> m" by (cases fuel) auto
  with Suc.IH [of _ m] Suc.prems(1) show ?case
    by (auto simp: run_waitForResourcesDownloading_Suc split: prod.splits sum.splits)
qed simp

lemma waitForResourcesDownloading_sound:
  assumes "run (waitForResourcesDownloading env fuel resources) s = (Ok (), s')"
  shows "\<exists>w refs. content_ListStatuses env w = (Inr refs, world s') \<and> (\<forall>ref \<in> set refs. map_of resources ref = None)"
  using assms
proof (induction fuel arbitrary: s)
  case (Suc fuel)
  then show ?case
    by (auto simp: run_waitForResourcesDownloading_Suc split: prod.splits sum.splits if_splits) blast
qed simp


section \<open>Removing an image\<close>

lemma forE_world_images:
  "run (forE rs body) t = (r, t') \<Longrightarrow> (\<And>x. guar world_only (body x)) \<Longrightarrow> imageStore t' = imageStore t"
  using guar_world_only_run [OF guar_forE] by fastforce

text \<open>
  Removing an image deletes it from the index, and nothing else, when the reference resolves to an
  image; it does nothing to the service when it does not.
\<close>

lemma RemoveImage_gone:
  assumes "run (RemoveImage env ref) s = (Ok (), s')" and "run (localResolve env ref) s = (Ok found, s1)"
  shows "imageStore s' = (case found of None \<Rightarrow> imageStore s | Some img \<Rightarrow> imageStore_Delete (img_ID img) (imageStore s))"
proof -
  have "imageStore s1 = imageStore s" using guar_world_only_run [OF localResolve_world assms(2)] by auto
  with assms show ?thesis
    by (auto simp: RemoveImage_def run_bindE run_wrap_err seqE_def istore_Delete_def ret_def
        intro!: guar_intros dest!: forE_world_images split: prod.splits outcome.splits option.splits sum.splits)
qed

end
