(* ===== verification/Evaluation.thy ===== *)
theory Evaluation
  imports Stop_Concurrency Daemon Logger Sandbox_Cleanup Spec_Properties Image_Properties
begin

text \<open>
  Running a handler inside the kernel. The rules of the collection \<open>eval\<close>, together with the
  congruence rules \<open>eval_cong\<close>, make the simplifier execute a goroutine strictly: the state is
  evaluated before an action, an action before its continuation, and nothing inside a continuation
  that has not been reached. They are only used on closed terms.
\<close>

named_theorems eval \<open>execution of closed goroutines\<close>

section \<open>Control structures\<close>

lemma run_weak_cong: "s = s' \<Longrightarrow> run m s = run m s'"
  by simp

lemma run_acts [eval]:
  "run (ext f) s = (case f (world s) of (r, w) \<Rightarrow> (of_result r, s\<lparr>world := w\<rparr>))"
  "run (ext_val g) s = (case g (world s) of (x, w) \<Rightarrow> (Ok x, s\<lparr>world := w\<rparr>))"
  "run (gets h) s = (Ok (h s), s)" "run (ret x) s = (Ok x, s)" "run (fail e) s = (Err e, s)"
  "run (lift_result q) s = (of_result q, s)"
  by (simp_all add: act_defs)

lemma run_cases [eval]:
  "run (if b then m1 else m2) s = (if b then run m1 s else run m2 s)"
  "run (case_option m3 k3 v) s = (case v of None \<Rightarrow> run m3 s | Some x \<Rightarrow> run (k3 x) s)"
  "run (case_sum k1 k2 u) s = (case u of Inl x \<Rightarrow> run (k1 x) s | Inr x \<Rightarrow> run (k2 x) s)"
  "run (case_prod k4 p) s = (case p of (x, y) \<Rightarrow> run (k4 x y) s)"
  "run (case_list m6 k6 xs) s = (case xs of [] \<Rightarrow> run m6 s | y # ys \<Rightarrow> run (k6 y ys) s)"
  "run (Let z k5) s = Let z (\<lambda>x. run (k5 x) s)"
  "run (case_Envelope e1 e2 e3 evt) s = (case evt of EvTaskExit x \<Rightarrow> run (e1 x) s
     | EvTaskOOM x \<Rightarrow> run (e2 x) s | EvOther x \<Rightarrow> run (e3 x) s)"
  by (simp_all split: option.split sum.split prod.split list.split Envelope.split)

primrec run_for :: "'a list \<Rightarrow> ('a \<Rightarrow> ('s, 'e, unit) go) \<Rightarrow> 's \<Rightarrow> ('e, unit) outcome \<times> 's" where
  "run_for [] body s = (Ok (), s)"
| "run_for (x # xs) body s = (case run (body x) s of (r, s') \<Rightarrow> (case r of Ok _ \<Rightarrow> run_for xs body s'
     | Err e \<Rightarrow> (Err e, s') | Panic \<Rightarrow> (Panic, s') | Diverge \<Rightarrow> (Diverge, s')))"

lemma run_forE [eval]: "run (forE xs body) s = run_for xs body s"
  by (induction xs arbitrary: s) (simp_all add: run_bindE split: prod.split outcome.split)

lemma run_for_weak_cong: "xs = xs' \<Longrightarrow> s = s' \<Longrightarrow> run_for xs b s = run_for xs' b s'"
  by simp

lemmas run_control [eval] = run_bindE run_seqE run_tryE run_on_error run_defer_always run_wrap_err
  run_tolerate run_log_error

lemmas eval_cong = run_weak_cong run_for_weak_cong let_weak_cong

section \<open>Actions of the service\<close>

lemma run_store_acts [eval]:
  "run (sbstore_Get sid) s = (of_result (sandboxStore_Get sid (sandboxStore s)), s)"
  "run (istore_Get iid) s = (of_result (imageStore_Get iid (imageStore s)), s)"
  "run (cstore_Add c) s = (case containerStore_Add c (containerStore s) of (r, m) \<Rightarrow> (of_result r, s\<lparr>containerStore := m\<rparr>))"
  "run (sbstore_Add sb) s = (case sandboxStore_Add sb (sandboxStore s) of (r, m) \<Rightarrow> (of_result r, s\<lparr>sandboxStore := m\<rparr>))"
  "run (cstore_Delete cid) s = (Ok (), s\<lparr>containerStore := containerStore_Delete cid (containerStore s)\<rparr>)"
  "run (sbstore_Delete sid) s = (Ok (), s\<lparr>sandboxStore := sandboxStore_Delete sid (sandboxStore s)\<rparr>)"
  "run (istore_Delete iid) s = (Ok (), s\<lparr>imageStore := imageStore_Delete iid (imageStore s)\<rparr>)"
  "run (cname_Reserve n k) s = (case Reserve n k (containerNameIndex s) of (r, m) \<Rightarrow> (of_result r, s\<lparr>containerNameIndex := m\<rparr>))"
  "run (sname_Reserve n k) s = (case Reserve n k (sandboxNameIndex s) of (r, m) \<Rightarrow> (of_result r, s\<lparr>sandboxNameIndex := m\<rparr>))"
  "run (cname_ReleaseByName n) s = (Ok (), s\<lparr>containerNameIndex := ReleaseByName n (containerNameIndex s)\<rparr>)"
  "run (sname_ReleaseByName n) s = (Ok (), s\<lparr>sandboxNameIndex := ReleaseByName n (sandboxNameIndex s)\<rparr>)"
  "run (cname_ReleaseByKey k) s = (Ok (), s\<lparr>containerNameIndex := ReleaseByKey k (containerNameIndex s)\<rparr>)"
  "run (sname_ReleaseByKey k) s = (Ok (), s\<lparr>sandboxNameIndex := ReleaseByKey k (sandboxNameIndex s)\<rparr>)"
  "run (NewContainer meta st) s = (Ok \<lparr>c_Metadata = meta, c_Status = Some (length (statuses s))\<rparr>,
     s\<lparr>statuses := statuses s @ [st]\<rparr>)"
  by (simp_all add: act_defs)

lemma run_status_acts [eval]:
  "run (status_Update c u) s = (case c_Status c of
     Some i \<Rightarrow> (if i < length (statuses s) then (case u (statuses s ! i) of
         Inl e \<Rightarrow> (Err e, s) | Inr st \<Rightarrow> (Ok (), s\<lparr>statuses := (statuses s)[i := st]\<rparr>)) else (Panic, s))
   | None \<Rightarrow> (Panic, s))"
  "run (container_Delete c) s = (case c_Status c of
     Some i \<Rightarrow> (if i < length (statuses s) then (Ok (), s) else (Panic, s)) | None \<Rightarrow> (Panic, s))"
  "run (status_UpdateTx c body) s = (case c_Status c of
     Some i \<Rightarrow> (if i < length (statuses s) then
         (case run (body (statuses s ! i)) s of
            (r, s') \<Rightarrow> (case r of Ok p \<Rightarrow> (case p of (e, st) \<Rightarrow> (Ok e, s'\<lparr>statuses := (statuses s')[i := st]\<rparr>))
          | Err e \<Rightarrow> (Err e, s') | Panic \<Rightarrow> (Panic, s') | Diverge \<Rightarrow> (Diverge, s')))
       else (Panic, s))
   | None \<Rightarrow> (Panic, s))"
  by (auto simp: status_Update_def statusStorage_Update_def container_Delete_def statusStorage_Delete_def
      status_UpdateTx_def split: option.split prod.split outcome.split sum.split)

lemma run_on_gen [eval]:
  "run (on_gen m g) s = (case run m (sync_env (defaultEnv s) g) of
     (r, g') \<Rightarrow> (case r of Ok _ \<Rightarrow> Ok g' | Err e \<Rightarrow> Err e | Panic \<Rightarrow> Panic | Diverge \<Rightarrow> Diverge,
       s\<lparr>defaultEnv := g_defaultEnv g'\<rparr>))"
  by (simp add: on_gen_def)

lemma run_gen_acts [eval]:
  "run (gmod f) g = (Ok (), f g)" "run (greturn x) g = (Ok x, g)" "run (gfail e) g = (Err e, g)" "run gskip g = (Ok (), g)"
  "run (gresult h) g = (case h g of Inl e \<Rightarrow> (Err e, g) | Inr g' \<Rightarrow> (Ok (), g'))"
  "run (gresult_panic k) g = (case k g of None \<Rightarrow> (Panic, g) | Some r \<Rightarrow> (case r of Inl e \<Rightarrow> (Err e, g) | Inr g' \<Rightarrow> (Ok (), g')))"
  "run (ifield fl c) g = (case c of None \<Rightarrow> (Panic, g) | Some ic \<Rightarrow> (Ok (fl ic), g))"
  by (simp_all add: gen_act_defs split: option.split sum.split)

lemmas run_more_acts [eval] = run_cstore_Get run_status_Get
  cstore_List_def [THEN arg_cong, of run, THEN fun_cong]
  sbstore_List_def [THEN arg_cong, of run, THEN fun_cong]
  istore_List_def [THEN arg_cong, of run, THEN fun_cong]
  istore_Add_def [THEN arg_cong, of run, THEN fun_cong]
  or_panic_def [THEN arg_cong, of run, THEN fun_cong]

section \<open>Handlers\<close>

text \<open>The parts of the container specification have rules of their own names: a proof that has summarised
  one of them removes its rule.\<close>

lemmas run_spec_process [eval] = spec_process_def [THEN arg_cong, of run, THEN fun_cong]
lemmas run_spec_isolation [eval] = spec_isolation_def [THEN arg_cong, of run, THEN fun_cong]
lemmas run_generateSandboxContainerSpec [eval] = generateSandboxContainerSpec_def [THEN arg_cong, of run, THEN fun_cong]
lemmas run_sandbox_spec [eval] = sandbox_spec_def [THEN arg_cong, of run, THEN fun_cong]
lemmas run_generateContainerSpec [eval] = generateContainerSpec_def [THEN arg_cong, of run, THEN fun_cong]

lemmas run_handlers [eval] =
  containerService_Create_def [THEN arg_cong, of run, THEN fun_cong]
  containerService_Delete_def [THEN arg_cong, of run, THEN fun_cong]
  snapshotService_View_def [THEN arg_cong, of run, THEN fun_cong]
  snapshotService_Prepare_def [THEN arg_cong, of run, THEN fun_cong]
  snapshotService_Mounts_def [THEN arg_cong, of run, THEN fun_cong]
  snapshotService_Remove_def [THEN arg_cong, of run, THEN fun_cong]
  open_streams.simps [THEN arg_cong, of run, THEN fun_cong]
  prepareStreamingPipes_def [THEN arg_cong, of run, THEN fun_cong]
  resolveSymbolicLink_def [THEN arg_cong, of run, THEN fun_cong]
  containerLogger_Start_def [THEN arg_cong, of run, THEN fun_cong]
  close_pipe_def [THEN arg_cong, of run, THEN fun_cong]
  close_pipe_if_def [THEN arg_cong, of run, THEN fun_cong]
  start_loggers_def [THEN arg_cong, of run, THEN fun_cong]
  start_task_def [THEN arg_cong, of run, THEN fun_cong]
  startContainer_def [THEN arg_cong, of run, THEN fun_cong]
  StartContainer_def [THEN arg_cong, of run, THEN fun_cong]
  wait_round_def [THEN arg_cong, of run, THEN fun_cong]
  waitContainerStop.simps [THEN arg_cong, of run, THEN fun_cong]
  kill_unless_gone_def [THEN arg_cong, of run, THEN fun_cong]
  stop_signal_def [THEN arg_cong, of run, THEN fun_cong]
  kill_and_wait_def [THEN arg_cong, of run, THEN fun_cong]
  stopContainer_def [THEN arg_cong, of run, THEN fun_cong]
  StopContainer_def [THEN arg_cong, of run, THEN fun_cong]
  remove_external_def [THEN arg_cong, of run, THEN fun_cong]
  remove_resources_def [THEN arg_cong, of run, THEN fun_cong]
  RemoveContainer_def [THEN arg_cong, of run, THEN fun_cong]
  handleTaskExit_def [THEN arg_cong, of run, THEN fun_cong]
  handleTaskOOM_def [THEN arg_cong, of run, THEN fun_cong]
  handleEvent_def [THEN arg_cong, of run, THEN fun_cong]
  handleEventStream_def [THEN arg_cong, of run, THEN fun_cong]
  drain_events.simps [THEN arg_cong, of run, THEN fun_cong]
  startEventMonitor.simps [THEN arg_cong, of run, THEN fun_cong]
  imageStoreService_Get_def [THEN arg_cong, of run, THEN fun_cong]
  imageStoreService_Create_def [THEN arg_cong, of run, THEN fun_cong]
  imageStoreService_Update_def [THEN arg_cong, of run, THEN fun_cong]
  imageStoreService_Delete_def [THEN arg_cong, of run, THEN fun_cong]
  resolve_image_id_def [THEN arg_cong, of run, THEN fun_cong]
  localResolve_def [THEN arg_cong, of run, THEN fun_cong]
  getImageInfo_def [THEN arg_cong, of run, THEN fun_cong]
  ListImages_def [THEN arg_cong, of run, THEN fun_cong]
  ImageStatus_def [THEN arg_cong, of run, THEN fun_cong]
  RemoveImage_def [THEN arg_cong, of run, THEN fun_cong]
  setOCIProcessArgs_def [THEN arg_cong, of run, THEN fun_cong]
  addImageEnvs_def [THEN arg_cong, of run, THEN fun_cong]
  addOCIBindMounts_def [THEN arg_cong, of run, THEN fun_cong]
  setOCILinuxResource_def [THEN arg_cong, of run, THEN fun_cong]
  setOCICapabilities_def [THEN arg_cong, of run, THEN fun_cong]
  setOCINamespaces_def [THEN arg_cong, of run, THEN fun_cong]
  add_devices.simps [THEN arg_cong, of run, THEN fun_cong]
  addOCIDevices_def [THEN arg_cong, of run, THEN fun_cong]
  create_entry_def [THEN arg_cong, of run, THEN fun_cong]
  create_containerd_def [THEN arg_cong, of run, THEN fun_cong]
  create_directory_def [THEN arg_cong, of run, THEN fun_cong]
  create_rootfs_def [THEN arg_cong, of run, THEN fun_cong]
  create_reserved_def [THEN arg_cong, of run, THEN fun_cong]
  CreateContainer_def [THEN arg_cong, of run, THEN fun_cong]
  ContainerStatus_def [THEN arg_cong, of run, THEN fun_cong]
  ListContainers_def [THEN arg_cong, of run, THEN fun_cong]
  createImageReference_def [THEN arg_cong, of run, THEN fun_cong]
  waitForResourcesDownloading.simps [THEN arg_cong, of run, THEN fun_cong]
  fetch_image_def [THEN arg_cong, of run, THEN fun_cong]
  unpack_image_def [THEN arg_cong, of run, THEN fun_cong]
  pullImage_def [THEN arg_cong, of run, THEN fun_cong]
  PullImage_def [THEN arg_cong, of run, THEN fun_cong]
  ensureImageExists_def [THEN arg_cong, of run, THEN fun_cong]
  RealOS_CopyFile_def [THEN arg_cong, of run, THEN fun_cong]
  RealOS_Unmount_def [THEN arg_cong, of run, THEN fun_cong]
  wait_task_exit.simps [THEN arg_cong, of run, THEN fun_cong]
  waitSandboxContainer_def [THEN arg_cong, of run, THEN fun_cong]
  waitContainerExec_def [THEN arg_cong, of run, THEN fun_cong]
  unmountSandboxFiles_def [THEN arg_cong, of run, THEN fun_cong]
  stopSandboxContainer_def [THEN arg_cong, of run, THEN fun_cong]
  stop_containers_def [THEN arg_cong, of run, THEN fun_cong]
  teardown_network_def [THEN arg_cong, of run, THEN fun_cong]
  StopPodSandbox_def [THEN arg_cong, of run, THEN fun_cong]
  setupSandboxFiles_def [THEN arg_cong, of run, THEN fun_cong]
  run_start_def [THEN arg_cong, of run, THEN fun_cong]
  run_network_def [THEN arg_cong, of run, THEN fun_cong]
  run_task_def [THEN arg_cong, of run, THEN fun_cong]
  run_files_def [THEN arg_cong, of run, THEN fun_cong]
  run_pipes_def [THEN arg_cong, of run, THEN fun_cong]
  run_directory_def [THEN arg_cong, of run, THEN fun_cong]
  run_containerd_def [THEN arg_cong, of run, THEN fun_cong]
  run_rootfs_def [THEN arg_cong, of run, THEN fun_cong]
  run_reserved_def [THEN arg_cong, of run, THEN fun_cong]
  RunPodSandbox_def [THEN arg_cong, of run, THEN fun_cong]
  remove_containers_def [THEN arg_cong, of run, THEN fun_cong]
  sandbox_task_gone_def [THEN arg_cong, of run, THEN fun_cong]
  remove_sandbox_def [THEN arg_cong, of run, THEN fun_cong]
  RemovePodSandbox_def [THEN arg_cong, of run, THEN fun_cong]
  PodSandboxStatus_def [THEN arg_cong, of run, THEN fun_cong]
  ListPodSandbox_def [THEN arg_cong, of run, THEN fun_cong]
  container_running_def [THEN arg_cong, of run, THEN fun_cong]
  exec_process_def [THEN arg_cong, of run, THEN fun_cong]
  execInContainer_def [THEN arg_cong, of run, THEN fun_cong]
  ExecSync_def [THEN arg_cong, of run, THEN fun_cong]
  Exec_def [THEN arg_cong, of run, THEN fun_cong]
  streamRuntime_Exec_def [THEN arg_cong, of run, THEN fun_cong]
  not_implemented_def [THEN arg_cong, of run, THEN fun_cong]
  Attach_def [THEN arg_cong, of run, THEN fun_cong]
  PortForward_def [THEN arg_cong, of run, THEN fun_cong]
  ContainerStats_def [THEN arg_cong, of run, THEN fun_cong]
  ListContainerStats_def [THEN arg_cong, of run, THEN fun_cong]
  ImageFsInfo_def [THEN arg_cong, of run, THEN fun_cong]
  UpdateRuntimeConfig_def [THEN arg_cong, of run, THEN fun_cong]
  Status_handler_def [THEN arg_cong, of run, THEN fun_cong]
  Version_def [THEN arg_cong, of run, THEN fun_cong]

end
