(* ===== verification/Sample_World.thy ===== *)
theory Sample_World
  imports Evaluation
begin

text \<open>
  A concrete outside world. The theorems of the development hold for every \<open>env\<close> that satisfies
  their hypotheses; this theory gives one, so that the hypotheses are seen to be satisfiable and
  the handlers can be run. The world \<open>fake\<close> keeps the resources held outside, the image names
  containerd knows, the events that wait to be delivered, the ticks that are left before a timer
  fires, and a counter that yields ids and times. Any operation can be made to fail by naming it in
  \<open>fails\<close>; releasing a resource that is not there reports that it was not found.
\<close>

record fake =
  fk_res :: "resource list"
  fk_images :: "(string \<times> Descriptor) list"
  fk_events :: "Envelope list"
  fk_ticks :: nat
  fk_n :: nat

definition fake_world :: fake where
  "fake_world = \<lparr>fk_res = [], fk_images = [], fk_events = [], fk_ticks = 2, fk_n = 0\<rparr>"

definition fake_res :: "fake \<Rightarrow> resource set" where
  "fake_res w = set (fk_res w)"

section \<open>The operations\<close>

definition fk_ok :: "string list \<Rightarrow> string \<Rightarrow> 'a \<Rightarrow> (fake, 'a) call" where
  "fk_ok fails op x w = (if op \<in> set fails then (Inl (OtherError op), w) else (Inr x, w))"

definition fk_create :: "string list \<Rightarrow> string \<Rightarrow> resource \<Rightarrow> 'a \<Rightarrow> (fake, 'a) call" where
  "fk_create fails op r x w = (if op \<in> set fails then (Inl (OtherError op), w)
     else (Inr x, w\<lparr>fk_res := List.insert r (fk_res w)\<rparr>))"

fun handle_bound :: "resource list \<Rightarrow> nat" where
  "handle_bound [] = 0"
| "handle_bound (RHandle h # rs) = max (Suc h) (handle_bound rs)"
| "handle_bound (_ # rs) = handle_bound rs"

definition fk_open :: "string list \<Rightarrow> string \<Rightarrow> (fake, handle) call" where
  "fk_open fails op w = (let h = handle_bound (fk_res w) in fk_create fails op (RHandle h) h w)"

definition not_found :: goerror where
  "not_found = GrpcStatus GNotFound ''not found''"

definition fk_release :: "resource \<Rightarrow> (fake, unit) call" where
  "fk_release r w = (if r \<in> set (fk_res w) then (Inr (), w\<lparr>fk_res := removeAll r (fk_res w)\<rparr>)
     else (Inl not_found, w))"

fun below :: "string \<Rightarrow> resource \<Rightarrow> bool" where
  "below p (RDir q) = within p q"
| "below p _ = False"

definition fk_remove_tree :: "string \<Rightarrow> (fake, unit) call" where
  "fk_remove_tree p w = (Inr (), w\<lparr>fk_res := filter (\<lambda>r. \<not> below p r) (fk_res w)\<rparr>)"

text \<open>Every task has the same process id; a task that is there is running.\<close>

definition fk_pid :: uint32 where "fk_pid = 42"

definition fk_task :: "string list \<Rightarrow> string \<Rightarrow> (fake, Task) call" where
  "fk_task fails cid w = (if ''tasks_Get'' \<in> set fails then (Inl (OtherError ''tasks_Get''), w)
     else if RTask cid \<in> set (fk_res w) then (Inr \<lparr>tk_ID = cid, tk_Pid = fk_pid, tk_Status = StatusRunning\<rparr>, w)
     else (Inl not_found, w))"

fun task_list :: "resource list \<Rightarrow> Task list" where
  "task_list [] = []"
| "task_list (RTask k # rs) = \<lparr>tk_ID = k, tk_Pid = fk_pid, tk_Status = StatusRunning\<rparr> # task_list rs"
| "task_list (_ # rs) = task_list rs"

text \<open>A kill is followed by the exit event of the task.\<close>

definition fk_exit :: "string \<Rightarrow> TaskExit" where
  "fk_exit cid = \<lparr>te_ContainerID = cid, te_ID = cid, te_Pid = fk_pid, te_ExitStatus = 137, te_ExitedAt = 99\<rparr>"

definition fk_kill :: "string list \<Rightarrow> KillRequest \<Rightarrow> (fake, unit) call" where
  "fk_kill fails k w = (if ''tasks_Kill'' \<in> set fails then (Inl (OtherError ''tasks_Kill''), w)
     else (Inr (), w\<lparr>fk_events := fk_events w @ [EvTaskExit (Inr (fk_exit (kr_ContainerID k)))]\<rparr>))"

definition fk_recv :: "(fake, Envelope) call" where
  "fk_recv w = (case fk_events w of [] \<Rightarrow> (Inl (OtherError ''EOF''), w)
     | e # es \<Rightarrow> (Inr e, w\<lparr>fk_events := es\<rparr>))"

definition fk_select :: "fake \<Rightarrow> Select \<times> fake" where
  "fk_select w = (case fk_ticks w of 0 \<Rightarrow> (TimerFired, w) | Suc n \<Rightarrow> (Tick, w\<lparr>fk_ticks := n\<rparr>))"

text \<open>Names known to containerd's image service.\<close>

definition fk_image_Get :: "string \<Rightarrow> (fake, Descriptor) call" where
  "fk_image_Get n w = (case map_of (fk_images w) n of None \<Rightarrow> (Inl not_found, w) | Some d \<Rightarrow> (Inr d, w))"

definition fk_image_Create :: "string \<Rightarrow> Descriptor \<Rightarrow> (fake, unit) call" where
  "fk_image_Create n d w = (case map_of (fk_images w) n of
     Some _ \<Rightarrow> (Inl (GrpcStatus GAlreadyExists ''already exists''), w)
   | None \<Rightarrow> (Inr (), w\<lparr>fk_images := mset_key n d (fk_images w)\<rparr>))"

definition fk_image_Update :: "string \<Rightarrow> Descriptor \<Rightarrow> (fake, unit) call" where
  "fk_image_Update n d w = (Inr (), w\<lparr>fk_images := mset_key n d (fk_images w)\<rparr>)"

definition fk_image_Delete :: "string \<Rightarrow> (fake, unit) call" where
  "fk_image_Delete n w = (case map_of (fk_images w) n of None \<Rightarrow> (Inl not_found, w)
     | Some _ \<Rightarrow> (Inr (), w\<lparr>fk_images := mdel_key n (fk_images w)\<rparr>))"

text \<open>A reference is a name with an optional tag.\<close>

definition fk_parse_ref :: "string \<Rightarrow> Named result" where
  "fk_parse_ref ref = (case strings_SplitN2 ref (CHR '':'') of
     [n] \<Rightarrow> Inr \<lparr>nm_Name = n, nm_Tag = None, nm_Digest = None\<rparr>
   | [n, t] \<Rightarrow> Inr \<lparr>nm_Name = n, nm_Tag = Some t, nm_Digest = None\<rparr>
   | _ \<Rightarrow> Inl (OtherError ''invalid reference format''))"

definition fk_image_config :: ImageConfig where
  "fk_image_config = \<lparr>ic_User = ''1000:1000'', ic_Env = [''HOME=/root''], ic_Entrypoint = [''/pause''],
     ic_Cmd = [], ic_WorkingDir = '''', ic_StopSignal = ''''\<rparr>"

definition fk_manifest :: Descriptor where
  "fk_manifest = \<lparr>d_MediaType = ''application/vnd.oci.image.manifest.v1+json'', d_Digest = ''sha256:m''\<rparr>"

definition fk_layer :: Descriptor where
  "fk_layer = \<lparr>d_MediaType = MediaTypeImageLayer, d_Digest = ''sha256:l''\<rparr>"

definition fake_env :: "string list \<Rightarrow> fake env" where
  "fake_env fails = \<lparr>
     time_Now = (\<lambda>w. (word_of_nat (1000 + fk_n w), w\<lparr>fk_n := Suc (fk_n w)\<rparr>)),
     stringid_Generate = (\<lambda>w. (''id'' @ fmt_nat (fk_n w), w\<lparr>fk_n := Suc (fk_n w)\<rparr>)),
     map_order = (\<lambda>w. (\<lambda>ks. ks, w)),
     select_wait = (\<lambda>_. fk_select),
     select_ctx = (\<lambda>w. (False, w)),
     os_MkdirAll = (\<lambda>p _. fk_create fails ''os_MkdirAll'' (RDir p) ()),
     os_RemoveAll = fk_remove_tree,
     os_OpenFifo = (\<lambda>_ _ _. fk_open fails ''os_OpenFifo''),
     os_Close = (\<lambda>h. fk_release (RHandle h)),
     os_Stat = (\<lambda>_. fk_ok fails ''os_Stat'' ()),
     os_Open = (\<lambda>_. fk_open fails ''os_Open''),
     os_OpenFile = (\<lambda>_ _ _. fk_open fails ''os_OpenFile''),
     io_Copy = (\<lambda>_ _. fk_ok fails ''io_Copy'' ()),
     os_WriteFile = (\<lambda>_ _ _. fk_ok fails ''os_WriteFile'' ()),
     os_Mount = (\<lambda>_ p _ _ _. fk_create fails ''os_Mount'' (RMount p) ()),
     mount_Mounted = (\<lambda>p w. (Inr (RMount p \<in> set (fk_res w)), w)),
     unix_Unmount = (\<lambda>p _. fk_release (RMount p)),
     os_OpenLog = (\<lambda>_. fk_ok fails ''os_OpenLog'' 0),
     os_Lstat_IsSymlink = (\<lambda>_. fk_ok fails ''os_Lstat'' False),
     filepath_EvalSymlinks = (\<lambda>p. fk_ok fails ''filepath_EvalSymlinks'' p),
     devices_HostDevices = fk_ok fails ''devices_HostDevices'' [],
     devices_DeviceFromPath = (\<lambda>p _. fk_ok fails ''devices_DeviceFromPath''
       \<lparr>hd_Path = p, hd_Type = ''c'', hd_Major = 1, hd_Minor = 3, hd_Uid = 0, hd_Gid = 0, hd_Permissions = ''rwm''\<rparr>),
     json_Marshal = (\<lambda>_. if ''json_Marshal'' \<in> set fails then Inl (OtherError ''json_Marshal'') else Inr ''spec''),
     signal_ParseSignal = (\<lambda>s. if s = ''SIGINT'' then Inr 2 else Inl (OtherError ''invalid signal'')),
     containers_Create = (\<lambda>c. fk_create fails ''containers_Create'' (RContainer (cd_ID c)) ()),
     containers_Delete = (\<lambda>k. fk_release (RContainer k)),
     tasks_Create = (\<lambda>t. fk_create fails ''tasks_Create'' (RTask (ct_ContainerID t)) fk_pid),
     tasks_Start = (\<lambda>_. fk_ok fails ''tasks_Start'' ()),
     tasks_Get = fk_task fails,
     tasks_List = (\<lambda>w. (Inr (task_list (fk_res w)), w)),
     tasks_Kill = fk_kill fails,
     tasks_Delete = (\<lambda>k. fk_release (RTask k)),
     snapshots_View = (\<lambda>k _. fk_create fails ''snapshots_View'' (RSnapshot k) []),
     snapshots_Prepare = (\<lambda>k _. fk_create fails ''snapshots_Prepare'' (RSnapshot k) []),
     snapshots_Mounts = (\<lambda>_. fk_ok fails ''snapshots_Mounts'' []),
     snapshots_Remove = (\<lambda>k. fk_release (RSnapshot k)),
     images_Get = fk_image_Get,
     images_Create = fk_image_Create,
     images_Update = fk_image_Update,
     images_Delete = fk_image_Delete,
     image_ConfigDigest = (\<lambda>_. fk_ok fails ''image_ConfigDigest'' ''sha256:c''),
     digest_Parse = (\<lambda>s. if prefix ''sha256:'' s then Inr () else Inl (OtherError ''invalid digest'')),
     image_RootFS = (\<lambda>_. fk_ok fails ''image_RootFS'' [''sha256:d'']),
     image_Size = (\<lambda>_. fk_ok fails ''image_Size'' 1024),
     reference_ParseNormalizedNamed = fk_parse_ref,
     reference_WithName = (\<lambda>n. Inr \<lparr>nm_Name = n, nm_Tag = None, nm_Digest = None\<rparr>),
     reference_WithDigest = (\<lambda>r d. Inr (r\<lparr>nm_Digest := Some d\<rparr>)),
     resolver_Resolve = (\<lambda>_ _. fk_ok fails ''resolver_Resolve'' fk_manifest),
     resolver_Fetcher = (\<lambda>_. fk_ok fails ''resolver_Fetcher'' ()),
     images_Dispatch = (\<lambda>d w. (([d, fk_layer], Inr ()), w)),
     remotes_MakeRefKey = (\<lambda>d. d_Digest d),
     schema1_Convert = (\<lambda>d. fk_ok fails ''schema1_Convert'' d),
     content_ListStatuses = fk_ok fails ''content_ListStatuses'' [],
     content_ReadBlob = (\<lambda>d. fk_ok fails ''content_ReadBlob'' d),
     json_UnmarshalManifest = (\<lambda>_. Inr [fk_layer]),
     json_DecodeImage = (\<lambda>_. Inr fk_image_config),
     identity_ChainID = (\<lambda>ds. concat ds),
     rootfs_ApplyLayers = (\<lambda>_. fk_ok fails ''rootfs_ApplyLayers'' ()),
     client_LoadContainer = (\<lambda>_. fk_ok fails ''client_LoadContainer'' ()),
     container_Spec = (\<lambda>_. fk_ok fails ''container_Spec'' (createDefaultSpec init_defaultEnv)),
     container_Task = (\<lambda>_. fk_ok fails ''container_Task'' ()),
     task_Exec = (\<lambda>_ _ _. fk_ok fails ''task_Exec'' ()),
     process_Start = (\<lambda>cid eid w. (Inr (), w\<lparr>fk_events := fk_events w @
       [EvTaskExit (Inr (fk_exit cid\<lparr>te_ID := eid, te_ExitStatus := 3\<rparr>))]\<rparr>)),
     process_Delete = (\<lambda>_ _. fk_ok fails ''process_Delete'' ()),
     process_IOWait = (\<lambda>_ _ w. ((''out'', ''err''), w)),
     streamServer_GetExec = (\<lambda>_ _ _ _. fk_ok fails ''streamServer_GetExec'' ''url''),
     health_Check = fk_ok fails ''health_Check'' True,
     version_Version = fk_ok fails ''version_Version'' ''1.0.0'',
     events_Subscribe = fk_ok fails ''events_Subscribe'' 0,
     events_Cancel = (\<lambda>_. fk_ok [] '''' ()),
     events_Recv = (\<lambda>_. fk_recv),
     cni_SetUpPod = (\<lambda>_ _ _ i. fk_create fails ''cni_SetUpPod'' (RNetwork i) ()),
     cni_TearDownPod = (\<lambda>_ _ _ i. fk_release (RNetwork i)),
     cni_NetworkStatus = (\<lambda>_ _ _ _. fk_ok fails ''cni_NetworkStatus'' ''10.0.0.2''),
     cni_Status = fk_ok fails ''cni_Status'' ()\<rparr>"

lemma fake_env_sel [eval]:
  "time_Now (fake_env fails) = (\<lambda>w. (word_of_nat (1000 + fk_n w), w\<lparr>fk_n := Suc (fk_n w)\<rparr>))"
  "stringid_Generate (fake_env fails) = (\<lambda>w. (''id'' @ fmt_nat (fk_n w), w\<lparr>fk_n := Suc (fk_n w)\<rparr>))"
  "map_order (fake_env fails) = (\<lambda>w. (\<lambda>ks. ks, w))"
  "select_wait (fake_env fails) = (\<lambda>_. fk_select)"
  "select_ctx (fake_env fails) = (\<lambda>w. (False, w))"
  "os_MkdirAll (fake_env fails) = (\<lambda>p _. fk_create fails ''os_MkdirAll'' (RDir p) ())"
  "os_RemoveAll (fake_env fails) = fk_remove_tree"
  "os_OpenFifo (fake_env fails) = (\<lambda>_ _ _. fk_open fails ''os_OpenFifo'')"
  "os_Close (fake_env fails) = (\<lambda>h. fk_release (RHandle h))"
  "os_Stat (fake_env fails) = (\<lambda>_. fk_ok fails ''os_Stat'' ())"
  "os_Open (fake_env fails) = (\<lambda>_. fk_open fails ''os_Open'')"
  "os_OpenFile (fake_env fails) = (\<lambda>_ _ _. fk_open fails ''os_OpenFile'')"
  "io_Copy (fake_env fails) = (\<lambda>_ _. fk_ok fails ''io_Copy'' ())"
  "os_WriteFile (fake_env fails) = (\<lambda>_ _ _. fk_ok fails ''os_WriteFile'' ())"
  "os_Mount (fake_env fails) = (\<lambda>_ p _ _ _. fk_create fails ''os_Mount'' (RMount p) ())"
  "mount_Mounted (fake_env fails) = (\<lambda>p w. (Inr (RMount p \<in> set (fk_res w)), w))"
  "unix_Unmount (fake_env fails) = (\<lambda>p _. fk_release (RMount p))"
  "os_OpenLog (fake_env fails) = (\<lambda>_. fk_ok fails ''os_OpenLog'' 0)"
  "os_Lstat_IsSymlink (fake_env fails) = (\<lambda>_. fk_ok fails ''os_Lstat'' False)"
  "filepath_EvalSymlinks (fake_env fails) = (\<lambda>p. fk_ok fails ''filepath_EvalSymlinks'' p)"
  "devices_HostDevices (fake_env fails) = fk_ok fails ''devices_HostDevices'' []"
  "devices_DeviceFromPath (fake_env fails) = (\<lambda>p _. fk_ok fails ''devices_DeviceFromPath'' \<lparr>hd_Path = p, hd_Type = ''c'', hd_Major = 1, hd_Minor = 3, hd_Uid = 0, hd_Gid = 0, hd_Permissions = ''rwm''\<rparr>)"
  "json_Marshal (fake_env fails) = (\<lambda>_. if ''json_Marshal'' \<in> set fails then Inl (OtherError ''json_Marshal'') else Inr ''spec'')"
  "signal_ParseSignal (fake_env fails) = (\<lambda>s. if s = ''SIGINT'' then Inr 2 else Inl (OtherError ''invalid signal''))"
  "containers_Create (fake_env fails) = (\<lambda>c. fk_create fails ''containers_Create'' (RContainer (cd_ID c)) ())"
  "containers_Delete (fake_env fails) = (\<lambda>k. fk_release (RContainer k))"
  "tasks_Create (fake_env fails) = (\<lambda>t. fk_create fails ''tasks_Create'' (RTask (ct_ContainerID t)) fk_pid)"
  "tasks_Start (fake_env fails) = (\<lambda>_. fk_ok fails ''tasks_Start'' ())"
  "tasks_Get (fake_env fails) = fk_task fails"
  "tasks_List (fake_env fails) = (\<lambda>w. (Inr (task_list (fk_res w)), w))"
  "tasks_Kill (fake_env fails) = fk_kill fails"
  "tasks_Delete (fake_env fails) = (\<lambda>k. fk_release (RTask k))"
  "snapshots_View (fake_env fails) = (\<lambda>k _. fk_create fails ''snapshots_View'' (RSnapshot k) [])"
  "snapshots_Prepare (fake_env fails) = (\<lambda>k _. fk_create fails ''snapshots_Prepare'' (RSnapshot k) [])"
  "snapshots_Mounts (fake_env fails) = (\<lambda>_. fk_ok fails ''snapshots_Mounts'' [])"
  "snapshots_Remove (fake_env fails) = (\<lambda>k. fk_release (RSnapshot k))"
  "images_Get (fake_env fails) = fk_image_Get"
  "images_Create (fake_env fails) = fk_image_Create"
  "images_Update (fake_env fails) = fk_image_Update"
  "images_Delete (fake_env fails) = fk_image_Delete"
  "image_ConfigDigest (fake_env fails) = (\<lambda>_. fk_ok fails ''image_ConfigDigest'' ''sha256:c'')"
  "digest_Parse (fake_env fails) = (\<lambda>s. if prefix ''sha256:'' s then Inr () else Inl (OtherError ''invalid digest''))"
  "image_RootFS (fake_env fails) = (\<lambda>_. fk_ok fails ''image_RootFS'' [''sha256:d''])"
  "image_Size (fake_env fails) = (\<lambda>_. fk_ok fails ''image_Size'' 1024)"
  "reference_ParseNormalizedNamed (fake_env fails) = fk_parse_ref"
  "reference_WithName (fake_env fails) = (\<lambda>n. Inr \<lparr>nm_Name = n, nm_Tag = None, nm_Digest = None\<rparr>)"
  "reference_WithDigest (fake_env fails) = (\<lambda>r d. Inr (r\<lparr>nm_Digest := Some d\<rparr>))"
  "resolver_Resolve (fake_env fails) = (\<lambda>_ _. fk_ok fails ''resolver_Resolve'' fk_manifest)"
  "resolver_Fetcher (fake_env fails) = (\<lambda>_. fk_ok fails ''resolver_Fetcher'' ())"
  "images_Dispatch (fake_env fails) = (\<lambda>d w. (([d, fk_layer], Inr ()), w))"
  "remotes_MakeRefKey (fake_env fails) = (\<lambda>d. d_Digest d)"
  "schema1_Convert (fake_env fails) = (\<lambda>d. fk_ok fails ''schema1_Convert'' d)"
  "content_ListStatuses (fake_env fails) = fk_ok fails ''content_ListStatuses'' []"
  "content_ReadBlob (fake_env fails) = (\<lambda>d. fk_ok fails ''content_ReadBlob'' d)"
  "json_UnmarshalManifest (fake_env fails) = (\<lambda>_. Inr [fk_layer])"
  "json_DecodeImage (fake_env fails) = (\<lambda>_. Inr fk_image_config)"
  "identity_ChainID (fake_env fails) = (\<lambda>ds. concat ds)"
  "rootfs_ApplyLayers (fake_env fails) = (\<lambda>_. fk_ok fails ''rootfs_ApplyLayers'' ())"
  "client_LoadContainer (fake_env fails) = (\<lambda>_. fk_ok fails ''client_LoadContainer'' ())"
  "container_Spec (fake_env fails) = (\<lambda>_. fk_ok fails ''container_Spec'' (createDefaultSpec init_defaultEnv))"
  "container_Task (fake_env fails) = (\<lambda>_. fk_ok fails ''container_Task'' ())"
  "task_Exec (fake_env fails) = (\<lambda>_ _ _. fk_ok fails ''task_Exec'' ())"
  "process_Start (fake_env fails) = (\<lambda>cid eid w. (Inr (), w\<lparr>fk_events := fk_events w @ [EvTaskExit (Inr (fk_exit cid\<lparr>te_ID := eid, te_ExitStatus := 3\<rparr>))]\<rparr>))"
  "process_Delete (fake_env fails) = (\<lambda>_ _. fk_ok fails ''process_Delete'' ())"
  "process_IOWait (fake_env fails) = (\<lambda>_ _ w. ((''out'', ''err''), w))"
  "streamServer_GetExec (fake_env fails) = (\<lambda>_ _ _ _. fk_ok fails ''streamServer_GetExec'' ''url'')"
  "health_Check (fake_env fails) = fk_ok fails ''health_Check'' True"
  "version_Version (fake_env fails) = fk_ok fails ''version_Version'' ''1.0.0''"
  "events_Subscribe (fake_env fails) = fk_ok fails ''events_Subscribe'' 0"
  "events_Cancel (fake_env fails) = (\<lambda>_. fk_ok [] '''' ())"
  "events_Recv (fake_env fails) = (\<lambda>_. fk_recv)"
  "cni_SetUpPod (fake_env fails) = (\<lambda>_ _ _ i. fk_create fails ''cni_SetUpPod'' (RNetwork i) ())"
  "cni_TearDownPod (fake_env fails) = (\<lambda>_ _ _ i. fk_release (RNetwork i))"
  "cni_NetworkStatus (fake_env fails) = (\<lambda>_ _ _ _. fk_ok fails ''cni_NetworkStatus'' ''10.0.0.2'')"
  "cni_Status (fake_env fails) = fk_ok fails ''cni_Status'' ()"
  by (simp_all add: fake_env_def)

lemmas fake_defs = fk_ok_def fk_create_def fk_open_def fk_release_def fk_remove_tree_def fk_task_def
  fk_kill_def fk_recv_def fk_select_def fk_image_Get_def fk_image_Create_def fk_image_Update_def
  fk_image_Delete_def

section \<open>It keeps the laws\<close>

lemma handle_bound_fresh: "RHandle h \<in> set rs \<Longrightarrow> h < handle_bound rs"
  by (induction rs rule: handle_bound.induct) auto

lemma fk_neutral: "call_neutral fake_res (fk_ok fails op x)"
  by (simp add: call_neutral_def fk_ok_def)

lemma fk_acquires: "call_acquires fake_res (\<lambda>_. r) (fk_create fails op r x)"
  by (simp add: call_acquires_def fk_create_def fake_res_def)

lemma fk_open_acquires: "call_acquires fake_res RHandle (fk_open fails op)"
  by (simp add: call_acquires_def fk_open_def fk_create_def fake_res_def Let_def)

lemma fk_releases: "call_releases fake_res r (fk_release r)"
  by (auto simp: call_releases_def fk_release_def fake_res_def)

lemma below_iff: "below p r \<longleftrightarrow> r \<in> tree p"
  by (cases "(p, r)" rule: below.cases) (auto simp: tree_def)

lemma fk_releases_tree: "call_releases_tree fake_res p (fk_remove_tree p)"
  by (auto simp: call_releases_tree_def fk_remove_tree_def fake_res_def below_iff)

lemma fk_open_fresh: "fk_open fails op w = (Inr h, w') \<Longrightarrow> RHandle h \<notin> fake_res w"
  by (auto simp: fk_open_def fk_create_def fake_res_def Let_def split: if_splits dest: handle_bound_fresh)

lemma fake_laws: "resource_laws fake_res (fake_env fails)"
  unfolding resource_laws_def
proof (intro conjI)
  show "creation_laws fake_res (fake_env fails)"
    by (simp add: creation_laws_def fake_env_def fk_acquires fk_open_acquires)
  show "release_laws fake_res (fake_env fails)"
    by (simp add: release_laws_def fake_env_def fk_releases fk_releases_tree)
  show "handle_laws fake_res (fake_env fails)"
    by (auto simp: handle_laws_def fake_env_def dest: fk_open_fresh)
  have "call_neutral fake_res (fk_task fails k)" "call_neutral fake_res (fk_kill fails kr)"
      "call_neutral fake_res (fk_image_Get n)" for k kr n
    by (auto simp: call_neutral_def fk_task_def fk_kill_def fk_image_Get_def fake_res_def split: option.split)
  then show "neutral_laws fake_res (fake_env fails)"
    by (simp add: neutral_laws_def fake_env_def fk_neutral) (simp add: call_neutral_def fake_res_def)
qed

lemma fake_run_laws: "run_laws fake_res (fake_env fails)"
proof -
  have "call_neutral fake_res (fk_image_Create n d)" "call_neutral fake_res (fk_image_Update n d)"
      "call_neutral fake_res fk_recv" for n d
    by (auto simp: call_neutral_def fk_image_Create_def fk_image_Update_def fk_recv_def fake_res_def
        split: option.split list.split)
  then have "pull_laws fake_res (fake_env fails)" "sandbox_laws fake_res (fake_env fails)"
    by (simp_all add: pull_laws_def sandbox_laws_def fake_env_def fk_neutral)
      (simp_all add: call_neutral_def fake_res_def)
  moreover have "order_law (fake_env fails)" by (simp add: order_law_def fake_env_def)
  ultimately show ?thesis by (simp add: run_laws_def fake_laws)
qed

lemma fake_reference_laws: "reference_laws (fake_env fails)"
  by (simp add: reference_laws_def fake_env_def)

end
