(* ===== verification/Sample_Service.thy ===== *)
theory Sample_Service
  imports Sample_World
begin

text \<open>
  A service with one sandbox and three containers, one created, one running and one exited, over the
  concrete world of \<open>Sample_World\<close>, and what the evaluation of a request over it unfolds.
\<close>

definition pod_meta :: PodSandboxMetadata where
  "pod_meta = \<lparr>pm_Name = ''pod'', pm_Uid = ''u1'', pm_Namespace = ''ns'', pm_Attempt = 0\<rparr>"

definition pod_config :: PodSandboxConfig where
  "pod_config = \<lparr>pc_Metadata = Some pod_meta, pc_Hostname = ''host'', pc_LogDirectory = ''/log'',
     pc_DnsConfig = None, pc_Labels = [], pc_Annotations = [], pc_Linux = None\<rparr>"

definition sb1 :: Sandbox where
  "sb1 = \<lparr>sb_ID = ''sb1'', sb_Name = ''pod_ns_u1_0'', sb_Config = Some pod_config, sb_CreatedAt = 5,
     sb_Pid = fk_pid, sb_NetNS = ''/proc/42/ns/net''\<rparr>"

definition cntr_config :: "string \<Rightarrow> ContainerConfig" where
  "cntr_config n = \<lparr>cc_Metadata = Some \<lparr>cm_Name = n, cm_Attempt = 0\<rparr>, cc_Image = Some ''busybox'',
     cc_Command = None, cc_Args = [], cc_WorkingDir = '''', cc_Envs = [(''A'', ''1'')], cc_Mounts = [],
     cc_Devices = [], cc_Labels = [(''app'', n)], cc_Annotations = [], cc_LogPath = ''c.log'', cc_Stdin = False,
     cc_Tty = False, cc_Linux = None\<rparr>"

definition cntr :: "string \<Rightarrow> nat \<Rightarrow> Container" where
  "cntr n i = \<lparr>c_Metadata = \<lparr>md_ID = n, md_Name = n @ ''_pod_ns_u1_0'', md_SandboxID = ''sb1'',
     md_Config = Some (cntr_config n), md_ImageRef = ''sha256:c''\<rparr>, c_Status = Some i\<rparr>"

definition busybox :: Image where
  "busybox = \<lparr>img_ID = ''sha256:c'', img_RepoTags = [''busybox:latest''], img_RepoDigests = [],
     img_ChainID = ''chain'', img_Size = 1024, img_Config = Some fk_image_config\<rparr>"

definition world1 :: fake where
  "world1 = fake_world\<lparr>fk_res := [RTask ''sb1'', RTask ''run'', RNetwork ''sb1'', RMount ''/root/sandboxes/sb1/shm'',
       RContainer ''new'', RSnapshot ''new''],
     fk_images := [(''busybox:latest'', fk_manifest)]\<rparr>"

definition created1 :: Status where "created1 = created_status 7"
definition running1 :: Status where "running1 = (created_status 7)\<lparr>st_Pid := fk_pid, st_StartedAt := 8\<rparr>"
definition exited1 :: Status where
  "exited1 = (created_status 7)\<lparr>st_StartedAt := 8, st_FinishedAt := 9, st_ExitCode := 1\<rparr>"

definition svc1 :: "fake st" where
  "svc1 = (init_svc ''/root'' world1)\<lparr>
     sandboxStore := [(''sb1'', sb1)],
     sandboxNameIndex := \<lparr>nameToKey = [(''pod_ns_u1_0'', ''sb1'')], keyToName = [(''sb1'', ''pod_ns_u1_0'')]\<rparr>,
     containerStore := [(''new'', cntr ''new'' 0), (''run'', cntr ''run'' 1), (''old'', cntr ''old'' 2)],
     containerNameIndex := \<lparr>
       nameToKey = [(''new_pod_ns_u1_0'', ''new''), (''run_pod_ns_u1_0'', ''run''), (''old_pod_ns_u1_0'', ''old'')],
       keyToName = [(''new'', ''new_pod_ns_u1_0''), (''run'', ''run_pod_ns_u1_0''), (''old'', ''old_pod_ns_u1_0'')]\<rparr>,
     imageStore := [(''sha256:c'', busybox)],
     statuses := [created1, running1, exited1]\<rparr>"

abbreviation env1 :: "fake env" where "env1 \<equiv> fake_env []"

text \<open>The fields of the sample objects: evaluation keeps the objects themselves folded.\<close>

lemma sample_fields:
  "pm_Name pod_meta = ''pod''" "pm_Uid pod_meta = ''u1''" "pm_Namespace pod_meta = ''ns''" "pm_Attempt pod_meta = 0"
  "pc_Metadata pod_config = Some pod_meta" "pc_Hostname pod_config = ''host''" "pc_LogDirectory pod_config = ''/log''"
  "pc_DnsConfig pod_config = None" "pc_Labels pod_config = []" "pc_Annotations pod_config = []" "pc_Linux pod_config = None"
  "sb_ID sb1 = ''sb1''" "sb_Name sb1 = ''pod_ns_u1_0''" "sb_Config sb1 = Some pod_config" "sb_CreatedAt sb1 = 5"
  "sb_Pid sb1 = fk_pid" "sb_NetNS sb1 = ''/proc/42/ns/net''"
  "cc_Metadata (cntr_config n) = Some \<lparr>cm_Name = n, cm_Attempt = 0\<rparr>" "cc_Image (cntr_config n) = Some ''busybox''"
  "cc_Command (cntr_config n) = None" "cc_Args (cntr_config n) = []" "cc_WorkingDir (cntr_config n) = ''''"
  "cc_Envs (cntr_config n) = [(''A'', ''1'')]" "cc_Mounts (cntr_config n) = []" "cc_Devices (cntr_config n) = []"
  "cc_Labels (cntr_config n) = [(''app'', n)]" "cc_Annotations (cntr_config n) = []" "cc_LogPath (cntr_config n) = ''c.log''"
  "cc_Stdin (cntr_config n) = False" "cc_Tty (cntr_config n) = False" "cc_Linux (cntr_config n) = None"
  "c_Metadata (cntr n i) = \<lparr>md_ID = n, md_Name = n @ ''_pod_ns_u1_0'', md_SandboxID = ''sb1'',
     md_Config = Some (cntr_config n), md_ImageRef = ''sha256:c''\<rparr>" "c_Status (cntr n i) = Some i"
  "img_ID busybox = ''sha256:c''" "img_RepoTags busybox = [''busybox:latest'']" "img_RepoDigests busybox = []"
  "img_ChainID busybox = ''chain''" "img_Size busybox = 1024" "img_Config busybox = Some fk_image_config"
  "ic_User fk_image_config = ''1000:1000''" "ic_Env fk_image_config = [''HOME=/root'']"
  "ic_Entrypoint fk_image_config = [''/pause'']" "ic_Cmd fk_image_config = []" "ic_WorkingDir fk_image_config = ''''"
  "ic_StopSignal fk_image_config = ''''"
  by (simp_all add: pod_meta_def pod_config_def sb1_def cntr_config_def cntr_def busybox_def fk_image_config_def)

lemma svc1_fields:
  "containerStore svc1 = [(''new'', cntr ''new'' 0), (''run'', cntr ''run'' 1), (''old'', cntr ''old'' 2)]"
  "containerNameIndex svc1 = \<lparr>
     nameToKey = [(''new_pod_ns_u1_0'', ''new''), (''run_pod_ns_u1_0'', ''run''), (''old_pod_ns_u1_0'', ''old'')],
     keyToName = [(''new'', ''new_pod_ns_u1_0''), (''run'', ''run_pod_ns_u1_0''), (''old'', ''old_pod_ns_u1_0'')]\<rparr>"
  "sandboxStore svc1 = [(''sb1'', sb1)]"
  "sandboxNameIndex svc1 = \<lparr>nameToKey = [(''pod_ns_u1_0'', ''sb1'')], keyToName = [(''sb1'', ''pod_ns_u1_0'')]\<rparr>"
  "imageStore svc1 = [(''sha256:c'', busybox)]" "statuses svc1 = [created1, running1, exited1]"
  "world svc1 = world1" "rootDir svc1 = ''/root''" "defaultEnv svc1 = init_defaultEnv"
  "sandboxImage svc1 = ''gcr.io/google_containers/pause:3.0''"
  by (simp_all add: svc1_def init_svc_def)

lemma world1_fields:
  "fk_res world1 = [RTask ''sb1'', RTask ''run'', RNetwork ''sb1'', RMount ''/root/sandboxes/sb1/shm'',
     RContainer ''new'', RSnapshot ''new'']"
  "fk_images world1 = [(''busybox:latest'', fk_manifest)]" "fk_events world1 = []" "fk_ticks world1 = 2" "fk_n world1 = 0"
  by (simp_all add: world1_def fake_world_def)

lemma manifest_fields:
  "d_MediaType fk_manifest = ''application/vnd.oci.image.manifest.v1+json''" "d_Digest fk_manifest = ''sha256:m''"
  by (simp_all add: fk_manifest_def)

lemma digit_zero: "digit_char 0 = CHR ''0''"
  by code_simp

text \<open>Everything the evaluation of a request over the sample service unfolds.\<close>

lemmas sample_eval = eval Let_def of_result_def path_defs filepath_Clean_def List.map_filter_simps
  sandboxStore_Get_def sandboxStore_Add_def imageStore_Get_def imageStore_Add_def containerStore_Add_def
  Reserve_def ReleaseByName_def ReleaseByKey_def from_grpc_def errdefs_IsNotFound_def errdefs_FromGRPC_def
  rebaseMessage_def strings_TrimSuffix_def State_def created_status_def rootfs_mounts_def
  isContainerdGRPCNotFoundError_def normalizeImageRef_def TagNameOnly_def Named_String_def getRepoDigestAndTag_def
  MediaTypeDockerSchema1Manifest_def MediaTypeImageLayer_def layer_pairs_def track_all_def newResourceSet_def
  resourceSet_add_def resourceSet_all_def container_security_context_def sandbox_namespace_options_def host_ipc_def
  host_network_def generateContainerMounts_def etcHosts_def resolvConfPath_def devShm_def
  nameDelimiter_def makeContainerName_def makeSandboxName_def fmt_nat.simps digit_zero
  fake_defs fk_parse_ref_def fk_pid_def fk_layer_def fk_exit_def
  not_found_def sample_fields svc1_fields world1_fields manifest_fields created1_def running1_def exited1_def

lemma cntr_fields [simp]: "c_Status (cntr n i) = Some i" "c_ID (cntr n i) = n"
  by (simp_all add: cntr_def)

lemma sample_states [simp]: "State created1 = CONTAINER_CREATED" "State running1 = CONTAINER_RUNNING"
  "State exited1 = CONTAINER_EXITED" "\<not> st_Removing created1" "\<not> st_Removing running1" "\<not> st_Removing exited1"
  by (simp_all add: created1_def running1_def exited1_def created_status_def State_def)

lemma control_chars: "LF = CHR 0x0A" "CR = CHR 0x0D" "NUL = CHR 0x00"
  by (code_simp, code_simp, code_simp)

section \<open>The specification of a container\<close>

lemma run_for_gmod: "run_for xs (\<lambda>x. gmod (f x)) g = (Ok (), foldl (\<lambda>g x. f x g) g xs)"
  by (induction xs arbitrary: g) (simp_all add: eval)

text \<open>The specification of a container over the sample service is generated without an error.\<close>

lemma sample_process: "\<exists>g'. run (spec_process (Some (cntr_config n)) (Some fk_image_config) ms) g = (Ok (), g')"
  by (simp add: eval sample_fields container_security_context_def run_for_gmod cong: eval_cong)

lemma sample_isolation: "\<exists>g'. run (spec_isolation cid pid (Some (cntr_config n)) (Some pod_config)) g = (Ok (), g')"
  by (simp add: eval container_security_context_def sample_fields cong: eval_cong)

lemma sample_spec:
  fixes env :: "'a env"
  obtains sp de where
    "\<And>cid' pid' c sc ic ms' s. cid' = cid \<Longrightarrow> pid' = pid \<Longrightarrow> c = Some (cntr_config n) \<Longrightarrow> sc = Some pod_config \<Longrightarrow>
     ic = Some fk_image_config \<Longrightarrow> ms' = ms \<Longrightarrow> defaultEnv s = denv \<Longrightarrow>
     run (generateContainerSpec env cid' pid' c sc ic ms') s = (Ok sp, s\<lparr>defaultEnv := de\<rparr>)"
proof -
  have d: "run (addOCIDevices env (pget cc_Devices [] (Some (cntr_config n)))
      (pget ls_Privileged False (container_security_context (Some (cntr_config n)))) g) s = (Ok g, s)" for g s
    by (simp add: eval sample_fields container_security_context_def)
  let ?g = "sync_env denv (GenerateSpec denv)"
  obtain g1 where g1: "run (spec_process (Some (cntr_config n)) (Some fk_image_config) ms) ?g = (Ok (), g1)"
    using sample_process by blast
  obtain g2 where g2: "run (spec_isolation cid pid (Some (cntr_config n)) (Some pod_config)) (sync_env (g_defaultEnv g1) g1) = (Ok (), g2)"
    using sample_isolation by blast
  have "run (generateContainerSpec env cid pid (Some (cntr_config n)) (Some pod_config) (Some fk_image_config) ms) s
      = (Ok (g_Spec g2), s\<lparr>defaultEnv := g_defaultEnv g2\<rparr>)" if "defaultEnv s = denv" for s
    by (simp add: run_generateContainerSpec run_control run_acts run_on_gen that g1 g2 d cong: eval_cong)
  then show thesis by (intro that [of "g_Spec g2" "g_defaultEnv g2"]) (simp only:)
qed


section \<open>Another sandbox\<close>

definition pod2 :: PodSandboxConfig where
  "pod2 = pod_config\<lparr>pc_Metadata := Some (pod_meta\<lparr>pm_Name := ''p2''\<rparr>)\<rparr>"

lemma pod2_fields: "pc_Metadata pod2 = Some (pod_meta\<lparr>pm_Name := ''p2''\<rparr>)" "pc_Hostname pod2 = ''host''"
  "pc_DnsConfig pod2 = None" "pc_Linux pod2 = None"
  by (simp_all add: pod2_def sample_fields)

lemma sample_sandbox_spec:
  fixes env :: "'a env"
  obtains sp de where
    "\<And>sid' c ic s. sid' = sid \<Longrightarrow> c = Some pod2 \<Longrightarrow> ic = Some fk_image_config \<Longrightarrow> defaultEnv s = denv \<Longrightarrow>
     run (sandbox_spec sid' c ic) s = (Ok sp, (s :: 'a st)\<lparr>defaultEnv := de\<rparr>)"
proof -
  obtain g where g: "run (generateSandboxContainerSpec sid (Some pod2) (Some fk_image_config))
      (sync_env denv (GenerateSpec denv)) = (Ok (), g)"
    by (simp add: eval sample_fields pod2_fields sandbox_namespace_options_def Let_def cong: eval_cong)
  have "run (sandbox_spec sid (Some pod2) (Some fk_image_config)) s = (Ok (g_Spec g), (s :: 'a st)\<lparr>defaultEnv := g_defaultEnv g\<rparr>)"
    if "defaultEnv s = denv" for s
    by (simp add: run_sandbox_spec run_control run_acts run_on_gen that g cong: eval_cong)
  then show thesis by (intro that [of "g_Spec g" "g_defaultEnv g"]) (simp only:)
qed

section \<open>The sample service is well-formed\<close>

lemma svc1_inv: "svc_inv svc1"
  by (simp add: svc_inv_def registrar_inv_def inverse_maps_def containers_inv_def sandboxes_inv_def images_inv_def
      not_running_while_removing_def svc1_fields sample_fields)

lemma svc1_statuses_ok: "statuses_ok svc1"
  by (simp add: statuses_ok_def svc1_fields sample_fields)

end
