(* ===== verification/Witnesses.thy ===== *)
theory Witnesses
  imports Sample_Service
begin

text \<open>
  The theorems of the development at concrete inputs, over the service of \<open>Sample_Service\<close>.
  Each witness discharges the hypotheses of its theorem by evaluation.
\<close>

section \<open>Helpers\<close>

theorem makeContainerName_inj_witness:
  "makeContainerName \<lparr>cm_Name = ''app'', cm_Attempt = 0\<rparr> pod_meta = ''app_pod_ns_u1_0'' \<and>
   makeContainerName \<lparr>cm_Name = ''app'', cm_Attempt = 0\<rparr> (pod_meta\<lparr>pm_Attempt := 3\<rparr>) = ''app_pod_ns_u1_0'' \<and>
   pm_Uid pod_meta = pm_Uid (pod_meta\<lparr>pm_Attempt := 3\<rparr>)"
proof -
  let ?c = "\<lparr>cm_Name = ''app'', cm_Attempt = 0\<rparr>" and ?m = "pod_meta\<lparr>pm_Attempt := 3\<rparr>"
  have eq: "makeContainerName ?c pod_meta = ''app_pod_ns_u1_0''" "makeContainerName ?c ?m = ''app_pod_ns_u1_0''"
    by (simp_all add: makeContainerName_def nameDelimiter_def sample_fields fmt_nat.simps digit_zero)
  have "sandbox_metadata_ok pod_meta" "sandbox_metadata_ok ?m" "delimiter_free ''app''"
    by (simp_all add: sandbox_metadata_ok_def delimiter_free_def sample_fields)
  with makeContainerName_inj [of ?c pod_meta ?c ?m] eq show ?thesis by simp
qed

theorem dirs_disjoint_witness:
  "path_element ''a1'' \<and> path_element ''b2'' \<and> getContainerRootDir ''/root'' ''a1'' \<noteq> getSandboxRootDir ''/root'' ''b2''"
proof -
  have "path_element ''a1''" "path_element ''b2''" by (simp_all add: path_element_def)
  with dirs_disjoint [of "''/root''" "''a1''" "''b2''"] show ?thesis by simp
qed

section \<open>Logger\<close>

theorem redirectLogs_lines_witness:
  "redirectLogs Stdout (\<lambda>_. ''T'') (''hello'' @ [LF] @ ''world'' @ [LF])
     = [''T stdout hello'' @ [LF], ''T stdout world'' @ [LF]]"
proof -
  have ok: "\<forall>l \<in> set [''hello'', ''world'']. LF \<notin> set l \<and> CR \<notin> set l \<and> length l < bufSize"
    by (simp add: bufSize_eq control_chars)
  from redirectLogs_lines [OF ok, of Stdout "\<lambda>_. ''T''"] show ?thesis
    by (simp add: log_record_def Stdout_def)
qed

theorem redirectLogs_atomic_witness:
  "\<exists>r. r \<in> set (redirectLogs Stdout (\<lambda>_. ''T'') (''hello'' @ [LF])) \<and> length r \<le> pipeBufSize"
proof -
  have "redirectLogs Stdout (\<lambda>_. ''T'') (''hello'' @ [LF]) = [''T stdout hello'' @ [LF]]"
    unfolding redirectLogs_def bufSize_eq
    by (subst redirect_from.simps, simp add: ReadLine_def control_chars drop_CR_def)
      (subst redirect_from.simps, simp add: ReadLine_def log_record_def Stdout_def control_chars)
  then have r: "''T stdout hello'' @ [LF] \<in> set (redirectLogs Stdout (\<lambda>_. ''T'') (''hello'' @ [LF]))" by simp
  have "length (''T stdout hello'' @ [LF]) \<le> pipeBufSize"
    by (rule redirectLogs_atomic [OF r]) (simp_all add: timestampFormat_def)
  with r show ?thesis by blast
qed

section \<open>Images, capabilities, metadata\<close>

theorem ParseAuth_encoded_witness:
  "base64_Encode ''u:pw'' = ''dTpwdw=='' \<and>
   ParseAuth (Some \<lparr>au_Username = '''', au_Password = '''', au_Auth = ''dTpwdw=='', au_IdentityToken = ''''\<rparr>)
     = Inr (''u'', ''pw'')"
proof -
  have enc: "base64_Encode ''u:pw'' = ''dTpwdw==''" by code_simp
  then have "base64_Encode (''u'' @ '':'' @ ''pw'') = ''dTpwdw==''" by simp
  with enc ParseAuth_encoded [of "\<lparr>au_Username = '''', au_Password = '''', au_Auth = ''dTpwdw=='', au_IdentityToken = ''''\<rparr>"
    "''u''" "''pw''"] show ?thesis by (simp add: control_chars)
qed

theorem drop_cap_filter_witness:
  "distinct (map strings_ToUpper defaltCaps) \<and> drop_cap ''CAP_KILL'' defaltCaps = Some (filter (\<lambda>c. c \<noteq> ''CAP_KILL'') defaltCaps)"
proof -
  have d: "distinct (map strings_ToUpper defaltCaps)" by code_simp
  have "filter (\<lambda>c. strings_ToUpper c \<noteq> ''CAP_KILL'') defaltCaps = filter (\<lambda>c. c \<noteq> ''CAP_KILL'') defaltCaps"
    by code_simp
  with d drop_cap_filter [OF d, of "''CAP_KILL''"] show ?thesis by simp
qed


section \<open>The life of a container\<close>

theorem StartContainer_refused_witness:
  "State (statuses svc1 ! 1) = CONTAINER_RUNNING \<and> (\<exists>e. run (StartContainer env1 ''run'') svc1 = (Err e, svc1))"
  using StartContainer_refused [of svc1 "''run''" "cntr ''run'' 1" 1 env1] by (simp add: svc1_fields)


theorem waitContainerStop_ends_witness:
  "fires_within env1 5 3 world1 \<and> fst (run (waitContainerStop env1 3 ''run'' 5) svc1) \<noteq> Diverge"
proof -
  have f: "fires_within env1 5 3 (world svc1)"
    by (simp add: svc1_fields numeral_3_eq_3 fake_env_def fk_select_def world1_def fake_world_def)
  with waitContainerStop_ends [OF f, of 3 "''run''"] show ?thesis by (simp add: svc1_fields)
qed

theorem RemoveContainer_refused_witness:
  "State (statuses svc1 ! 1) = CONTAINER_RUNNING \<and> (\<exists>e. run (RemoveContainer env1 ''run'') svc1 = (Err e, svc1))"
  using RemoveContainer_refused [of svc1 "''run''" "cntr ''run'' 1" 1 env1] by (simp add: svc1_fields)


text \<open>A world in which containerd has lost every container.\<close>

theorem RemoveContainer_missing_container_witness:
  "map_of (containerStore svc1) ''old'' = Some (cntr ''old'' 2) \<and>
   fst (run (RemoveContainer (env1\<lparr>containers_Delete := \<lambda>_ w. (Inl not_found, w)\<rparr>) ''old'') svc1) \<noteq> Ok ()"
  using RemoveContainer_missing_container [of svc1 "''old''" "cntr ''old'' 2" "env1\<lparr>containers_Delete := \<lambda>_ w. (Inl not_found, w)\<rparr>"]
  by (simp add: svc1_fields not_found_def)

section \<open>Events\<close>

theorem handleTaskOOM_unknown_witness:
  "map_of (containerStore svc1) ''gone'' = None \<and> run (handleTaskOOM ''gone'') svc1 = (Panic, svc1)"
  using handleTaskOOM_unknown [of svc1 "''gone''"] by (simp add: svc1_fields)

theorem handleTaskExit_recorded_witness:
  "\<exists>w. run (handleTaskExit env1 (fk_exit ''run'')) svc1 = (Ok (), svc1\<lparr>world := w, statuses := [created1,
     running1\<lparr>st_Pid := 0, st_FinishedAt := 99, st_ExitCode := 137\<rparr>, exited1]\<rparr>)"
proof -
  let ?e = "fk_exit ''run''"
  have del: "tasks_Delete env1 (te_ContainerID ?e) (world svc1) = (Inr (), world1\<lparr>fk_res := removeAll (RTask ''run'') (fk_res world1)\<rparr>)"
    by (simp add: svc1_fields fake_env_sel fk_release_def fk_exit_def world1_def)
  from handleTaskExit_recorded [OF _ _ _ _ _ del, of "cntr ''run'' 1" 1]
  show ?thesis by (auto simp: svc1_fields fk_exit_def running1_def fk_pid_def created_status_def State_def)
qed

section \<open>Creating and listing containers\<close>

text \<open>One request, in a world in which nothing fails and in one that cannot create containers.\<close>

lemma create_app_run:
  "fst (run (CreateContainer env1 ''sb1'' (Some (cntr_config ''app'')) (Some pod_config)) svc1) = Ok ''id0''"
  "\<exists>e. fst (run (CreateContainer (fake_env [''containers_Create'']) ''sb1'' (Some (cntr_config ''app'')) (Some pod_config)) svc1) = Err e"
proof -
  note spec = sample_spec [of "''id0''" fk_pid "''app''" "generateContainerMounts ''/root/sandboxes/sb1'' (Some (cntr_config ''app''))"
      init_defaultEnv]
  show "fst (run (CreateContainer env1 ''sb1'' (Some (cntr_config ''app'')) (Some pod_config)) svc1) = Ok ''id0''"
  proof (rule spec [of env1])
    fix sp de
    assume sp: "\<And>cid' pid' c sc ic ms' s. \<lbrakk>cid' = ''id0''; pid' = fk_pid; c = Some (cntr_config ''app''); sc = Some pod_config;
      ic = Some fk_image_config; ms' = generateContainerMounts ''/root/sandboxes/sb1'' (Some (cntr_config ''app''));
      defaultEnv s = init_defaultEnv\<rbrakk> \<Longrightarrow>
      run (generateContainerSpec env1 cid' pid' c sc ic ms') s = (Ok sp, s\<lparr>defaultEnv := de\<rparr>)"
    show ?thesis by (simp add: sample_eval sp del: run_generateContainerSpec cong: eval_cong)
  qed
  show "\<exists>e. fst (run (CreateContainer (fake_env [''containers_Create'']) ''sb1'' (Some (cntr_config ''app'')) (Some pod_config)) svc1) = Err e"
  proof (rule spec [of "fake_env [''containers_Create'']"])
    fix sp de
    assume sp: "\<And>cid' pid' c sc ic ms' s. \<lbrakk>cid' = ''id0''; pid' = fk_pid; c = Some (cntr_config ''app''); sc = Some pod_config;
      ic = Some fk_image_config; ms' = generateContainerMounts ''/root/sandboxes/sb1'' (Some (cntr_config ''app''));
      defaultEnv s = init_defaultEnv\<rbrakk> \<Longrightarrow>
      run (generateContainerSpec (fake_env [''containers_Create'']) cid' pid' c sc ic ms') s = (Ok sp, s\<lparr>defaultEnv := de\<rparr>)"
    show ?thesis by (simp add: sample_eval sp del: run_generateContainerSpec cong: eval_cong)
  qed
qed




section \<open>Waiting for events\<close>

theorem wait_task_exit_ends_witness:
  "ends_within env1 0 (\<lambda>e. te_ContainerID e = ''run'') (Suc (Suc 0)) (world1\<lparr>fk_events := [EvOther (Inr ()), EvTaskExit (Inr (fk_exit ''run''))]\<rparr>) \<and>
   fst (run (wait_task_exit env1 5 0 (\<lambda>e. te_ContainerID e = ''run''))
     (svc1\<lparr>world := world1\<lparr>fk_events := [EvOther (Inr ()), EvTaskExit (Inr (fk_exit ''run''))]\<rparr>\<rparr>)) \<noteq> Diverge"
proof -
  let ?w = "world1\<lparr>fk_events := [EvOther (Inr ()), EvTaskExit (Inr (fk_exit ''run''))]\<rparr>"
  have e: "ends_within env1 0 (\<lambda>e. te_ContainerID e = ''run'') (Suc (Suc 0)) (world (svc1\<lparr>world := ?w\<rparr>))"
    by (simp add: fake_env_sel fk_recv_def ends_wait_def fk_exit_def)
  with wait_task_exit_ends [OF e, of 5] show ?thesis by simp
qed

end
