(* ===== verification/Witnesses_Cleanup.thy ===== *)
theory Witnesses_Cleanup
  imports Sample_Service
begin

text \<open>
  The theorems on failing requests at concrete inputs: a sandbox whose task cannot be created and a container
  whose task cannot be started, in the world of \<open>Sample_World\<close> with that one call failing.
\<close>

definition svc2 :: "fake st" where
  "svc2 = svc1\<lparr>sandboxImage := ''busybox''\<rparr>"

lemma svc2_fields: "sandboxImage svc2 = ''busybox''" "world svc2 = world svc1" "rootDir svc2 = rootDir svc1"
  "imageStore svc2 = imageStore svc1" "sandboxNameIndex svc2 = sandboxNameIndex svc1"
  "sandboxStore svc2 = sandboxStore svc1" "defaultEnv svc2 = defaultEnv svc1"
  by (simp_all add: svc2_def)

lemma svc2_inv: "svc_inv svc2"
  using svc1_inv by (simp add: svc2_def svc_inv_def)

lemma run_pod2_fails:
  "\<exists>e. fst (run (RunPodSandbox (fake_env [''tasks_Create'']) (Suc (Suc (Suc 0))) (Some pod2)) svc2) = Err e"
proof (rule sample_sandbox_spec [of "''id0''" init_defaultEnv])
  fix sp de
  assume sp: "\<And>sid' c ic (s :: fake st). sid' = ''id0'' \<Longrightarrow> c = Some pod2 \<Longrightarrow> ic = Some fk_image_config \<Longrightarrow>
      defaultEnv s = init_defaultEnv \<Longrightarrow> run (sandbox_spec sid' c ic) s = (Ok sp, s\<lparr>defaultEnv := de\<rparr>)"
  show ?thesis by (simp add: sample_eval pod2_fields svc2_fields sp del: run_sandbox_spec cong: eval_cong)
qed



end
