(* ===== verification/Witnesses_Concurrency.thy ===== *)
theory Witnesses_Concurrency
  imports Sample_Service
begin

text \<open>
  The theorems about interleavings at concrete pools: a stop of the running container, or of its sandbox,
  beside the handling of the exit event of that container.
\<close>

definition exited_run :: "fake st" where
  "exited_run = svc1\<lparr>world := world1\<lparr>fk_res := removeAll (RTask ''run'') (fk_res world1)\<rparr>,
     statuses := [created1, running1\<lparr>st_Pid := 0, st_FinishedAt := 99, st_ExitCode := 137\<rparr>, exited1]\<rparr>"

lemma exited_run_fields:
  "containerStore exited_run = containerStore svc1" "sandboxStore exited_run = [(''sb1'', sb1)]"
  "world exited_run = world1\<lparr>fk_res := [RTask ''sb1'', RNetwork ''sb1'', RMount ''/root/sandboxes/sb1/shm'',
     RContainer ''new'', RSnapshot ''new'']\<rparr>"
  "statuses exited_run = [created1, running1\<lparr>st_Pid := 0, st_FinishedAt := 99, st_ExitCode := 137\<rparr>, exited1]"
  "rootDir exited_run = ''/root''"
  by (simp_all add: exited_run_def svc1_fields world1_fields)

lemma exited_run_state: "State (statuses exited_run ! 1) = CONTAINER_EXITED"
  by (simp add: exited_run_fields running1_def created_status_def State_def)

lemma run_exit: "run (handleTaskExit env1 (fk_exit ''run'')) svc1 = (Ok (), exited_run)"
proof -
  let ?e = "fk_exit ''run''"
  have del: "tasks_Delete env1 (te_ContainerID ?e) (world svc1) = (Inr (), world1\<lparr>fk_res := removeAll (RTask ''run'') (fk_res world1)\<rparr>)"
    by (simp add: svc1_fields fake_env_sel fk_release_def fk_exit_def world1_fields)
  from run_handleTaskExit [OF _ _ _ _ _ del, of "cntr ''run'' 1" 1]
  show ?thesis by (simp add: svc1_fields fk_exit_def running1_def fk_pid_def created_status_def State_def exited_run_def)
qed

abbreviation exit_event :: Envelope where "exit_event \<equiv> EvTaskExit (Inr (fk_exit ''run''))"

lemma run_exit_event: "run (handleEvent env1 exit_event) svc1 = (Ok (), exited_run)"
  by (simp add: handleEvent_def run_exit)

text \<open>The exit is handled first, then the other goroutine runs to its end.\<close>

lemma pool_exit_then:
  assumes "run p exited_run = (r, t)"
  shows "service_steps env1 (svc1, [p, handleEvent env1 exit_event]) (t, [Ret r, Ret (Ok ())])"
proof -
  have "service_steps env1 (svc1, [p, handleEvent env1 exit_event]) (exited_run, [p, Ret (Ok ())])"
    using pool_run [of 1 "[p, handleEvent env1 exit_event]", OF _ _ run_exit_event] by simp
  also have "service_steps env1 (exited_run, [p, Ret (Ok ())]) (t, [Ret r, Ret (Ok ())])"
    using pool_run [of 0 "[p, Ret (Ok ())]", OF _ _ assms] by simp
  finally show ?thesis .
qed

theorem statuses_move_forward_witness:
  "service_steps env1 (svc1, [Ret (Ok ()), handleEvent env1 exit_event]) (exited_run, [Ret (Ok ()), Ret (Ok ())]) \<and>
   state_rank (State (statuses svc1 ! 1)) \<le> state_rank (State (statuses exited_run ! 1)) \<and>
   exit_record (statuses exited_run ! 2) = exit_record (statuses svc1 ! 2)"
proof -
  have "pool_guar svc_step (svc1, [Ret (Ok ()), handleEvent env1 exit_event])"
    by (simp add: pool_guar_def handleEvent_guar)
  note move = statuses_move_forward [OF pool_exit_then [OF run_Ret [of "Ok ()" exited_run]] this]
  from move [of 1] move [of 2] show ?thesis
    using pool_exit_then [OF run_Ret [of "Ok ()" exited_run]] by (simp add: svc1_fields)
qed




section \<open>The daemon\<close>

definition boot1 :: "fake boot" where
  "boot1 = \<lparr>containerd_New = (\<lambda>_ _. fk_ok [] '''' ()), ocicni_InitCNI = (\<lambda>_ _. fk_ok [] '''' ()),
     k8snet_ChooseBindAddress = fk_ok [] '''' ''10.0.0.1'', streaming_NewServer = (\<lambda>_. fk_ok [] '''' ()),
     streamServer_Start = fk_ok [] '''' (), syscall_Unlink = (\<lambda>_. fk_ok [] '''' ()),
     net_Listen = (\<lambda>_ _. fk_open [] ''''), grpc_Serve = (\<lambda>_. fk_ok [] '''' ())\<rparr>"

theorem main_reachable_witness:
  "\<exists>s ps. main boot1 env1 (\<lambda>_. Inr ()) ''1.0.0'' 1 1 default_options world1 = Serving (s, ps) \<and>
     svc_inv s \<and> rootDir s = ''/var/lib/cri-containerd''"
proof -
  have "run (connect_service boot1 e b c a p) world1 = (Ok (), world1)" for e b c a p
    by (simp add: connect_service_def newStreamServer_def boot_call_def boot1_def fk_ok_def run_seqE run_bindE run_wrap_err
        of_result_def)
  then obtain s ps where main: "main boot1 env1 (\<lambda>_. Inr ()) ''1.0.0'' 1 1 default_options world1 = Serving (s, ps)"
    by (simp add: main_def NewCRIContainerdService_def default_options_def)
  from main_reachable [OF main rtranclp.rtrancl_refl] main show ?thesis by (simp add: default_options_def)
qed

end
