(* ===== verification/Witnesses_Spec.thy ===== *)
theory Witnesses_Spec
  imports Sample_Service
begin

text \<open>
  The theorems about runtime specs at concrete configurations: a plain container, a privileged one with a
  read-only root, one that adds and drops capabilities, and one whose image sets the search path.
\<close>

definition secured :: "bool \<Rightarrow> bool \<Rightarrow> Capability option \<Rightarrow> LinuxContainerConfig" where
  "secured p ro caps = \<lparr>lc_Resources = None, lc_SecurityContext = Some \<lparr>ls_Capabilities = caps, ls_Privileged = p,
     ls_NamespaceOptions = None, ls_ReadonlyRootfs = ro, ls_SupplementalGroups = []\<rparr>\<rparr>"

definition sample_config :: "LinuxContainerConfig \<Rightarrow> ContainerConfig" where
  "sample_config l = (cntr_config ''app'')\<lparr>cc_Envs := [], cc_Linux := Some l\<rparr>"

definition sample_image :: "string \<Rightarrow> ImageConfig" where
  "sample_image e = fk_image_config\<lparr>ic_Env := [e]\<rparr>"

lemma sample_config_fields:
  "cc_Command (sample_config l) = None" "cc_Args (sample_config l) = []" "cc_WorkingDir (sample_config l) = ''''"
  "cc_Envs (sample_config l) = []" "cc_Mounts (sample_config l) = []" "cc_Devices (sample_config l) = []"
  "cc_Tty (sample_config l) = False" "cc_Linux (sample_config l) = Some l"
  "ic_Env (sample_image e) = [e]" "ic_Entrypoint (sample_image e) = [''/pause'']" "ic_Cmd (sample_image e) = []"
  "ic_WorkingDir (sample_image e) = ''''"
  "lc_Resources (secured p ro caps) = None" "lc_SecurityContext (secured p ro caps) = Some \<lparr>ls_Capabilities = caps, ls_Privileged = p,
     ls_NamespaceOptions = None, ls_ReadonlyRootfs = ro, ls_SupplementalGroups = []\<rparr>"
  by (simp_all add: sample_config_def sample_image_def secured_def sample_fields)

lemma security_context: "container_security_context (Some (sample_config (secured p ro caps))) = Some \<lparr>ls_Capabilities = caps,
    ls_Privileged = p, ls_NamespaceOptions = None, ls_ReadonlyRootfs = ro, ls_SupplementalGroups = []\<rparr>"
  by (simp add: container_security_context_def sample_config_fields)

lemma sample_process_ok:
  assumes "strings_Split e (CHR ''='') = [k, v]"
  shows "\<exists>g'. run (spec_process (Some (sample_config (secured p ro caps))) (Some (sample_image e)) ms) g = (Ok (), g')"
  by (cases p) (simp_all add: eval sample_config_fields security_context run_for_gmod assms Let_def cong: eval_cong)

lemma sample_devices_ok:
  "\<exists>g'. run (addOCIDevices env1 [] p g) s = (Ok g', s)"
  by (cases p) (simp_all add: eval sample_config_fields fake_defs)

lemma sample_isolation_ok:
  assumes "\<exists>g'. run (setOCICapabilities caps p) g = (Ok (), g')"
  shows "\<exists>g'. run (spec_isolation cid pid (Some (sample_config (secured p ro caps))) (Some pod_config)) g = (Ok (), g')"
proof -
  obtain g' where "run (setOCICapabilities caps p) g = (Ok (), g')" using assms by blast
  then show ?thesis
    by (simp add: run_spec_isolation run_control run_gen_acts Let_def security_context sample_config_fields sample_fields
        setOCILinuxResource_def setOCINamespaces_def)
qed

lemma sample_spec_ok:
  assumes e: "strings_Split e (CHR ''='') = [k, v]"
    and caps: "\<And>g. sp_Capabilities (g_Spec g) = sp_Capabilities (createDefaultSpec init_defaultEnv) \<Longrightarrow>
      \<exists>g'. run (setOCICapabilities caps p) g = (Ok (), g')"
  shows "\<exists>sp s'. run (generateContainerSpec env1 ''id0'' fk_pid (Some (sample_config (secured p ro caps))) (Some pod_config)
    (Some (sample_image e)) []) svc1 = (Ok sp, s')"
proof -
  let ?c = "Some (sample_config (secured p ro caps))"
  let ?P = "\<lambda>g. sp_Capabilities (g_Spec g) = sp_Capabilities (createDefaultSpec init_defaultEnv)"
  let ?g0 = "GenerateSpec (defaultEnv svc1)"
  obtain g1 where g1: "run (spec_process ?c (Some (sample_image e)) []) ?g0 = (Ok (), g1)"
    using sample_process_ok [OF e] by blast
  have "keeps ?P (spec_process ?c (Some (sample_image e)) [])"
    by (intro spec_process_keeps addOCIBindMounts_keeps) (auto simp: gen_defs Let_def)
  from keeps_run [OF this _ g1] have P1: "?P g1" by (simp add: GenerateSpec_def svc1_fields)
  let ?s1 = "svc1\<lparr>defaultEnv := g_defaultEnv g1\<rparr>"
  obtain g2 where g2: "run (addOCIDevices env1 [] p g1) ?s1 = (Ok g2, ?s1)"
    using sample_devices_ok by blast
  have "?P g2" using addOCIDevices_keeps [where f = "\<lambda>g. sp_Capabilities (g_Spec g)", OF _ _ g2] P1 by (simp add: gen_defs)
  then have "?P (sync_env (g_defaultEnv g1) g2)" by simp
  from sample_isolation_ok [OF caps [OF this]] obtain g3 where
    g3: "run (spec_isolation ''id0'' fk_pid ?c (Some pod_config)) (sync_env (g_defaultEnv g1) g2) = (Ok (), g3)" by blast
  have sync: "sync_env (defaultEnv svc1) ?g0 = ?g0" by (simp add: sync_env_def GenerateSpec_def createDefaultSpec_def)
  show ?thesis
    by (simp add: run_generateContainerSpec run_control run_acts run_on_gen sync g1 g2 g3 security_context sample_config_fields)
qed

section \<open>Witnesses\<close>

lemma privileged_spec:
  assumes "strings_Split e (CHR ''='') = [k, v]"
  obtains sp s' where "run (generateContainerSpec env1 ''id0'' fk_pid (Some (sample_config (secured True True None)))
      (Some pod_config) (Some (sample_image e)) []) svc1 = (Ok sp, s')"
proof -
  have "\<exists>g'. run (setOCICapabilities None True) g = (Ok (), g')" for g
    by (simp add: setOCICapabilities_def run_gen_acts)
  from sample_spec_ok [OF assms this] show thesis using that by blast
qed




abbreviation some_caps :: Capability where "some_caps \<equiv> \<lparr>cap_Add = [''net_admin''], cap_Drop = [''kill'']\<rparr>"

lemma upper_cap: "strings_ToUpper (''CAP_'' @ c) = ''CAP_'' @ strings_ToUpper c"
proof -
  have "strings_ToUpper ''CAP_'' = ''CAP_''" by code_simp
  then show ?thesis by (simp add: strings_ToUpper_def)
qed

lemma cap_valid: "c \<in> set capability_List \<Longrightarrow> CapValid (''CAP_'' @ strings_ToUpper c) = Inr ()"
  by (simp add: CapValid_def all_caps_def)

lemma some_caps_valid:
  "CapValid (strings_ToUpper (''CAP_'' @ ''net_admin'')) = Inr ()" "CapValid (strings_ToUpper (''CAP_'' @ ''kill'')) = Inr ()"
  by (simp_all only: upper_cap, rule cap_valid, simp add: capability_List_def, rule cap_valid, simp add: capability_List_def)

lemma some_caps_ok:
  assumes "sp_Capabilities (g_Spec g) = sp_Capabilities (createDefaultSpec init_defaultEnv)"
  shows "\<exists>g'. run (setOCICapabilities (Some some_caps) False) g = (Ok (), g')"
proof -
  let ?A = "insert (strings_ToUpper (''CAP_'' @ ''net_admin'')) (set defaltCaps)"
  let ?g = "upd_spec (sp_Capabilities_update (add_cap (strings_ToUpper (''CAP_'' @ ''net_admin'')))) g"
  have add: "AddProcessCapability (''CAP_'' @ ''net_admin'') g = Inr ?g"
    unfolding AddProcessCapability_def Let_def some_caps_valid(1) by simp
  have "confined ?A {} (sp_Capabilities (g_Spec g))" unfolding assms by (rule confined_default) auto
  then have "confined ?A {} (sp_Capabilities (g_Spec ?g))"
    using confined_add [of ?A "sp_Capabilities (g_Spec g)" "''CAP_'' @ ''net_admin''"] by simp
  then have "\<exists>g'. DropProcessCapability (''CAP_'' @ ''kill'') ?g = Some (Inr g')"
    unfolding DropProcessCapability_def Let_def some_caps_valid(2)
    by (simp add: confined_def cap_lists_def confined_list_def drop_cap_distinct)
  then show ?thesis using add by (auto simp: setOCICapabilities_def run_control run_gen_acts run_bindE)
qed

theorem generateContainerSpec_capabilities_witness:
  "\<exists>sp s'. run (generateContainerSpec env1 ''id0'' fk_pid (Some (sample_config (secured False False (Some some_caps))))
      (Some pod_config) (Some (sample_image ''HOME=/root'')) []) svc1 = (Ok sp, s') \<and>
    ''CAP_KILL'' \<notin> set (cap_Bounding (sp_Capabilities sp)) \<and> ''CAP_SYS_ADMIN'' \<notin> set (cap_Effective (sp_Capabilities sp))"
proof -
  have "strings_Split ''HOME=/root'' (CHR ''='') = [''HOME'', ''/root'']" by simp
  from sample_spec_ok [OF this some_caps_ok, of False] obtain sp s' where
    run: "run (generateContainerSpec env1 ''id0'' fk_pid (Some (sample_config (secured False False (Some some_caps))))
      (Some pod_config) (Some (sample_image ''HOME=/root'')) []) svc1 = (Ok sp, s')" by blast
  have up: "strings_ToUpper ''CAP_KILL'' \<in> asked [''kill'']" "strings_ToUpper ''CAP_SYS_ADMIN'' \<notin> set defaltCaps \<union> asked [''net_admin'']"
    by code_simp+
  note caps = generateContainerSpec_capabilities [OF run _ refl, simplified security_context]
  have "''CAP_KILL'' \<notin> set (cap_Bounding (sp_Capabilities sp))"
    using caps [of "cap_Bounding (sp_Capabilities sp)" "''CAP_KILL''"] up by (auto simp: cap_lists_def)
  moreover have "''CAP_SYS_ADMIN'' \<notin> set (cap_Effective (sp_Capabilities sp))"
    using caps [of "cap_Effective (sp_Capabilities sp)" "''CAP_SYS_ADMIN''"] up by (auto simp: cap_lists_def)
  ultimately show ?thesis using run by blast
qed

end
