(* ===== verification/Proc_Invariant.thy ===== *)
theory Proc_Invariant
  imports Cri_Prelude
begin

text \<open>
  Invariants that hold because of what a goroutine has done before. \<open>guar R p\<close> looks at every action of \<open>p\<close> in
  every state; some actions keep an invariant only in the states in which the goroutine reaches them.
  \<open>wp R I p post s\<close> follows \<open>p\<close> from \<open>s\<close> on, with other goroutines making \<open>R\<close> steps between its actions:
  each action is an \<open>R\<close> step that keeps \<open>I\<close>, and the result satisfies \<open>post\<close>.
\<close>

section \<open>One goroutine\<close>

primrec wp :: "('s \<Rightarrow> 's \<Rightarrow> bool) \<Rightarrow> ('s \<Rightarrow> bool) \<Rightarrow> ('s, 'a) proc \<Rightarrow> ('a \<Rightarrow> 's \<Rightarrow> bool) \<Rightarrow> 's \<Rightarrow> bool" where
  "wp R I (Ret x) = (\<lambda>post s. \<forall>t. R\<^sup>*\<^sup>* s t \<longrightarrow> I t \<longrightarrow> post x t)"
| "wp R I (Step f) = (\<lambda>post s. \<forall>t. R\<^sup>*\<^sup>* s t \<longrightarrow> I t \<longrightarrow>
     (case map_prod id (wp R I) (f t) of (t', q) \<Rightarrow> R t t' \<and> I t' \<and> q post t'))"

lemma wp_Step: "wp R I (Step f) post s \<longleftrightarrow> (\<forall>t. R\<^sup>*\<^sup>* s t \<longrightarrow> I t \<longrightarrow>
    R t (fst (f t)) \<and> I (fst (f t)) \<and> wp R I (snd (f t)) post (fst (f t)))"
  by (simp add: case_prod_beta)

declare wp.simps(2) [simp del]

lemma wp_later: "wp R I p post s \<Longrightarrow> R\<^sup>*\<^sup>* s t \<Longrightarrow> wp R I p post t"
  by (cases p) (auto simp: wp_Step dest: rtranclp_trans)

lemma wp_mono:
  "wp R I p post s \<Longrightarrow> (\<And>x t. I t \<Longrightarrow> post x t \<Longrightarrow> post' x t) \<Longrightarrow> wp R I p post' s"
  by (induction p arbitrary: s rule: proc_induct) (auto simp: wp_Step)

lemma wp_bind_proc:
  "I s \<Longrightarrow> wp R I m (\<lambda>x. wp R I (k x) post) s \<Longrightarrow> wp R I (bind_proc m k) post s"
  by (induction m arbitrary: s rule: proc_induct) (auto simp: wp_Step)

lemma wp_atomic:
  assumes "\<And>t. R\<^sup>*\<^sup>* s t \<Longrightarrow> I t \<Longrightarrow> R t (snd (f t)) \<and> I (snd (f t)) \<and>
    (\<forall>u. R\<^sup>*\<^sup>* (snd (f t)) u \<longrightarrow> I u \<longrightarrow> post (fst (f t)) u)"
  shows "wp R I (atomic f) post s"
  using assms by (auto simp: atomic_def wp_Step split: prod.splits) (metis fst_conv snd_conv)+

lemma wp_bindE:
  assumes "I s" and "wp R I m (\<lambda>r t. case r of Ok x \<Rightarrow> wp R I (k x) post t | Err e \<Rightarrow> post (Err e) t
      | Panic \<Rightarrow> post Panic t | Diverge \<Rightarrow> post Diverge t) s"
    and "\<And>r t u. post r t \<Longrightarrow> R\<^sup>*\<^sup>* t u \<Longrightarrow> post r u"
  shows "wp R I (bindE m k) post s"
  unfolding bindE_def using assms(1)
  by (rule wp_bind_proc) (rule wp_mono [OF assms(2)], auto split: outcome.splits intro: assms(3))

text \<open>A goroutine that runs alone.\<close>

lemma wp_run: "wp R I p post s \<Longrightarrow> I s \<Longrightarrow> post (fst (run p s)) (snd (run p s))"
proof (induction p arbitrary: s rule: proc_induct)
  case (Step f)
  have "I (fst (f s)) \<and> wp R I (snd (f s)) post (fst (f s))"
    using Step.prems unfolding wp_Step by (blast intro: rtranclp.rtrancl_refl)
  with Step.IH [of s "fst (f s)"] show ?case by (simp add: case_prod_beta)
qed simp

section \<open>Goroutines that keep an invariant\<close>

named_theorems safe_intros \<open>goroutines that keep an invariant\<close>

definition safe :: "('s \<Rightarrow> 's \<Rightarrow> bool) \<Rightarrow> ('s \<Rightarrow> bool) \<Rightarrow> ('s, 'a) proc \<Rightarrow> bool" where
  "safe R I p \<longleftrightarrow> (\<forall>s. I s \<longrightarrow> wp R I p (\<lambda>_ _. True) s)"

lemma guar_safe: "guar (\<lambda>s t. R s t \<and> (I s \<longrightarrow> I t)) p \<Longrightarrow> safe R I p"
proof -
  have "guar (\<lambda>s t. R s t \<and> (I s \<longrightarrow> I t)) p \<Longrightarrow> wp R I p (\<lambda>_ _. True) s" for s
    by (induction p arbitrary: s rule: proc_induct) (auto simp: wp_Step guar_Step)
  then show "guar (\<lambda>s t. R s t \<and> (I s \<longrightarrow> I t)) p \<Longrightarrow> safe R I p" by (simp add: safe_def)
qed

lemma safe_Ret [safe_intros]: "safe R I (Ret x)"
  by (simp add: safe_def)

lemma safe_bind_proc: "safe R I m \<Longrightarrow> (\<And>x. safe R I (k x)) \<Longrightarrow> safe R I (bind_proc m k)"
  unfolding safe_def
proof (intro allI impI)
  fix s
  assume m: "\<forall>s. I s \<longrightarrow> wp R I m (\<lambda>_ _. True) s" and k: "\<And>x. \<forall>s. I s \<longrightarrow> wp R I (k x) (\<lambda>_ _. True) s"
    and s: "I s"
  show "wp R I (bind_proc m k) (\<lambda>_ _. True) s"
    by (rule wp_bind_proc [of I, OF s], rule wp_mono [of R I m "\<lambda>_ _. True"]) (use m k s in auto)
qed

lemma safe_bindE [safe_intros]: "safe R I m \<Longrightarrow> (\<And>x. safe R I (k x)) \<Longrightarrow> safe R I (bindE m k)"
  unfolding bindE_def by (rule safe_bind_proc) (auto split: outcome.splits intro: safe_Ret)

lemma safe_seqE [safe_intros]: "safe R I m \<Longrightarrow> safe R I n \<Longrightarrow> safe R I (seqE m n)"
  unfolding seqE_def by (rule safe_bindE)

lemma safe_tryE [safe_intros]: "safe R I m \<Longrightarrow> (\<And>x. safe R I (k x)) \<Longrightarrow> safe R I (tryE m k)"
  unfolding tryE_def by (rule safe_bind_proc) (auto split: outcome.splits intro: safe_Ret)

lemma safe_on_error [safe_intros]: "safe R I m \<Longrightarrow> safe R I c \<Longrightarrow> safe R I (on_error m c)"
  unfolding on_error_def by (rule safe_bind_proc) (auto split: outcome.splits intro!: safe_bind_proc safe_Ret)

lemma safe_defer_always [safe_intros]: "safe R I m \<Longrightarrow> safe R I c \<Longrightarrow> safe R I (defer_always m c)"
  unfolding defer_always_def by (rule safe_bind_proc) (auto split: outcome.splits intro!: safe_bind_proc safe_Ret)

lemma safe_wrap_err [safe_intros]: "safe R I m \<Longrightarrow> safe R I (wrap_err w m)"
  unfolding wrap_err_def by (rule safe_bind_proc) (auto intro: safe_Ret)

lemma safe_forE [safe_intros]: "(\<And>x. safe R I (body x)) \<Longrightarrow> safe R I (forE xs body)"
  by (induction xs) (auto intro: safe_intros)

section \<open>A pool of goroutines\<close>

definition pool_safe :: "('s \<Rightarrow> 's \<Rightarrow> bool) \<Rightarrow> ('s \<Rightarrow> bool) \<Rightarrow> ('s, 'r) pool \<Rightarrow> bool" where
  "pool_safe R I c \<longleftrightarrow> I (fst c) \<and> (\<forall>p \<in> set (snd c). wp R I p (\<lambda>_ _. True) (fst c))"

text \<open>The contract of a program whose goroutines all keep the invariant, and what its pools inherit from it.\<close>

locale safe_pool =
  fixes A :: "('s, 'r) proc \<Rightarrow> bool" and R :: "'s \<Rightarrow> 's \<Rightarrow> bool" and I :: "'s \<Rightarrow> bool"
  assumes members: "A p \<Longrightarrow> safe R I p"
begin

lemma pool_step_safe:
  assumes "pool_step A c c'" and "pool_safe R I c"
  shows "pool_safe R I c'"
  using assms(1)
proof (cases rule: pool_step.cases)
  case (spawn p s ps)
  with assms(2) members [of p] show ?thesis by (auto simp: pool_safe_def safe_def)
next
  case (act i ps f s s' p)
  have "Step f \<in> set ps" using act by (metis nth_mem)
  with assms(2) act have I: "I s" and "wp R I (Step f) (\<lambda>_ _. True) s" by (auto simp: pool_safe_def)
  then have "R s (fst (f s)) \<and> I (fst (f s)) \<and> wp R I (snd (f s)) (\<lambda>_ _. True) (fst (f s))"
    unfolding wp_Step by (blast intro: rtranclp.rtrancl_refl)
  with act have p: "R s s'" "I s'" "wp R I p (\<lambda>_ _. True) s'" by simp_all
  from p(1) have later: "R\<^sup>*\<^sup>* s s'" by (rule r_into_rtranclp)
  have "wp R I q (\<lambda>_ _. True) s'" if "q \<in> set ps" for q
    by (rule wp_later [OF _ later]) (use assms(2) act that in \<open>simp add: pool_safe_def\<close>)
  with p act show ?thesis by (auto simp: pool_safe_def dest!: set_update_subset_insert [THEN subsetD])
qed

lemma pool_steps_safe:
  assumes "(pool_step A)\<^sup>*\<^sup>* c c'" and "pool_safe R I c"
  shows "pool_safe R I c'"
  using assms(1)
proof (induction rule: rtranclp_induct)
  case (step y z)
  from pool_step_safe [OF step.hyps(2) step.IH] show ?case .
qed (rule assms(2))

text \<open>A goroutine that was started with a postcondition meets it when it returns.\<close>

lemma pool_step_wp:
  assumes "pool_step A c c'" and "pool_safe R I c" and "i < length (snd c)" and "wp R I (snd c ! i) post (fst c)"
  shows "i < length (snd c') \<and> wp R I (snd c' ! i) post (fst c')"
  using assms(1)
proof (cases rule: pool_step.cases)
  case (spawn p s ps)
  with assms(3,4) show ?thesis by (simp add: nth_append)
next
  case (act j ps f s s' p)
  have step: "R s (fst (f s)) \<and> wp R I (snd (f s)) post (fst (f s))" if "wp R I (Step f) post s" for post
    using that assms(2) act unfolding wp_Step by (auto simp: pool_safe_def)
  have "Step f \<in> set ps" using act by (metis nth_mem)
  with assms(2) act have "wp R I (Step f) (\<lambda>_ _. True) s" by (auto simp: pool_safe_def)
  from step [OF this] act have "R s s'" by simp
  then have later: "R\<^sup>*\<^sup>* s s'" by (rule r_into_rtranclp)
  show ?thesis
  proof (cases "i = j")
    case True
    with act assms(4) have "wp R I (Step f) post s" by simp
    from step [OF this] act True show ?thesis by simp
  next
    case False
    with act assms(3,4) wp_later [OF _ later] show ?thesis by simp
  qed
qed

lemma pool_steps_wp:
  assumes "(pool_step A)\<^sup>*\<^sup>* c c'" and "pool_safe R I c"
    and "i < length (snd c)" and "wp R I (snd c ! i) post (fst c)"
  shows "i < length (snd c') \<and> wp R I (snd c' ! i) post (fst c')"
  using assms(1)
proof (induction rule: rtranclp_induct)
  case (step y z)
  from pool_steps_safe [OF step.hyps(1) assms(2)] have "pool_safe R I y" by blast
  from pool_step_wp [OF step.hyps(2) this] step.IH show ?case by blast
qed (use assms(3,4) in blast)

lemma pool_post:
  assumes "(pool_step A)\<^sup>*\<^sup>* (s, ps @ [p]) (s', ps')" and "pool_safe R I (s, ps)"
    and "wp R I p post s" and "ps' ! length ps = Ret r"
  shows "post r s'"
proof -
  have start: "pool_safe R I (s, ps @ [p])"
    using assms(2) wp_mono [OF assms(3), of "\<lambda>_ _. True"] by (auto simp: pool_safe_def)
  from pool_steps_wp [OF assms(1) start, of "length ps" post] assms(3,4) have "wp R I (Ret r) post s'" by simp
  moreover from pool_steps_safe [OF assms(1) start] have "I s'" by (simp add: pool_safe_def)
  ultimately show ?thesis by simp
qed

end

section \<open>Goroutines that never panic\<close>

text \<open>No answer of the state makes a \<open>quiet\<close> goroutine panic.\<close>

named_theorems quiet_intros \<open>goroutines that never panic\<close>

primrec quiet :: "('s, 'e, 'a) go \<Rightarrow> bool" where
  "quiet (Ret r) = (r \<noteq> Panic)"
| "quiet (Step f) = (\<forall>s. case map_prod id quiet (f s) of (_, b) \<Rightarrow> b)"

lemma quiet_Step: "quiet (Step f) \<longleftrightarrow> (\<forall>s. quiet (snd (f s)))"
  by (simp add: case_prod_beta)

declare quiet.simps(2) [simp del]

lemma quiet_atomic: "quiet (atomic f) \<longleftrightarrow> (\<forall>s. fst (f s) \<noteq> Panic)"
  by (simp add: atomic_def quiet_Step case_prod_beta)

lemma quiet_bind_proc:
  assumes "quiet m" and "\<And>r. r \<noteq> Panic \<Longrightarrow> quiet (k r)"
  shows "quiet (bind_proc m k)"
  using assms(1) by (induction m rule: proc_induct) (auto simp: quiet_Step assms(2))

lemma quiet_Ret [quiet_intros]: "r \<noteq> Panic \<Longrightarrow> quiet (Ret r)"
  by simp

lemma quiet_bindE [quiet_intros]: "quiet m \<Longrightarrow> (\<And>x. quiet (k x)) \<Longrightarrow> quiet (bindE m k)"
  unfolding bindE_def by (rule quiet_bind_proc) (auto split: outcome.splits)

lemma quiet_seqE [quiet_intros]: "quiet m \<Longrightarrow> quiet n \<Longrightarrow> quiet (seqE m n)"
  unfolding seqE_def by (rule quiet_bindE)

lemma quiet_tryE [quiet_intros]: "quiet m \<Longrightarrow> (\<And>x. quiet (k x)) \<Longrightarrow> quiet (tryE m k)"
  unfolding tryE_def by (rule quiet_bind_proc) (auto split: outcome.splits)

lemma quiet_defer_always [quiet_intros]: "quiet m \<Longrightarrow> quiet c \<Longrightarrow> quiet (defer_always m c)"
  unfolding defer_always_def by (rule quiet_bind_proc) (auto split: outcome.splits intro!: quiet_bind_proc)

lemma quiet_on_error [quiet_intros]: "quiet m \<Longrightarrow> quiet c \<Longrightarrow> quiet (on_error m c)"
  unfolding on_error_def by (rule quiet_bind_proc) (auto split: outcome.splits intro!: quiet_bind_proc)

lemma quiet_wrap_err [quiet_intros]: "quiet m \<Longrightarrow> quiet (wrap_err w m)"
  unfolding wrap_err_def by (rule quiet_bind_proc) (auto split: outcome.splits)

lemma quiet_forE [quiet_intros]: "(\<And>x. quiet (body x)) \<Longrightarrow> quiet (forE xs body)"
  by (induction xs) (auto intro: quiet_intros)

lemma quiet_wp: "guar (\<lambda>s t. R s t \<and> (I s \<longrightarrow> I t)) m \<Longrightarrow> quiet m \<Longrightarrow> wp R I m (\<lambda>r _. r \<noteq> Panic) s"
  by (induction m arbitrary: s rule: proc_induct) (auto simp: wp_Step guar_Step quiet_Step)

text \<open>\<open>sound R I P m V\<close>: from a state with \<open>P\<close> on, \<open>m\<close> does not panic and what it returns satisfies \<open>V\<close>.\<close>

definition sound :: "('s \<Rightarrow> 's \<Rightarrow> bool) \<Rightarrow> ('s \<Rightarrow> bool) \<Rightarrow> ('s \<Rightarrow> bool) \<Rightarrow> ('s, 'e, 'a) go \<Rightarrow> ('a \<Rightarrow> 's \<Rightarrow> bool) \<Rightarrow> bool" where
  "sound R I P m V \<longleftrightarrow> (\<forall>s. I s \<longrightarrow> P s \<longrightarrow> wp R I m (\<lambda>r t. r \<noteq> Panic \<and> (\<forall>x. r = Ok x \<longrightarrow> V x t)) s)"

lemma soundD: "sound R I P m V \<Longrightarrow> I s \<Longrightarrow> P s \<Longrightarrow> wp R I m (\<lambda>r t. r \<noteq> Panic \<and> (\<forall>x. r = Ok x \<longrightarrow> V x t)) s"
  by (simp add: sound_def)

lemma sound_quiet:
  "guar (\<lambda>s t. R s t \<and> (I s \<longrightarrow> I t)) m \<Longrightarrow> quiet m \<Longrightarrow> sound R I P m (\<lambda>_ _. True)"
  by (auto simp: sound_def intro: wp_mono [OF quiet_wp])

lemma wp_reach: "wp R I p post s \<Longrightarrow> R\<^sup>*\<^sup>* s0 s \<Longrightarrow> wp R I p (\<lambda>x t. post x t \<and> R\<^sup>*\<^sup>* s0 t) s"
proof (induction p arbitrary: s rule: proc_induct)
  case (Step f)
  then show ?case by (auto simp: wp_Step) (meson rtranclp.rtrancl_into_rtrancl rtranclp_trans)
qed (auto dest: rtranclp_trans)

lemma sound_bind_proc:
  fixes m :: "('s, 'e, 'a) go"
  assumes "sound R I P m V" and "stable R P"
    and "\<And>x. sound R I (\<lambda>s. P s \<and> V x s) (k (Ok x)) W"
    and "\<And>e. sound R I P (k (Err e)) W" and "sound R I P (k Diverge) W"
  shows "sound R I P (bind_proc m k) W"
  unfolding sound_def
proof (intro allI impI)
  fix s
  assume s: "I s" "P s"
  have "wp R I m (\<lambda>r t. (r \<noteq> Panic \<and> (\<forall>x. r = Ok x \<longrightarrow> V x t)) \<and> R\<^sup>*\<^sup>* s t) s"
    by (rule wp_reach [OF soundD [OF assms(1) s]]) simp
  then show "wp R I (bind_proc m k) (\<lambda>r t. r \<noteq> Panic \<and> (\<forall>x. r = Ok x \<longrightarrow> W x t)) s"
  proof (intro wp_bind_proc [of I, OF s(1)], elim wp_mono)
    fix r :: "('e, 'a) outcome" and t
    assume t: "I t" and r: "(r \<noteq> Panic \<and> (\<forall>x. r = Ok x \<longrightarrow> V x t)) \<and> R\<^sup>*\<^sup>* s t"
    with s assms(2) have "P t" by (blast intro: stable_rtranclp)
    with t r assms(3,4,5) show "wp R I (k r) (\<lambda>r t. r \<noteq> Panic \<and> (\<forall>x. r = Ok x \<longrightarrow> W x t)) t"
      by (cases r) (auto simp: sound_def)
  qed
qed

lemma sound_Ret: "r \<noteq> Panic \<Longrightarrow> stable R P \<Longrightarrow> (\<And>x t. r = Ok x \<Longrightarrow> P t \<Longrightarrow> V x t) \<Longrightarrow> sound R I P (Ret r) V"
  by (auto simp: sound_def dest: stable_rtranclp)

lemma sound_bindE:
  assumes "sound R I P m V" and "stable R P" and "\<And>x. sound R I (\<lambda>s. P s \<and> V x s) (k x) W"
  shows "sound R I P (bindE m k) W"
  unfolding bindE_def using assms by (intro sound_bind_proc [where V = V]) (auto intro: sound_Ret)

lemma sound_tryE:
  assumes "sound R I P m V" and "stable R P" and "\<And>x. sound R I (\<lambda>s. P s \<and> V x s) (k (Inr x)) W"
    and "\<And>e. sound R I P (k (Inl e)) W"
  shows "sound R I P (tryE m k) W"
  unfolding tryE_def using assms by (intro sound_bind_proc [where V = V]) (auto intro: sound_Ret)

lemma wp_lasting: "wp R I p post s \<Longrightarrow> wp R I p (\<lambda>x t. \<forall>u. R\<^sup>*\<^sup>* t u \<longrightarrow> I u \<longrightarrow> post x u) s"
  by (induction p arbitrary: s rule: proc_induct) (auto simp: wp_Step dest: rtranclp_trans)

lemma sound_wrap_err:
  fixes m :: "('s, 'e, 'a) go"
  assumes "sound R I P m V"
  shows "sound R I P (wrap_err w m) V"
  unfolding sound_def wrap_err_def
proof (intro allI impI)
  fix s
  assume s: "I s" "P s"
  show "wp R I (bind_proc m (\<lambda>r. Ret (case r of Err e \<Rightarrow> Err (w e) | _ \<Rightarrow> r)))
      (\<lambda>r t. r \<noteq> Panic \<and> (\<forall>x. r = Ok x \<longrightarrow> V x t)) s"
    by (rule wp_bind_proc [of I, OF s(1)], rule wp_mono [OF wp_lasting [OF soundD [OF assms s]]])
      (auto split: outcome.splits)
qed

lemma sound_weaken:
  "sound R I P m V \<Longrightarrow> (\<And>s. P' s \<Longrightarrow> P s) \<Longrightarrow> (\<And>x t. V x t \<Longrightarrow> V' x t) \<Longrightarrow> sound R I P' m V'"
  unfolding sound_def by (blast intro: wp_mono)

lemma sound_atomic:
  assumes "stable R P" and "\<And>x. stable R (V x)"
    and "\<And>t. I t \<Longrightarrow> P t \<Longrightarrow> R t (snd (f t)) \<and> I (snd (f t)) \<and> fst (f t) \<noteq> Panic \<and>
      (\<forall>x. fst (f t) = Ok x \<longrightarrow> V x (snd (f t)))"
  shows "sound R I P (atomic f) V"
  unfolding sound_def
proof (intro allI impI wp_atomic)
  fix s t
  assume "P s" "R\<^sup>*\<^sup>* s t" "I t"
  then have "P t" using assms(1) by (blast intro: stable_rtranclp)
  from assms(3) [OF \<open>I t\<close> this] assms(2) show "R t (snd (f t)) \<and> I (snd (f t)) \<and>
      (\<forall>u. R\<^sup>*\<^sup>* (snd (f t)) u \<longrightarrow> I u \<longrightarrow> fst (f t) \<noteq> Panic \<and> (\<forall>x. fst (f t) = Ok x \<longrightarrow> V x u))"
    by (blast intro: stable_rtranclp)
qed

lemma sound_on_error:
  assumes "sound R I P m V" and "sound R I P c (\<lambda>_ _. True)" and "stable R P" and "\<And>x. stable R (V x)"
  shows "sound R I P (on_error m c) V"
  unfolding on_error_def
proof (rule sound_bind_proc [where V = V])
  fix e
  show "sound R I P (case Err e of Err e \<Rightarrow> bind_proc c (\<lambda>c. Ret (case c of Panic \<Rightarrow> Panic | Diverge \<Rightarrow> Diverge | _ \<Rightarrow> Err e))
      | _ \<Rightarrow> Ret (Err e)) V"
    using assms by (auto intro!: sound_bind_proc [where V = "\<lambda>_ _. True"] sound_Ret stable_conj simp: stable_def)
qed (use assms in \<open>auto intro!: sound_Ret stable_conj\<close>)

lemma sound_safe: "sound R I (\<lambda>_. True) m V \<Longrightarrow> safe R I m"
  by (auto simp: sound_def safe_def intro: wp_mono)

end
