(* ===== verification/Pointer_Safety.thy ===== *)
theory Pointer_Safety
  imports Proc_Invariant Concurrency
begin

text \<open>
  The pointers the stores hold: every stored container has its status storage and every stored image its
  configuration. Only \<open>CreateContainer\<close> adds a container, and it keeps the invariant because the container
  it adds is the one it has just made; all other actions keep it in any state. Requests that reach containers
  and images through the stores therefore never dereference a nil pointer, whatever runs beside them.
\<close>

named_theorems keep_guar \<open>actions that keep the pointers of the stores\<close>
named_theorems sound_intros \<open>requests that do not panic\<close>

definition has_status :: "Container \<Rightarrow> 'w st \<Rightarrow> bool" where
  "has_status c s \<longleftrightarrow> (case c_Status c of None \<Rightarrow> False | Some i \<Rightarrow> i < length (statuses s))"

definition pointers_ok :: "'w st \<Rightarrow> bool" where
  "pointers_ok s \<longleftrightarrow> (\<forall>c \<in> ran (map_of (containerStore s)). has_status c s) \<and>
     (\<forall>img \<in> ran (map_of (imageStore s)). img_Config img \<noteq> None)"

definition keep_step :: "'w st \<Rightarrow> 'w st \<Rightarrow> bool" where
  "keep_step s s' \<longleftrightarrow> svc_step s s' \<and> (pointers_ok s \<longrightarrow> pointers_ok s')"

lemma pointers_ok_init: "pointers_ok (init_svc dir w)"
  by (simp add: pointers_ok_def init_svc_def containerStore_New_def imageStore_New_def)

section \<open>Actions that keep the pointers\<close>

lemma has_status_stable: "stable svc_step (has_status c)"
  by (auto simp: stable_def has_status_def svc_step_def svc_rel_def status_rel_def split: option.splits)

lemma svc_steps_has_status: "svc_step s t \<Longrightarrow> has_status c s \<Longrightarrow> has_status c t"
  using has_status_stable by (auto simp: stable_def)

text \<open>An action that adds no container and no image without configuration.\<close>

lemma keep_stepI:
  assumes "svc_step s s'" and "ran (map_of (containerStore s')) \<subseteq> ran (map_of (containerStore s))"
    and "\<And>img. img \<in> ran (map_of (imageStore s')) \<Longrightarrow> pointers_ok s \<Longrightarrow> img_Config img \<noteq> None"
  shows "keep_step s s'"
  using assms by (auto simp: keep_step_def pointers_ok_def intro: svc_steps_has_status [OF assms(1)])

lemma keep_step_same:
  "svc_step s s' \<Longrightarrow> containerStore s' = containerStore s \<Longrightarrow> imageStore s' = imageStore s \<Longrightarrow> keep_step s s'"
  by (rule keep_stepI) (auto simp: pointers_ok_def)

lemma world_only_keep: "world_only s s' \<Longrightarrow> keep_step s s'"
  by (rule keep_step_same) (auto simp: world_only_def)

lemma keep_world: "guar world_only m \<Longrightarrow> guar keep_step m"
  by (erule guar_mono) (rule world_only_keep)

text \<open>An action that keeps the stores, whatever it does to the statuses.\<close>

definition stores_kept :: "'w st \<Rightarrow> 'w st \<Rightarrow> bool" where
  "stores_kept s s' \<longleftrightarrow> containerStore s' = containerStore s \<and> imageStore s' = imageStore s"

lemma guar_conj: "guar R m \<Longrightarrow> guar S m \<Longrightarrow> guar (\<lambda>s t. R s t \<and> S s t) m"
  by (induction m rule: proc_induct) (auto simp: guar_Step)

lemma keep_stores_kept: "guar svc_step m \<Longrightarrow> guar stores_kept m \<Longrightarrow> guar keep_step m"
  by (rule guar_mono [OF guar_conj [where R = svc_step and S = stores_kept]]) (auto simp: stores_kept_def intro: keep_step_same)

lemma stores_kept_leaves:
  "guar stores_kept (sbstore_Add sb)" "guar stores_kept (sbstore_Delete sid)"
  "guar stores_kept (cname_Reserve n k)" "guar stores_kept (cname_ReleaseByName n)" "guar stores_kept (cname_ReleaseByKey k)"
  "guar stores_kept (sname_Reserve n k)" "guar stores_kept (sname_ReleaseByName n)" "guar stores_kept (sname_ReleaseByKey k)"
  "guar stores_kept (NewContainer meta st)" "guar stores_kept (status_Update c u)" "guar stores_kept (on_gen g m)"
  by (auto simp: act_defs on_gen_def stores_kept_def guar_atomic_iff split: prod.splits option.splits sum.splits)

lemma stores_kept_UpdateTx:
  assumes "\<And>st. guar world_only (body st)"
  shows "guar stores_kept (status_UpdateTx c body)"
proof -
  have "containerStore s' = containerStore s \<and> imageStore s' = imageStore s" if "run (body st) s = (r, s')" for st s r s'
    using guar_world_only_run [OF assms that] by auto
  then show ?thesis
    by (auto simp: status_UpdateTx_def guar_atomic_iff stores_kept_def split: option.splits prod.splits outcome.splits)
qed

lemma keep_leaves [keep_guar]:
  "guar keep_step (sbstore_Add sb)" "guar keep_step (sbstore_Delete sid)"
  "guar keep_step (cname_Reserve n k)" "guar keep_step (cname_ReleaseByName n)" "guar keep_step (cname_ReleaseByKey k)"
  "guar keep_step (sname_Reserve n k)" "guar keep_step (sname_ReleaseByName n)" "guar keep_step (sname_ReleaseByKey k)"
  "guar keep_step (on_gen g m)" "guar keep_step (container_Delete c)"
  by (rule keep_stores_kept, rule svc_guar, rule stores_kept_leaves)+ (rule keep_world, rule container_Delete_world)

lemmas keep_world_leaves [keep_guar] = world_leaves [THEN keep_world] world_lists [THEN keep_world]

lemma keep_cstore_Delete [keep_guar]: "guar keep_step (cstore_Delete cid)"
  using svc_store_leaves(2) [of cid] unfolding cstore_Delete_def guar_atomic_iff
  by (auto simp: containerStore_Delete_def pointers_ok_def ran_def intro!: keep_stepI split: if_splits)

lemma keep_istore_Delete [keep_guar]: "guar keep_step (istore_Delete iid)"
  using svc_store_leaves(5) [of iid] unfolding istore_Delete_def guar_atomic_iff
  by (auto simp: imageStore_Delete_def pointers_ok_def ran_def intro!: keep_stepI split: if_splits) blast

lemma keep_status_Update:
  "(\<And>st st'. u st = Inr st' \<Longrightarrow> status_step\<^sup>*\<^sup>* st st') \<Longrightarrow> guar keep_step (status_Update c u)"
  by (rule keep_stores_kept [OF svc_status_Update stores_kept_leaves(10)])

lemma keep_NewContainer: "not_running_while_removing st \<Longrightarrow> guar keep_step (NewContainer meta st)"
  by (rule keep_stores_kept [OF svc_NewContainer stores_kept_leaves(9)])

lemma keep_status_UpdateTx:
  assumes "\<And>st. guar world_only (body st)"
    and "\<And>st s e st' s'. run (body st) s = (Ok (e, st'), s') \<Longrightarrow> status_step\<^sup>*\<^sup>* st st'"
  shows "guar keep_step (status_UpdateTx c body)"
  by (rule keep_stores_kept [OF svc_status_UpdateTx stores_kept_UpdateTx]) (use assms in blast)+

lemma keep_istore_Add:
  fixes env :: "'w env"
  assumes "img_Config img \<noteq> None"
  shows "guar keep_step (istore_Add env img)"
proof -
  have "keep_step s (s\<lparr>imageStore := imageStore_Add ord img (imageStore s)\<rparr>)" for ord and s :: "'w st"
  proof (rule keep_stepI)
    show "svc_step s (s\<lparr>imageStore := imageStore_Add ord img (imageStore s)\<rparr>)"
      by (simp add: svc_step_def svc_rel_def svc_inv_def images_inv_Add)
    show "img_Config i \<noteq> None" if "i \<in> ran (map_of (imageStore (s\<lparr>imageStore := imageStore_Add ord img (imageStore s)\<rparr>)))"
      "pointers_ok s" for i
      using that assms by (auto simp: imageStore_Add_def pointers_ok_def ran_def split: option.splits if_splits) 
  qed simp
  then show ?thesis
    unfolding istore_Add_def by (auto simp: guar_atomic_iff intro!: guar_intros intro: keep_world)
qed

section \<open>Handlers that keep the pointers\<close>

lemma keep_StartContainer [keep_guar]: "guar keep_step (StartContainer env rid)"
  by (auto simp: StartContainer_def intro!: guar_intros keep_guar keep_status_UpdateTx startContainer_status_step
      split: option.split)

lemma keep_RemoveContainer [keep_guar]: "guar keep_step (RemoveContainer env rid)"
  by (auto simp: RemoveContainer_def remove_resources_def intro!: guar_intros keep_guar keep_status_Update
      intro: keep_world setContainerRemoving_step resetContainerRemoving_step split: sum.split)

lemma keep_event_updates [keep_guar]:
  "guar keep_step (status_Update c (exit_update e))" "guar keep_step (status_Update c oom_update)"
  by (auto intro: keep_status_Update exit_update_step oom_update_step)

lemma keep_handleEvent [keep_guar]: "guar keep_step (handleEvent env evt)"
  by (auto simp: handleEvent_def handleTaskExit_def handleTaskOOM_def Let_def
      intro!: guar_intros keep_guar split: Envelope.split sum.split)

lemma keep_drain_events [keep_guar]: "guar keep_step (drain_events env n h)"
  by (induction n) (auto simp: handleEventStream_def intro!: guar_intros keep_guar intro: keep_world split: sum.split)

lemma keep_startEventMonitor [keep_guar]: "guar keep_step (startEventMonitor env m n)"
  by (induction m) (auto intro!: guar_intros keep_guar intro: keep_world split: sum.split)

lemma keep_image_handlers [keep_guar]:
  "guar keep_step (PullImage env n ref auth)" "guar keep_step (RemoveImage env ref)"
  by (auto simp: PullImage_def RemoveImage_def intro!: guar_intros keep_guar keep_istore_Add intro: keep_world
      split: prod.split sum.split option.split)

lemma keep_ensureImageExists [keep_guar]: "guar keep_step (ensureImageExists env n ref)"
  by (auto simp: ensureImageExists_def intro!: guar_intros keep_guar intro: keep_world split: option.split)

lemma keep_run_network [keep_guar]: "guar keep_step (run_network env sb)"
  by (auto simp: run_network_def run_start_def Let_def intro!: guar_intros keep_guar intro: keep_world)

lemma keep_run_directory [keep_guar]: "guar keep_step (run_directory env n sb m d)"
  by (auto simp: run_directory_def run_pipes_def run_files_def run_task_def Let_def
      intro!: guar_intros keep_guar intro: keep_world split: prod.split)

lemma keep_run_rootfs [keep_guar]: "guar keep_step (run_rootfs env n sb img)"
  by (auto simp: run_rootfs_def run_containerd_def sandbox_spec_def Let_def intro!: guar_intros keep_guar intro: keep_world)

lemma keep_sandbox_handlers [keep_guar]:
  "guar keep_step (RunPodSandbox env n c)" "guar keep_step (RemovePodSandbox env rid)"
  by (auto simp: RunPodSandbox_def run_reserved_def RemovePodSandbox_def remove_sandbox_def remove_containers_def Let_def
      intro!: guar_intros keep_guar intro: keep_world split: option.split sum.split)

lemma keep_generateContainerSpec [keep_guar]:
  "guar keep_step (generateContainerSpec env cid pid config sconfig iconfig mounts)"
  by (auto simp: generateContainerSpec_def intro!: guar_intros keep_guar intro: keep_world)

section \<open>Every goroutine keeps the pointers\<close>

abbreviation keeps_pointers :: "('w st, 'a) proc \<Rightarrow> bool" where
  "keeps_pointers \<equiv> safe svc_step pointers_ok"

abbreviation no_panic :: "('w st \<Rightarrow> bool) \<Rightarrow> ('w, 'a) act \<Rightarrow> ('a \<Rightarrow> 'w st \<Rightarrow> bool) \<Rightarrow> bool" where
  "no_panic \<equiv> sound svc_step pointers_ok"

lemma keep_step_eq: "keep_step = (\<lambda>s t. svc_step s t \<and> (pointers_ok s \<longrightarrow> pointers_ok t))"
  by (simp add: keep_step_def fun_eq_iff)

lemma keep_safe: "guar keep_step m \<Longrightarrow> keeps_pointers m"
  unfolding keep_step_eq by (rule guar_safe)

lemma stable_True [simp]: "stable R (\<lambda>_. True)"
  by (simp add: stable_def)

lemma no_panic_NewContainer:
  assumes "not_running_while_removing st"
  shows "no_panic (\<lambda>_. True) (NewContainer meta st) has_status"
proof -
  from keep_NewContainer [OF assms, of meta] show ?thesis
    unfolding NewContainer_def guar_atomic_iff
    by (intro sound_atomic has_status_stable stable_True)
      (auto simp: StoreStatus_def keep_step_def has_status_def split: option.splits)
qed

lemma pointers_ok_Add:
  "pointers_ok s \<Longrightarrow> has_status c s \<Longrightarrow> pointers_ok (s\<lparr>containerStore := snd (containerStore_Add c (containerStore s))\<rparr>)"
proof -
  assume s: "pointers_ok s" "has_status c s"
  have "ran (map_of (snd (containerStore_Add c (containerStore s)))) \<subseteq> insert c (ran (map_of (containerStore s)))"
    by (auto simp: containerStore_Add_def ran_def split: option.splits if_splits)
  moreover have "has_status d (s\<lparr>containerStore := m\<rparr>) = has_status d s" for d m
    by (simp add: has_status_def split: option.split)
  ultimately show ?thesis using s by (auto simp: pointers_ok_def)
qed

lemma no_panic_cstore_Add: "no_panic (has_status c) (cstore_Add c) (\<lambda>_ _. True)"
  using svc_store_leaves(1) [of c] unfolding cstore_Add_def guar_atomic_iff
  by (intro sound_atomic has_status_stable stable_True)
    (auto simp: case_prod_beta pointers_ok_Add of_result_def split: sum.splits)

lemma no_panic_quiet: "guar keep_step m \<Longrightarrow> quiet m \<Longrightarrow> no_panic P m (\<lambda>_ _. True)"
  unfolding keep_step_eq by (rule sound_quiet)

lemma quiet_leaves [quiet_intros]:
  "quiet (ext f)" "quiet (ext_val g)" "quiet (gets h)" "quiet (ret x)" "quiet (fail e)" "quiet (lift_result r)"
  "quiet (cstore_Get cid)" "quiet (sbstore_Get sid)" "quiet (istore_Get iid)" "quiet (cstore_Delete cid)"
  "quiet (sbstore_Delete sid)" "quiet (istore_Delete iid)" "quiet (cname_ReleaseByKey n)" "quiet (sname_ReleaseByKey n)"
  "quiet (cstore_List env)" "quiet (sbstore_List env)" "quiet (istore_List env)" "quiet (istore_Add env img)"
  by (auto simp: act_defs of_result_def quiet_atomic intro!: quiet_bindE split: prod.splits sum.splits)

lemma no_panic_container_Delete: "no_panic (has_status c) (container_Delete c) (\<lambda>_ _. True)"
  using svc_container_Delete [of c] unfolding container_Delete_def guar_atomic_iff
  by (intro sound_atomic has_status_stable stable_True)
    (auto simp: has_status_def statusStorage_Delete_def split: option.splits)

lemma no_panic_create_entry: "no_panic (\<lambda>_. True) (create_entry env meta) (\<lambda>_ _. True)"
  unfolding create_entry_def seqE_def
proof (rule sound_bindE [where V = "\<lambda>_ _. True"])
  fix t
  have "no_panic (has_status c) (on_error (bindE (wrap_err w (cstore_Add c)) (\<lambda>_. ret (md_ID meta))) (container_Delete c))
      (\<lambda>_ _. True)" for c :: Container and w
    by (intro sound_on_error sound_bindE [OF sound_wrap_err [OF no_panic_cstore_Add]] no_panic_container_Delete
        has_status_stable stable_True no_panic_quiet keep_guar quiet_intros)
  then show "no_panic (\<lambda>s. True \<and> True) (bindE (NewContainer meta (created_status t)) (\<lambda>container.
      on_error (bindE (wrap_err (\<lambda>e. Errorf [Lit ''failed to add container '', Q (md_ID meta), Lit '' into store: '', V e])
        (cstore_Add container)) (\<lambda>_. ret (md_ID meta))) (container_Delete container))) (\<lambda>_ _. True)"
    by (intro sound_bindE [where V = has_status]) (simp_all add: no_panic_NewContainer created_status_not_running)
qed (auto intro!: no_panic_quiet keep_guar quiet_intros)

lemma safe_CreateContainer: "keeps_pointers (CreateContainer env sid c sc)"
  unfolding CreateContainer_def create_reserved_def create_rootfs_def create_directory_def create_containerd_def Let_def
  by (auto intro!: safe_intros sound_safe [OF no_panic_create_entry] split: option.split;
      rule keep_safe; auto intro!: keep_guar intro: keep_world)

lemma goroutine_safe: "goroutine env p \<Longrightarrow> keeps_pointers p"
proof (induction rule: goroutine.induct)
  case (6 rid cconfig config)
  show ?case unfolding spawned_def by (intro safe_bindE safe_CreateContainer keep_safe keep_guar)
qed (auto simp: spawned_def intro!: keep_safe guar_bindE keep_guar intro: keep_world)

section \<open>What the stores return\<close>

lemma stable_const [simp]: "stable R (\<lambda>_. b)"
  by (simp add: stable_def)

lemma stable_all_status: "stable svc_step (\<lambda>s. \<forall>c \<in> set cs. has_status c s)"
  using has_status_stable by (auto simp: stable_def)

lemmas stable_intros = stable_conj has_status_stable stable_all_status stable_const

lemma no_panic_cstore_Get: "stable svc_step P \<Longrightarrow> no_panic P (cstore_Get cid) has_status"
  unfolding cstore_Get_def
  by (rule sound_atomic) (auto simp: containerStore_Get_def pointers_ok_def ran_def of_result_def
      intro: has_status_stable split: option.splits)

lemma no_panic_istore_Get: "stable svc_step P \<Longrightarrow> no_panic P (istore_Get iid) (\<lambda>img _. img_Config img \<noteq> None)"
  unfolding istore_Get_def
  by (rule sound_atomic) (auto simp: imageStore_Get_def pointers_ok_def ran_def of_result_def split: option.splits)

lemma range_values_stored: "v \<in> set (range_values ord m) \<Longrightarrow> v \<in> ran (map_of m)"
  by (auto simp: range_values_def List.map_filter_def ran_def)

lemma no_panic_gets:
  "stable svc_step P \<Longrightarrow> (\<And>x. stable svc_step (W x)) \<Longrightarrow> (\<And>t. pointers_ok t \<Longrightarrow> W (h t) t) \<Longrightarrow> no_panic P (gets h) W"
  unfolding gets_def by (rule sound_atomic) auto

lemma no_panic_cstore_List:
  "stable svc_step P \<Longrightarrow> no_panic P (cstore_List env) (\<lambda>cs s. \<forall>c \<in> set cs. has_status c s)"
  unfolding cstore_List_def
  by (intro sound_bindE [where V = "\<lambda>_ _. True"] no_panic_quiet no_panic_gets keep_guar quiet_intros stable_intros)
    (auto simp: pointers_ok_def containerStore_List_def dest: range_values_stored)

lemma no_panic_istore_List:
  "stable svc_step P \<Longrightarrow> no_panic P (istore_List env) (\<lambda>is _. \<forall>img \<in> set is. img_Config img \<noteq> None)"
  unfolding istore_List_def
  by (intro sound_bindE [where V = "\<lambda>_ _. True"] no_panic_quiet no_panic_gets keep_guar quiet_intros stable_intros)
    (auto simp: pointers_ok_def imageStore_List_def dest: range_values_stored)

lemma no_panic_atomic:
  assumes "guar keep_step (atomic f)" and "stable svc_step P" and "\<And>s. P s \<Longrightarrow> fst (f s) \<noteq> Panic"
  shows "no_panic P (atomic f) (\<lambda>_ _. True)"
  using assms by (intro sound_atomic stable_const) (auto simp: guar_atomic_iff keep_step_def)

lemma no_panic_status_Get:
  assumes "stable svc_step P" and "\<And>s. P s \<Longrightarrow> has_status c s"
  shows "no_panic P (status_Get c) (\<lambda>_ _. True)"
  using keep_world_leaves(10) [of c] assms(1) unfolding status_Get_def
  by (rule no_panic_atomic) (use assms(2) in \<open>fastforce simp: has_status_def split: option.splits\<close>)

lemma no_panic_status_Update:
  assumes "\<And>st st'. u st = Inr st' \<Longrightarrow> status_step\<^sup>*\<^sup>* st st'"
  shows "no_panic (has_status c) (status_Update c u) (\<lambda>_ _. True)"
  using keep_status_Update [of u c, OF assms] has_status_stable [of c] unfolding status_Update_def
  by (rule no_panic_atomic) (auto simp: has_status_def of_result_def split: option.splits prod.splits sum.splits)

section \<open>Reachable states\<close>

interpretation spool: safe_pool "goroutine env" svc_step pointers_ok for env
  by unfold_locales (rule goroutine_safe)

lemma reachable_pool_safe:
  assumes "service_steps env (init_svc dir w, []) c"
  shows "pool_safe svc_step pointers_ok c"
proof (rule spool.pool_steps_safe [OF assms])
  show "pool_safe svc_step pointers_ok (init_svc dir w, [])" by (simp add: pool_safe_def pointers_ok_init)
qed

text \<open>
  C3: The stores are well typed in every reachable state: whatever requests run and however their actions
  interleave with each other and with the event monitor, every stored container points to an existing status
  storage and every stored image has its configuration. None of the two is ever nil or dangling.
\<close>

lemma stored_pointers_valid:
  assumes "service_steps env (init_svc dir w, []) (s, ps)"
  shows "(\<forall>cid c. map_of (containerStore s) cid = Some c \<longrightarrow> (\<exists>i < length (statuses s). c_Status c = Some i)) \<and>
    (\<forall>iid img. map_of (imageStore s) iid = Some img \<longrightarrow> img_Config img \<noteq> None)"
proof -
  from reachable_pool_safe [OF assms] have "pointers_ok s" by (simp add: pool_safe_def)
  then show ?thesis by (fastforce simp: pointers_ok_def has_status_def ran_def split: option.splits)
qed

end
