(* ===== verification/Panic_Freedom.thy ===== *)
theory Panic_Freedom
  imports Pointer_Safety
begin

text \<open>
  Requests that reach containers, sandboxes and images through the stores do not panic, whatever runs beside
  them. Requests that only call the outside are \<open>quiet\<close>: no answer makes them panic. The others dereference the
  status of a container or the configuration of an image they got from a store; \<open>calm\<close> follows the
  pointer from the lookup to its use.
\<close>

section \<open>Requests that only call the outside\<close>

lemma quiet_tolerate [quiet_intros]: "quiet m \<Longrightarrow> quiet (tolerate h w m)"
  by (auto simp: tolerate_def intro!: quiet_intros split: sum.split)

lemma quiet_clients [quiet_intros]:
  "quiet (imageStoreService_Get env n)" "quiet (imageStoreService_Create env n d)"
  "quiet (imageStoreService_Update env n d)" "quiet (imageStoreService_Delete env n)"
  "quiet (snapshotService_Remove env k)" "quiet (containerService_Delete env k)"
  by (auto simp: imageStoreService_Get_def imageStoreService_Create_def imageStoreService_Update_def
      imageStoreService_Delete_def snapshotService_Remove_def containerService_Delete_def intro!: quiet_intros)

lemma quiet_wait_task_exit [quiet_intros]: "quiet (wait_task_exit env n h P)"
  by (induction n) (auto intro!: quiet_intros split: Envelope.split sum.split)

lemma quiet_waits [quiet_intros]:
  "quiet (waitSandboxContainer env n h sid pid)" "quiet (waitContainerExec env n h cid eid)"
  by (auto simp: waitSandboxContainer_def waitContainerExec_def intro!: quiet_intros)

lemma quiet_exec_process [quiet_intros]: "quiet (exec_process env n cid eid)"
  by (auto simp: exec_process_def intro!: quiet_intros)

lemma quiet_waitForResourcesDownloading [quiet_intros]: "quiet (waitForResourcesDownloading env n rs)"
  by (induction n) (auto simp: Let_def intro!: quiet_intros)

lemma quiet_image_parts [quiet_intros]:
  "quiet (resolve_image_id env ref)" "quiet (getImageInfo env ref)" "quiet (createImageReference env n d)"
  "quiet (fetch_image env k ref auth)" "quiet (unpack_image env ref)"
  by (auto simp: resolve_image_id_def getImageInfo_def createImageReference_def fetch_image_def unpack_image_def Let_def
      intro!: quiet_intros split: sum.split prod.split)

lemma quiet_localResolve [quiet_intros]: "quiet (localResolve env ref)"
  by (auto simp: localResolve_def intro!: quiet_intros split: sum.split option.split)

lemma quiet_pullImage [quiet_intros]: "quiet (pullImage env n ref auth)"
  by (auto simp: pullImage_def Let_def intro!: quiet_intros split: prod.split)

lemma quiet_image_requests [quiet_intros]:
  "quiet (PullImage env n ref auth)" "quiet (RemoveImage env ref)"
  by (auto simp: PullImage_def RemoveImage_def intro!: quiet_intros split: prod.split option.split sum.split)

lemma quiet_sandbox_views [quiet_intros]:
  "quiet (PodSandboxStatus env rid)" "quiet (ListPodSandbox env f)" "quiet (Status_handler env)" "quiet (Version env)"
  by (auto simp: PodSandboxStatus_def ListPodSandbox_def Status_handler_def Version_def Let_def
      intro!: quiet_intros split: sum.split)

lemma quiet_kill [quiet_intros]: "quiet (kill_unless_gone env cid sig w)"
  by (auto simp: kill_unless_gone_def intro!: quiet_intros split: sum.split)

lemma quiet_sandbox_stop [quiet_intros]:
  "quiet (unmountSandboxFiles env dir c)" "quiet (stopSandboxContainer env n sid)" "quiet (teardown_network env sb)"
  "quiet (sandbox_task_gone env sid)"
  by (auto simp: unmountSandboxFiles_def RealOS_Unmount_def stopSandboxContainer_def teardown_network_def
      sandbox_task_gone_def Let_def intro!: quiet_intros split: sum.split)

section \<open>Requests that follow a pointer\<close>

abbreviation calm :: "('w st \<Rightarrow> bool) \<Rightarrow> ('w, 'a) act \<Rightarrow> bool" where
  "calm P m \<equiv> no_panic P m (\<lambda>_ _. True)"

named_theorems calm_intros \<open>requests that do not panic\<close>

lemma calm_world: "guar world_only m \<Longrightarrow> quiet m \<Longrightarrow> calm P m"
  by (rule no_panic_quiet [OF keep_world])

lemma calm_keep: "guar keep_step m \<Longrightarrow> quiet m \<Longrightarrow> calm P m"
  by (rule no_panic_quiet)

lemma calm_weaken: "calm P m \<Longrightarrow> (\<And>s. P' s \<Longrightarrow> P s) \<Longrightarrow> calm P' m"
  by (rule sound_weaken)

lemma calm_bind: "calm P m \<Longrightarrow> stable svc_step P \<Longrightarrow> (\<And>x. calm P (k x)) \<Longrightarrow> calm P (bindE m k)"
  by (rule sound_bindE [where V = "\<lambda>_ _. True"]) simp_all

lemma calm_seq: "calm P m \<Longrightarrow> stable svc_step P \<Longrightarrow> calm P n \<Longrightarrow> calm P (seqE m n)"
  unfolding seqE_def by (rule calm_bind)

lemma calm_try: "calm P m \<Longrightarrow> stable svc_step P \<Longrightarrow> (\<And>x. calm P (k x)) \<Longrightarrow> calm P (tryE m k)"
  by (rule sound_tryE [where V = "\<lambda>_ _. True"]) simp_all

lemma calm_on_error: "calm P m \<Longrightarrow> calm P c \<Longrightarrow> stable svc_step P \<Longrightarrow> calm P (on_error m c)"
  by (rule sound_on_error) simp_all

lemma calm_forE:
  assumes "stable svc_step P" and "\<And>x. x \<in> set xs \<Longrightarrow> calm P (body x)"
  shows "calm P (forE xs body)"
  using assms(2)
proof (induction xs)
  case (Cons x xs)
  then show ?case using assms(1) by (simp add: calm_bind)
qed (auto intro!: sound_Ret assms(1))

lemma calm_mapE:
  assumes "stable svc_step P" and "\<And>x. x \<in> set xs \<Longrightarrow> calm P (f x)"
  shows "calm P (mapE f xs)"
  using assms(2)
proof (induction xs)
  case (Cons x xs)
  then show ?case using assms(1) by (auto intro!: calm_bind sound_Ret)
qed (auto intro!: sound_Ret assms(1))

lemma calm_spawned: "calm (\<lambda>_. True) m \<Longrightarrow> calm (\<lambda>_. True) (spawned m)"
  unfolding spawned_def by (intro calm_bind stable_const) (auto simp: ret_def intro!: sound_Ret)

lemma calm_when: "(b \<Longrightarrow> calm P m) \<Longrightarrow> calm (\<lambda>s. P s \<and> b) m"
  by (cases b) (auto simp: sound_def)

text \<open>A lookup, then the pointer it found.\<close>

lemma calm_bind_container:
  assumes "stable svc_step P" and "\<And>c. calm (\<lambda>s. P s \<and> has_status c s) (k c)"
  shows "calm P (bindE (wrap_err w (cstore_Get cid)) k)"
  by (intro sound_bindE [OF sound_wrap_err [OF no_panic_cstore_Get]] assms)

lemma calm_try_container:
  assumes "stable svc_step P" and "\<And>c. calm (\<lambda>s. P s \<and> has_status c s) (k (Inr c))" and "\<And>e. calm P (k (Inl e))"
  shows "calm P (tryE (cstore_Get cid) k)"
  by (intro sound_tryE [OF no_panic_cstore_Get] assms)

lemma calm_bind_image:
  assumes "stable svc_step P" and "\<And>img. img_Config img \<noteq> None \<Longrightarrow> calm P (k img)"
  shows "calm P (bindE (wrap_err w (istore_Get iid)) k)"
  by (intro sound_bindE [OF sound_wrap_err [OF no_panic_istore_Get]] calm_when assms)

lemma calm_bind_status:
  "stable svc_step P \<Longrightarrow> (\<And>s. P s \<Longrightarrow> has_status c s) \<Longrightarrow> (\<And>st. calm P (k st)) \<Longrightarrow> calm P (bindE (status_Get c) k)"
  by (intro calm_bind no_panic_status_Get)

lemmas calm_leaf = calm_world [OF world_leaves(4) quiet_leaves(4)] calm_world [OF world_leaves(5) quiet_leaves(5)]

lemma calm_ContainerStatus [calm_intros]: "calm (\<lambda>_. True) (ContainerStatus env rid)"
  unfolding ContainerStatus_def by (intro calm_bind_container calm_bind_status calm_leaf stable_intros) simp

lemma calm_ListContainers [calm_intros]: "calm (\<lambda>_. True) (ListContainers env f)"
  unfolding ListContainers_def
  by (rule sound_bindE [OF no_panic_cstore_List])
    (auto intro!: calm_bind calm_mapE calm_bind_status calm_leaf stable_intros)

lemma calm_container_running:
  "stable svc_step P \<Longrightarrow> (\<And>s. P s \<Longrightarrow> has_status c s) \<Longrightarrow> calm P (container_running c)"
  unfolding container_running_def by (intro calm_bind_status) (auto intro!: calm_leaf)

lemma calm_execInContainer: "calm (\<lambda>_. True) (execInContainer env n rid cmd tty)"
  unfolding execInContainer_def Let_def
  by (intro calm_bind_container calm_seq calm_container_running stable_intros)
    (auto intro!: calm_world guar_intros quiet_intros)

lemma calm_exec_runs [calm_intros]:
  "calm (\<lambda>_. True) (ExecSync env n rid cmd t)" "calm (\<lambda>_. True) (streamRuntime_Exec env n rid cmd tty)"
  unfolding ExecSync_def streamRuntime_Exec_def
  by (auto intro!: calm_bind sound_wrap_err calm_execInContainer calm_leaf stable_intros split: prod.split)

lemma calm_Exec [calm_intros]: "calm (\<lambda>_. True) (Exec env rid cmd tty stdin)"
  unfolding Exec_def
  by (intro calm_bind_container calm_seq calm_container_running stable_intros) (auto intro!: calm_world quiet_intros)

lemma calm_wait_round:
  "stable svc_step P \<Longrightarrow> (\<And>s. P s \<Longrightarrow> has_status c s) \<Longrightarrow> calm P m \<Longrightarrow> calm P (wait_round env cid t m c)"
  unfolding wait_round_def
  by (intro calm_bind_status) (auto intro!: calm_leaf calm_bind intro: calm_world quiet_intros)

lemma calm_waitContainerStop: "stable svc_step P \<Longrightarrow> calm P (waitContainerStop env n cid t)"
proof (induction n)
  case (Suc n)
  have "calm (\<lambda>s. P s \<and> has_status c s) (wait_round env cid t (waitContainerStop env n cid t) c)" for c
    by (rule calm_wait_round [OF _ _ calm_weaken [OF Suc.IH [OF Suc.prems]]]) (auto intro: stable_intros Suc.prems)
  with Suc.prems show ?case by (simp, intro calm_try_container) (auto intro!: calm_leaf)
qed (auto intro!: sound_Ret)

lemma calm_kill_and_wait: "stable svc_step P \<Longrightarrow> calm P (kill_and_wait env n cid)"
  unfolding kill_and_wait_def
  by (intro calm_seq sound_wrap_err calm_waitContainerStop) (auto intro!: calm_world quiet_intros)

lemma calm_stop_signal: "stable svc_step P \<Longrightarrow> calm P (stop_signal env c)"
  unfolding stop_signal_def
  by (intro calm_bind_image) (auto intro!: calm_leaf calm_world quiet_intros sound_wrap_err split: option.split)

lemma calm_stopContainer:
  assumes P: "stable svc_step P" and "\<And>s. P s \<Longrightarrow> has_status c s"
  shows "calm P (stopContainer env n c t)"
  using assms unfolding stopContainer_def Let_def
  by (intro calm_bind_status)
    (auto intro!: calm_leaf calm_bind calm_seq calm_try calm_stop_signal calm_waitContainerStop calm_kill_and_wait
      calm_world [OF kill_unless_gone_world quiet_kill] split: sum.split)

lemma calm_StopContainer [calm_intros]: "calm (\<lambda>_. True) (StopContainer env n rid t)"
  unfolding StopContainer_def by (intro calm_bind_container calm_stopContainer stable_intros) simp

lemma calm_stop_containers: "calm (\<lambda>s. \<forall>c \<in> set cs. has_status c s) (stop_containers env n sid cs)"
  unfolding stop_containers_def
  by (rule calm_forE) (auto intro!: stable_intros calm_leaf sound_wrap_err calm_stopContainer)

lemma calm_StopPodSandbox [calm_intros]: "calm (\<lambda>_. True) (StopPodSandbox env n rid)"
proof -
  have "calm (\<lambda>_. True) (bindE (cstore_List env) (\<lambda>cs. seqE (stop_containers env n sid cs) m))"
    if "guar world_only m" "quiet m" for sid and m :: "('a, unit) act"
    using that by (intro sound_bindE [OF no_panic_cstore_List] calm_seq stable_intros calm_weaken [OF calm_stop_containers])
      (auto intro: calm_world)
  note tail = this
  show ?thesis unfolding StopPodSandbox_def Let_def
    by (rule calm_bind [OF sound_wrap_err stable_const tail]) (auto intro!: calm_world guar_intros quiet_intros)
qed

lemma calm_RemoveContainer: "stable svc_step P \<Longrightarrow> calm P (RemoveContainer env rid)"
proof -
  assume P: "stable svc_step P"
  have "calm (has_status c) (remove_resources env c)" for c
    unfolding remove_resources_def remove_external_def Let_def
    by (intro calm_seq calm_bind sound_wrap_err no_panic_container_Delete has_status_stable)
      (auto intro!: calm_keep keep_guar quiet_intros guar_intros intro: keep_world)
  then have "calm (has_status c) (seqE (wrap_err w (status_Update c setContainerRemoving))
      (on_error (remove_resources env c) (status_Update c resetContainerRemoving)))" for c w
    by (intro calm_seq calm_on_error sound_wrap_err no_panic_status_Update has_status_stable setContainerRemoving_step
        resetContainerRemoving_step)
  with P show "calm P (RemoveContainer env rid)" unfolding RemoveContainer_def
    by (intro calm_try_container) (auto intro!: calm_leaf intro: calm_weaken)
qed

lemma calm_RemovePodSandbox [calm_intros]: "calm (\<lambda>_. True) (RemovePodSandbox env rid)"
proof -
  have "calm (\<lambda>_. True) (remove_containers env sid cs)" for sid cs
    unfolding remove_containers_def
    by (intro calm_forE stable_intros) (auto intro!: calm_leaf sound_wrap_err calm_RemoveContainer stable_intros)
  then have "calm (\<lambda>_. True) (remove_sandbox env sid)" for sid
    unfolding remove_sandbox_def Let_def
    by (intro calm_seq calm_bind stable_intros) (auto intro!: calm_keep keep_guar quiet_intros guar_intros intro: keep_world)
  then show ?thesis unfolding RemovePodSandbox_def
    by (intro calm_try stable_intros) (auto intro!: calm_leaf calm_world quiet_intros split: sum.split)
qed

lemma those_config: "\<forall>img \<in> set is. img_Config img \<noteq> None \<Longrightarrow> those (map toCRIImage is) \<noteq> None"
  by (induction "is") (auto simp: toCRIImage_def)

lemma calm_or_panic: "x \<noteq> None \<Longrightarrow> calm P (or_panic x)"
  by (auto simp: or_panic_def intro!: calm_leaf)

lemma calm_ListImages [calm_intros]: "calm (\<lambda>_. True) (ListImages env)"
  unfolding ListImages_def
  by (intro sound_bindE [OF no_panic_istore_List] calm_when calm_or_panic [OF those_config] stable_intros)

lemma localResolve_configured:
  "no_panic (\<lambda>_. True) (localResolve env ref) (\<lambda>r _. \<forall>img. r = Some img \<longrightarrow> img_Config img \<noteq> None)"
proof -
  have "no_panic (\<lambda>_. True) (tryE (istore_Get iid) (\<lambda>i. case i of
         Inl e \<Rightarrow> if e = StoreNotExist then ret None else fail (w e)
       | Inr img \<Rightarrow> ret (Some img))) (\<lambda>r _. \<forall>img. r = Some img \<longrightarrow> img_Config img \<noteq> None)" for iid w
    by (rule sound_tryE [OF no_panic_istore_Get]) (auto simp: ret_def fail_def intro!: sound_Ret stable_intros)
  then show ?thesis unfolding localResolve_def
    by (intro sound_bindE [where V = "\<lambda>_ _. True"])
      (auto simp: ret_def intro!: sound_Ret stable_intros calm_world quiet_intros split: option.split)
qed

lemma calm_ImageStatus [calm_intros]: "calm (\<lambda>_. True) (ImageStatus env ref)"
  unfolding ImageStatus_def
  by (intro sound_bindE [OF sound_wrap_err [OF localResolve_configured]] calm_when stable_intros)
    (auto simp: toCRIImage_def intro!: calm_leaf calm_bind calm_or_panic stable_intros split: option.split)

end
