(* ===== verification/Creation_Safety.thy ===== *)
theory Creation_Safety
  imports Panic_Freedom Spec_Properties Sandbox_Run
begin

text \<open>
  The requests that create something do not panic either, when they carry the metadata their names are made
  of and when iterating over a Go map visits every key. The generation of the runtime spec needs the
  image configuration, which every stored image has, and capability lists without duplicates, which no step
  of the generation introduces; closing the pipes after a failure needs the two output pipes to be open.
\<close>

section \<open>The generator\<close>

text \<open>From a state with \<open>P\<close> on, the generator does not panic.\<close>

definition gcalm :: "(Gen \<Rightarrow> bool) \<Rightarrow> 'a gen \<Rightarrow> bool" where
  "gcalm P m \<longleftrightarrow> (\<forall>g. P g \<longrightarrow> fst (run m g) \<noteq> Panic)"

lemma quiet_run: "quiet m \<Longrightarrow> fst (run m g) \<noteq> Panic"
proof (induction m arbitrary: g rule: proc_induct)
  case (Step f)
  then show ?case by (simp add: quiet_Step case_prod_beta)
qed simp

lemma gcalm_quiet: "quiet m \<Longrightarrow> gcalm P m"
  by (simp add: gcalm_def quiet_run)

lemma gcalm_seqE:
  assumes "gcalm P m" and "keeps P m" and "gcalm P n"
  shows "gcalm P (seqE m n)"
  unfolding gcalm_def
proof (intro allI impI)
  fix g
  assume g: "P g"
  obtain r g' where m: "run m g = (r, g')" by (cases "run m g")
  with assms g have "r \<noteq> Panic" "P g'" using keeps_run by (auto simp: gcalm_def dest: spec [where x = g])
  with m assms(3) show "fst (run (seqE m n) g) \<noteq> Panic"
    by (cases r) (simp_all add: run_seqE gcalm_def)
qed

lemma gcalmD: "gcalm P m \<Longrightarrow> P g \<Longrightarrow> run m g = (Panic, g') \<Longrightarrow> False"
  unfolding gcalm_def by (metis fst_conv)

lemma gcalm_then_quiet: "gcalm P m \<Longrightarrow> quiet n \<Longrightarrow> gcalm P (seqE m n)"
  unfolding gcalm_def [of P "seqE m n"] run_seqE
  by (auto simp: quiet_run split: prod.splits outcome.splits dest: gcalmD)

lemma gcalm_forE:
  assumes "\<And>x. x \<in> set xs \<Longrightarrow> gcalm P (body x)" and "\<And>x. keeps P (body x)"
  shows "gcalm P (forE xs body)"
  using assms(1)
proof (induction xs)
  case (Cons x xs)
  then have "gcalm P (seqE (body x) (forE xs body))" by (intro gcalm_seqE assms(2)) auto
  then show ?case by (simp add: seqE_def)
qed (simp add: gcalm_def)

lemma gcalm_wrap_err: "gcalm P m \<Longrightarrow> gcalm P (wrap_err w m)"
  unfolding gcalm_def [of P "wrap_err w m"] run_wrap_err
  by (auto split: prod.splits outcome.splits dest: gcalmD)

lemma quiet_gen [quiet_intros]:
  "quiet (gmod f)" "quiet (greturn x)" "quiet (gfail e)" "quiet gskip" "quiet (gresult h)" "ic \<noteq> None \<Longrightarrow> quiet (ifield fl ic)"
  by (auto simp: gen_act_defs quiet_atomic split: sum.splits)

lemma quiet_addImageEnvs [quiet_intros]: "quiet (addImageEnvs envs)"
  by (auto simp: addImageEnvs_def intro!: quiet_intros split: list.split)

lemma quiet_spec_process: "ic \<noteq> None \<Longrightarrow> quiet (spec_process config ic ms)"
  unfolding spec_process_def setOCIProcessArgs_def addOCIBindMounts_def Let_def
  by (auto simp: case_prod_beta intro!: quiet_intros split: option.split)

lemma quiet_sandbox_generation: "ic \<noteq> None \<Longrightarrow> quiet (generateSandboxContainerSpec sid config ic)"
  unfolding generateSandboxContainerSpec_def Let_def by (auto simp: case_prod_beta intro!: quiet_intros)

section \<open>Capabilities\<close>

definition caps_distinct :: "Gen \<Rightarrow> bool" where
  "caps_distinct g \<longleftrightarrow> confined UNIV {} (sp_Capabilities (g_Spec g))"

lemma confined_weaken: "confined A D c \<Longrightarrow> confined UNIV {} c"
  by (auto simp: confined_def confined_list_def list_all_iff)

lemma drop_caps_calm: "gcalm caps_distinct (gresult_panic (DropProcessCapability c))"
proof -
  have "DropProcessCapability c g \<noteq> None" if "caps_distinct g" for g
    using that by (simp add: caps_distinct_def confined_def cap_lists_def confined_list_def DropProcessCapability_def
        Let_def drop_cap_distinct split: sum.split)
  then show ?thesis by (fastforce simp: gcalm_def gresult_panic_def split: option.splits sum.splits)
qed

lemma drop_caps_keeps: "keeps caps_distinct (gresult_panic (DropProcessCapability c))"
  unfolding gresult_panic_def guar_atomic_iff caps_distinct_def
  by (auto dest: confined_drop confined_weaken split: option.splits sum.splits)

lemma add_caps_keeps: "keeps caps_distinct (gresult (AddProcessCapability c))"
  unfolding gresult_def guar_atomic_iff caps_distinct_def
  by (auto simp: AddProcessCapability_def Let_def confined_add split: sum.splits)

lemma setOCICapabilities_calm: "gcalm caps_distinct (setOCICapabilities caps p)"
proof (cases caps)
  case None
  then show ?thesis by (auto simp: setOCICapabilities_def intro!: gcalm_quiet quiet_intros)
next
  case (Some cs)
  have "gcalm caps_distinct (seqE (forE (cap_Add cs) (\<lambda>c. gresult (AddProcessCapability (''CAP_'' @ c))))
      (forE (cap_Drop cs) (\<lambda>c. gresult_panic (DropProcessCapability (''CAP_'' @ c)))))"
    by (intro gcalm_seqE gcalm_forE drop_caps_calm drop_caps_keeps add_caps_keeps guar_intros gcalm_quiet quiet_intros)
  with Some show ?thesis by (auto simp: setOCICapabilities_def intro!: gcalm_quiet quiet_intros)
qed

lemma spec_isolation_calm: "gcalm caps_distinct (spec_isolation cid pid config sc)"
  unfolding spec_isolation_def Let_def
  by (intro gcalm_seqE gcalm_then_quiet [OF gcalm_wrap_err [OF setOCICapabilities_calm]] keeps_if setOCILinuxResource_keeps
      gcalm_quiet)
    (auto simp: setOCILinuxResource_def setOCINamespaces_def caps_distinct_def gen_defs intro!: quiet_intros guar_intros
      split: option.split)

section \<open>The spec of a container\<close>

lemma caps_distinct_sync [simp]: "caps_distinct (sync_env d g) = caps_distinct g"
  by (simp add: caps_distinct_def)

lemma caps_distinct_default: "caps_distinct (GenerateSpec d)"
  by (simp add: caps_distinct_def GenerateSpec_def confined_default)

lemma pointers_ok_defaultEnv [simp]: "pointers_ok (s\<lparr>defaultEnv := d\<rparr>) = pointers_ok s"
  by (simp add: pointers_ok_def has_status_def cong: option.case_cong)

lemma no_panic_on_gen:
  assumes "gcalm C m" and "yields C m D" and "\<And>d. C (sync_env d g)"
  shows "no_panic (\<lambda>_. True) (on_gen m g) (\<lambda>g' _. D g')"
  unfolding on_gen_def
  by (rule sound_atomic) (auto split: prod.splits outcome.splits dest: gcalmD [OF assms(1,3)] yieldsD [OF assms(2,3)])

lemma calm_on_gen: "quiet m \<Longrightarrow> calm (\<lambda>_. True) (on_gen m g)"
  by (rule no_panic_on_gen [where C = "\<lambda>_. True"]) (auto simp: yields_def intro: gcalm_quiet)

lemma spec_process_distinct: "yields caps_distinct (spec_process config ic ms) caps_distinct"
  by (intro yields_keeps spec_process_keeps addOCIBindMounts_keeps) (auto simp: gen_defs caps_distinct_def Let_def)

lemma quiet_resolveSymbolicLink [quiet_intros]: "quiet (resolveSymbolicLink env p)"
  by (auto simp: resolveSymbolicLink_def intro!: quiet_intros)

lemma no_panic_ret: "stable svc_step P \<Longrightarrow> (\<And>s. P s \<Longrightarrow> W x s) \<Longrightarrow> no_panic P (ret x) W"
  unfolding ret_def by (rule sound_Ret) auto

lemma caps_distinct_devices [simp]:
  "caps_distinct (AddDevice d g) = caps_distinct g" "caps_distinct (upd_spec (sp_DeviceCgroups_update h) g) = caps_distinct g"
  by (simp_all add: caps_distinct_def gen_defs)

lemma no_panic_add_devices: "caps_distinct g \<Longrightarrow> no_panic (\<lambda>_. True) (add_devices env ds g) (\<lambda>g' _. caps_distinct g')"
proof (induction env ds g rule: add_devices.induct)
  case (2 env device rest g)
  then show ?case
    by (auto intro!: sound_bindE [where V = "\<lambda>_ _. True"] calm_world quiet_intros)
qed (auto intro!: no_panic_ret)

lemma no_panic_addOCIDevices:
  "caps_distinct g \<Longrightarrow> no_panic (\<lambda>_. True) (addOCIDevices env ds p g) (\<lambda>g' _. caps_distinct g')"
  unfolding addOCIDevices_def
  by (auto simp: add_host_devices_keeps [of caps_distinct] no_panic_add_devices
      intro!: sound_bindE [where V = "\<lambda>_ _. True"] calm_world quiet_intros no_panic_ret)

lemma no_panic_bind_value:
  assumes "no_panic (\<lambda>_. True) m (\<lambda>x _. C x)" and "\<And>x. C x \<Longrightarrow> no_panic (\<lambda>_. True) (k x) W"
  shows "no_panic (\<lambda>_. True) (bindE m k) W"
proof (rule sound_bindE [OF assms(1)])
  show "no_panic (\<lambda>s. True \<and> C x) (k x) W" for x
    using assms(2) [of x] by (cases "C x") (auto simp: sound_def)
qed simp

lemma calm_generateContainerSpec:
  assumes "ic \<noteq> None"
  shows "calm (\<lambda>_. True) (generateContainerSpec env cid pid config sc ic ms)"
  unfolding generateContainerSpec_def
proof (rule no_panic_bind_value [where C = caps_distinct])
  show "no_panic (\<lambda>_. True) (gets (\<lambda>s. GenerateSpec (defaultEnv s))) (\<lambda>g _. caps_distinct g)"
    by (rule no_panic_gets) (simp_all add: caps_distinct_default)
  fix g
  assume g: "caps_distinct g"
  then have process: "no_panic (\<lambda>_. True) (on_gen (spec_process config ic ms) g) (\<lambda>g' _. caps_distinct g')"
    by (intro no_panic_on_gen [OF gcalm_quiet [OF quiet_spec_process [OF assms]] spec_process_distinct]) simp
  have "calm (\<lambda>_. True) (on_gen (spec_isolation cid pid config sc) g')" if "caps_distinct g'" for g'
    using that by (intro no_panic_on_gen [OF spec_isolation_calm]) (auto simp: yields_def)
  then have isolation: "calm (\<lambda>_. True) (bindE (on_gen (spec_isolation cid pid config sc) g') (\<lambda>g3. ret (g_Spec g3)))"
    if "caps_distinct g'" for g'
    using that by (intro calm_bind) (auto intro!: calm_leaf)
  show "calm (\<lambda>_. True) (bindE (on_gen (spec_process config ic ms) g) (\<lambda>g1.
     bindE (wrap_err (\<lambda>e. Errorf [Lit ''failed to set devices mapping: '', V e])
             (addOCIDevices env (pget cc_Devices [] config)
               (pget ls_Privileged False (container_security_context config)) g1)) (\<lambda>g2.
     bindE (on_gen (spec_isolation cid pid config sc) g2) (\<lambda>g3. ret (g_Spec g3)))))"
    by (rule no_panic_bind_value [OF process], rule no_panic_bind_value [OF sound_wrap_err [OF no_panic_addOCIDevices]])
      (auto intro: isolation)
qed

section \<open>Creating a container\<close>

lemma quiet_reserve [quiet_intros]: "quiet (cname_Reserve n k)" "quiet (sname_Reserve n k)" "quiet (cname_ReleaseByName n)"
  "quiet (sname_ReleaseByName n)" "quiet (sbstore_Add sb)"
  by (auto simp: act_defs of_result_def quiet_atomic split: prod.splits sum.splits)

lemma quiet_create_clients [quiet_intros]:
  "quiet (snapshotService_View env k p)" "quiet (snapshotService_Prepare env k p)" "quiet (snapshotService_Mounts env k)"
  "quiet (containerService_Create env c)"
  by (auto simp: snapshotService_View_def snapshotService_Prepare_def snapshotService_Mounts_def containerService_Create_def
      intro!: quiet_intros)

lemma calm_create_rootfs: "calm (\<lambda>_. True) (create_rootfs env meta raw img ro dir)"
  unfolding create_rootfs_def create_directory_def create_containerd_def Let_def
  by (intro calm_seq calm_on_error sound_wrap_err no_panic_create_entry stable_const;
      auto intro!: calm_world quiet_intros guar_intros)

lemma calm_create_reserved: "calm (\<lambda>_. True) (create_reserved env cid name sb config sc)"
proof -
  have "calm (\<lambda>_. True) (bindE (gets rootDir) (\<lambda>dir.
      bindE (wrap_err w (generateContainerSpec env cid (sb_Pid sb) config sc (img_Config img) (ms dir))) (\<lambda>spec.
      bindE (wrap_err v (lift_result (json_Marshal env spec))) (\<lambda>raw. create_rootfs env meta raw img ro dir))))"
    if "img_Config img \<noteq> None" for img w v ms meta ro
    by (intro calm_bind sound_wrap_err calm_create_rootfs calm_generateContainerSpec [OF that] stable_const;
        auto intro!: calm_world quiet_intros)
  then show ?thesis unfolding create_reserved_def Let_def
    by (intro sound_bindE [OF sound_wrap_err [OF localResolve_configured]] calm_when stable_const)
      (auto intro!: calm_leaf split: option.split)
qed

lemma calm_CreateContainer:
  assumes "pget cc_Metadata None config \<noteq> None" and "pget pc_Metadata None sc \<noteq> None"
  shows "calm (\<lambda>_. True) (CreateContainer env sid config sc)"
proof -
  from assms obtain cm pm where m: "pget cc_Metadata None config = Some cm" "pget pc_Metadata None sc = Some pm" by blast
  show ?thesis unfolding CreateContainer_def m Let_def prod.case option.case
    by (intro calm_bind calm_seq calm_on_error sound_wrap_err calm_create_reserved stable_const;
        auto intro!: calm_keep keep_guar quiet_intros)
qed

section \<open>Pipes\<close>

lemma filepath_Clean_nonempty [simp]: "filepath_Clean p \<noteq> ''''"
  by (simp add: filepath_Clean_def Let_def)


lemma no_panic_open_streams:
  "no_panic (\<lambda>_. True) (open_streams env xs pipes)
     (\<lambda>ps _. dom (map_of pipes) \<union> fst ` {x \<in> set xs. fst (snd x) \<noteq> ''''} \<subseteq> dom (map_of ps))"
proof (induction env xs pipes rule: open_streams.induct)
  case (2 env t path flag rest pipes)
  show ?case
  proof (cases "path = ''''")
    case True
    then have "open_streams env ((t, path, flag) # rest) pipes = open_streams env rest pipes" by simp
    with True show ?thesis by (auto intro!: sound_weaken [OF 2(1) [OF True]])
  next
    case False
    have "no_panic (\<lambda>_. True) (on_error (open_streams env rest (mset_key t h pipes)) (ext (os_Close env h)))
      (\<lambda>ps _. dom (map_of pipes) \<union> fst ` {x \<in> set ((t, path, flag) # rest). fst (snd x) \<noteq> ''''} \<subseteq> dom (map_of ps))" for h
      by (intro sound_on_error sound_weaken [OF 2(2) [OF False]] stable_const calm_world quiet_intros)
        (auto simp: subset_iff dom_def)
    with False show ?thesis
      by (simp only: open_streams.simps if_False, intro sound_bindE [where V = "\<lambda>_ _. True"] sound_wrap_err stable_const)
        (auto intro!: calm_world quiet_intros)
  qed
qed (auto intro!: no_panic_ret)

text \<open>When the iteration visits every stream, the pipes of all paths are open.\<close>

lemma no_panic_prepareStreamingPipes:
  assumes ord: "\<And>w. is_order (fst (map_order env w))" and "out \<noteq> ''''" and "err \<noteq> ''''"
  shows "no_panic (\<lambda>_. True) (prepareStreamingPipes env i out err) (\<lambda>p _. fst (snd p) \<noteq> None \<and> snd (snd p) \<noteq> None)"
  unfolding prepareStreamingPipes_def Let_def
proof (rule no_panic_bind_value [where C = is_order])
  have "is_order ord" if "map_order env w = (ord, w')" for w ord w' using ord [of w] that by simp
  then show "no_panic (\<lambda>_. True) (ext_val (map_order env)) (\<lambda>ord _. is_order ord)"
    using keep_world_leaves(2) [of "map_order env"] unfolding ext_val_def
    by (intro sound_atomic) (auto simp: guar_atomic_iff keep_step_def split: prod.splits)
  fix ord :: "string list \<Rightarrow> string list"
  let ?streams = "[(''stdin'', i, stdinFlags), (''stdout'', out, stdoutFlags), (''stderr'', err, stdoutFlags)]"
  let ?visited = "List.map_filter (\<lambda>t. map_option (Pair t) (map_of ?streams t)) (ord (keys_of ?streams))"
  assume "is_order ord"
  then have "set (ord (keys_of ?streams)) = set (keys_of ?streams)" by (simp add: is_order_def)
  with assms(2,3) have "{''stdout'', ''stderr''} \<subseteq> fst ` {x \<in> set ?visited. fst (snd x) \<noteq> ''''}"
    by (force simp: List.map_filter_def image_iff)
  then show "no_panic (\<lambda>_. True) (bindE (open_streams env ?visited []) (\<lambda>pipes.
      ret (map_of pipes ''stdin'', map_of pipes ''stdout'', map_of pipes ''stderr'')))
      (\<lambda>p _. fst (snd p) \<noteq> None \<and> snd (snd p) \<noteq> None)"
    by (intro no_panic_bind_value [OF no_panic_open_streams] no_panic_ret stable_const) (auto simp: subset_iff)
qed

section \<open>Running a sandbox\<close>

lemma no_panic_ensureImageExists:
  "no_panic (\<lambda>_. True) (ensureImageExists env n ref) (\<lambda>img _. img_Config img \<noteq> None)"
proof -
  have "no_panic (\<lambda>_. True) (bindE (wrap_err w (PullImage env n ref None)) (\<lambda>imageID. wrap_err (v imageID) (istore_Get imageID)))
      (\<lambda>img _. img_Config img \<noteq> None)" for w v
    by (intro no_panic_bind_value [where C = "\<lambda>_. True"] sound_wrap_err no_panic_istore_Get stable_const calm_keep keep_guar
        quiet_intros)
  then show ?thesis unfolding ensureImageExists_def
    by (intro no_panic_bind_value [OF sound_wrap_err [OF localResolve_configured]])
      (auto intro!: no_panic_ret split: option.split)
qed

lemma quiet_close_pipe [quiet_intros]: "p \<noteq> None \<Longrightarrow> quiet (close_pipe env p)" "quiet (close_pipe_if env p)"
  by (auto simp: close_pipe_def close_pipe_if_def intro!: quiet_intros split: option.split)

lemma quiet_setupSandboxFiles [quiet_intros]: "quiet (setupSandboxFiles env dir config)"
  by (auto simp: setupSandboxFiles_def RealOS_CopyFile_def Let_def intro!: quiet_intros split: option.split)

lemma quiet_run_files [quiet_intros]: "quiet (run_files env n sb opts dir)"
  by (auto simp: run_files_def run_task_def run_network_def run_start_def Let_def intro!: quiet_intros)

lemma keep_run_files [keep_guar]: "guar keep_step (run_files env n sb opts d)"
  by (auto simp: run_files_def run_task_def Let_def intro!: guar_intros keep_guar intro: keep_world)

lemma calm_run_pipes:
  assumes "\<And>w. is_order (fst (map_order env w))"
  shows "calm (\<lambda>_. True) (run_pipes env n sb rootfs dir)"
  unfolding run_pipes_def getStreamingPipes_def Let_def prod.case
  by (rule no_panic_bind_value [OF sound_wrap_err [OF no_panic_prepareStreamingPipes [OF assms]]])
    (auto intro!: calm_keep guar_intros keep_guar quiet_intros intro: keep_world)

lemma calm_sandbox_spec: "ic \<noteq> None \<Longrightarrow> calm (\<lambda>_. True) (sandbox_spec sid config ic)"
  unfolding sandbox_spec_def
  by (intro calm_bind calm_on_gen quiet_sandbox_generation stable_const; auto intro!: calm_world quiet_intros)

lemma calm_run_rootfs:
  assumes "\<And>w. is_order (fst (map_order env w))" and "img_Config img \<noteq> None"
  shows "calm (\<lambda>_. True) (run_rootfs env n sb img)"
  unfolding run_rootfs_def run_containerd_def run_directory_def Let_def
  by (intro calm_bind calm_seq calm_on_error sound_wrap_err calm_run_pipes [OF assms(1)] calm_sandbox_spec [OF assms(2)] stable_const;
      auto intro!: calm_world quiet_intros)

lemma calm_RunPodSandbox:
  assumes "\<And>w. is_order (fst (map_order env w))" and "pget pc_Metadata None config \<noteq> None"
  shows "calm (\<lambda>_. True) (RunPodSandbox env n config)"
proof -
  have "calm (\<lambda>_. True) (run_reserved env n sb)" for sb
    unfolding run_reserved_def
    by (intro calm_bind no_panic_bind_value [OF sound_wrap_err [OF no_panic_ensureImageExists]]
        calm_run_rootfs [OF assms(1)] stable_const; auto intro!: calm_world quiet_intros)
  moreover from assms(2) obtain m where m: "pget pc_Metadata None config = Some m" by blast
  ultimately show ?thesis unfolding RunPodSandbox_def m Let_def option.case
    by (intro calm_bind calm_seq calm_on_error sound_wrap_err stable_const; auto intro!: calm_keep keep_guar quiet_intros)
qed

section \<open>Starting a container\<close>

lemma calm_run: "calm (\<lambda>_. True) m \<Longrightarrow> pointers_ok s \<Longrightarrow> run m s \<noteq> (Panic, s')"
  using wp_run [OF soundD [of svc_step pointers_ok "\<lambda>_. True" m "\<lambda>_ _. True" s]] by auto

lemma calm_start_task:
  assumes "\<And>w. is_order (fst (map_order env w))"
  shows "calm (\<lambda>_. True) (start_task env cid meta)"
proof -
  have "quiet (start_loggers env c sc)" for c sc
    by (auto simp: start_loggers_def containerLogger_Start_def Let_def intro!: quiet_intros)
  then have "calm (\<lambda>_. True) (bindE (wrap_err w (prepareStreamingPipes env i (filepath_Join [dir, ''stdout'']) (filepath_Join [dir, ''stderr''])))
      (\<lambda>(i', o', e'). on_error (seqE (start_loggers env c sc) m) (seqE (close_pipe_if env i') (seqE (close_pipe env o') (close_pipe env e')))))"
    if "guar world_only m" "quiet m" for w i dir c sc and m :: "('a, uint32) act"
    by (intro no_panic_bind_value [OF sound_wrap_err [OF no_panic_prepareStreamingPipes [OF assms]]])
      (use that in \<open>auto intro!: calm_world guar_intros quiet_intros\<close>)
  note tail = this
  have calm_if: "(b \<Longrightarrow> calm P m) \<Longrightarrow> (\<not> b \<Longrightarrow> calm P n) \<Longrightarrow> calm P (if b then m else n)" for b P and m n :: "('a, uint32) act"
    by simp
  show ?thesis unfolding start_task_def getStreamingPipes_def Let_def prod.case
    by (rule calm_bind [OF sound_wrap_err stable_const calm_bind [OF sound_wrap_err stable_const
          calm_if [OF calm_leaf(2) calm_bind [OF _ stable_const tail]]]])
      (auto intro!: calm_world guar_intros quiet_intros)
qed

lemma calm_StartContainer:
  assumes "\<And>w. is_order (fst (map_order env w))"
  shows "calm (\<lambda>_. True) (StartContainer env rid)"
proof -
  have "calm (\<lambda>_. True) (startContainer env cid meta st)" for cid meta st
    unfolding startContainer_def
    by (auto intro!: calm_leaf calm_try [OF calm_start_task [OF assms] stable_const] calm_bind [OF calm_world stable_const]
        quiet_intros split: sum.split)
  from calm_run [OF this] have "calm (\<lambda>s. True \<and> has_status c s) (status_UpdateTx c (startContainer env cid meta))" for c cid meta
    using keep_status_UpdateTx [of "startContainer env cid meta" c, OF startContainer_world startContainer_status_step]
    unfolding status_UpdateTx_def
    by (intro sound_atomic stable_intros)
      (fastforce simp: guar_atomic_iff keep_step_def has_status_def split: option.splits prod.splits outcome.splits)+
  then show ?thesis unfolding StartContainer_def
    by (intro calm_bind_container calm_bind stable_intros) (auto intro!: calm_leaf split: option.split)
qed

section \<open>No request panics\<close>

text \<open>Every request of the service, where those that create something carry the metadata their names are made of.\<close>

inductive request :: "'w env \<Rightarrow> ('w st, (goerror, unit) outcome) proc \<Rightarrow> bool" for env where
  "pget pc_Metadata None config \<noteq> None \<Longrightarrow> request env (spawned (RunPodSandbox env n config))"
| "request env (spawned (StopPodSandbox env n rid))"
| "request env (spawned (RemovePodSandbox env rid))"
| "request env (spawned (PodSandboxStatus env rid))"
| "request env (spawned (ListPodSandbox env pflt))"
| "pget cc_Metadata None cconfig \<noteq> None \<Longrightarrow> pget pc_Metadata None config \<noteq> None \<Longrightarrow>
     request env (spawned (CreateContainer env rid cconfig config))"
| "request env (spawned (StartContainer env rid))"
| "request env (StopContainer env n rid timeout)"
| "request env (spawned (RemoveContainer env rid))"
| "request env (spawned (ListContainers env cflt))"
| "request env (spawned (ContainerStatus env rid))"
| "request env (spawned (ExecSync env n rid cmd timeout))"
| "request env (spawned (Exec env rid cmd tty stdin))"
| "request env (spawned (streamRuntime_Exec env n rid cmd tty))"
| "request env (spawned (PullImage env n ref auth))"
| "request env (spawned (ListImages env))"
| "request env (spawned (ImageStatus env ref))"
| "request env (spawned (RemoveImage env ref))"
| "request env (spawned (Status_handler env))"
| "request env (spawned (Version env))"

lemma request_calm:
  assumes "request env p" and "\<And>w. is_order (fst (map_order env w))"
  shows "calm (\<lambda>_. True) p"
  using assms(1)
proof (induction rule: request.induct)
  case (1 config n)
  then show ?case by (intro calm_spawned calm_RunPodSandbox assms(2))
next
  case (6 cconfig config rid)
  then show ?case by (intro calm_spawned calm_CreateContainer)
qed (auto intro!: calm_spawned calm_intros calm_RemoveContainer calm_StartContainer assms(2) stable_const
    calm_keep quiet_intros keep_guar intro: keep_world)


end
