(* ===== verification/Witnesses_Requests.thy ===== *)
theory Witnesses_Requests
  imports Sample_Service Creation_Safety
begin

text \<open>
  The theorems about pulling images and executing commands at concrete requests: a pull of an image that is
  not there yet, and a command that exits with code 3.
\<close>

lemma order1: "is_order (fst (map_order env1 w))"
  by (simp add: fake_env_sel)

section \<open>Images\<close>

abbreviation two :: nat where "two \<equiv> Suc (Suc 0)"

lemma pull_nginx: "fst (run (PullImage env1 two ''nginx'' None) svc1) = Ok ''sha256:c''"
  by (simp add: sample_eval cong: eval_cong)

theorem PullImage_stored_witness:
  "fst (run (PullImage env1 two ''nginx'' None) svc1) = Ok ''sha256:c'' \<and>
   (\<exists>img. map_of (imageStore (snd (run (PullImage env1 two ''nginx'' None) svc1))) ''sha256:c'' = Some img \<and>
      ''nginx:latest'' \<in> image_refs img \<and> ''busybox:latest'' \<in> image_refs img)"
proof -
  have run: "run (PullImage env1 two ''nginx'' None) svc1 = (Ok ''sha256:c'', snd (run (PullImage env1 two ''nginx'' None) svc1))"
    by (simp add: prod_eq_iff pull_nginx)
  obtain n img where n: "normalizeImageRef env1 ''nginx'' = Inr n" and
    img: "map_of (imageStore (snd (run (PullImage env1 two ''nginx'' None) svc1))) ''sha256:c'' = Some img"
      "Named_String n \<in> image_refs img"
      "case map_of (imageStore svc1) ''sha256:c'' of None \<Rightarrow> True | Some old \<Rightarrow> image_refs old \<subseteq> image_refs img"
    using PullImage_stored [OF fake_reference_laws order1 run] by blast
  have "Named_String n = ''nginx:latest''" using n
    by (auto simp: normalizeImageRef_def TagNameOnly_def Named_String_def fake_env_sel fk_parse_ref_def)
  moreover have "''busybox:latest'' \<in> image_refs img" using img(3) by (auto simp: svc1_fields image_refs_def sample_fields)
  ultimately show ?thesis using img(1,2) pull_nginx by auto
qed

theorem waitForResourcesDownloading_ends_witness:
  "settles_within env1 [(''sha256:m'', ())] 1 world1 \<and>
   fst (run (waitForResourcesDownloading env1 3 [(''sha256:m'', ())]) svc1) \<noteq> Diverge"
proof -
  have s: "settles_within env1 [(''sha256:m'', ())] 1 (world svc1)" by (simp add: fake_env_sel fk_ok_def)
  with waitForResourcesDownloading_ends [OF s, of 3] show ?thesis by (simp add: svc1_fields)
qed


section \<open>Commands\<close>

lemma exec_run: "fst (run (ExecSync env1 two ''run'' [''ls''] 0) svc1) = Ok (''out'', ''err'', 3)"
  by (simp add: sample_eval cong: eval_cong)

theorem ExecSync_exit_code_witness:
  "fst (run (ExecSync env1 two ''run'' [''ls''] 0) svc1) = Ok (''out'', ''err'', 3) \<and>
   (\<exists>e h w w'. events_Recv env1 h w = (Inr (EvTaskExit (Inr e)), w') \<and> te_ContainerID e = ''run'' \<and> te_ExitStatus e = 3)"
proof -
  have run: "run (ExecSync env1 two ''run'' [''ls''] 0) svc1 = (Ok (''out'', ''err'', 3), snd (run (ExecSync env1 two ''run'' [''ls''] 0) svc1))"
    by (simp add: prod_eq_iff exec_run)
  obtain c e h where "map_of (containerStore svc1) ''run'' = Some c" "te_ContainerID e = c_ID c" "te_ExitStatus e = 3"
    "\<exists>w w'. events_Recv env1 h w = (Inr (EvTaskExit (Inr e)), w')"
    using ExecSync_exit_code [OF run] by blast
  then show ?thesis using exec_run by (auto simp: svc1_fields) blast
qed


section \<open>Panics\<close>

text \<open>A daemon that has pulled an image and then lists its images, to the end of the request.\<close>

abbreviation init1 :: "fake st" where "init1 \<equiv> init_svc ''/root'' world1"

abbreviation pulled1 :: "fake st" where "pulled1 \<equiv> snd (run (PullImage env1 two ''nginx'' None) init1)"

lemma pull_init:
  "fst (run (PullImage env1 two ''nginx'' None) init1) = Ok ''sha256:c''" "map_of (imageStore pulled1) ''sha256:c'' \<noteq> None"
  by (simp_all add: sample_eval init_svc_def imageStore_New_def cong: eval_cong)

lemma pool_spawn_run:
  assumes "A p" and "run p s = (r, s')"
  shows "(pool_step A)\<^sup>*\<^sup>* (s, ps) (s', ps @ [Ret r])"
proof -
  have "(pool_step A)\<^sup>*\<^sup>* (s, ps @ [p]) (s', (ps @ [p])[length ps := Ret r])"
    using assms(2) by (intro pool_run) simp_all
  with pool_step.spawn [of A p s ps, OF assms(1)] show ?thesis by (simp add: converse_rtranclp_into_rtranclp)
qed

lemma pull_steps: "service_steps env1 (init1, []) (pulled1, [Ret (Ok ())])"
proof -
  have "run (spawned (PullImage env1 two ''nginx'' None)) init1 = (Ok (), pulled1)"
    using pull_init(1) by (cases "run (PullImage env1 two ''nginx'' None) init1") (simp add: spawned_def run_bindE ret_def)
  from pool_spawn_run [where ps = "[]", OF _ this] show ?thesis by (simp add: goroutine.intros)
qed

theorem stored_pointers_valid_witness:
  "service_steps env1 (init1, []) (pulled1, [Ret (Ok ())]) \<and>
   (\<exists>img. map_of (imageStore pulled1) ''sha256:c'' = Some img \<and> img_Config img \<noteq> None)"
  using stored_pointers_valid [OF pull_steps] pull_steps pull_init(2) by blast


end
