(* ===== verification/Spec2Isabelle.thy ===== *)
theory Spec2Isabelle
  imports Witnesses Witnesses_Cleanup Witnesses_Concurrency Witnesses_Spec Witnesses_Requests
begin

text \<open>
  \<^bold>\<open>cri-containerd\<close>: the Kubernetes container runtime interface on top of containerd.

  \<^bold>\<open>The program.\<close> A daemon that keeps three in-memory stores (containers with their statuses, pod
  sandboxes, images) and two name registrars, and answers the requests of the kubelet, each in a
  goroutine of its own, by calling containerd, the operating system and a network plugin. One more
  goroutine, the event monitor, follows containerd's event stream and records exits. All of it
  shares the stores; each store, registrar and status has a lock.

  \<^bold>\<open>How it is modelled.\<close> A goroutine is a tree of atomic actions on a shared state
  (\<open>proc\<close> of \<open>Cri_Prelude\<close>): one action is one lock-protected operation or one call of
  the outside. \<open>run\<close> executes a goroutine alone, \<open>pool_step\<close> interleaves many of them, new ones
  starting at any time, and \<open>irun\<close> is one goroutine among interfering ones. The state \<open>'w st\<close>
  (\<open>Service\<close>) is the record of the service (\<^verbatim>\<open>pkg/server/service.go\<close>) with the world of the outside of
  an arbitrary type \<open>'w\<close>; every call of the outside is a field of the record \<open>'w env\<close>, a function of
  the world that answers a result or an error. Nothing is assumed of these functions except where
  a theorem names a law: \<open>resource_laws\<close> (\<open>Cleanup\<close>) and \<open>run_laws\<close> (\<open>Sandbox_Cleanup\<close>), which say what a call
  creates or releases outside, \<open>reference_laws\<close> (\<open>Image_Pull\<close>), \<open>is_order\<close> for the order in which Go iterates
  over a map, and the progress hypotheses \<open>fires_within\<close>, \<open>ends_within\<close> and \<open>settles_within\<close>. \<open>Sample_World\<close>
  has a concrete instance that meets the laws. Go errors are values of \<open>goerror\<close>, with the texts the code gives them; a nil
  dereference is the outcome \<open>Panic\<close>; a polling loop has a number of rounds as its argument and
  ends in \<open>Diverge\<close> when they are used up, and separate theorems show that enough rounds always exist
  when the awaited thing happens.

  \<^bold>\<open>The theories\<close>, in the order of their imports.
  \<^item> \<open>Cri_Prelude\<close>: outcomes, goroutines, control structures, interleaving, rely-guarantee triples,
    association lists. \<open>Go_Text\<close>: strings, numbers and paths of Go's library.
  \<^item> \<open>Cri_Errors\<close>: errors, gRPC codes and containerd's translation of them
    (\<^verbatim>\<open>vendor/github.com/containerd/containerd/errdefs\<close>, \<^verbatim>\<open>pkg/store/errors.go\<close>).
  \<^item> \<open>Registrar\<close> (\<^verbatim>\<open>pkg/registrar/registrar.go\<close>): interface \<open>name_index\<close>, refinement to partial bijections, for
    single operations and for whole histories.
  \<^item> \<open>Store_Spec\<close>, \<open>Container_Store\<close>, \<open>Sandbox_Store\<close>, \<open>Image_Store\<close> (\<^verbatim>\<open>pkg/store\<close>): the interfaces
    \<open>object_store\<close> and \<open>status_storage\<close>, met by the stores; the life cycle of a status.
  \<^item> \<open>Cri_Api\<close>: the messages of the runtime interface. \<open>Oci_Spec\<close>: the vendored spec generator
    (\<^verbatim>\<open>runtime-tools/generate\<close>) and containerd's default spec.
  \<^item> \<open>Service\<close>, \<open>Service_Inv\<close>: state, environment, atomic actions; the invariant \<open>svc_inv\<close> and the
    guarantee \<open>svc_step\<close> that every action of every goroutine meets.
  \<^item> \<open>Helpers\<close> (\<^verbatim>\<open>helpers.go\<close>), \<open>Container_Start\<close>, \<open>Container_Stop\<close>, \<open>Container_Remove\<close>, \<open>Events\<close>,
    \<open>Container_Spec\<close> and \<open>Container_Create\<close> (\<^verbatim>\<open>container_create.go\<close>), \<open>Container_Views\<close> (\<^verbatim>\<open>container_status.go\<close>,
    \<^verbatim>\<open>container_list.go\<close>), \<open>Exec\<close> (\<^verbatim>\<open>container_execsync.go\<close>, \<^verbatim>\<open>container_exec.go\<close>, \<^verbatim>\<open>streaming.go\<close>).
  \<^item> \<open>Image_Refs\<close> (references, resolution, list, status, removal), \<open>Image_Auth\<close> and \<open>Image_Pull\<close>
    (\<^verbatim>\<open>image_pull.go\<close>).
  \<^item> \<open>Task_Events\<close>, \<open>Sandbox_Run\<close>, \<open>Sandbox_Stop\<close>, \<open>Sandbox_Remove\<close> (removal, status, list), \<open>Real_Os\<close>
    (\<^verbatim>\<open>pkg/os/os.go\<close>).
  \<^item> \<open>Logger\<close> (\<^verbatim>\<open>pkg/server/agents\<close>), \<open>Runtime_Info\<close> (status, version, metadata encoding).
  \<^item> \<open>Spec_Properties\<close>: what a generated runtime spec contains. \<open>Image_Properties\<close>: what pulling and removing an
    image guarantee.
  \<^item> \<open>Cleanup\<close>, \<open>Pipe_Cleanup\<close>, \<open>Sandbox_Cleanup\<close>: what a failing creation, start and sandbox run release.
  \<^item> \<open>Concurrency\<close>: the daemon as a pool of goroutines. \<open>Stop_Concurrency\<close>: statuses and stops of containers
    and pods among other goroutines. \<open>Daemon\<close>: options, construction and start of the service, the gRPC
    server and the main function, whose goroutines are the first of the pool.
  \<^item> \<open>Proc_Invariant\<close>: a logic for what a goroutine may rely on because of its own past (\<open>wp\<close>, \<open>safe\<close>, \<open>sound\<close>), and
    its lifting to pools. \<open>Pointer_Safety\<close>: the pointers the stores hold are valid. \<open>Panic_Freedom\<close>,
    \<open>Creation_Safety\<close>: no request panics.
  \<^item> \<open>Evaluation\<close>, \<open>Sample_World\<close>, \<open>Sample_Service\<close>: execution of handlers inside the kernel, a concrete outside and a
    concrete service; \<open>Witnesses\<close>, \<open>Witnesses_Cleanup\<close>, \<open>Witnesses_Concurrency\<close>, \<open>Witnesses_Spec\<close>,
    \<open>Witnesses_Requests\<close>: the theorems at concrete inputs.

  \<^bold>\<open>What is shown.\<close> The state invariant under every interleaving, from the main function on; that every stored
  container has its status and every stored image its configuration, and that no request dereferences nil, closes a
  pipe that is not open or slices beyond an end, whatever runs beside it; that statuses only move forward; that a start, stop, removal and creation behave as documented on every branch; that a failed
  creation, start or sandbox run releases what it acquired; that stopping a container or a pod leaves its
  containers exited whatever happens concurrently, and that an exit wakes the stop that waits for it; that exits are
  recorded for the right process only; that waits end; that a container joins the namespaces of its sandbox,
  is confined to the capabilities it asked for, or gets everything when privileged; that a pulled image is indexed
  under its reference after its downloads finished; that an exec reports the exit of its own process; that the
  registrar refines a set of name and key pairs; that names and directories do not collide; that log records
  stay within the atomic write size; round trips of credentials and metadata; and the places where the code does not
  do what it means to (the environment that containers share, equals signs in image variables, \<^verbatim>\<open>/sys\<close> of a
  privileged read-only container, OOM events of unknown containers, removal of lost containers).

  \<^bold>\<open>Decisions.\<close> The transaction of a status update, which \<open>StartContainer\<close> runs while holding the lock of
  the status, is one atomic action. Structures printed with \<^verbatim>\<open>%+v\<close> in error texts are left out of the
  texts. A release of an outside resource is taken to be effective even when it reports an error such as
  not found. Log output is not modelled.

  \<^bold>\<open>Not modelled.\<close> The gRPC library behind \<^verbatim>\<open>server.go\<close> and the parsing of flags, the HTTP side of the streaming
  server, the copying of exec streams by the containerd client, the sharing of the backing array of an image's
  entry point by \<^verbatim>\<open>append\<close>, and the test fakes: they are library calls, or have no observable part in the state.
\<close>

end
